(* ===== verification/Galaxy_Prelude.thy ===== *)
theory Galaxy_Prelude
  imports Main "HOL-Library.Word"
begin

text \<open>
  Shared ground of the development: the machine integers the Go code uses, the outcome type of a
  handler (a Go panic or a new state), Go's loop that deletes map entries while it ranges over the
  map, the contract of the components that count votes of distinct senders
  (\<open>vote_counter\<close>), and the contract of a quorum threshold (\<open>quorum_threshold\<close>).
\<close>

unbundle bit_operations_syntax

named_theorems map_loop_simps "facts on maps that a range loop filters"
named_theorems handler_defs "definitions of the handlers of a consensus core"
named_theorems frame_simps "what an operation leaves unchanged"

section \<open>Machine integers\<close>

type_synonym u8 = "8 word"
type_synonym u32 = "32 word"
type_synonym u64 = "64 word"
type_synonym i64 = "64 word" \<comment> \<open>read with \<open>sint\<close>\<close>
type_synonym bytes = "8 word list"

lemma unat_u8_of_nat: "unat (of_nat n :: u8) = n mod 256"
  by (simp add: unat_of_nat)

lemma u8_of_nat_small: "n < 256 \<Longrightarrow> unat (of_nat n :: u8) = n"
  by (simp add: unat_of_nat)

lemma u8_less_of_nat:
  "m < 256 \<Longrightarrow> n < 256 \<Longrightarrow> (of_nat m :: u8) < of_nat n \<longleftrightarrow> m < n"
  by (simp add: word_less_nat_alt unat_of_nat)

lemma unat_succ: "(x :: u64) \<noteq> - 1 \<Longrightarrow> unat (x + 1) = Suc (unat x)"
  by (metis Suc_eq_plus1 add.commute add_eq_0_iff unatSuc)

section \<open>Outcomes: a panic of the Go runtime or a value\<close>

text \<open>
  \<open>NeverReturns\<close> marks a call that does not come back: a loop of the callee does not end.
\<close>

datatype panic =
    NilDereference
  | InterfaceConversion
  | IndexOutOfRange
  | IntegerDivideByZero
  | Panicf string
  | NeverReturns

type_synonym 'a outcome = "panic + 'a"

fun bindP :: "'a outcome \<Rightarrow> ('a \<Rightarrow> 'b outcome) \<Rightarrow> 'b outcome" where
  "bindP (Inl p) f = Inl p"
| "bindP (Inr x) f = f x"

lemma bindP_Inr_iff: "bindP m f = Inr y \<longleftrightarrow> (\<exists>x. m = Inr x \<and> f x = Inr y)"
  by (cases m) auto

lemma bindP_assoc: "bindP (bindP m f) g = bindP m (\<lambda>x. bindP (f x) g)"
  by (cases m) auto

section \<open>Ranging over a map and deleting from it\<close>

text \<open>
  Go allows \<open>delete(m, k)\<close> while \<open>for k, v := range m\<close> runs; the loop visits every entry
  that is not deleted before its turn, so deleting the entries that satisfy a condition on
  themselves leaves exactly the others, in whatever order they are visited.
\<close>

definition delete_if :: "('k \<Rightarrow> 'v \<Rightarrow> bool) \<Rightarrow> ('k \<rightharpoonup> 'v) \<Rightarrow> ('k \<rightharpoonup> 'v)" where
  "delete_if P m = (\<lambda>k. case m k of None \<Rightarrow> None | Some v \<Rightarrow> if P k v then None else Some v)"

lemma delete_if_Some_iff [map_loop_simps]:
  "delete_if P m k = Some v \<longleftrightarrow> m k = Some v \<and> \<not> P k v"
  by (auto simp: delete_if_def split: option.splits)

lemma delete_if_None_iff [map_loop_simps]:
  "delete_if P m k = None \<longleftrightarrow> (\<forall>v. m k = Some v \<longrightarrow> P k v)"
  by (auto simp: delete_if_def split: option.splits)

lemma delete_if_empty [simp]: "delete_if P Map.empty = Map.empty"
  by (simp add: delete_if_def)

lemma dom_delete_if: "dom (delete_if P m) \<subseteq> dom m"
  by (auto simp: map_loop_simps)

text \<open>
  The loop itself: it visits the keys in some order and deletes as it goes. Whatever order Go
  picks, the result is \<open>delete_if\<close>.
\<close>

fun range_delete :: "('k \<Rightarrow> 'v \<Rightarrow> bool) \<Rightarrow> 'k list \<Rightarrow> ('k \<rightharpoonup> 'v) \<Rightarrow> ('k \<rightharpoonup> 'v)" where
  "range_delete P [] m = m"
| "range_delete P (k # ks) m =
     range_delete P ks (case m k of None \<Rightarrow> m | Some v \<Rightarrow> if P k v then m(k := None) else m)"

lemma range_delete_apply:
  "range_delete P ks m k = (if k \<in> set ks then delete_if P m k else m k)"
proof (induction ks arbitrary: m)
  case Nil
  then show ?case by simp
next
  case (Cons x ks)
  then show ?case by (auto simp: delete_if_def split: option.splits)
qed

lemma range_delete_any_order: "set ks = dom m \<Longrightarrow> range_delete P ks m = delete_if P m"
  by (rule ext) (auto simp: range_delete_apply delete_if_def split: option.splits)

section \<open>Counting votes of distinct senders\<close>

text \<open>
  \<open>Content\<close> (signatures of accounts), \<open>ViewRequests\<close> (view change requests of accounts) and
  \<open>ResponseNodes\<close> (online responses by address) all do the same thing: they keep a map of the
  senders seen so far and a list that grows when a new sender arrives, and compare the length of
  that list with a threshold. The contract says that the length is the number of distinct senders.
\<close>

locale vote_counter =
  fixes invar :: "'s \<Rightarrow> bool"
    and voters :: "'s \<Rightarrow> 'k set"
    and count :: "'s \<Rightarrow> nat"
    and key :: "'v \<Rightarrow> 'k"
    and vote :: "'v \<Rightarrow> 's \<Rightarrow> 's"
  assumes invar_vote: "invar s \<Longrightarrow> invar (vote v s)"
    and voters_vote: "invar s \<Longrightarrow> voters (vote v s) = insert (key v) (voters s)"
    and finite_voters: "invar s \<Longrightarrow> finite (voters s)"
    and count_voters: "invar s \<Longrightarrow> count s = card (voters s)"
begin

lemma invar_fold: "invar s \<Longrightarrow> invar (fold vote vs s)"
  by (induction vs arbitrary: s) (auto simp: invar_vote)

lemma voters_fold: "invar s \<Longrightarrow> voters (fold vote vs s) = voters s \<union> key ` set vs"
  by (induction vs arbitrary: s) (auto simp: invar_vote voters_vote)

lemma count_fold: "invar s \<Longrightarrow> count (fold vote vs s) = card (voters s \<union> key ` set vs)"
  by (simp add: count_voters invar_fold voters_fold)

lemma count_vote:
  "invar s \<Longrightarrow> count (vote v s) = (if key v \<in> voters s then count s else Suc (count s))"
  by (simp add: count_voters invar_vote voters_vote finite_voters insert_absorb)

lemma count_mono: "invar s \<Longrightarrow> count s \<le> count (fold vote vs s)"
  by (simp add: count_fold count_voters finite_voters card_mono)

lemma count_fold_le: "invar s \<Longrightarrow> count (fold vote vs s) \<le> count s + length vs"
proof (induction vs arbitrary: s)
  case Nil
  then show ?case by simp
next
  case (Cons v vs)
  then have "count (fold vote vs (vote v s)) \<le> count (vote v s) + length vs"
    by (simp add: invar_vote)
  also have "count (vote v s) \<le> Suc (count s)"
    using Cons.prems by (simp add: count_vote)
  finally show ?case by simp
qed

lemma count_order_irrelevant:
  "invar s \<Longrightarrow> key ` set vs = key ` set ws \<Longrightarrow> count (fold vote vs s) = count (fold vote ws s)"
  by (simp add: count_fold)

end

section \<open>Quorum thresholds\<close>

text \<open>
  A threshold \<open>quorum n\<close> for \<open>n\<close> nodes of which \<open>faulty n\<close> may be faulty. The laws
  give the two facts a byzantine protocol rests on: two quorums share a correct node, and the
  correct nodes alone form a quorum.
\<close>

locale quorum_threshold =
  fixes valid :: "nat \<Rightarrow> bool"
    and faulty :: "nat \<Rightarrow> nat"
    and quorum :: "nat \<Rightarrow> nat"
  assumes faulty_third: "valid n \<Longrightarrow> 3 * faulty n < n"
    and quorum_eq: "valid n \<Longrightarrow> quorum n = n - faulty n"
begin

lemma quorum_pos: "valid n \<Longrightarrow> 0 < quorum n"
  using faulty_third [of n] quorum_eq [of n] by linarith

lemma quorum_le: "valid n \<Longrightarrow> quorum n \<le> n"
  using quorum_eq [of n] by simp

lemma quorum_two_thirds: "valid n \<Longrightarrow> 2 * n < 3 * quorum n"
  using faulty_third [of n] quorum_eq [of n] by linarith

lemma quorums_intersect:
  assumes "valid n" and "finite A" and "card A = n"
    and "Q \<subseteq> A" and "Q' \<subseteq> A" and "quorum n \<le> card Q" and "quorum n \<le> card Q'"
  shows "faulty n < card (Q \<inter> Q')"
proof -
  have fin: "finite Q" "finite Q'"
    using assms finite_subset by blast+
  have "card (Q \<union> Q') \<le> n"
    using assms by (metis Un_least card_mono)
  moreover have "card Q + card Q' = card (Q \<union> Q') + card (Q \<inter> Q')"
    using fin by (rule card_Un_Int)
  ultimately show ?thesis
    using assms faulty_third [OF assms(1)] quorum_eq [OF assms(1)] by linarith
qed

lemma correct_common_member:
  assumes "valid n" and "finite A" and "card A = n"
    and "Q \<subseteq> A" and "Q' \<subseteq> A" and "quorum n \<le> card Q" and "quorum n \<le> card Q'"
    and "finite B" and "card B \<le> faulty n"
  shows "\<exists>x. x \<in> Q \<and> x \<in> Q' \<and> x \<notin> B"
proof (rule ccontr)
  assume "\<not> (\<exists>x. x \<in> Q \<and> x \<in> Q' \<and> x \<notin> B)"
  then have "Q \<inter> Q' \<subseteq> B" by blast
  then have "card (Q \<inter> Q') \<le> card B"
    using assms(8) by (rule card_mono [rotated])
  moreover have "faulty n < card (Q \<inter> Q')"
    using assms(1-7) by (rule quorums_intersect)
  ultimately show False using assms(9) by linarith
qed

end

end
