(* ===== verification/Galaxy_Types.thy ===== *)
theory Galaxy_Types
  imports Galaxy_Prelude
begin

text \<open>
  The data the whole program passes around: accounts, blocks, the shared constants and enums of
  \<^verbatim>\<open>consensus/common/common.go\<close>, the configuration structs, and the errors the program
  itself creates. \<open>account.Account\<close>, \<open>types.Block\<close>, \<open>types.Hash\<close> and
  \<open>types.Address\<close> come from packages outside the repository; the records have the fields the
  repository reads, writes or builds literals of. A hash is a 32 byte array and an address a
  20 byte array; both are only copied and compared, so they are words of 256 and 160 bits.
  Transactions are only counted and receipts only passed on, so both are opaque byte strings.
\<close>

section \<open>Accounts and blocks\<close>

type_synonym hash = "256 word"
type_synonym address = "160 word"

record AccountExtension =
  ext_Id :: u64
  ext_Url :: string

record Account =
  acc_Address :: address
  acc_Extension :: AccountExtension

abbreviation acc_Id :: "Account \<Rightarrow> u64" where
  "acc_Id a \<equiv> ext_Id (acc_Extension a)"

abbreviation acc_Url :: "Account \<Rightarrow> string" where
  "acc_Url a \<equiv> ext_Url (acc_Extension a)"

text \<open>The zero value \<^verbatim>\<open>account.Account{}\<close> of an uninitialised variable.\<close>

definition zero_account :: Account where
  "zero_account = \<lparr>acc_Address = 0, acc_Extension = \<lparr>ext_Id = 0, ext_Url = []\<rparr>\<rparr>"

type_synonym transaction = bytes
type_synonym receipts = "bytes list"

record Header =
  h_ChainID :: u64
  h_PrevBlockHash :: hash
  h_StateRoot :: hash
  h_TxRoot :: hash
  h_ReceiptsRoot :: hash
  h_Height :: u64
  h_Timestamp :: u64
  h_MixDigest :: hash
  h_SigData :: "bytes list"

record Block =
  b_Header :: Header
  b_Transactions :: "transaction list"
  b_HeaderHash :: hash

abbreviation b_Height :: "Block \<Rightarrow> u64" where
  "b_Height b \<equiv> h_Height (b_Header b)"

abbreviation b_MixDigest :: "Block \<Rightarrow> hash" where
  "b_MixDigest b \<equiv> h_MixDigest (b_Header b)"

abbreviation b_SigData :: "Block \<Rightarrow> bytes list" where
  "b_SigData b \<equiv> h_SigData (b_Header b)"

abbreviation b_PrevBlockHash :: "Block \<Rightarrow> hash" where
  "b_PrevBlockHash b \<equiv> h_PrevBlockHash (b_Header b)"

text \<open>The assignment \<^verbatim>\<open>block.Header.SigData = sigs\<close>.\<close>

definition set_SigData :: "bytes list \<Rightarrow> Block \<Rightarrow> Block" where
  "set_SigData sigs b = b\<lparr>b_Header := (b_Header b)\<lparr>h_SigData := sigs\<rparr>\<rparr>"

lemma set_SigData_simps [simp]:
  "b_SigData (set_SigData s b) = s"
  "b_Height (set_SigData s b) = b_Height b"
  "b_MixDigest (set_SigData s b) = b_MixDigest b"
  "b_PrevBlockHash (set_SigData s b) = b_PrevBlockHash b"
  "b_Transactions (set_SigData s b) = b_Transactions b"
  "b_HeaderHash (set_SigData s b) = b_HeaderHash b"
  "set_SigData s (set_SigData s' b) = set_SigData s b"
  "set_SigData s (b\<lparr>b_HeaderHash := h\<rparr>) = (set_SigData s b)\<lparr>b_HeaderHash := h\<rparr>"
  by (simp_all add: set_SigData_def)

section \<open>Errors the program creates\<close>

datatype error =
    ErrExternal string              \<comment> \<open>an error value of a package outside the repository\<close>
  | ErrWalterLevel u64 u64 i64      \<comment> \<open>"diff of current view ... beyond walter level"\<close>
  | ErrContentNotExist hash         \<comment> \<open>"content %x not exist, please confirm"\<close>
  | ErrContentState u8 u8           \<comment> \<open>"can not move state from %v to %v"\<close>
  | ErrGetContent hash error        \<comment> \<open>"get content of %v failed with %v"\<close>
  | ErrSignatureNotSatisfy          \<comment> \<open>"signature not satisfy"\<close>
  | ErrSignMapMismatch              \<comment> \<open>"signData and signMap does not match"\<close>
  | ErrPreviousRound                \<comment> \<open>"previous round have not finished"\<close>
  | ErrConsensusTimeout             \<comment> \<open>"timeout for consensus"\<close>
  | ErrUnknownMessageType u32       \<comment> \<open>"unknown message type %v"\<close>
  | ErrEncode error                 \<comment> \<open>"failed to encode message %v to json, as: %v"\<close>
  | ErrUnexpectedEOF                \<comment> \<open>\<^verbatim>\<open>io.ErrUnexpectedEOF\<close>\<close>
  | ErrEOF                          \<comment> \<open>\<^verbatim>\<open>io.EOF\<close>\<close>
  | ErrUnsupportedEvent             \<comment> \<open>"not support type %v"\<close>
  | ErrUnsupportedPolicy string     \<comment> \<open>"unsupport consensus type %v"\<close>
  | ErrMessage string               \<comment> \<open>a fixed message of the repository\<close>

section \<open>Shared enums and constants (\<^verbatim>\<open>consensus/common/common.go\<close>)\<close>

datatype ConsensusStatus = Proposing | Propose | Approve | Reject | Committed

datatype ViewStatus = ViewChanging | ViewNormal

datatype ViewRequestState = Viewing | ViewEnd

text \<open>
  \<open>OnlineState\<close> is a string type in the code; \<open>NoOnlineState\<close> is its zero value, the
  empty string, which a variable of that type has before it is assigned.
\<close>

datatype OnlineState = NoOnlineState | GoOnline | Online

datatype MessageSignal = ReceiveResponseSignal

definition DefaultViewNum :: u64 where "DefaultViewNum = 0"
definition DefaultWalterLevel :: i64 where "DefaultWalterLevel = 1"
definition DefaultBlockHeight :: u64 where "DefaultBlockHeight = 0"

text \<open>The outcome of one round of consensus as the policies report it.\<close>

record ConsensusInfo =
  ci_View :: u64
  ci_Participate :: "Account list"
  ci_Master :: Account

record Proposal =
  prop_Block :: Block
  prop_Timestamp :: i64

section \<open>Configuration (\<^verbatim>\<open>consensus/config/config.go\<close>)\<close>

record ConsensusTimeout =
  TimeoutToCollectResponseMsg :: i64
  TimeoutToWaitCommitMsg :: i64
  TimeoutToChangeView :: i64

record SignatureVerifySwitch =
  SyncVerifySignature :: bool
  LocalVerifySignature :: bool

record ConsensusConfig =
  PolicyName :: string
  Timeout :: ConsensusTimeout
  EnableEmptyBlock :: bool
  SignVerifySwitch :: SignatureVerifySwitch

section \<open>What a node does to the outside world\<close>

text \<open>
  The events of \<open>types.EventCenter\<close> the program raises, and the effects of a step in the
  order they happen: a message written to the TCP connection of a url, a notification, a block
  handed to the block switch channel.
\<close>

datatype EventType =
  EventBlockCommitted | EventConsensusFailed | EventBlockWithoutTxs | EventMasterChange | EventOnline

datatype effect =
    SendTo string bytes
  | Notify EventType
  | BlockSwitch Block

end
