(* ===== verification/Utils.thy ===== *)
theory Utils
  imports Galaxy_Types
begin

text \<open>
  \<^verbatim>\<open>consensus/utils/utils.go\<close>: the distance of two view numbers and the selections on
  account lists. Each loop of the code is a recursion with the loop's variables as arguments.
\<close>

section \<open>Distance of two unsigned numbers\<close>

definition Abs :: "u64 \<Rightarrow> u64 \<Rightarrow> i64" where
  "Abs x y = (let n = x - y; z = signed_drop_bit 63 n in (n XOR z) - z)"

section \<open>Account lists\<close>

fun filterAccount_loop :: "Account \<Rightarrow> Account list \<Rightarrow> Account list \<Rightarrow> Account list" where
  "filterAccount_loop black all [] = all"
| "filterAccount_loop black all (account # accounts) =
     filterAccount_loop black (if black \<noteq> account then all @ [account] else all) accounts"

definition filterAccount :: "Account \<Rightarrow> Account list \<Rightarrow> Account list" where
  "filterAccount black accounts = filterAccount_loop black [] accounts"

fun AccountFilter_loop :: "Account list \<Rightarrow> Account list \<Rightarrow> Account list \<Rightarrow> Account list" where
  "AccountFilter_loop peer [] accounts = peer"
| "AccountFilter_loop peer (black # blacklist) accounts =
     AccountFilter_loop (filterAccount black accounts) blacklist accounts"

definition AccountFilter :: "Account list \<Rightarrow> Account list \<Rightarrow> Account list" where
  "AccountFilter blacklist accounts = AccountFilter_loop [] blacklist accounts"

fun GetAccountById_loop :: "Account \<Rightarrow> Account list \<Rightarrow> u64 \<Rightarrow> Account" where
  "GetAccountById_loop temp [] expect = temp"
| "GetAccountById_loop temp (peer # peers) expect =
     GetAccountById_loop (if acc_Id peer = expect then peer else temp) peers expect"

definition GetAccountById :: "Account list \<Rightarrow> u64 \<Rightarrow> Account" where
  "GetAccountById peers expect = GetAccountById_loop zero_account peers expect"

fun GetAccountWithMinId_loop :: "Account \<Rightarrow> Account list \<Rightarrow> Account" where
  "GetAccountWithMinId_loop minNode [] = minNode"
| "GetAccountWithMinId_loop minNode (node # accounts) =
     GetAccountWithMinId_loop (if acc_Id node < acc_Id minNode then node else minNode) accounts"

definition GetAccountWithMinId :: "Account list \<Rightarrow> Account outcome" where
  "GetAccountWithMinId accounts =
     (case accounts of [] \<Rightarrow> Inl IndexOutOfRange
      | a # _ \<Rightarrow> Inr (GetAccountWithMinId_loop a accounts))"

section \<open>Facts about the distance\<close>

lemma signed_drop_bit_63: "signed_drop_bit 63 (n :: 64 word) = (if bit n 63 then -1 else 0)"
proof (rule bit_word_eqI)
  fix i assume "i < LENGTH(64)"
  then show "bit (signed_drop_bit 63 n) i = bit (if bit n 63 then -1 else 0 :: 64 word) i"
    by (cases "i = 0") (auto simp: bit_signed_drop_bit_iff)
qed

lemma bit_63_iff_sint: "bit (n :: 64 word) 63 \<longleftrightarrow> sint n < 0"
  by (simp add: bit_last_iff [where ?'a = 64, simplified])

lemma sint_u64_uint:
  "sint (n :: 64 word) = (if uint n < 2 ^ 63 then uint n else uint n - 2 ^ 64)"
proof -
  have s: "sint n = (uint n + 2 ^ 63) mod 2 ^ 64 - 2 ^ 63"
    using int_word_sint [of "uint n", where ?'a = 64] by simp
  have b: "0 \<le> uint n" "uint n < 2 ^ 64"
    using uint_lt2p [of n] by simp_all
  show ?thesis
  proof (cases "uint n < 2 ^ 63")
    case True
    with b have "(uint n + 2 ^ 63) mod 2 ^ 64 = uint n + 2 ^ 63"
      by (intro mod_pos_pos_trivial) simp_all
    with True s show ?thesis by simp
  next
    case False
    with b have "(uint n + 2 ^ 63) mod 2 ^ 64 = uint n + 2 ^ 63 - 2 ^ 64"
      using mod_pos_geq [of "2 ^ 64" "uint n + 2 ^ 63"] by (simp add: mod_pos_pos_trivial)
    with False s show ?thesis by simp
  qed
qed

lemma mod_negative: "- m \<le> (a :: int) \<Longrightarrow> a < 0 \<Longrightarrow> a mod m = a + m"
  using mod_pos_pos_trivial [of "a + m" m] by simp

lemma uint_u64_bounds: "0 \<le> uint (n :: 64 word)" "uint (n :: 64 word) < 2 ^ 64"
  using uint_lt2p [of n] by simp_all

lemma uint_u64_minus: "uint (- (n :: 64 word)) = (if n = 0 then 0 else 2 ^ 64 - uint n)"
proof (cases "n = 0")
  case False
  then have p: "0 < uint n"
    using uint_u64_bounds(1) [of n] by (metis order_less_le uint_0_iff)
  have "uint (- n) = (- uint n) mod 2 ^ 64"
    using uint_word_arith_bintrs(4) [of n] by (simp add: take_bit_eq_mod)
  also have "\<dots> = - uint n + 2 ^ 64"
    using p uint_u64_bounds(2) [of n] by (intro mod_negative) simp_all
  finally show ?thesis using False by simp
qed simp

lemma uint_u64_diff:
  "uint ((x :: 64 word) - y) = (if uint y \<le> uint x then uint x - uint y else uint x - uint y + 2 ^ 64)"
proof -
  have "uint (x - y) = (uint x - uint y) mod 2 ^ 64"
    using uint_word_arith_bintrs(2) [of x y] by (simp add: take_bit_eq_mod)
  moreover have "(uint x - uint y) mod 2 ^ 64 = uint x - uint y" if "uint y \<le> uint x"
    using that uint_u64_bounds [of x] uint_u64_bounds [of y] by (intro mod_pos_pos_trivial) linarith+
  moreover have "(uint x - uint y) mod 2 ^ 64 = uint x - uint y + 2 ^ 64" if "\<not> uint y \<le> uint x"
    using that uint_u64_bounds [of x] uint_u64_bounds [of y] by (intro mod_negative) linarith+
  ultimately show ?thesis by simp
qed

lemma sint_magnitude_u64:
  fixes d :: "64 word"
  shows "sint (if sint d < 0 then - d else d) =
    (if uint d < 2 ^ 63 then uint d else if uint d = 2 ^ 63 then - (2 ^ 63) else 2 ^ 64 - uint d)"
proof -
  have "d = 0 \<longleftrightarrow> uint d = 0" by (simp add: uint_0_iff)
  then show ?thesis
    using uint_u64_bounds [of d] by (simp add: sint_u64_uint uint_u64_minus)
qed

lemma Abs_sint: "Abs x y = (if sint (x - y) < 0 then - (x - y) else x - y)"
proof -
  have "(n XOR (-1)) - (-1) = - n" for n :: "64 word"
    by (simp add: not_eq_complement)
  then show ?thesis
    unfolding Abs_def Let_def signed_drop_bit_63 bit_63_iff_sint by simp
qed

text \<open>
  The distance is exact while the two numbers are less than \<open>2 ^ 63\<close> apart. Beyond that it is
  the distance on the circle of 64-bit numbers, and exactly opposite numbers have a negative one.
\<close>

lemma sint_Abs:
  "sint (Abs x y) =
     (if uint (x - y) < 2 ^ 63 then uint (x - y)
      else if uint (x - y) = 2 ^ 63 then - (2 ^ 63) else 2 ^ 64 - uint (x - y))"
  unfolding Abs_sint by (rule sint_magnitude_u64)

lemma Abs_exact:
  assumes "\<bar>uint x - uint y\<bar> < 2 ^ 63"
  shows "sint (Abs x y) = \<bar>uint x - uint y\<bar>"
  using assms uint_u64_bounds [of x] uint_u64_bounds [of y]
  unfolding sint_Abs uint_u64_diff by (auto split: if_splits)

lemma Abs_opposite: "sint (Abs x y) < 0 \<longleftrightarrow> x - y = 2 ^ 63"
proof -
  have "sint (Abs x y) < 0 \<longleftrightarrow> uint (x - y) = 2 ^ 63"
    using uint_u64_bounds [of "x - y"] unfolding sint_Abs by auto
  also have "\<dots> \<longleftrightarrow> x - y = 2 ^ 63"
    by (simp add: word_uint_eq_iff)
  finally show ?thesis .
qed

text \<open>Which numbers are at distance one at most: the neighbours on the circle, and the opposite.\<close>

lemma Abs_within_one:
  "sint (Abs x y) \<le> 1 \<longleftrightarrow> y = x \<or> x = y + 1 \<or> y = x + 1 \<or> x - y = 2 ^ 63"
proof -
  have "(if u < 2 ^ 63 then u else if u = 2 ^ 63 then - (2 ^ 63) else 2 ^ 64 - u) \<le> 1
      \<longleftrightarrow> u \<in> {0, 1, 2 ^ 63, 2 ^ 64 - 1}" if "0 \<le> u" "u < 2 ^ 64" for u :: int
    using that by auto
  then have "sint (Abs x y) \<le> 1 \<longleftrightarrow> uint (x - y) \<in> {0, 1, 2 ^ 63, 2 ^ 64 - 1}"
    unfolding sint_Abs using uint_u64_bounds [of "x - y"] by blast
  also have "\<dots> \<longleftrightarrow> x - y = 0 \<or> x - y = 1 \<or> x - y = 2 ^ 63 \<or> x - y = -1"
    using uint_u64_minus [of 1] by (simp add: word_uint_eq_iff)
  also have "x - y = 0 \<longleftrightarrow> y = x" by auto
  also have "x - y = 1 \<longleftrightarrow> x = y + 1" by (auto simp: algebra_simps)
  also have "x - y = -1 \<longleftrightarrow> y = x + 1" by (auto simp: algebra_simps eq_neg_iff_add_eq_0)
  finally show ?thesis by blast
qed

section \<open>Facts about account lists\<close>

lemma filterAccount_loop: "filterAccount_loop black all as = all @ filter (\<lambda>a. a \<noteq> black) as"
  by (induction as arbitrary: all) auto

lemma filterAccount_filter: "filterAccount black as = filter (\<lambda>a. a \<noteq> black) as"
  by (simp add: filterAccount_def filterAccount_loop)

lemma AccountFilter_single: "AccountFilter [black] as = filter (\<lambda>a. a \<noteq> black) as"
  by (simp add: AccountFilter_def filterAccount_filter)

lemma AccountFilter_loop_last:
  "AccountFilter_loop peer bs as =
     (if bs = [] then peer else filter (\<lambda>a. a \<noteq> last bs) as)"
  by (induction bs arbitrary: peer) (auto simp: filterAccount_filter)

lemma AccountFilter_last:
  "AccountFilter bs as = (if bs = [] then [] else filter (\<lambda>a. a \<noteq> last bs) as)"
  by (simp add: AccountFilter_def AccountFilter_loop_last)

lemma GetAccountById_loop_spec:
  "GetAccountById_loop t ps i =
     (if \<exists>p\<in>set ps. acc_Id p = i then last (filter (\<lambda>p. acc_Id p = i) ps) else t)"
  by (induction ps arbitrary: t) (auto simp: filter_empty_conv)

lemma GetAccountById_member:
  "\<exists>p\<in>set ps. acc_Id p = i \<Longrightarrow> GetAccountById ps i \<in> set ps \<and> acc_Id (GetAccountById ps i) = i"
proof -
  assume ex: "\<exists>p\<in>set ps. acc_Id p = i"
  then have ne: "filter (\<lambda>p. acc_Id p = i) ps \<noteq> []"
    by (auto simp: filter_empty_conv)
  have "GetAccountById ps i = last (filter (\<lambda>p. acc_Id p = i) ps)"
    using ex by (simp add: GetAccountById_def GetAccountById_loop_spec)
  then show ?thesis
    using last_in_set [OF ne] by simp
qed

lemma GetAccountById_missing:
  "\<not> (\<exists>p\<in>set ps. acc_Id p = i) \<Longrightarrow> GetAccountById ps i = zero_account"
  by (simp add: GetAccountById_def GetAccountById_loop_spec)

lemma GetAccountWithMinId_loop_spec:
  "GetAccountWithMinId_loop m as \<in> insert m (set as) \<and>
   (\<forall>a \<in> insert m (set as). acc_Id (GetAccountWithMinId_loop m as) \<le> acc_Id a)"
proof (induction as arbitrary: m)
  case Nil
  then show ?case by simp
next
  case (Cons a as)
  let ?m = "if acc_Id a < acc_Id m then a else m"
  from Cons [of ?m] show ?case by (auto split: if_splits)
qed

lemma GetAccountWithMinId_min:
  assumes "GetAccountWithMinId as = Inr m"
  shows "m \<in> set as" and "\<And>a. a \<in> set as \<Longrightarrow> acc_Id m \<le> acc_Id a"
  using assms GetAccountWithMinId_loop_spec [of "hd as" as]
  by (auto simp: GetAccountWithMinId_def split: list.splits)

lemma GetAccountWithMinId_total: "as \<noteq> [] \<Longrightarrow> \<exists>m. GetAccountWithMinId as = Inr m"
  by (cases as) (auto simp: GetAccountWithMinId_def)

lemma GetAccountWithMinId_order_irrelevant:
  assumes "set as = set bs" and "inj_on acc_Id (set as)"
  shows "GetAccountWithMinId as = GetAccountWithMinId bs"
proof (cases "as = []")
  case True
  with assms show ?thesis by simp
next
  case False
  with assms have "bs \<noteq> []" by auto
  with False obtain m n where mn: "GetAccountWithMinId as = Inr m" "GetAccountWithMinId bs = Inr n"
    using GetAccountWithMinId_total by blast
  have "acc_Id m = acc_Id n"
    using GetAccountWithMinId_min [OF mn(1)] GetAccountWithMinId_min [OF mn(2)] assms(1)
    by (simp add: order_antisym)
  with mn assms show ?thesis
    using GetAccountWithMinId_min(1) [OF mn(1)] GetAccountWithMinId_min(1) [OF mn(2)]
    by (auto dest: inj_onD)
qed

end
