(* ===== verification/Messages.thy ===== *)
theory Messages
  imports Utils
begin

text \<open>
  \<^verbatim>\<open>consensus/messages/message.go\<close>: the messages nodes exchange, their wire format (a header
  of twelve bytes, then the JSON of the payload) and the broadcast helpers. The JSON encoder and
  decoder are parameters: \<open>marshal\<close> gives the bytes of a payload, \<open>unmarshal\<close> fills the
  empty message of a type from bytes. A reader is the list of bytes still to be read. A field that
  is a pointer in the code is an \<open>option\<close> where a decoded message can leave it nil.
\<close>

section \<open>Message types\<close>

type_synonym MessageType = u32

definition RequestMessageType :: MessageType where "RequestMessageType = 1"
definition ProposalMessageType :: MessageType where "ProposalMessageType = 2"
definition ResponseMessageType :: MessageType where "ResponseMessageType = 3"
definition CommitMessageType :: MessageType where "CommitMessageType = 4"
definition SyncBlockReqMessageType :: MessageType where "SyncBlockReqMessageType = 5"
definition SyncBlockRespMessageType :: MessageType where "SyncBlockRespMessageType = 6"
definition ViewChangeMessageReqType :: MessageType where "ViewChangeMessageReqType = 7"
definition OnlineRequestType :: MessageType where "OnlineRequestType = 8"
definition OnlineResponseType :: MessageType where "OnlineResponseType = 9"

lemmas message_type_defs =
  RequestMessageType_def ProposalMessageType_def ResponseMessageType_def CommitMessageType_def
  SyncBlockReqMessageType_def SyncBlockRespMessageType_def ViewChangeMessageReqType_def
  OnlineRequestType_def OnlineResponseType_def

section \<open>Payloads\<close>

record Request =
  req_Timestamp :: i64
  req_Account :: Account
  req_Payload :: Block

record ProposalMsg =
  pro_Account :: Account
  pro_Timestamp :: i64
  pro_Payload :: Block
  pro_Signature :: bytes

record Response =
  res_Account :: Account
  res_Timestamp :: i64
  res_Digest :: hash
  res_Signature :: bytes
  res_BlockHeight :: u64

record OnlineRequest =
  onq_Account :: Account
  onq_Timestamp :: i64
  onq_BlockHeight :: u64

record OnlineResponse =
  onr_Account :: Account
  onr_Timestamp :: i64
  onr_BlockHeight :: u64
  onr_ViewNum :: u64
  onr_Nodes :: "Account list"
  onr_Master :: Account

record Commit =
  com_Account :: Account
  com_Timestamp :: i64
  com_BlockHash :: hash
  com_Digest :: hash
  com_Signatures :: "bytes list"
  com_Result :: bool

record SyncBlockReq =
  sbq_Account :: Account
  sbq_Timestamp :: i64
  sbq_BlockStart :: u64
  sbq_BlockEnd :: u64

record SyncBlockResp =
  sbr_Blocks :: "Block list"

record ViewChangeReq =
  vcr_Account :: Account
  vcr_Nodes :: "Account list"
  vcr_Timestamp :: i64
  vcr_ViewNum :: u64

text \<open>
  The values a message can carry: the nine wrapper structs the decoder creates, and
  \<open>BareSyncBlockResp\<close> for a \<open>SyncBlockResp\<close> that is marshalled without its wrapper.
\<close>

datatype payload =
    RequestMessage "Request option"
  | ProposalMessage "ProposalMsg option"
  | ResponseMessage "Response option"
  | CommitMessage "Commit option"
  | SyncBlockReqMessage "SyncBlockReq option"
  | SyncBlockRespMessage "SyncBlockResp option"
  | ViewChangeReqMessage "ViewChangeReq option"
  | OnlineRequestMessage "OnlineRequest option"
  | OnlineResponseMessage "OnlineResponse option"
  | BareSyncBlockResp SyncBlockResp

record Message =
  msg_Type :: MessageType
  msg_PayLoad :: payload

record MessageHeader =
  mh_Magic :: u32
  mh_MessageType :: MessageType
  mh_Length :: u32

record ConsensusResult =
  cr_Signatures :: "bytes list"
  cr_Result :: "error option"

section \<open>The wire format\<close>

text \<open>\<^verbatim>\<open>binary.LittleEndian.PutUint32\<close> and \<^verbatim>\<open>Uint32\<close>.\<close>

definition PutUint32 :: "u32 \<Rightarrow> bytes" where
  "PutUint32 v = [ucast v, ucast (drop_bit 8 v), ucast (drop_bit 16 v), ucast (drop_bit 24 v)]"

fun Uint32 :: "bytes \<Rightarrow> u32" where
  "Uint32 (b0 # b1 # b2 # b3 # _) =
     ucast b0 OR push_bit 8 (ucast b1) OR push_bit 16 (ucast b2) OR push_bit 24 (ucast b3)"
| "Uint32 _ = 0"

definition buildMessageHeader :: "Message \<Rightarrow> nat \<Rightarrow> MessageHeader" where
  "buildMessageHeader msg len =
     \<lparr>mh_Magic = 0, mh_MessageType = msg_Type msg, mh_Length = of_nat len\<rparr>"

definition encodeMessageHeader :: "MessageHeader \<Rightarrow> bytes" where
  "encodeMessageHeader header =
     PutUint32 (mh_Magic header) @ PutUint32 (mh_MessageType header) @ PutUint32 (mh_Length header)"

definition EncodeMessage :: "(payload \<Rightarrow> error + bytes) \<Rightarrow> Message \<Rightarrow> error + bytes" where
  "EncodeMessage marshal msg =
     (case marshal (msg_PayLoad msg) of
        Inl err \<Rightarrow> Inl (ErrEncode err)
      | Inr msgByte \<Rightarrow> Inr (encodeMessageHeader (buildMessageHeader msg (length msgByte)) @ msgByte))"

text \<open>
  \<^verbatim>\<open>io.ReadFull\<close> on \<open>n\<close> bytes: \<open>EOF\<close> when nothing is left, \<open>UnexpectedEOF\<close>
  when some but not enough is.
\<close>

definition ReadFull :: "bytes \<Rightarrow> nat \<Rightarrow> error + (bytes \<times> bytes)" where
  "ReadFull reader n =
     (if n = 0 then Inr ([], reader)
      else if reader = [] then Inl ErrEOF
      else if length reader < n then Inl ErrUnexpectedEOF
      else Inr (take n reader, drop n reader))"

definition readMessageHeader :: "bytes \<Rightarrow> error + (MessageHeader \<times> bytes)" where
  "readMessageHeader reader =
     (case ReadFull reader 12 of
        Inl err \<Rightarrow> Inl err
      | Inr (buf, rest) \<Rightarrow>
          Inr (\<lparr>mh_Magic = Uint32 buf, mh_MessageType = Uint32 (drop 4 buf),
                mh_Length = Uint32 (drop 8 buf)\<rparr>, rest))"

definition makeEmptyMessage :: "MessageType \<Rightarrow> error + payload" where
  "makeEmptyMessage t =
     (if t = RequestMessageType then Inr (RequestMessage None)
      else if t = ProposalMessageType then Inr (ProposalMessage None)
      else if t = ResponseMessageType then Inr (ResponseMessage None)
      else if t = CommitMessageType then Inr (CommitMessage None)
      else if t = SyncBlockReqMessageType then Inr (SyncBlockReqMessage None)
      else if t = SyncBlockRespMessageType then Inr (SyncBlockRespMessage None)
      else if t = ViewChangeMessageReqType then Inr (ViewChangeReqMessage None)
      else if t = OnlineRequestType then Inr (OnlineRequestMessage None)
      else if t = OnlineResponseType then Inr (OnlineResponseMessage None)
      else Inl (ErrUnknownMessageType t))"

definition DecodeMessage ::
  "(bytes \<Rightarrow> payload \<Rightarrow> error + payload) \<Rightarrow> MessageType \<Rightarrow> bytes \<Rightarrow> error + Message" where
  "DecodeMessage unmarshal t rawMsg =
     (case makeEmptyMessage t of
        Inl err \<Rightarrow> Inl err
      | Inr blank \<Rightarrow>
          (case unmarshal rawMsg blank of
             Inl err \<Rightarrow> Inl err
           | Inr p \<Rightarrow> Inr \<lparr>msg_Type = t, msg_PayLoad = p\<rparr>))"

definition ReadMessage ::
  "(bytes \<Rightarrow> payload \<Rightarrow> error + payload) \<Rightarrow> bytes \<Rightarrow> error + (Message \<times> bytes)" where
  "ReadMessage unmarshal reader =
     (case readMessageHeader reader of
        Inl err \<Rightarrow> Inl err
      | Inr (header, rest) \<Rightarrow>
          (case ReadFull rest (unat (mh_Length header)) of
             Inl err \<Rightarrow> Inl err
           | Inr (body, rest') \<Rightarrow>
               (case DecodeMessage unmarshal (mh_MessageType header) body of
                  Inl err \<Rightarrow> Inl err
                | Inr msg \<Rightarrow> Inr (msg, rest'))))"

section \<open>Sending\<close>

text \<open>
  \<open>sendMsgByUrl\<close> writes the bytes to a TCP connection to the url; a failure is logged and
  reported to callers that only log it again, so a send is an effect appended to the effects so
  far.
\<close>

definition sendMsgByUrl :: "string \<Rightarrow> bytes \<Rightarrow> effect list \<Rightarrow> effect list" where
  "sendMsgByUrl url msgPayload eff = eff @ [SendTo url msgPayload]"

definition Unicast :: "Account \<Rightarrow> bytes \<Rightarrow> effect list \<Rightarrow> effect list" where
  "Unicast account msgPayload eff = sendMsgByUrl (acc_Url account) msgPayload eff"

fun BroadcastPeers :: "bytes \<Rightarrow> Account list \<Rightarrow> effect list \<Rightarrow> effect list" where
  "BroadcastPeers msgPayload [] eff = eff"
| "BroadcastPeers msgPayload (peer # peers) eff =
     BroadcastPeers msgPayload peers (sendMsgByUrl (acc_Url peer) msgPayload eff)"

fun BroadcastPeersFilter :: "bytes \<Rightarrow> Account list \<Rightarrow> Account \<Rightarrow> effect list \<Rightarrow> effect list" where
  "BroadcastPeersFilter msgPayload [] black eff = eff"
| "BroadcastPeersFilter msgPayload (peer # peers) black eff =
     BroadcastPeersFilter msgPayload peers black
       (if peer \<noteq> black then sendMsgByUrl (acc_Url peer) msgPayload eff else eff)"

text \<open>
  What a listener's \<open>Accept\<close> returns: an error with a nil connection, or a connection, of which the
  model keeps the bytes its sender writes.
\<close>

datatype accepted = AcceptError | Accepted bytes

text \<open>
  Where a server stands after a number of calls of \<open>Accept\<close>: in the next call, with the goroutines it
  has started, or returned, with the results of \<open>Accept\<close> that nobody has asked for.
\<close>

datatype goroutine = BlockSyncHandler | HandleClient bytes

datatype 's service = Serving 's "goroutine list" | Returned 's "accepted list"

section \<open>Facts about the wire format\<close>

lemma Uint32_PutUint32: "Uint32 (PutUint32 v @ rest) = v"
proof -
  have "ucast (ucast v :: 8 word) OR push_bit 8 (ucast (ucast (drop_bit 8 v) :: 8 word))
      OR push_bit 16 (ucast (ucast (drop_bit 16 v) :: 8 word))
      OR push_bit 24 (ucast (ucast (drop_bit 24 v) :: 8 word)) = v" (is "?joined = v")
  proof (rule bit_word_eqI)
    fix n assume "n < LENGTH(32)"
    then show "bit ?joined n = bit v n"
      by (cases "n < 16"; cases "n < 24") (auto simp: bit_simps)
  qed
  then show ?thesis by (simp add: PutUint32_def)
qed

lemma length_PutUint32 [simp]: "length (PutUint32 v) = 4"
  by (simp add: PutUint32_def)

lemma length_encodeMessageHeader [simp]: "length (encodeMessageHeader h) = 12"
  by (simp add: encodeMessageHeader_def)

lemma ReadFull_append: "length xs = n \<Longrightarrow> ReadFull (xs @ ys) n = Inr (xs, ys)"
  by (auto simp: ReadFull_def)

lemma ReadFull_short: "length xs < n \<Longrightarrow> \<exists>e. ReadFull xs n = Inl e"
  by (auto simp: ReadFull_def)

lemma readMessageHeader_encode:
  "readMessageHeader (encodeMessageHeader h @ rest) = Inr (h, rest)"
proof -
  let ?buf = "encodeMessageHeader h"
  have "ReadFull (?buf @ rest) 12 = Inr (?buf, rest)"
    by (rule ReadFull_append) simp
  moreover have "drop 4 ?buf = PutUint32 (mh_MessageType h) @ PutUint32 (mh_Length h)"
    and "drop 8 ?buf = PutUint32 (mh_Length h) @ []"
    by (simp_all add: encodeMessageHeader_def)
  moreover have "Uint32 ?buf = mh_Magic h"
    by (simp add: encodeMessageHeader_def Uint32_PutUint32)
  ultimately show ?thesis
    by (simp add: readMessageHeader_def Uint32_PutUint32 del: append_Nil2)
qed

text \<open>A message written by \<open>EncodeMessage\<close> is read as far as its length field says.\<close>

lemma ReadMessage_Encode:
  assumes "marshal (msg_PayLoad msg) = Inr body"
    and "EncodeMessage marshal msg = Inr raw"
    and "length body < 2 ^ 32"
  shows "ReadMessage unmarshal (raw @ rest) =
    (case DecodeMessage unmarshal (msg_Type msg) body of Inl err \<Rightarrow> Inl err | Inr m \<Rightarrow> Inr (m, rest))"
proof -
  let ?h = "buildMessageHeader msg (length body)"
  have raw: "raw = encodeMessageHeader ?h @ body"
    using assms(1,2) by (simp add: EncodeMessage_def)
  have len: "unat (mh_Length ?h) = length body"
    using assms(3) by (simp add: buildMessageHeader_def unat_of_nat)
  show ?thesis
    by (simp add: ReadMessage_def raw readMessageHeader_encode len ReadFull_append)
      (simp add: buildMessageHeader_def)
qed

section \<open>Facts about sending\<close>

abbreviation sends :: "bytes \<Rightarrow> Account list \<Rightarrow> effect list" where
  "sends raw peers \<equiv> map (\<lambda>p. SendTo (acc_Url p) raw) peers"

lemma BroadcastPeers_sends: "BroadcastPeers raw peers eff = eff @ sends raw peers"
  by (induction peers arbitrary: eff) (auto simp: sendMsgByUrl_def)

lemma BroadcastPeersFilter_sends:
  "BroadcastPeersFilter raw peers black eff = eff @ sends raw (filter (\<lambda>p. p \<noteq> black) peers)"
  by (induction peers arbitrary: eff) (auto simp: sendMsgByUrl_def)

lemma Unicast_sends: "Unicast a raw eff = eff @ sends raw [a]"
  by (simp add: Unicast_def sendMsgByUrl_def)

lemmas sending = BroadcastPeers_sends BroadcastPeersFilter_sends Unicast_sends

end
