(* ===== verification/Environment.thy ===== *)
theory Environment
  imports Messages
begin

text \<open>
  What the program calls outside the repository, gathered in one record that every definition
  using it takes as an argument: the JSON codec, the signature package, the RLP hash of a header,
  the clock, and the block repository with the block validator. The repository's contents are a
  value of an arbitrary type \<open>'w\<close>; a \<open>Repository\<close> is the handle
  \<^verbatim>\<open>NewLatestStateRepository\<close> or \<^verbatim>\<open>NewRepositoryByBlockHash\<close> returns. Then
  \<^verbatim>\<open>consensus/utils/payloads.go\<close> and \<open>HeaderHash\<close> of
  \<^verbatim>\<open>consensus/common/common.go\<close>, which wrap these calls.
\<close>

section \<open>The environment\<close>

datatype Repository = LatestStateRepository | RepositoryByBlockHash hash

record 'w env =
  json_Marshal :: "payload \<Rightarrow> error + bytes"
  json_Unmarshal :: "bytes \<Rightarrow> payload \<Rightarrow> error + payload"
  signature_Sign :: "Account \<Rightarrow> hash \<Rightarrow> error + bytes"
  signature_Verify :: "hash \<Rightarrow> bytes \<Rightarrow> address \<times> error option"
  rlpHash :: "Header \<Rightarrow> hash"
  time_Now :: i64
  NewLatestStateRepository :: "'w \<Rightarrow> error option"
  NewRepositoryByBlockHash :: "'w \<Rightarrow> hash \<Rightarrow> error option"
  GetCurrentBlockHeight :: "'w \<Rightarrow> u64"
  GetCurrentBlock :: "'w \<Rightarrow> Block option"
  GetBlockByHeight :: "'w \<Rightarrow> u64 \<Rightarrow> error + Block"
  worker_VerifyBlock :: "'w \<Rightarrow> Repository \<Rightarrow> Block \<Rightarrow> bool \<Rightarrow> error + receipts"
  WriteBlockWithReceipts :: "'w \<Rightarrow> Repository \<Rightarrow> Block \<Rightarrow> receipts \<Rightarrow> error option \<times> 'w"
  EventWriteBlockWithReceipts :: "'w \<Rightarrow> Repository \<Rightarrow> Block \<Rightarrow> receipts \<Rightarrow> bool \<Rightarrow> error option \<times> 'w"

abbreviation encode :: "'w env \<Rightarrow> Message \<Rightarrow> error + bytes" where
  "encode e msg \<equiv> EncodeMessage (json_Marshal e) msg"

section \<open>\<^verbatim>\<open>consensus/utils/payloads.go\<close>\<close>

definition VerifyPayloadUseExistedRepository ::
  "'w env \<Rightarrow> 'w \<Rightarrow> Repository \<Rightarrow> Block \<Rightarrow> bool \<Rightarrow> error + receipts" where
  "VerifyPayloadUseExistedRepository e w bc block enableSignVerify =
     (case worker_VerifyBlock e w bc block enableSignVerify of
        Inl err \<Rightarrow> Inl err
      | Inr receipts \<Rightarrow> Inr receipts)"

definition VerifyPayload :: "'w env \<Rightarrow> 'w \<Rightarrow> Block \<Rightarrow> bool \<Rightarrow> error + receipts" where
  "VerifyPayload e w block enableSignVerify =
     (case NewRepositoryByBlockHash e w (b_PrevBlockHash block) of
        Some err \<Rightarrow> Inl err
      | None \<Rightarrow>
          VerifyPayloadUseExistedRepository e w (RepositoryByBlockHash (b_PrevBlockHash block))
            block enableSignVerify)"

definition SignPayload :: "'w env \<Rightarrow> Account \<Rightarrow> hash \<Rightarrow> error + bytes" where
  "SignPayload e account digest =
     (case signature_Sign e account digest of Inl err \<Rightarrow> Inl err | Inr sign \<Rightarrow> Inr sign)"

text \<open>The error of \<open>signature.Verify\<close> is only logged; the address it returned is compared.\<close>

definition SignatureVerify :: "'w env \<Rightarrow> Account \<Rightarrow> bytes \<Rightarrow> hash \<Rightarrow> bool" where
  "SignatureVerify e account sign digest =
     (case signature_Verify e digest sign of (addr, err) \<Rightarrow> acc_Address account = addr)"

section \<open>\<open>HeaderHash\<close>\<close>

definition HeaderHash :: "'w env \<Rightarrow> Block \<Rightarrow> hash" where
  "HeaderHash e block =
     (if b_HeaderHash block \<noteq> 0 then b_HeaderHash block else rlpHash e (b_Header block))"

lemma HeaderHash_idem:
  "HeaderHash e (b\<lparr>b_HeaderHash := HeaderHash e b\<rparr>) = HeaderHash e b"
  by (auto simp: HeaderHash_def)

lemma HeaderHash_sticky:
  "b_HeaderHash b \<noteq> 0 \<Longrightarrow> HeaderHash e (set_SigData s b) = b_HeaderHash b"
  by (simp add: HeaderHash_def)

section \<open>Documented behaviour of the environment\<close>

text \<open>
  The signature package: a signature made for an account verifies to that account's address.
  The JSON codec: a marshalled message is read back into an empty message of its type. It is asked
  of one message at a time, because \<^verbatim>\<open>encoding/json\<close> has messages it does not give back, such as one
  with a string that is not valid UTF-8.
\<close>

definition signs_correctly :: "'w env \<Rightarrow> bool" where
  "signs_correctly e \<longleftrightarrow>
     (\<forall>a d s. signature_Sign e a d = Inr s \<longrightarrow> signature_Verify e d s = (acc_Address a, None))"

fun blank_of :: "payload \<Rightarrow> payload" where
  "blank_of (RequestMessage _) = RequestMessage None"
| "blank_of (ProposalMessage _) = ProposalMessage None"
| "blank_of (ResponseMessage _) = ResponseMessage None"
| "blank_of (CommitMessage _) = CommitMessage None"
| "blank_of (SyncBlockReqMessage _) = SyncBlockReqMessage None"
| "blank_of (SyncBlockRespMessage _) = SyncBlockRespMessage None"
| "blank_of (ViewChangeReqMessage _) = ViewChangeReqMessage None"
| "blank_of (OnlineRequestMessage _) = OnlineRequestMessage None"
| "blank_of (OnlineResponseMessage _) = OnlineResponseMessage None"
| "blank_of (BareSyncBlockResp _) = SyncBlockRespMessage None"

definition json_roundtrip ::
  "(payload \<Rightarrow> error + bytes) \<Rightarrow> (bytes \<Rightarrow> payload \<Rightarrow> error + payload) \<Rightarrow> payload \<Rightarrow> bool" where
  "json_roundtrip marshal unmarshal p \<longleftrightarrow>
     (\<forall>raw. marshal p = Inr raw \<longrightarrow> unmarshal raw (blank_of p) = Inr p)"

lemma SignPayload_verifies:
  "signs_correctly e \<Longrightarrow> SignPayload e a d = Inr s \<Longrightarrow> SignatureVerify e a s d"
  by (auto simp: signs_correctly_def SignPayload_def SignatureVerify_def split: sum.splits)

end
