(* ===== verification/Plugin.thy ===== *)
theory Plugin
  imports Environment
begin

text \<open>
  \<^verbatim>\<open>consensus/common/plugin.go\<close>, first half: \<open>Content\<close> (one proposal in progress, with
  its state and the signatures collected for it) and \<open>ConsensusPlugin\<close> (the cache of contents
  by digest). The cache maps a digest to a pointer: callers keep the pointer \<open>Add\<close> or
  \<open>GetContentByHash\<close> returned and change the content through it, also after the cache dropped
  the entry. So contents live in a heap, a pointer is an index into it, and the map holds pointers.
\<close>

section \<open>\<open>Content\<close>\<close>

type_synonym contentState = u8

definition Initial :: contentState where "Initial = 1"
definition InConsensus :: contentState where "InConsensus = 2"
definition ToConsensus :: contentState where "ToConsensus = 3"

lemmas contentState_defs = Initial_def InConsensus_def ToConsensus_def

record Content =
  c_digest :: hash
  c_state :: contentState
  c_signMap :: "Account \<rightharpoonup> bytes"
  c_signatures :: "bytes list"
  c_payload :: Block

definition newContent :: "hash \<Rightarrow> Block \<Rightarrow> Content" where
  "newContent digest payload =
     \<lparr>c_digest = digest, c_state = Initial, c_signMap = Map.empty, c_signatures = [],
      c_payload = payload\<rparr>"

definition SetState :: "contentState \<Rightarrow> Content \<Rightarrow> error option \<times> Content" where
  "SetState state c =
     (if 1 \<noteq> state - c_state c then (Some (ErrContentState (c_state c) state), c)
      else (None, c\<lparr>c_state := state\<rparr>))"

definition AddSignature :: "Account \<Rightarrow> bytes \<Rightarrow> Content \<Rightarrow> bool \<times> Content" where
  "AddSignature account sign c =
     (case c_signMap c account of
        None \<Rightarrow> (True, c\<lparr>c_signMap := (c_signMap c)(account \<mapsto> sign),
                         c_signatures := c_signatures c @ [sign]\<rparr>)
      | Some _ \<Rightarrow> (False, c))"

definition Signatures :: "Content \<Rightarrow> bytes list" where
  "Signatures c = c_signatures c"

definition State :: "Content \<Rightarrow> contentState" where
  "State c = c_state c"

definition GetSignByAccount :: "Account \<Rightarrow> Content \<Rightarrow> bytes option" where
  "GetSignByAccount account c = c_signMap c account"

definition GetSignMap :: "Content \<Rightarrow> (Account \<rightharpoonup> bytes)" where
  "GetSignMap c = c_signMap c"

definition GetContentPayload :: "Content \<Rightarrow> Block" where
  "GetContentPayload c = c_payload c"

section \<open>\<open>ConsensusPlugin\<close>\<close>

type_synonym content_ref = nat

record ConsensusPlugin =
  cp_latestBlockHeight :: u64
  cp_content :: "hash \<rightharpoonup> content_ref"
  cp_heap :: "Content list"

definition NewConsensusPlugin :: ConsensusPlugin where
  "NewConsensusPlugin = \<lparr>cp_latestBlockHeight = 0, cp_content = Map.empty, cp_heap = []\<rparr>"

abbreviation deref :: "ConsensusPlugin \<Rightarrow> content_ref \<Rightarrow> Content" where
  "deref p r \<equiv> cp_heap p ! r"

abbreviation ref_height :: "ConsensusPlugin \<Rightarrow> content_ref \<Rightarrow> u64" where
  "ref_height p r \<equiv> b_Height (c_payload (deref p r))"

text \<open>A method call \<open>content.M()\<close> through a pointer stores the changed content.\<close>

definition store :: "content_ref \<Rightarrow> Content \<Rightarrow> ConsensusPlugin \<Rightarrow> ConsensusPlugin" where
  "store r c p = p\<lparr>cp_heap := (cp_heap p)[r := c]\<rparr>"

definition maxPayloadCacheNum :: u64 where "maxPayloadCacheNum = 10"

definition Add :: "hash \<Rightarrow> Block \<Rightarrow> ConsensusPlugin \<Rightarrow> content_ref \<times> ConsensusPlugin" where
  "Add digest block p =
     (let kept = delete_if (\<lambda>key val. ref_height p val < b_Height block - maxPayloadCacheNum)
                   (cp_content p)
      in case kept digest of
           None \<Rightarrow>
             (length (cp_heap p),
              p\<lparr>cp_content := kept(digest \<mapsto> length (cp_heap p)),
                cp_heap := cp_heap p @ [newContent digest block]\<rparr>)
         | Some r \<Rightarrow> (r, p\<lparr>cp_content := kept\<rparr>))"

definition Remove :: "hash \<Rightarrow> ConsensusPlugin \<Rightarrow> ConsensusPlugin" where
  "Remove digest p =
     (case cp_content p digest of
        None \<Rightarrow> p
      | Some cached \<Rightarrow>
          p\<lparr>cp_content := delete_if (\<lambda>key val. ref_height p val \<le> ref_height p cached)
                            (cp_content p)\<rparr>)"

definition GetContentByHash :: "hash \<Rightarrow> ConsensusPlugin \<Rightarrow> error + content_ref" where
  "GetContentByHash digest p =
     (case cp_content p digest of
        None \<Rightarrow> Inl (ErrContentNotExist digest)
      | Some r \<Rightarrow> Inr r)"

definition GetLatestBlockHeight :: "ConsensusPlugin \<Rightarrow> u64" where
  "GetLatestBlockHeight p = cp_latestBlockHeight p"

definition SetLatestBlockHeight :: "u64 \<Rightarrow> ConsensusPlugin \<Rightarrow> ConsensusPlugin" where
  "SetLatestBlockHeight height p = p\<lparr>cp_latestBlockHeight := height\<rparr>"

section \<open>The life of one content\<close>

text \<open>
  A content counts each account's signature once; the list that is counted holds the signatures
  of the map. The state only moves one step at a time.
\<close>

definition content_inv :: "Content \<Rightarrow> bool" where
  "content_inv c \<longleftrightarrow>
     finite (dom (c_signMap c)) \<and> length (c_signatures c) = card (dom (c_signMap c)) \<and>
     set (c_signatures c) = ran (c_signMap c)"

lemma content_inv_new [simp]: "content_inv (newContent d b)"
  by (simp add: content_inv_def newContent_def)

lemma AddSignature_cases:
  "AddSignature a s c =
     (if a \<in> dom (c_signMap c) then (False, c)
      else (True, c\<lparr>c_signMap := (c_signMap c)(a \<mapsto> s), c_signatures := c_signatures c @ [s]\<rparr>))"
  by (auto simp: AddSignature_def split: option.splits)

lemma AddSignature_frame [frame_simps]:
  "c_digest (snd (AddSignature a s c)) = c_digest c"
  "c_state (snd (AddSignature a s c)) = c_state c"
  "c_payload (snd (AddSignature a s c)) = c_payload c"
  by (simp_all add: AddSignature_cases)

lemma SetState_frame [frame_simps]:
  "c_digest (snd (SetState st c)) = c_digest c"
  "c_signMap (snd (SetState st c)) = c_signMap c"
  "c_signatures (snd (SetState st c)) = c_signatures c"
  "c_payload (snd (SetState st c)) = c_payload c"
  by (simp_all add: SetState_def)

lemma content_inv_AddSignature: "content_inv c \<Longrightarrow> content_inv (snd (AddSignature a s c))"
  by (auto simp: content_inv_def AddSignature_cases ran_def)

lemma content_inv_SetState: "content_inv c \<Longrightarrow> content_inv (snd (SetState st c))"
  by (simp add: content_inv_def frame_simps)

lemma content_inv_payload: "content_inv (c\<lparr>c_payload := b\<rparr>) = content_inv c"
  by (simp add: content_inv_def)

interpretation signatures: vote_counter
  content_inv "\<lambda>c. dom (c_signMap c)" "\<lambda>c. length (c_signatures c)" fst
  "\<lambda>(a, s) c. snd (AddSignature a s c)"
proof unfold_locales
  fix c :: Content and v :: "Account \<times> bytes"
  assume inv: "content_inv c"
  obtain a s where v: "v = (a, s)" by (cases v)
  show "content_inv ((\<lambda>(a, s) c. snd (AddSignature a s c)) v c)"
    using inv by (simp add: v content_inv_AddSignature)
  show "dom (c_signMap ((\<lambda>(a, s) c. snd (AddSignature a s c)) v c)) = insert (fst v) (dom (c_signMap c))"
    by (auto simp: v AddSignature_cases)
  show "finite (dom (c_signMap c))" and "length (c_signatures c) = card (dom (c_signMap c))"
    using inv by (simp_all add: content_inv_def)
qed

lemma SetState_next:
  "SetState st c = (if st = c_state c + 1 then (None, c\<lparr>c_state := st\<rparr>)
                    else (Some (ErrContentState (c_state c) st), c))"
  by (auto simp: SetState_def algebra_simps)

section \<open>The cache as a map from digests to contents\<close>

definition plugin_inv :: "ConsensusPlugin \<Rightarrow> bool" where
  "plugin_inv p \<longleftrightarrow>
     (\<forall>d r. cp_content p d = Some r \<longrightarrow> r < length (cp_heap p) \<and> c_digest (deref p r) = d) \<and>
     (\<forall>c \<in> set (cp_heap p). content_inv c)"

definition view :: "ConsensusPlugin \<Rightarrow> (hash \<rightharpoonup> Content)" where
  "view p = (\<lambda>d. map_option (deref p) (cp_content p d))"

definition spec_add :: "hash \<Rightarrow> Block \<Rightarrow> (hash \<rightharpoonup> Content) \<Rightarrow> (hash \<rightharpoonup> Content)" where
  "spec_add d b m =
     (let m' = delete_if (\<lambda>_ c. b_Height (c_payload c) < b_Height b - maxPayloadCacheNum) m
      in if m' d = None then m'(d \<mapsto> newContent d b) else m')"

definition spec_remove :: "hash \<Rightarrow> (hash \<rightharpoonup> Content) \<Rightarrow> (hash \<rightharpoonup> Content)" where
  "spec_remove d m =
     (case m d of
        None \<Rightarrow> m
      | Some c \<Rightarrow> delete_if (\<lambda>_ c'. b_Height (c_payload c') \<le> b_Height (c_payload c)) m)"

lemma plugin_inv_ref:
  "plugin_inv p \<Longrightarrow> cp_content p d = Some r \<Longrightarrow> r < length (cp_heap p) \<and> c_digest (deref p r) = d"
  by (simp add: plugin_inv_def)

lemma plugin_inv_content: "plugin_inv p \<Longrightarrow> cp_content p d = Some r \<Longrightarrow> content_inv (deref p r)"
  by (meson nth_mem plugin_inv_def)

text \<open>Two digests never share a pointer: the content knows its digest.\<close>

lemma plugin_refs_distinct:
  "plugin_inv p \<Longrightarrow> cp_content p d = Some r \<Longrightarrow> cp_content p d' = Some r \<Longrightarrow> d = d'"
  using plugin_inv_ref by metis

lemma plugin_inv_New [simp]: "plugin_inv NewConsensusPlugin"
  by (simp add: plugin_inv_def NewConsensusPlugin_def)

lemma plugin_inv_delete:
  "plugin_inv p \<Longrightarrow> plugin_inv (p\<lparr>cp_content := delete_if P (cp_content p)\<rparr>)"
  by (auto simp: plugin_inv_def map_loop_simps)

lemma plugin_inv_alloc:
  assumes "plugin_inv p" and "content_inv c" and "c_digest c = d"
  shows "plugin_inv (p\<lparr>cp_content := (cp_content p)(d \<mapsto> length (cp_heap p)), cp_heap := cp_heap p @ [c]\<rparr>)"
  using assms by (fastforce simp: plugin_inv_def nth_append)

lemma plugin_inv_Add: 
  assumes "plugin_inv p"
  shows "plugin_inv (snd (Add d b p))"
proof -
  let ?p = "p\<lparr>cp_content := delete_if (\<lambda>key val. ref_height p val < b_Height b - maxPayloadCacheNum) (cp_content p)\<rparr>"
  have "plugin_inv ?p" using assms by (rule plugin_inv_delete)
  then show ?thesis
    using plugin_inv_alloc [of ?p "newContent d b" d]
    by (auto simp: Add_def Let_def newContent_def content_inv_def split: option.splits)
qed

lemma plugin_inv_Remove: "plugin_inv p \<Longrightarrow> plugin_inv (Remove d p)"
  by (auto simp: Remove_def plugin_inv_delete split: option.splits)

lemma plugin_inv_SetLatest [simp]: "plugin_inv (SetLatestBlockHeight h p) = plugin_inv p"
  by (simp add: plugin_inv_def SetLatestBlockHeight_def)

lemma store_digest:
  "c_digest c = c_digest (deref p r) \<Longrightarrow> c_digest (deref (store r c p) r') = c_digest (deref p r')"
  by (cases "r' = r"; cases "r < length (cp_heap p)") (auto simp: store_def list_update_beyond)

lemma length_store [simp]: "length (cp_heap (store r c p)) = length (cp_heap p)"
  by (simp add: store_def)

lemma content_store_unchanged [simp]: "cp_content (store r c p) = cp_content p"
  by (simp add: store_def)

lemma plugin_inv_store:
  assumes "plugin_inv p" and "content_inv c" and "c_digest c = c_digest (deref p r)"
  shows "plugin_inv (store r c p)"
proof -
  have "content_inv c'" if "c' \<in> set ((cp_heap p)[r := c])" for c'
    using that assms(1,2) set_update_subset_insert [of "cp_heap p" r c]
    by (auto simp: plugin_inv_def)
  then show ?thesis
    using assms(1) store_digest [OF assms(3)] by (simp add: plugin_inv_def) (simp add: store_def)
qed

text \<open>The pointer operations implement the operations on the map.\<close>

lemma view_delete:
  "view (p\<lparr>cp_content := delete_if (\<lambda>key val. P (deref p val)) (cp_content p)\<rparr>)
   = delete_if (\<lambda>_ c. P c) (view p)"
  by (rule ext) (simp add: view_def delete_if_def split: option.splits)

lemma view_alloc:
  assumes "plugin_inv p"
  shows "view (p\<lparr>cp_content := (cp_content p)(d \<mapsto> length (cp_heap p)), cp_heap := cp_heap p @ [c]\<rparr>)
    = (view p)(d \<mapsto> c)"
proof (rule ext)
  fix d'
  show "view (p\<lparr>cp_content := (cp_content p)(d \<mapsto> length (cp_heap p)), cp_heap := cp_heap p @ [c]\<rparr>) d'
    = ((view p)(d \<mapsto> c)) d'"
    using plugin_inv_ref [OF assms, of d']
    by (cases "cp_content p d'") (auto simp: view_def nth_append)
qed

lemma view_Add:
  assumes "plugin_inv p"
  shows "view (snd (Add d b p)) = spec_add d b (view p)"
proof -
  let ?P = "\<lambda>c. b_Height (c_payload c) < b_Height b - maxPayloadCacheNum"
  let ?p = "p\<lparr>cp_content := delete_if (\<lambda>key val. ?P (deref p val)) (cp_content p)\<rparr>"
  have v: "view ?p = delete_if (\<lambda>_ c. ?P c) (view p)"
    by (rule view_delete)
  have inv: "plugin_inv ?p" using assms by (rule plugin_inv_delete)
  show ?thesis
  proof (cases "cp_content ?p d")
    case None
    then have "view (snd (Add d b p)) = (view ?p)(d \<mapsto> newContent d b)"
      using view_alloc [OF inv, where d = d and c = "newContent d b"] by (simp add: Add_def Let_def)
    moreover have "view ?p d = None" using None by (simp add: view_def)
    ultimately show ?thesis by (simp add: spec_add_def Let_def v)
  next
    case (Some r)
    then have "view (snd (Add d b p)) = view ?p"
      by (simp add: view_def Add_def Let_def)
    moreover have "view ?p d \<noteq> None" using Some by (simp add: view_def)
    ultimately show ?thesis by (auto simp: spec_add_def Let_def v)
  qed
qed

lemma view_Remove: "view (Remove d p) = spec_remove d (view p)"
proof (cases "cp_content p d")
  case None
  then show ?thesis by (simp add: Remove_def spec_remove_def view_def)
next
  case (Some r)
  then show ?thesis
    using view_delete [where p = p and P = "\<lambda>c. b_Height (c_payload c) \<le> ref_height p r"]
    by (simp add: Remove_def spec_remove_def view_def)
qed

lemma view_store:
  assumes "plugin_inv p" and "cp_content p d = Some r"
  shows "view (store r c p) = (view p)(d \<mapsto> c)"
proof (rule ext)
  fix d'
  show "view (store r c p) d' = ((view p)(d \<mapsto> c)) d'"
    using assms plugin_inv_ref [OF assms] plugin_refs_distinct [OF assms, of d']
    by (cases "cp_content p d'") (auto simp: view_def store_def nth_list_update)
qed

lemma fst_Add:
  assumes "plugin_inv p"
  shows "cp_content (snd (Add d b p)) d = Some (fst (Add d b p))"
  by (auto simp: Add_def Let_def split: option.splits)

lemma view_Get: "GetContentByHash d p = Inr r \<Longrightarrow> view p d = Some (deref p r)"
  by (auto simp: GetContentByHash_def view_def split: option.splits)

lemma Get_error_iff: "(\<exists>e. GetContentByHash d p = Inl e) \<longleftrightarrow> view p d = None"
  by (auto simp: GetContentByHash_def view_def split: option.splits)

section \<open>The interface the consensus core relies on\<close>

text \<open>
  A core adds a proposal, works on the content through the pointer and removes what is committed.
  The laws say what a lookup sees after each of these.
\<close>

locale content_store =
  fixes invar :: "'p \<Rightarrow> bool"
    and look :: "'p \<Rightarrow> (hash \<rightharpoonup> Content)"
    and add :: "hash \<Rightarrow> Block \<Rightarrow> 'p \<Rightarrow> 'p"
    and put :: "hash \<Rightarrow> Content \<Rightarrow> 'p \<Rightarrow> 'p"
    and remove :: "hash \<Rightarrow> 'p \<Rightarrow> 'p"
  assumes invar_add: "invar p \<Longrightarrow> invar (add d b p)"
    and invar_remove: "invar p \<Longrightarrow> invar (remove d p)"
    and invar_put: "invar p \<Longrightarrow> content_inv c \<Longrightarrow> c_digest c = d \<Longrightarrow> invar (put d c p)"
    and look_inv: "invar p \<Longrightarrow> look p d = Some c \<Longrightarrow> content_inv c \<and> c_digest c = d"
    and look_add: "invar p \<Longrightarrow> look (add d b p) = spec_add d b (look p)"
    and look_remove: "invar p \<Longrightarrow> look (remove d p) = spec_remove d (look p)"
    and look_put: "invar p \<Longrightarrow> look p d = Some c0 \<Longrightarrow> look (put d c p) = (look p)(d \<mapsto> c)"
begin

lemma added_present: "invar p \<Longrightarrow> \<exists>c. look (add d b p) d = Some c"
  by (auto simp: look_add spec_add_def Let_def)

text \<open>A proposal already cached keeps its content, unless its block is more than ten blocks old.\<close>

lemma add_keeps:
  assumes "invar p" and "look p d' = Some c"
    and "\<not> b_Height (c_payload c) < b_Height b - maxPayloadCacheNum"
  shows "look (add d b p) d' = Some c"
  using assms by (auto simp: look_add spec_add_def Let_def map_loop_simps)

lemma add_fresh:
  assumes "invar p" and "look p d = None"
  shows "look (add d b p) d = Some (newContent d b)"
  using assms by (simp add: look_add spec_add_def Let_def map_loop_simps)

lemma removed_absent: "invar p \<Longrightarrow> look (remove d p) d = None"
  by (cases "look p d") (auto simp: look_remove spec_remove_def map_loop_simps)

lemma remove_drops_lower:
  assumes "invar p" and "look p d = Some c" and "look p d' = Some c'"
    and "b_Height (c_payload c') \<le> b_Height (c_payload c)"
  shows "look (remove d p) d' = None"
  using assms by (simp add: look_remove spec_remove_def map_loop_simps)

lemma remove_keeps_higher:
  assumes "invar p" and "look p d = Some c" and "look p d' = Some c'"
    and "b_Height (c_payload c) < b_Height (c_payload c')"
  shows "look (remove d p) d' = Some c'"
  using assms by (simp add: look_remove spec_remove_def map_loop_simps linorder_not_le)

text \<open>Collecting signatures for a cached content counts the distinct accounts.\<close>

lemma put_signatures_count:
  assumes "invar p" and "look p d = Some c"
  shows "\<exists>c'. look (put d (fold (\<lambda>(a, s) c. snd (AddSignature a s c)) vs c) p) d = Some c' \<and>
    length (Signatures c') = card (dom (c_signMap c) \<union> fst ` set vs)"
  using assms look_inv [OF assms] signatures.count_fold [of c vs]
  by (simp add: look_put Signatures_def)

end

interpretation plugin_store: content_store
  plugin_inv view "\<lambda>d b p. snd (Add d b p)"
  "\<lambda>d c p. case cp_content p d of None \<Rightarrow> p | Some r \<Rightarrow> store r c p" Remove
proof unfold_locales
  fix p :: ConsensusPlugin and d :: hash and b :: Block and c c0 :: Content
  assume inv: "plugin_inv p"
  show "plugin_inv (snd (Add d b p))" using inv by (rule plugin_inv_Add)
  show "plugin_inv (Remove d p)" using inv by (rule plugin_inv_Remove)
  show "view (snd (Add d b p)) = spec_add d b (view p)" using inv by (rule view_Add)
  show "view (Remove d p) = spec_remove d (view p)" by (rule view_Remove)
  show "plugin_inv (case cp_content p d of None \<Rightarrow> p | Some r \<Rightarrow> store r c p)"
    if "content_inv c" "c_digest c = d"
    using inv that plugin_inv_store [OF inv] plugin_inv_ref [OF inv] by (auto split: option.splits)
  show "content_inv c \<and> c_digest c = d" if "view p d = Some c"
    using that plugin_inv_ref [OF inv] plugin_inv_content [OF inv] by (auto simp: view_def)
  show "view (case cp_content p d of None \<Rightarrow> p | Some r \<Rightarrow> store r c p) = (view p)(d \<mapsto> c)"
    if "view p d = Some c0"
    using that view_store [OF inv] by (auto simp: view_def split: option.splits)
qed

end
