(* ===== verification/Views.thy ===== *)
theory Views
  imports Plugin
begin

text \<open>
  \<^verbatim>\<open>consensus/common/views.go\<close>: the current view number and, per requested view, the accounts
  that asked for it. The pointer \<open>AddViewRequest\<close> returns is the entry of the map at that view
  number and no entry is removed while a handler runs, so a method on it is an update of the entry.
\<close>

section \<open>\<open>ViewRequests\<close>\<close>

record ViewRequests =
  vr_toChange :: u8
  vr_state :: ViewRequestState
  vr_index :: "Account \<rightharpoonup> bool"
  vr_nodes :: "Account list"

definition NewRequests :: "u8 \<Rightarrow> ViewRequests" where
  "NewRequests toChange =
     \<lparr>vr_toChange = toChange, vr_state = Viewing, vr_index = Map.empty, vr_nodes = []\<rparr>"

definition ReceiveViewRequestByAccount :: "Account \<Rightarrow> ViewRequests \<Rightarrow> ViewRequestState \<times> ViewRequests" where
  "ReceiveViewRequestByAccount account vr =
     (let vr' =
        (case vr_index vr account of
           None \<Rightarrow>
             (let added = vr\<lparr>vr_index := (vr_index vr)(account \<mapsto> True),
                             vr_nodes := vr_nodes vr @ [account]\<rparr>
              in if of_nat (length (vr_nodes added)) \<ge> vr_toChange added
                 then added\<lparr>vr_state := ViewEnd\<rparr> else added)
         | Some _ \<Rightarrow> vr)
      in (vr_state vr', vr'))"

definition GetViewRequestState :: "ViewRequests \<Rightarrow> ViewRequestState" where
  "GetViewRequestState vr = vr_state vr"

definition GetReceivedAccounts :: "ViewRequests \<Rightarrow> Account list" where
  "GetReceivedAccounts vr = vr_nodes vr"

section \<open>\<open>ViewChange\<close>\<close>

record ViewChange =
  vc_currentView :: u64
  vc_walterLevel :: i64
  vc_viewRequests :: "u64 \<rightharpoonup> ViewRequests"

definition NewViewChange :: ViewChange where
  "NewViewChange =
     \<lparr>vc_currentView = DefaultViewNum, vc_walterLevel = DefaultWalterLevel,
      vc_viewRequests = Map.empty\<rparr>"

definition GetCurrentViewNum :: "ViewChange \<Rightarrow> u64" where
  "GetCurrentViewNum vc = vc_currentView vc"

definition SetCurrentViewNum :: "u64 \<Rightarrow> ViewChange \<Rightarrow> ViewChange" where
  "SetCurrentViewNum newViewNum vc = vc\<lparr>vc_currentView := newViewNum\<rparr>"

definition GetWalterLevel :: "ViewChange \<Rightarrow> i64" where
  "GetWalterLevel vc = vc_walterLevel vc"

definition AddViewRequest :: "u64 \<Rightarrow> u8 \<Rightarrow> ViewChange \<Rightarrow> error + (ViewRequests \<times> ViewChange)" where
  "AddViewRequest viewNum toChange vc =
     (if sint (Abs (vc_currentView vc) viewNum) > sint (vc_walterLevel vc)
      then Inl (ErrWalterLevel (vc_currentView vc) viewNum (vc_walterLevel vc))
      else case vc_viewRequests vc viewNum of
             None \<Rightarrow>
               Inr (NewRequests toChange,
                    vc\<lparr>vc_viewRequests := (vc_viewRequests vc)(viewNum \<mapsto> NewRequests toChange)\<rparr>)
           | Some vr \<Rightarrow> Inr (vr, vc))"

definition RemoveRequest :: "ViewChange \<Rightarrow> ViewChange" where
  "RemoveRequest vc =
     vc\<lparr>vc_viewRequests := delete_if (\<lambda>key val. vr_state val = ViewEnd) (vc_viewRequests vc)\<rparr>"

definition GetRequestByViewNum :: "u64 \<Rightarrow> ViewChange \<Rightarrow> ViewRequests option" where
  "GetRequestByViewNum viewNum vc = vc_viewRequests vc viewNum"

text \<open>The store a handler makes through the pointer it got for \<open>viewNum\<close>.\<close>

definition put_request :: "u64 \<Rightarrow> ViewRequests \<Rightarrow> ViewChange \<Rightarrow> ViewChange" where
  "put_request viewNum vr vc = vc\<lparr>vc_viewRequests := (vc_viewRequests vc)(viewNum \<mapsto> vr)\<rparr>"

section \<open>Counting requests\<close>

definition requests_inv :: "ViewRequests \<Rightarrow> bool" where
  "requests_inv vr \<longleftrightarrow>
     dom (vr_index vr) = set (vr_nodes vr) \<and> distinct (vr_nodes vr) \<and>
     (vr_state vr = ViewEnd \<longrightarrow> vr_nodes vr \<noteq> [])"

lemma requests_inv_New [simp]: "requests_inv (NewRequests n)"
  by (simp add: requests_inv_def NewRequests_def)

lemma requests_inv_index:
  "requests_inv vr \<Longrightarrow> vr_index vr a = None \<longleftrightarrow> a \<notin> set (vr_nodes vr)"
  by (auto simp: requests_inv_def)

lemma Receive_nodes:
  assumes "requests_inv vr"
  shows "vr_nodes (snd (ReceiveViewRequestByAccount a vr)) =
    (if a \<in> set (vr_nodes vr) then vr_nodes vr else vr_nodes vr @ [a])"
  using requests_inv_index [OF assms, of a]
  by (auto simp: ReceiveViewRequestByAccount_def Let_def split: option.splits)

lemma requests_inv_Receive:
  assumes "requests_inv vr"
  shows "requests_inv (snd (ReceiveViewRequestByAccount a vr))"
  using assms requests_inv_index [OF assms, of a]
  by (auto simp: ReceiveViewRequestByAccount_def requests_inv_def Let_def split: option.splits)

lemma Receive_state:
  assumes "requests_inv vr"
  shows "fst (ReceiveViewRequestByAccount a vr) =
    (if a \<notin> set (vr_nodes vr) \<and> of_nat (Suc (length (vr_nodes vr))) \<ge> vr_toChange vr
     then ViewEnd else vr_state vr)"
  using requests_inv_index [OF assms, of a]
  by (auto simp: ReceiveViewRequestByAccount_def Let_def split: option.splits)

lemma Receive_fst_snd: "fst (ReceiveViewRequestByAccount a vr) = vr_state (snd (ReceiveViewRequestByAccount a vr))"
  by (simp add: ReceiveViewRequestByAccount_def Let_def)

lemma Receive_toChange [simp]: "vr_toChange (snd (ReceiveViewRequestByAccount a vr)) = vr_toChange vr"
  by (simp add: ReceiveViewRequestByAccount_def Let_def split: option.splits)

interpretation requests: vote_counter
  requests_inv "\<lambda>vr. set (vr_nodes vr)" "\<lambda>vr. length (vr_nodes vr)" "\<lambda>a. a"
  "\<lambda>a vr. snd (ReceiveViewRequestByAccount a vr)"
  by unfold_locales
    (auto simp: requests_inv_Receive Receive_nodes, auto simp: requests_inv_def distinct_card)

text \<open>
  A handler feeds a list of accounts: the loop of \<open>receiveChangeViewReq\<close>, with the state the
  last call returned.
\<close>

fun receive_all :: "Account list \<Rightarrow> ViewRequestState \<Rightarrow> ViewRequests \<Rightarrow> ViewRequestState \<times> ViewRequests" where
  "receive_all [] st vr = (st, vr)"
| "receive_all (node # nodes) st vr =
     (let (st', vr') = ReceiveViewRequestByAccount node vr in receive_all nodes st' vr')"

lemma receive_all_fold:
  "snd (receive_all as st vr) = fold (\<lambda>a vr. snd (ReceiveViewRequestByAccount a vr)) as vr"
  by (induction as arbitrary: st vr) (auto split: prod.splits)

lemma receive_all_state:
  "st = vr_state vr \<Longrightarrow> fst (receive_all as st vr) = vr_state (snd (receive_all as st vr))"
  by (induction as arbitrary: st vr) (simp_all add: Let_def split_beta Receive_fst_snd)

lemma receive_all_inv: "requests_inv vr \<Longrightarrow> requests_inv (snd (receive_all as st vr))"
  unfolding receive_all_fold by (rule requests.invar_fold)

lemma receive_all_toChange: "vr_toChange (snd (receive_all as st vr)) = vr_toChange vr"
  by (induction as arbitrary: st vr) (simp_all add: Let_def split_beta)

lemma receive_all_count:
  "requests_inv vr \<Longrightarrow>
   length (vr_nodes (snd (receive_all as st vr))) = card (set (vr_nodes vr) \<union> set as)"
  unfolding receive_all_fold using requests.count_fold [of vr as] by simp

lemma receive_all_nodes:
  "requests_inv vr \<Longrightarrow> set (vr_nodes (snd (receive_all as st vr))) = set (vr_nodes vr) \<union> set as"
  unfolding receive_all_fold using requests.voters_fold [of vr as] by simp

text \<open>
  While fewer than 256 accounts ask for a view, the request set is at its end exactly when it has
  grown and reached its threshold.
\<close>

definition threshold_inv :: "ViewRequests \<Rightarrow> bool" where
  "threshold_inv vr \<longleftrightarrow>
     (vr_state vr = ViewEnd \<longleftrightarrow> vr_nodes vr \<noteq> [] \<and> unat (vr_toChange vr) \<le> length (vr_nodes vr))"

lemma threshold_inv_New [simp]: "threshold_inv (NewRequests n)"
  by (simp add: threshold_inv_def NewRequests_def)

lemma threshold_inv_Receive:
  assumes "requests_inv vr" and "threshold_inv vr" and "length (vr_nodes vr) < 255"
  shows "threshold_inv (snd (ReceiveViewRequestByAccount a vr))"
proof -
  have u: "(of_nat (Suc (length (vr_nodes vr))) :: u8) \<ge> vr_toChange vr \<longleftrightarrow>
      unat (vr_toChange vr) \<le> Suc (length (vr_nodes vr))"
    using assms(3) u8_of_nat_small [of "Suc (length (vr_nodes vr))"] by (simp add: word_le_nat_alt)
  show ?thesis
    using assms(2) Receive_nodes [OF assms(1), of a] Receive_state [OF assms(1), of a] u
    by (auto simp: threshold_inv_def Receive_fst_snd)
qed

lemma threshold_inv_fold:
  assumes "requests_inv vr" and "threshold_inv vr"
    and "card (set (vr_nodes vr) \<union> set as) < 256"
  shows "threshold_inv (fold (\<lambda>a vr. snd (ReceiveViewRequestByAccount a vr)) as vr)"
  using assms
proof (induction as arbitrary: vr)
  case Nil
  then show ?case by simp
next
  case (Cons a as)
  let ?vr = "snd (ReceiveViewRequestByAccount a vr)"
  have eq: "set (vr_nodes ?vr) \<union> set as = set (vr_nodes vr) \<union> set (a # as)"
    using Cons.prems(1) by (auto simp: Receive_nodes)
  have "threshold_inv ?vr"
  proof (cases "a \<in> set (vr_nodes vr)")
    case True
    with Cons.prems show ?thesis
      using requests_inv_index [OF Cons.prems(1), of a]
      by (auto simp: ReceiveViewRequestByAccount_def Let_def split: option.splits)
  next
    case False
    have "Suc (card (set (vr_nodes vr))) = card (insert a (set (vr_nodes vr)))"
      using False by simp
    also have "\<dots> \<le> card (set (vr_nodes vr) \<union> set (a # as))"
      by (rule card_mono) auto
    finally have "length (vr_nodes vr) < 255"
      using Cons.prems(1,3) by (simp add: requests_inv_def distinct_card)
    with Cons.prems show ?thesis by (intro threshold_inv_Receive)
  qed
  then show ?case
    using Cons.IH [of ?vr] Cons.prems(1,3) requests_inv_Receive eq by simp
qed

section \<open>The set of requested views\<close>

definition views_inv :: "ViewChange \<Rightarrow> bool" where
  "views_inv vc \<longleftrightarrow>
     vc_walterLevel vc = DefaultWalterLevel \<and>
     (\<forall>v vr. vc_viewRequests vc v = Some vr \<longrightarrow> requests_inv vr)"

lemma views_inv_New [simp]: "views_inv NewViewChange"
  by (simp add: views_inv_def NewViewChange_def)

lemma views_inv_SetCurrent [simp]: "views_inv (SetCurrentViewNum v vc) = views_inv vc"
  by (simp add: views_inv_def SetCurrentViewNum_def)

lemma views_inv_Remove: "views_inv vc \<Longrightarrow> views_inv (RemoveRequest vc)"
  by (auto simp: views_inv_def RemoveRequest_def map_loop_simps)

lemma views_inv_put: "views_inv vc \<Longrightarrow> requests_inv vr \<Longrightarrow> views_inv (put_request v vr vc)"
  by (simp add: views_inv_def put_request_def)

lemma views_inv_Add:
  assumes "views_inv vc" and "AddViewRequest v n vc = Inr (vr, vc')"
  shows "views_inv vc' \<and> requests_inv vr \<and> vc_viewRequests vc' v = Some vr"
  using assms by (auto simp: views_inv_def AddViewRequest_def split: if_splits option.splits)

lemma AddViewRequest_Inr_iff:
  "(\<exists>r. AddViewRequest v n vc = Inr r) \<longleftrightarrow> sint (Abs (vc_currentView vc) v) \<le> sint (vc_walterLevel vc)"
  by (auto simp: AddViewRequest_def split: option.splits)

lemma AddViewRequest_frame [frame_simps]:
  "AddViewRequest v n vc = Inr (vr, vc') \<Longrightarrow> vc_currentView vc' = vc_currentView vc"
  "AddViewRequest v n vc = Inr (vr, vc') \<Longrightarrow> vc_walterLevel vc' = vc_walterLevel vc"
  by (auto simp: AddViewRequest_def split: if_splits option.splits)

text \<open>At the default level the accepted views are the neighbours of the current one, on the circle.\<close>

lemma AddViewRequest_window:
  assumes "vc_walterLevel vc = DefaultWalterLevel"
  shows "(\<exists>r. AddViewRequest v n vc = Inr r) \<longleftrightarrow>
    v = vc_currentView vc \<or> vc_currentView vc = v + 1 \<or> v = vc_currentView vc + 1 \<or>
    vc_currentView vc - v = 2 ^ 63"
  unfolding AddViewRequest_Inr_iff assms
  using Abs_within_one [of "vc_currentView vc" v] by (simp add: DefaultWalterLevel_def)

end
