(* ===== verification/Online_Wizard.thy ===== *)
theory Online_Wizard
  imports Views
begin

text \<open>
  \<^verbatim>\<open>consensus/common/plugin.go\<close>, second half: \<open>OnlineWizard\<close> collects, per block height, the
  nodes that answered an online request, until enough of them agree. Calls that dereference a
  missing entry, and the explicit panic on disagreeing masters, are outcomes.
\<close>

section \<open>\<open>ResponseNodes\<close>\<close>

record ResponseNodes =
  rn_nodes :: "Account list"
  rn_node :: "address \<rightharpoonup> Account"
  rn_state :: OnlineState
  rn_master :: Account
  rn_viewNum :: u64
  rn_walterLevel :: int

definition NewResponseNodes :: "int \<Rightarrow> Account \<Rightarrow> ResponseNodes" where
  "NewResponseNodes walterLevel master =
     \<lparr>rn_nodes = [], rn_node = Map.empty, rn_state = GoOnline, rn_master = master, rn_viewNum = 0,
      rn_walterLevel = walterLevel\<rparr>"

definition GetResponseState :: "ResponseNodes \<Rightarrow> OnlineState" where
  "GetResponseState rn = rn_state rn"

definition AddResponseNodes ::
  "Account \<Rightarrow> ResponseNodes \<Rightarrow> (Account list \<times> OnlineState) \<times> ResponseNodes" where
  "AddResponseNodes node rn =
     (let rn1 = (case rn_node rn (acc_Address node) of
                   None \<Rightarrow> rn\<lparr>rn_node := (rn_node rn)(acc_Address node \<mapsto> node),
                              rn_nodes := rn_nodes rn @ [node]\<rparr>
                 | Some _ \<Rightarrow> rn);
          rn2 = (if int (length (rn_nodes rn1)) \<ge> rn_walterLevel rn1
                 then rn1\<lparr>rn_state := Online\<rparr> else rn1)
      in ((rn_nodes rn2, rn_state rn2), rn2))"

section \<open>\<open>OnlineWizard\<close>\<close>

record OnlineWizard =
  ow_blockHeight :: u64
  ow_blockHeightList :: "u64 list"
  ow_response :: "u64 \<rightharpoonup> ResponseNodes"

definition NewOnlineWizard :: OnlineWizard where
  "NewOnlineWizard =
     \<lparr>ow_blockHeight = DefaultBlockHeight, ow_blockHeightList = [], ow_response = Map.empty\<rparr>"

text \<open>The loop \<^verbatim>\<open>for _, node := range nodes\<close> of \<open>AddOnlineResponse\<close>.\<close>

fun addNodes :: "Account list \<Rightarrow> Account list \<times> OnlineState \<Rightarrow> ResponseNodes
    \<Rightarrow> (Account list \<times> OnlineState) \<times> ResponseNodes" where
  "addNodes [] out rn = (out, rn)"
| "addNodes (node # nodes) out rn =
     (let (out', rn') = AddResponseNodes node rn in addNodes nodes out' rn')"

definition AddOnlineResponse ::
  "u64 \<Rightarrow> Account list \<Rightarrow> int \<Rightarrow> Account \<Rightarrow> u64 \<Rightarrow> OnlineWizard
     \<Rightarrow> ((Account list \<times> OnlineState) \<times> OnlineWizard) outcome" where
  "AddOnlineResponse blockHeight nodes walterLevel master viewNum w =
     (let (entry, w1) =
            (case ow_response w blockHeight of
               None \<Rightarrow> (NewResponseNodes walterLevel master,
                        w\<lparr>ow_blockHeightList := ow_blockHeightList w @ [blockHeight]\<rparr>)
             | Some rn \<Rightarrow> (rn, w));
          (entry1, w2) =
            (if blockHeight > ow_blockHeight w1
             then (entry\<lparr>rn_master := master\<rparr>, w1\<lparr>ow_blockHeight := blockHeight\<rparr>)
             else (entry, w1));
          agreed =
            (if master \<noteq> rn_master entry1
             then if rn_viewNum entry1 < viewNum then Some (entry1\<lparr>rn_master := master\<rparr>) else None
             else Some entry1)
      in case agreed of
           None \<Rightarrow> Inl (Panicf ''master not in agreement'')
         | Some entry2 \<Rightarrow>
             (let entry3 = (if rn_viewNum entry2 < viewNum then entry2\<lparr>rn_viewNum := viewNum\<rparr> else entry2);
                  (out, entry4) = addNodes nodes ([], NoOnlineState) entry3
              in Inr (out, w2\<lparr>ow_response := (ow_response w2)(blockHeight \<mapsto> entry4)\<rparr>)))"

definition GetCurrentState :: "OnlineWizard \<Rightarrow> OnlineState outcome" where
  "GetCurrentState w =
     (case ow_response w (ow_blockHeight w) of
        None \<Rightarrow> Inl NilDereference
      | Some rn \<Rightarrow> Inr (GetResponseState rn))"

definition GetCurrentStateByHeight :: "u64 \<Rightarrow> OnlineWizard \<Rightarrow> OnlineState" where
  "GetCurrentStateByHeight blockHeight w =
     (case ow_response w blockHeight of None \<Rightarrow> GoOnline | Some rn \<Rightarrow> GetResponseState rn)"

definition GetCurrentHeight :: "OnlineWizard \<Rightarrow> u64" where
  "GetCurrentHeight w = ow_blockHeight w"

definition GetMasterByBlockHeight :: "u64 \<Rightarrow> OnlineWizard \<Rightarrow> Account outcome" where
  "GetMasterByBlockHeight blockHeight w =
     (case ow_response w blockHeight of None \<Rightarrow> Inl NilDereference | Some rn \<Rightarrow> Inr (rn_master rn))"

definition GetResponseNodesStateByBlockHeight :: "u64 \<Rightarrow> OnlineWizard \<Rightarrow> OnlineState" where
  "GetResponseNodesStateByBlockHeight blockHeight w =
     (case ow_response w blockHeight of None \<Rightarrow> GoOnline | Some rn \<Rightarrow> rn_state rn)"

definition DeleteOnlineResponse :: "u64 \<Rightarrow> OnlineWizard \<Rightarrow> OnlineWizard" where
  "DeleteOnlineResponse blockHeight w = w\<lparr>ow_response := (ow_response w)(blockHeight := None)\<rparr>"

section \<open>Counting responses\<close>

definition response_inv :: "ResponseNodes \<Rightarrow> bool" where
  "response_inv rn \<longleftrightarrow>
     dom (rn_node rn) = acc_Address ` set (rn_nodes rn) \<and> distinct (map acc_Address (rn_nodes rn)) \<and>
     (rn_state rn = Online \<longrightarrow> rn_walterLevel rn \<le> int (length (rn_nodes rn)))"

lemma response_inv_New [simp]: "response_inv (NewResponseNodes l m)"
  by (simp add: response_inv_def NewResponseNodes_def)

lemma response_inv_node:
  "response_inv rn \<Longrightarrow> rn_node rn a = None \<longleftrightarrow> a \<notin> acc_Address ` set (rn_nodes rn)"
  by (auto simp: response_inv_def)

lemma AddResponse_nodes:
  assumes "response_inv rn"
  shows "rn_nodes (snd (AddResponseNodes a rn)) =
    (if acc_Address a \<in> acc_Address ` set (rn_nodes rn) then rn_nodes rn else rn_nodes rn @ [a])"
  using response_inv_node [OF assms, of "acc_Address a"]
  by (auto simp: AddResponseNodes_def Let_def split: option.splits)

lemma AddResponse_frame [simp]:
  "rn_walterLevel (snd (AddResponseNodes a rn)) = rn_walterLevel rn"
  "rn_master (snd (AddResponseNodes a rn)) = rn_master rn"
  "rn_viewNum (snd (AddResponseNodes a rn)) = rn_viewNum rn"
  by (simp_all add: AddResponseNodes_def Let_def split: option.splits)

lemma AddResponse_result:
  "fst (AddResponseNodes a rn) =
     (rn_nodes (snd (AddResponseNodes a rn)), rn_state (snd (AddResponseNodes a rn)))"
  by (simp add: AddResponseNodes_def Let_def)

lemma response_inv_Add:
  assumes "response_inv rn"
  shows "response_inv (snd (AddResponseNodes a rn))"
  using assms response_inv_node [OF assms, of "acc_Address a"]
  by (auto simp: AddResponseNodes_def response_inv_def Let_def split: option.splits)

lemma AddResponse_state:
  "rn_state (snd (AddResponseNodes a rn)) =
     (if rn_walterLevel rn \<le> int (length (rn_nodes (snd (AddResponseNodes a rn)))) then Online
      else rn_state rn)"
  by (simp add: AddResponseNodes_def Let_def split: option.splits)

interpretation responses: vote_counter
  response_inv "\<lambda>rn. acc_Address ` set (rn_nodes rn)" "\<lambda>rn. length (rn_nodes rn)" acc_Address
  "\<lambda>a rn. snd (AddResponseNodes a rn)"
proof unfold_locales
  fix rn :: ResponseNodes and a :: Account
  assume inv: "response_inv rn"
  show "response_inv (snd (AddResponseNodes a rn))" using inv by (rule response_inv_Add)
  show "acc_Address ` set (rn_nodes (snd (AddResponseNodes a rn))) =
      insert (acc_Address a) (acc_Address ` set (rn_nodes rn))"
    by (auto simp: AddResponse_nodes [OF inv])
  show "finite (acc_Address ` set (rn_nodes rn))" by simp
  show "length (rn_nodes rn) = card (acc_Address ` set (rn_nodes rn))"
    using inv distinct_card [of "map acc_Address (rn_nodes rn)"] by (simp add: response_inv_def)
qed

lemma addNodes_fold: "snd (addNodes as out rn) = fold (\<lambda>a rn. snd (AddResponseNodes a rn)) as rn"
  by (induction as arbitrary: out rn) (simp_all add: Let_def split_beta)

lemma addNodes_frame [simp]:
  "rn_walterLevel (snd (addNodes as out rn)) = rn_walterLevel rn"
  "rn_master (snd (addNodes as out rn)) = rn_master rn"
  "rn_viewNum (snd (addNodes as out rn)) = rn_viewNum rn"
  by (induction as arbitrary: out rn) (simp_all add: Let_def split_beta)

lemma addNodes_inv: "response_inv rn \<Longrightarrow> response_inv (snd (addNodes as out rn))"
  unfolding addNodes_fold by (rule responses.invar_fold)

lemma addNodes_result:
  "as \<noteq> [] \<Longrightarrow> fst (addNodes as out rn) =
     (rn_nodes (snd (addNodes as out rn)), rn_state (snd (addNodes as out rn)))"
proof (induction as arbitrary: out rn)
  case (Cons a as)
  then show ?case
    by (cases as) (simp_all add: Let_def split_beta AddResponse_result)
qed simp

lemma addNodes_count:
  "response_inv rn \<Longrightarrow>
   length (rn_nodes (snd (addNodes as out rn))) = card (acc_Address ` (set (rn_nodes rn) \<union> set as))"
  unfolding addNodes_fold using responses.count_fold [of rn as] by (simp add: image_Un)

text \<open>After at least one node was added, the entry is online exactly when it has enough nodes.\<close>

lemma AddResponse_online_iff:
  assumes "response_inv rn"
  shows "rn_state (snd (AddResponseNodes a rn)) = Online \<longleftrightarrow>
    rn_walterLevel rn \<le> int (length (rn_nodes (snd (AddResponseNodes a rn))))"
proof -
  have "length (rn_nodes rn) \<le> length (rn_nodes (snd (AddResponseNodes a rn)))"
    using assms by (simp add: AddResponse_nodes)
  with assms show ?thesis by (auto simp: AddResponse_state response_inv_def)
qed

lemma addNodes_online_iff:
  assumes "response_inv rn" and "as \<noteq> []"
  shows "rn_state (snd (addNodes as out rn)) = Online \<longleftrightarrow>
    rn_walterLevel rn \<le> int (card (acc_Address ` (set (rn_nodes rn) \<union> set as)))"
proof -
  obtain bs a where as: "as = bs @ [a]"
    using assms(2) by (cases as rule: rev_cases) auto
  let ?rn = "snd (addNodes bs out rn)"
  have last: "snd (addNodes as out rn) = snd (AddResponseNodes a ?rn)"
    by (simp add: as addNodes_fold)
  have "response_inv ?rn" using assms(1) by (rule addNodes_inv)
  then have "rn_state (snd (addNodes as out rn)) = Online \<longleftrightarrow>
      rn_walterLevel ?rn \<le> int (length (rn_nodes (snd (addNodes as out rn))))"
    unfolding last by (rule AddResponse_online_iff)
  then show ?thesis
    using addNodes_count [OF assms(1)] by simp
qed

section \<open>Responses per height\<close>

definition wizard_inv :: "OnlineWizard \<Rightarrow> bool" where
  "wizard_inv w \<longleftrightarrow>
     (\<forall>h rn. ow_response w h = Some rn \<longrightarrow> response_inv rn \<and> h \<in> set (ow_blockHeightList w))"

lemma wizard_inv_New [simp]: "wizard_inv NewOnlineWizard"
  by (simp add: wizard_inv_def NewOnlineWizard_def)

lemma wizard_inv_Delete: "wizard_inv w \<Longrightarrow> wizard_inv (DeleteOnlineResponse h w)"
  by (auto simp: wizard_inv_def DeleteOnlineResponse_def)

text \<open>The entry a call works on, before the nodes are added.\<close>

definition entry_of :: "u64 \<Rightarrow> int \<Rightarrow> Account \<Rightarrow> OnlineWizard \<Rightarrow> ResponseNodes" where
  "entry_of h l m w =
     (case ow_response w h of None \<Rightarrow> NewResponseNodes l m | Some rn \<Rightarrow> rn)"

definition disagrees :: "u64 \<Rightarrow> Account \<Rightarrow> u64 \<Rightarrow> OnlineWizard \<Rightarrow> bool" where
  "disagrees h m v w \<longleftrightarrow>
     (\<exists>rn. ow_response w h = Some rn \<and> h \<le> ow_blockHeight w \<and> m \<noteq> rn_master rn \<and> v \<le> rn_viewNum rn)"

lemma AddOnlineResponse_cases:
  "AddOnlineResponse h as l m v w =
     (if disagrees h m v w then Inl (Panicf ''master not in agreement'')
      else let rn = (entry_of h l m w)
                      \<lparr>rn_master := m, rn_viewNum := max (rn_viewNum (entry_of h l m w)) v\<rparr>;
               (out, rn') = addNodes as ([], NoOnlineState) rn
           in Inr (out, \<lparr>ow_blockHeight = max h (ow_blockHeight w),
                         ow_blockHeightList = ow_blockHeightList w @ (if ow_response w h = None then [h] else []),
                         ow_response = (ow_response w)(h \<mapsto> rn')\<rparr>))"
proof (cases "ow_response w h")
  case None
  then show ?thesis
    by (simp add: AddOnlineResponse_def disagrees_def entry_of_def NewResponseNodes_def Let_def
        max_def split_beta not_less)
next
  case (Some rn)
  then show ?thesis
    by (cases rn; cases w)
      (auto simp: AddOnlineResponse_def disagrees_def entry_of_def Let_def max_def split_beta not_less)
qed

lemma AddOnlineResponse_panics_iff:
  "(\<exists>p. AddOnlineResponse h as l m v w = Inl p) \<longleftrightarrow> disagrees h m v w"
  by (simp add: AddOnlineResponse_cases Let_def split_beta)

lemma response_inv_entry: "wizard_inv w \<Longrightarrow> response_inv (entry_of h l m w)"
  by (auto simp: wizard_inv_def entry_of_def split: option.splits)

lemma response_inv_update:
  "response_inv (rn\<lparr>rn_master := m, rn_viewNum := v\<rparr>) = response_inv rn"
  by (simp add: response_inv_def)

lemma wizard_inv_AddOnlineResponse:
  assumes "wizard_inv w" and "AddOnlineResponse h as l m v w = Inr (out, w')"
  shows "wizard_inv w'"
proof -
  let ?rn = "(entry_of h l m w)\<lparr>rn_master := m, rn_viewNum := max (rn_viewNum (entry_of h l m w)) v\<rparr>"
  have "response_inv (snd (addNodes as ([], NoOnlineState) ?rn))"
    using assms(1) by (intro addNodes_inv) (simp add: response_inv_update response_inv_entry)
  with assms show ?thesis
    by (auto simp: AddOnlineResponse_cases Let_def split_beta wizard_inv_def split: if_splits)
qed

lemma AddOnlineResponse_entry:
  assumes "AddOnlineResponse h as l m v w = Inr (out, w')"
  shows "\<exists>rn. ow_response w' h = Some rn \<and> rn_master rn = m \<and>
    rn_viewNum rn = max (rn_viewNum (entry_of h l m w)) v \<and>
    ow_blockHeight w' = max h (ow_blockHeight w) \<and>
    (\<forall>h'. h' \<noteq> h \<longrightarrow> ow_response w' h' = ow_response w h')"
  using assms by (auto simp: AddOnlineResponse_cases Let_def split_beta split: if_splits)

lemma AddOnlineResponse_result:
  assumes "wizard_inv w" and "as \<noteq> []" and "AddOnlineResponse h as l m v w = Inr ((ns, st), w')"
  shows "st = Online \<longleftrightarrow> rn_walterLevel (entry_of h l m w) \<le>
      int (card (acc_Address ` (set (rn_nodes (entry_of h l m w)) \<union> set as)))"
    and "length ns = card (acc_Address ` (set (rn_nodes (entry_of h l m w)) \<union> set as))"
proof -
  let ?rn = "(entry_of h l m w)\<lparr>rn_master := m, rn_viewNum := max (rn_viewNum (entry_of h l m w)) v\<rparr>"
  have inv: "response_inv ?rn"
    using assms(1) by (simp add: response_inv_update response_inv_entry)
  have out: "(ns, st) = fst (addNodes as ([], NoOnlineState) ?rn)"
    using assms(3) by (auto simp: AddOnlineResponse_cases Let_def split_beta split: if_splits)
  show "st = Online \<longleftrightarrow> rn_walterLevel (entry_of h l m w) \<le>
      int (card (acc_Address ` (set (rn_nodes (entry_of h l m w)) \<union> set as)))"
    using addNodes_online_iff [OF inv assms(2)] out addNodes_result [OF assms(2)] by simp
  show "length ns = card (acc_Address ` (set (rn_nodes (entry_of h l m w)) \<union> set as))"
    using addNodes_count [OF inv] out addNodes_result [OF assms(2)] by simp
qed

end
