(* ===== verification/Event_Loop.thy ===== *)
theory Event_Loop
  imports Environment
begin

text \<open>
  \<^verbatim>\<open>consensus/utils/events.go\<close>: \<open>SendEvent\<close> hands an event to a receiver and goes on with
  the event the receiver returns until it returns nil. The loop has no bound, so it is a
  \<open>partial_function\<close>: \<open>None\<close> is a call that never returns. The interface of a receiver
  (\<open>Receiver\<close> in the code) is the locale \<open>event_receiver\<close>; the consensus cores interpret it.
\<close>

section \<open>Events\<close>

text \<open>
  The values passed to \<open>ProcessEvent\<close>: a pointer to one of the message structs, which may be
  nil, or any other value, such as the error a core returns for an event it does not know.
\<close>

datatype event =
    EvRequest "Request option"
  | EvProposal "ProposalMsg option"
  | EvResponse "Response option"
  | EvCommit "Commit option"
  | EvSyncBlockReq "SyncBlockReq option"
  | EvSyncBlockResp "SyncBlockResp option"
  | EvViewChangeReq "ViewChangeReq option"
  | EvOnlineRequest "OnlineRequest option"
  | EvOnlineResponse "OnlineResponse option"
  | EvError error
  | EvOther string

section \<open>The loop\<close>

partial_function (option) SendEvent ::
  "('s \<Rightarrow> 'e \<Rightarrow> ('s \<times> 'e option) outcome) \<Rightarrow> 's \<Rightarrow> 'e \<Rightarrow> 's outcome option" where
  "SendEvent process s next =
     (case process s next of
        Inl p \<Rightarrow> Some (Inl p)
      | Inr (s', result) \<Rightarrow>
          (case result of
             None \<Rightarrow> Some (Inr s')
           | Some next' \<Rightarrow> SendEvent process s' next'))"

section \<open>Receivers\<close>

text \<open>
  A receiver knows some events and ends the loop on them. It answers every other event with an
  event it does not know either, without changing its state.
\<close>

locale event_receiver =
  fixes process :: "'s \<Rightarrow> 'e \<Rightarrow> ('s \<times> 'e option) outcome"
    and ready :: "'s \<Rightarrow> bool"
    and known :: "'e \<Rightarrow> bool"
  assumes known_ends: "known ev \<Longrightarrow> process s ev = Inr (s', result) \<Longrightarrow> result = None"
    and unknown_answered:
      "ready s \<Longrightarrow> \<not> known ev \<Longrightarrow> \<exists>ev'. process s ev = Inr (s, Some ev') \<and> \<not> known ev'"
begin

lemma SendEvent_known:
  assumes "known ev"
  shows "SendEvent process s ev = Some (case process s ev of Inl p \<Rightarrow> Inl p | Inr (s', _) \<Rightarrow> Inr s')"
proof (cases "process s ev")
  case (Inl p)
  then show ?thesis by (simp add: SendEvent.simps)
next
  case (Inr r)
  obtain s' result where r: "r = (s', result)" by (cases r)
  with Inr assms have "result = None" using known_ends by blast
  with Inr r show ?thesis by (simp add: SendEvent.simps)
qed

lemma SendEvent_returns: "known ev \<Longrightarrow> \<exists>out. SendEvent process s ev = Some out"
  by (simp add: SendEvent_known)

text \<open>On an unknown event the loop never ends: each answer is unknown again.\<close>

lemma SendEvent_unknown:
  assumes "ready s" and "\<not> known ev"
  shows "SendEvent process s ev = None"
proof (rule ccontr)
  assume "SendEvent process s ev \<noteq> None"
  then obtain out where "SendEvent process s ev = Some out" by blast
  then have "process = process \<longrightarrow> ready s \<longrightarrow> \<not> known ev \<longrightarrow> False"
  proof (rule SendEvent.raw_induct [where P = "\<lambda>pr s ev out. pr = process \<longrightarrow> ready s \<longrightarrow> \<not> known ev \<longrightarrow> False", rotated])
    fix send pr st e out
    assume IH: "\<And>pr st e out. send pr st e = Some out \<Longrightarrow>
        pr = process \<longrightarrow> ready st \<longrightarrow> \<not> known e \<longrightarrow> False"
      and eq: "(case pr st e of
          Inl p \<Rightarrow> Some (Inl p)
        | Inr (s', result) \<Rightarrow>
            (case result of None \<Rightarrow> Some (Inr s') | Some next' \<Rightarrow> send pr s' next')) = Some out"
    show "pr = process \<longrightarrow> ready st \<longrightarrow> \<not> known e \<longrightarrow> False"
    proof (intro impI)
      assume "pr = process" "ready st" "\<not> known e"
      moreover then obtain e' where "process st e = Inr (st, Some e')" "\<not> known e'"
        using unknown_answered by blast
      ultimately show False using eq IH by (metis (no_types, lifting) option.case(2) prod.case sum.case(2))
    qed
  qed
  with assms show False by simp
qed

end

end
