(* ===== verification/Fbft_Core.thy ===== *)
theory Fbft_Core
  imports Online_Wizard Event_Loop
begin

text \<open>
  \<^verbatim>\<open>consensus/policy/fbft/fbft-core.go\<close>: the state of a node that runs the FBFT policy and one
  definition per handler. A handler takes the environment, the state and a message and returns the
  new state or the panic it ends in. What leaves the node is appended to \<open>f_effects\<close>.

  Goroutines the code starts are part of the state. \<open>f_masterWait\<close> is the
  \<open>waitMasterTimeout\<close> goroutine that is blocked in its \<open>select\<close> (with the node table it read
  when it started); \<open>f_waiters\<close> are the \<open>waitResponse\<close> goroutines in their loop;
  \<open>f_syncing\<close> is the request \<open>blockSyncHandler\<close> is working on. The unbuffered channels
  \<open>signal\<close> and \<open>result\<close> hold no values: \<open>f_signal\<close> is the number of senders blocked on
  the first, \<open>f_result\<close> the values of the senders blocked on the second, first come first
  served. \<open>blockSyncChan\<close> is a buffered channel, a queue. One handler or one turn of a
  goroutine is one step; the code runs them concurrently.
\<close>

section \<open>State\<close>

record nodesInfo =
  ni_local :: Account
  ni_master :: Account
  ni_peers :: "Account list"

definition newNodesInfo :: "Account \<Rightarrow> Account \<Rightarrow> Account list \<Rightarrow> nodesInfo" where
  "newNodesInfo local master peers = \<lparr>ni_local = local, ni_master = master, ni_peers = peers\<rparr>"

definition clone :: "nodesInfo \<Rightarrow> nodesInfo" where
  "clone self = \<lparr>ni_local = ni_local self, ni_master = ni_master self, ni_peers = ni_peers self\<rparr>"

record coreTimeout =
  ct_timeToCollectResponseMsg :: i64
  ct_timeToWaitCommitMsg :: i64
  ct_timeToChangeViewTime :: i64
  ct_isRunning :: "32 word"

definition blockSyncReqCacheLimit :: nat where "blockSyncReqCacheLimit = 40"

record blockSyncRequest =
  bs_start :: u64
  bs_end :: u64
  bs_target :: Account

record waiter =
  wt_digest :: hash
  wt_content :: content_ref

record 'w fbftCore =
  f_nodes :: "nodesInfo option"
  f_tolerance :: u8
  f_status :: ViewStatus
  f_coreTimer :: coreTimeout
  f_result :: "ConsensusResult list"
  f_signal :: nat
  f_onlineWizard :: OnlineWizard
  f_consensusPlugin :: ConsensusPlugin
  f_viewChange :: ViewChange
  f_enableEmptyBlock :: bool
  f_enableSyncVerifySignature :: bool
  f_enableLocalVerifySignature :: bool
  f_blockSyncChan :: "blockSyncRequest list"
  f_masterWait :: "nodesInfo option"
  f_waiters :: "waiter list"
  f_syncing :: "blockSyncRequest option"
  f_chain :: 'w
  f_effects :: "effect list"

definition NewFBFTCore :: "ConsensusTimeout \<Rightarrow> bool \<Rightarrow> SignatureVerifySwitch \<Rightarrow> 'w \<Rightarrow> 'w fbftCore" where
  "NewFBFTCore timer emptyBlock signatureVerify chain =
     \<lparr>f_nodes = None, f_tolerance = 0, f_status = ViewNormal,
      f_coreTimer =
        \<lparr>ct_timeToCollectResponseMsg = TimeoutToCollectResponseMsg timer,
         ct_timeToWaitCommitMsg = TimeoutToWaitCommitMsg timer,
         ct_timeToChangeViewTime = TimeoutToChangeView timer, ct_isRunning = 0\<rparr>,
      f_result = [], f_signal = 0, f_onlineWizard = NewOnlineWizard,
      f_consensusPlugin = NewConsensusPlugin, f_viewChange = NewViewChange,
      f_enableEmptyBlock = emptyBlock,
      f_enableSyncVerifySignature = SyncVerifySignature signatureVerify,
      f_enableLocalVerifySignature = LocalVerifySignature signatureVerify,
      f_blockSyncChan = [], f_masterWait = None, f_waiters = [], f_syncing = None,
      f_chain = chain, f_effects = []\<rparr>"

section \<open>Helpers of the handlers\<close>

text \<open>\<^verbatim>\<open>instance.nodes.Load().(*nodesInfo)\<close> panics before \<open>Initialization\<close> stored a table.\<close>

definition with_nodes :: "'w fbftCore \<Rightarrow> (nodesInfo \<Rightarrow> 'a outcome) \<Rightarrow> 'a outcome" where
  "with_nodes s k = (case f_nodes s of None \<Rightarrow> Inl InterfaceConversion | Some ns \<Rightarrow> k ns)"

definition emit :: "(effect list \<Rightarrow> effect list) \<Rightarrow> 'w fbftCore \<Rightarrow> 'w fbftCore" where
  "emit g s = s\<lparr>f_effects := g (f_effects s)\<rparr>"

definition notify :: "EventType \<Rightarrow> 'w fbftCore \<Rightarrow> 'w fbftCore" where
  "notify ev = emit (\<lambda>eff. eff @ [Notify ev])"

definition set_master :: "Account \<Rightarrow> nodesInfo \<Rightarrow> 'w fbftCore \<Rightarrow> 'w fbftCore" where
  "set_master master ns s = s\<lparr>f_nodes := Some ((clone ns)\<lparr>ni_master := master\<rparr>)\<rparr>"

definition set_plugin :: "ConsensusPlugin \<Rightarrow> 'w fbftCore \<Rightarrow> 'w fbftCore" where
  "set_plugin p s = s\<lparr>f_consensusPlugin := p\<rparr>"

text \<open>
  \<open>stopChangeViewTimer\<close> hands the stop signal to a \<open>waitMasterTimeout\<close> goroutine blocked in
  its select, which returns and clears \<open>isRunning\<close>; otherwise it does nothing.
\<close>

definition stopChangeViewTimer :: "'w fbftCore \<Rightarrow> 'w fbftCore" where
  "stopChangeViewTimer s =
     (case f_masterWait s of
        None \<Rightarrow> s
      | Some _ \<Rightarrow> s\<lparr>f_masterWait := None, f_coreTimer := (f_coreTimer s)\<lparr>ct_isRunning := 0\<rparr>\<rparr>)"

text \<open>\<open>waitMasterTimeout\<close> up to its \<open>select\<close>, and its branch when the timer fires.\<close>

definition waitMasterTimeout :: "'w fbftCore \<Rightarrow> 'w fbftCore outcome" where
  "waitMasterTimeout s =
     (if ct_isRunning (f_coreTimer s) \<noteq> 0 then Inr s
      else with_nodes s (\<lambda>nodeInfos.
        Inr (s\<lparr>f_coreTimer := (f_coreTimer s)\<lparr>ct_isRunning := 1\<rparr>, f_masterWait := Some nodeInfos\<rparr>)))"

definition waitMasterTimeout_fires :: "'w env \<Rightarrow> 'w fbftCore \<Rightarrow> 'w fbftCore" where
  "waitMasterTimeout_fires e s =
     (case f_masterWait s of
        None \<Rightarrow> s
      | Some nodeInfos \<Rightarrow>
          (let done = s\<lparr>f_masterWait := None, f_coreTimer := (f_coreTimer s)\<lparr>ct_isRunning := 0\<rparr>\<rparr>;
               requestViewNum = GetCurrentViewNum (f_viewChange s) + 1;
               viewChangeReqMsg =
                 \<lparr>msg_Type = ViewChangeMessageReqType,
                  msg_PayLoad = ViewChangeReqMessage (Some
                    \<lparr>vcr_Account = ni_local nodeInfos, vcr_Nodes = [ni_local nodeInfos],
                     vcr_Timestamp = time_Now e, vcr_ViewNum = requestViewNum\<rparr>)\<rparr>
           in case encode e viewChangeReqMsg of
                Inl err \<Rightarrow> done
              | Inr msgRaw \<Rightarrow> emit (BroadcastPeers msgRaw (ni_peers nodeInfos)) done))"

text \<open>\<open>pushOrReplace\<close> on a channel of capacity \<open>cap\<close>, when no one else uses the channel.\<close>

function pushOrReplace :: "nat \<Rightarrow> 'a list \<Rightarrow> 'a \<Rightarrow> 'a list" where
  "pushOrReplace cap chan req =
     (if length chan < cap then chan @ [req]
      else case chan of
             [] \<Rightarrow> []
           | _ # chan' \<Rightarrow> pushOrReplace cap chan' req)"
  by pat_completeness auto
termination
  by (relation "measure (\<lambda>(cap, chan, req). length chan)") auto

declare pushOrReplace.simps [simp del]

definition push_sync :: "blockSyncRequest \<Rightarrow> 'w fbftCore \<Rightarrow> 'w fbftCore" where
  "push_sync req s = s\<lparr>f_blockSyncChan := pushOrReplace blockSyncReqCacheLimit (f_blockSyncChan s) req\<rparr>"

section \<open>Collecting responses\<close>

definition maybeCommit :: "hash \<Rightarrow> 'w fbftCore \<Rightarrow> (bytes list \<times> error option) outcome" where
  "maybeCommit digest s =
     with_nodes s (\<lambda>nodes.
       case GetContentByHash digest (f_consensusPlugin s) of
         Inl err \<Rightarrow> Inr ([], Some (ErrGetContent digest err))
       | Inr content \<Rightarrow>
           (let signatures = Signatures (deref (f_consensusPlugin s) content)
            in if (of_nat (length signatures) :: u8) < of_nat (length (ni_peers nodes)) - f_tolerance s
               then Inr (signatures, Some ErrSignatureNotSatisfy)
               else Inr (signatures, None)))"

text \<open>
  \<open>waitResponse\<close> up to its loop, the turn of the loop when the timer fires, and the turn when a
  signal arrives. A goroutine that sends its result stays blocked until \<open>ToConsensus\<close> receives
  it, and then returns: it leaves \<open>f_waiters\<close> and its value waits in \<open>f_result\<close>.
\<close>

definition waitResponse :: "hash \<Rightarrow> 'w fbftCore \<Rightarrow> 'w fbftCore" where
  "waitResponse digest s =
     (case GetContentByHash digest (f_consensusPlugin s) of
        Inl err \<Rightarrow> s
      | Inr content \<Rightarrow> s\<lparr>f_waiters := f_waiters s @ [\<lparr>wt_digest = digest, wt_content = content\<rparr>]\<rparr>)"

definition reached_consensus :: "waiter \<Rightarrow> 'w fbftCore \<Rightarrow> 'w fbftCore" where
  "reached_consensus wt s =
     (let p = f_consensusPlugin s;
          c = deref p (wt_content wt);
          p1 = store (wt_content wt) (snd (SetState ToConsensus c)) p;
          payload = GetContentPayload c
      in if f_enableEmptyBlock s \<or> b_Transactions payload \<noteq> []
         then set_plugin (SetLatestBlockHeight (b_Height payload) p1) s
         else set_plugin p1 s)"

definition send_result :: "waiter \<Rightarrow> ConsensusResult \<Rightarrow> 'w fbftCore \<Rightarrow> 'w fbftCore" where
  "send_result wt res s = s\<lparr>f_waiters := remove1 wt (f_waiters s), f_result := f_result s @ [res]\<rparr>"

definition waitResponse_timeout :: "waiter \<Rightarrow> 'w fbftCore \<Rightarrow> 'w fbftCore outcome" where
  "waitResponse_timeout wt s =
     bindP (maybeCommit (wt_digest wt) s) (\<lambda>(signatures, err).
       Inr (send_result wt \<lparr>cr_Signatures = signatures, cr_Result = err\<rparr>
              (if err = None then reached_consensus wt s else s)))"

definition waitResponse_signal :: "waiter \<Rightarrow> 'w fbftCore \<Rightarrow> 'w fbftCore outcome" where
  "waitResponse_signal wt s =
     (let s1 = s\<lparr>f_signal := f_signal s - 1\<rparr>
      in bindP (maybeCommit (wt_digest wt) s1) (\<lambda>(signatures, err).
           if err = None
           then Inr (send_result wt \<lparr>cr_Signatures = signatures, cr_Result = err\<rparr> (reached_consensus wt s1))
           else Inr s1))"

section \<open>Requests and proposals\<close>

definition receiveRequest :: "'w env \<Rightarrow> Request \<Rightarrow> 'w fbftCore \<Rightarrow> 'w fbftCore outcome" where
  "receiveRequest e request s =
     with_nodes s (\<lambda>nodes.
       if ni_local nodes \<noteq> ni_master nodes then Inr s
       else
         (let s1 = stopChangeViewTimer s;
              payload = req_Payload request;
              digest = b_MixDigest payload
          in if length (b_SigData payload) = 0 then Inr s1
             else if acc_Address (req_Account request) \<noteq> acc_Address (ni_local nodes) \<and>
                     isl (VerifyPayload e (f_chain s1) payload (f_enableLocalVerifySignature s1))
             then Inr s1
             else
               (let (content, p1) = Add digest payload (f_consensusPlugin s1);
                    s2 = set_plugin p1 s1
                in case SignPayload e (ni_local nodes) digest of
                     Inl err \<Rightarrow> Inr s2
                   | Inr signData \<Rightarrow>
                       (let (added, c1) = AddSignature (ni_local nodes) signData (deref p1 content);
                            p2 = store content c1 p1;
                            s3 = set_plugin p2 s2
                        in if \<not> added then Inr s3
                           else
                             (let (err, c2) = SetState InConsensus c1;
                                  s4 = set_plugin (store content c2 p2) s3
                              in if err \<noteq> None then Inr s4
                                 else
                                   (let proposal =
                                      \<lparr>msg_Type = ProposalMessageType,
                                       msg_PayLoad = ProposalMessage (Some
                                         \<lparr>pro_Account = ni_local nodes,
                                          pro_Timestamp = req_Timestamp request,
                                          pro_Payload = payload, pro_Signature = signData\<rparr>)\<rparr>
                                    in case encode e proposal of
                                         Inl err \<Rightarrow> Inr s4
                                       | Inr rawData \<Rightarrow>
                                           Inr (waitResponse digest
                                             (emit (BroadcastPeersFilter rawData (ni_peers nodes) (ni_local nodes))
                                               s4))))))))"

definition receiveProposal :: "'w env \<Rightarrow> ProposalMsg \<Rightarrow> 'w fbftCore \<Rightarrow> 'w fbftCore outcome" where
  "receiveProposal e proposal s =
     (let payload = pro_Payload proposal;
          proposalBlockHeight = b_Height payload;
          digest = b_MixDigest payload
      in if NewLatestStateRepository e (f_chain s) \<noteq> None
         then Inl (Panicf ''get latest state block chain failed'')
         else
           (let currentBlockHeight = GetCurrentBlockHeight e (f_chain s)
            in if proposalBlockHeight \<le> currentBlockHeight then Inr s
               else with_nodes s (\<lambda>nodes.
                 let s1 = stopChangeViewTimer s
                 in if proposalBlockHeight \<noteq> DefaultBlockHeight \<and> currentBlockHeight < proposalBlockHeight - 1
                    then
                      (let s2 = stopChangeViewTimer s1;
                           s3 = set_master (pro_Account proposal) nodes s2
                       in Inr (push_sync
                            \<lparr>bs_start = currentBlockHeight + 1, bs_end = proposalBlockHeight,
                             bs_target = pro_Account proposal\<rparr> s3))
                    else if ni_master nodes \<noteq> pro_Account proposal then Inr s1
                    else if ni_local nodes = ni_master nodes then Inr s1
                    else
                      bindP (waitMasterTimeout s1) (\<lambda>s2.
                        if \<not> SignatureVerify e (ni_master nodes) (pro_Signature proposal) digest then Inr s2
                        else
                          (let s3 = set_plugin (snd (Add digest payload (f_consensusPlugin s2))) s2
                           in case VerifyPayload e (f_chain s3) payload (f_enableLocalVerifySignature s3) of
                                Inl err \<Rightarrow> Inr s3
                              | Inr receipts \<Rightarrow>
                                  (case SignPayload e (ni_local nodes) digest of
                                     Inl err \<Rightarrow> Inr s3
                                   | Inr signData \<Rightarrow>
                                       (let response =
                                          \<lparr>msg_Type = ResponseMessageType,
                                           msg_PayLoad = ResponseMessage (Some
                                             \<lparr>res_Account = ni_local nodes,
                                              res_Timestamp = pro_Timestamp proposal,
                                              res_Digest = digest, res_Signature = signData,
                                              res_BlockHeight = proposalBlockHeight\<rparr>)\<rparr>
                                        in case encode e response of
                                             Inl err \<Rightarrow> Inr s3
                                           | Inr msgRaw \<Rightarrow>
                                               Inr (emit (Unicast (ni_master nodes) msgRaw) s3))))))))"

section \<open>Responses and commits\<close>

definition receiveResponse :: "'w env \<Rightarrow> Response \<Rightarrow> 'w fbftCore \<Rightarrow> 'w fbftCore outcome" where
  "receiveResponse e response s =
     with_nodes s (\<lambda>nodes.
       let p = f_consensusPlugin s;
           currentBlockHeight = GetLatestBlockHeight p
       in if res_BlockHeight response \<le> currentBlockHeight then Inr s
          else
            (case GetContentByHash (res_Digest response) p of
               Inl err \<Rightarrow> Inr s
             | Inr content \<Rightarrow>
                 if State (deref p content) \<noteq> ToConsensus
                 then
                   if ni_local nodes \<noteq> ni_master nodes then Inr s
                   else if \<not> SignatureVerify e (res_Account response) (res_Signature response) (res_Digest response)
                   then Inr s
                   else
                     (let (added, c1) = AddSignature (res_Account response) (res_Signature response) (deref p content);
                          s1 = set_plugin (store content c1 p) s
                      in Inr (s1\<lparr>f_signal := f_signal s1 + 1\<rparr>))
                 else Inr s))"

definition commitBlock :: "Block \<Rightarrow> 'w fbftCore \<Rightarrow> 'w fbftCore" where
  "commitBlock block s =
     (let s1 = set_plugin (Remove (b_MixDigest block) (f_consensusPlugin s)) s
      in if \<not> f_enableEmptyBlock s \<and> length (b_Transactions block) = 0
         then notify EventBlockWithoutTxs s1
         else emit (\<lambda>eff. eff @ [BlockSwitch block]) s1)"

definition sendCommit :: "'w env \<Rightarrow> Commit \<Rightarrow> Block \<Rightarrow> 'w fbftCore \<Rightarrow> 'w fbftCore outcome" where
  "sendCommit e commit block s =
     with_nodes s (\<lambda>nodes.
       let committed = \<lparr>msg_Type = CommitMessageType, msg_PayLoad = CommitMessage (Some commit)\<rparr>
       in case encode e committed of
            Inl err \<Rightarrow> Inr s
          | Inr msgRaw \<Rightarrow>
              (let s1 = emit (BroadcastPeersFilter msgRaw (ni_peers nodes) (ni_local nodes)) s
               in if \<not> com_Result commit then Inr (notify EventConsensusFailed s1)
                  else Inr (commitBlock block s1)))"

definition tryToCommit :: "'w env \<Rightarrow> Block \<Rightarrow> bool \<Rightarrow> 'w fbftCore \<Rightarrow> 'w fbftCore outcome" where
  "tryToCommit e block result s =
     with_nodes s (\<lambda>nodes.
       sendCommit e
         \<lparr>com_Account = ni_local nodes, com_Timestamp = time_Now e, com_BlockHash = b_HeaderHash block,
          com_Digest = b_MixDigest block, com_Signatures = b_SigData block, com_Result = result\<rparr>
         block s)"

definition receiveCommit :: "'w env \<Rightarrow> Commit \<Rightarrow> 'w fbftCore \<Rightarrow> 'w fbftCore outcome" where
  "receiveCommit e commit s =
     (let s1 = stopChangeViewTimer s
      in if \<not> com_Result commit
         then with_nodes s1 (\<lambda>nodes.
                Inr (notify EventConsensusFailed (set_master (com_Account commit) nodes s1)))
         else
           (case GetContentByHash (com_Digest commit) (f_consensusPlugin s1) of
              Inl err \<Rightarrow> Inr s1
            | Inr content \<Rightarrow>
                (let p = f_consensusPlugin s1;
                     c = deref p content;
                     payload = set_SigData (com_Signatures commit) (GetContentPayload c);
                     payload' = payload\<lparr>b_HeaderHash := HeaderHash e payload\<rparr>;
                     s2 = set_plugin (store content (c\<lparr>c_payload := payload'\<rparr>) p) s1
                 in if b_HeaderHash payload' \<noteq> com_BlockHash commit then Inr s2
                    else Inr (commitBlock payload' s2))))"

section \<open>Block synchronisation\<close>

text \<open>
  The loops \<^verbatim>\<open>for index := start; index <= end; index++\<close> count in 64 bits, so one that runs up
  to the largest number never ends.
\<close>

partial_function (option) sendSyncBlockMsg_loop ::
  "'w env \<Rightarrow> nodesInfo \<Rightarrow> u64 \<Rightarrow> u64 \<Rightarrow> Account \<Rightarrow> effect list \<Rightarrow> effect list option" where
  "sendSyncBlockMsg_loop e nodes index end' target eff =
     (if index \<le> end'
      then
        case encode e
          \<lparr>msg_Type = SyncBlockReqMessageType,
           msg_PayLoad = SyncBlockReqMessage (Some
             \<lparr>sbq_Account = ni_local nodes, sbq_Timestamp = time_Now e, sbq_BlockStart = index,
              sbq_BlockEnd = index\<rparr>)\<rparr> of
          Inl err \<Rightarrow> Some eff
        | Inr msgRaw \<Rightarrow> sendSyncBlockMsg_loop e nodes (index + 1) end' target (Unicast target msgRaw eff)
      else Some eff)"

definition sendSyncBlockMsg :: "'w env \<Rightarrow> u64 \<Rightarrow> u64 \<Rightarrow> Account \<Rightarrow> 'w fbftCore \<Rightarrow> 'w fbftCore outcome" where
  "sendSyncBlockMsg e start end' target s =
     with_nodes s (\<lambda>nodes.
       case sendSyncBlockMsg_loop e nodes start end' target (f_effects s) of
         None \<Rightarrow> Inl NeverReturns
       | Some eff \<Rightarrow> Inr (s\<lparr>f_effects := eff\<rparr>))"

partial_function (option) collectBlocks ::
  "'w env \<Rightarrow> 'w \<Rightarrow> u64 \<Rightarrow> u64 \<Rightarrow> Block list \<Rightarrow> Block list option" where
  "collectBlocks e chain index end' syncBlocks =
     (if index \<le> end'
      then collectBlocks e chain (index + 1) end'
             (case GetBlockByHeight e chain index of
                Inl err \<Rightarrow> syncBlocks
              | Inr block \<Rightarrow> syncBlocks @ [block])
      else Some syncBlocks)"

definition receiveSyncBlockRequest :: "'w env \<Rightarrow> SyncBlockReq \<Rightarrow> 'w fbftCore \<Rightarrow> 'w fbftCore outcome" where
  "receiveSyncBlockRequest e request s =
     (if NewLatestStateRepository e (f_chain s) \<noteq> None
      then Inl (Panicf ''get new latest block state block chain failed.'')
      else
        (case collectBlocks e (f_chain s) (sbq_BlockStart request) (sbq_BlockEnd request) [] of
           None \<Rightarrow> Inl NeverReturns
         | Some syncBlocks \<Rightarrow>
             (case encode e
                \<lparr>msg_Type = SyncBlockRespMessageType,
                 msg_PayLoad = SyncBlockRespMessage (Some \<lparr>sbr_Blocks = syncBlocks\<rparr>)\<rparr> of
                Inl err \<Rightarrow> Inr s
              | Inr msgRaw \<Rightarrow> Inr (emit (Unicast (sbq_Account request) msgRaw) s))))"

fun syncBlocks_loop :: "'w env \<Rightarrow> bool \<Rightarrow> Block list \<Rightarrow> 'w \<Rightarrow> 'w outcome" where
  "syncBlocks_loop e verify [] chain = Inr chain"
| "syncBlocks_loop e verify (block # blocks) chain =
     (if NewLatestStateRepository e chain \<noteq> None
      then Inl (Panicf ''new latest state block chain failed.'')
      else if GetCurrentBlockHeight e chain < b_Height block
      then
        (case VerifyPayloadUseExistedRepository e chain LatestStateRepository block verify of
           Inl err \<Rightarrow> syncBlocks_loop e verify blocks chain
         | Inr receipt \<Rightarrow>
             syncBlocks_loop e verify blocks
               (snd (WriteBlockWithReceipts e chain LatestStateRepository block receipt)))
      else syncBlocks_loop e verify blocks chain)"

definition receiveSyncBlockResponse :: "'w env \<Rightarrow> SyncBlockResp \<Rightarrow> 'w fbftCore \<Rightarrow> 'w fbftCore outcome" where
  "receiveSyncBlockResponse e response s =
     bindP (syncBlocks_loop e (f_enableSyncVerifySignature s) (sbr_Blocks response) (f_chain s))
       (\<lambda>chain. Inr (s\<lparr>f_chain := chain\<rparr>))"

text \<open>
  \<open>doSyncBlock\<close>: one turn of its loop, up to the \<open>select\<close> on the commit event and the
  ticker; and \<open>blockSyncHandler\<close> taking the next request.
\<close>

definition doSyncBlock :: "'w env \<Rightarrow> blockSyncRequest \<Rightarrow> 'w fbftCore \<Rightarrow> 'w fbftCore outcome" where
  "doSyncBlock e syncReq s =
     (case GetCurrentBlock e (f_chain s) of
        None \<Rightarrow> Inr (s\<lparr>f_syncing := None\<rparr>)
      | Some currentBlock \<Rightarrow>
          if b_Height currentBlock \<ge> bs_end syncReq then Inr (s\<lparr>f_syncing := None\<rparr>)
          else
            (let currentHeight = b_Height currentBlock
             in bindP (sendSyncBlockMsg e (currentHeight + 1) (currentHeight + 1) (bs_target syncReq) s)
                  (\<lambda>s1. Inr (s1\<lparr>f_syncing := Some syncReq\<rparr>))))"

definition blockSyncHandler :: "'w env \<Rightarrow> 'w fbftCore \<Rightarrow> 'w fbftCore outcome" where
  "blockSyncHandler e s =
     (case (f_syncing s, f_blockSyncChan s) of
        (None, syncReq # rest) \<Rightarrow> doSyncBlock e syncReq (s\<lparr>f_blockSyncChan := rest\<rparr>)
      | _ \<Rightarrow> Inr s)"

definition doSyncBlock_committed :: "'w env \<Rightarrow> 'w fbftCore \<Rightarrow> 'w fbftCore outcome" where
  "doSyncBlock_committed e s =
     (case f_syncing s of None \<Rightarrow> Inr s | Some syncReq \<Rightarrow> doSyncBlock e syncReq s)"

definition doSyncBlock_timeout :: "'w fbftCore \<Rightarrow> 'w fbftCore" where
  "doSyncBlock_timeout s = s\<lparr>f_syncing := None\<rparr>"

end
