(* ===== verification/Fbft_Dispatch.thy ===== *)
theory Fbft_Dispatch
  imports Fbft_Core
begin

text \<open>
  \<^verbatim>\<open>consensus/policy/fbft/fbft-core.go\<close>, the rest: view changes, the online handshake, the
  dispatch of an event to its handler (\<open>ProcessEvent\<close>) and of an incoming connection to an
  event (\<open>handleClient\<close>).
\<close>

section \<open>View change\<close>

definition sendChangeViewReq :: "'w env \<Rightarrow> Account list \<Rightarrow> u64 \<Rightarrow> 'w fbftCore \<Rightarrow> 'w fbftCore outcome" where
  "sendChangeViewReq e nodes newView s =
     with_nodes s (\<lambda>nodeInfos.
       case encode e
         \<lparr>msg_Type = ViewChangeMessageReqType,
          msg_PayLoad = ViewChangeReqMessage (Some
            \<lparr>vcr_Account = ni_local nodeInfos, vcr_Nodes = nodes, vcr_Timestamp = time_Now e,
             vcr_ViewNum = newView\<rparr>)\<rparr> of
         Inl err \<Rightarrow> Inl (Panicf ''marshal syncBlockResMsg msg failed'')
       | Inr msgRaw \<Rightarrow>
           Inr (emit (BroadcastPeersFilter msgRaw (ni_peers nodeInfos) (ni_local nodeInfos)) s))"

text \<open>
  \<open>changeView\<close> is the branch of \<open>receiveChangeViewReq\<close> for a request set at its end. The
  variable \<open>nodes\<close> the code broadcasts there is declared at the top of the function and assigned
  only after the broadcast.
\<close>

definition changeView ::
  "'w env \<Rightarrow> u64 \<Rightarrow> ViewRequests \<Rightarrow> nodesInfo \<Rightarrow> 'w fbftCore \<Rightarrow> 'w fbftCore outcome" where
  "changeView e viewNum viewRequests nodeInfos s =
     bindP (sendChangeViewReq e [] viewNum s) (\<lambda>s1.
       let s2 = stopChangeViewTimer s1;
           nodes = GetReceivedAccounts viewRequests;
           s3 = s2\<lparr>f_viewChange := SetCurrentViewNum viewNum (f_viewChange s2)\<rparr>
       in bindP (GetAccountWithMinId nodes) (\<lambda>master.
            Inr (notify EventMasterChange (set_master master nodeInfos s3))))"

definition receiveChangeViewReq :: "'w env \<Rightarrow> ViewChangeReq \<Rightarrow> 'w fbftCore \<Rightarrow> 'w fbftCore outcome" where
  "receiveChangeViewReq e viewChangeReq s =
     (if vcr_ViewNum viewChangeReq \<le> GetCurrentViewNum (f_viewChange s) then Inr s
      else with_nodes s (\<lambda>nodeInfos.
        case AddViewRequest (vcr_ViewNum viewChangeReq)
               (of_nat (length (ni_peers nodeInfos)) - f_tolerance s) (f_viewChange s) of
          Inl err \<Rightarrow> Inr s
        | Inr (viewRequests, vc) \<Rightarrow>
            (let state = GetViewRequestState viewRequests;
                 (state', viewRequests') =
                   (if state \<noteq> ViewEnd then receive_all (vcr_Nodes viewChangeReq) state viewRequests
                    else (state, viewRequests));
                 s1 = s\<lparr>f_viewChange := put_request (vcr_ViewNum viewChangeReq) viewRequests' vc\<rparr>
             in if state' = ViewEnd
                then changeView e (vcr_ViewNum viewChangeReq) viewRequests' nodeInfos s1
                else Inr s1)))"

section \<open>Coming online\<close>

definition walterLevel_of :: "nodesInfo \<Rightarrow> u8 \<Rightarrow> int" where
  "walterLevel_of ns tolerance = int (length (ni_peers ns)) - int (unat tolerance)"

definition sendOnlineRequest :: "'w env \<Rightarrow> 'w fbftCore \<Rightarrow> 'w fbftCore outcome" where
  "sendOnlineRequest e s =
     with_nodes s (\<lambda>nodeInfos.
       if NewLatestStateRepository e (f_chain s) \<noteq> None
       then Inl (Panicf ''get latest state block chain failed'')
       else
         (let currentBlockHeight = GetCurrentBlockHeight e (f_chain s)
          in case encode e
               \<lparr>msg_Type = OnlineRequestType,
                msg_PayLoad = OnlineRequestMessage (Some
                  \<lparr>onq_Account = ni_local nodeInfos, onq_Timestamp = time_Now e,
                   onq_BlockHeight = currentBlockHeight\<rparr>)\<rparr> of
               Inl err \<Rightarrow> Inr s
             | Inr msgRaw \<Rightarrow>
                 (let walterLevel = walterLevel_of nodeInfos (f_tolerance s);
                      currentHeight = GetCurrentHeight (f_onlineWizard s);
                      broadcast = emit (BroadcastPeersFilter msgRaw (ni_peers nodeInfos) (ni_local nodeInfos))
                  in if currentBlockHeight = DefaultBlockHeight
                     then
                       bindP (AddOnlineResponse currentBlockHeight [ni_local nodeInfos] walterLevel
                                (ni_master nodeInfos) (GetCurrentViewNum (f_viewChange s)) (f_onlineWizard s))
                         (\<lambda>((_, state), w).
                           let s1 = s\<lparr>f_onlineWizard := w\<rparr>
                           in bindP (if currentHeight > currentBlockHeight then GetCurrentState w else Inr state)
                                (\<lambda>state'.
                                  let s2 = (if Online = state' then notify EventOnline s1 else s1)
                                  in Inr (broadcast s2)))
                     else Inr (broadcast s))))"

definition online_response :: "'w env \<Rightarrow> nodesInfo \<Rightarrow> u64 \<Rightarrow> Account list \<Rightarrow> Account \<Rightarrow> u64 \<Rightarrow> Message" where
  "online_response e ns height nodes master viewNum =
     \<lparr>msg_Type = OnlineResponseType,
      msg_PayLoad = OnlineResponseMessage (Some
        \<lparr>onr_Account = ni_local ns, onr_Timestamp = time_Now e, onr_BlockHeight = height,
         onr_ViewNum = viewNum, onr_Nodes = nodes, onr_Master = master\<rparr>)\<rparr>"

definition receiveOnlineRequest :: "'w env \<Rightarrow> OnlineRequest \<Rightarrow> 'w fbftCore \<Rightarrow> 'w fbftCore outcome" where
  "receiveOnlineRequest e request s =
     with_nodes s (\<lambda>nodeInfos.
       if NewLatestStateRepository e (f_chain s) \<noteq> None
       then Inl (Panicf ''get latest state block chain failed'')
       else
         (let currentBlockHeight = GetCurrentBlockHeight e (f_chain s);
              s1 = (if currentBlockHeight < onq_BlockHeight request \<and>
                       acc_Address (ni_local nodeInfos) \<noteq> acc_Address (onq_Account request)
                    then push_sync
                           \<lparr>bs_start = currentBlockHeight + 1, bs_end = onq_BlockHeight request,
                            bs_target = onq_Account request\<rparr> s
                    else s);
              currentViewNum = GetCurrentViewNum (f_viewChange s1);
              master = ni_master nodeInfos;
              reply = (\<lambda>st. case encode e (online_response e nodeInfos currentBlockHeight
                                            [ni_local nodeInfos] master currentViewNum) of
                         Inl err \<Rightarrow> Inr st
                       | Inr msgRaw \<Rightarrow> Inr (emit (Unicast (onq_Account request) msgRaw) st))
          in if DefaultBlockHeight = currentBlockHeight \<and>
                GetCurrentStateByHeight currentBlockHeight (f_onlineWizard s1) \<noteq> Online
             then
               (let accounts = [ni_local nodeInfos] @
                      (if currentBlockHeight = onq_BlockHeight request then [onq_Account request] else [])
                in bindP (AddOnlineResponse currentBlockHeight accounts
                            (walterLevel_of nodeInfos (f_tolerance s1)) master currentViewNum (f_onlineWizard s1))
                     (\<lambda>((nodes, state), w).
                       let s2 = s1\<lparr>f_onlineWizard := w\<rparr>;
                           s3 = (if Online = state then notify EventOnline s2 else s2)
                       in case encode e (online_response e nodeInfos currentBlockHeight nodes master currentViewNum) of
                            Inl err \<Rightarrow> Inl (Panicf ''marshal online request msg failed.'')
                          | Inr msgRaw \<Rightarrow>
                              Inr (emit (BroadcastPeersFilter msgRaw (ni_peers nodeInfos) (ni_local nodeInfos)) s3)))
             else reply s1))"

text \<open>
  \<open>receiveOnlineResponse\<close> writes the new master into the node table it loaded, which is the
  stored one; the response it broadcasts leaves \<open>ViewNum\<close> at its zero value.
\<close>

definition receiveOnlineResponse :: "'w env \<Rightarrow> OnlineResponse \<Rightarrow> 'w fbftCore \<Rightarrow> 'w fbftCore outcome" where
  "receiveOnlineResponse e response s =
     with_nodes s (\<lambda>nodeInfos.
       if NewLatestStateRepository e (f_chain s) \<noteq> None
       then Inl (Panicf ''get latest state block chain failed'')
       else
         (let currentBlockHeight = GetCurrentBlockHeight e (f_chain s)
          in if onr_BlockHeight response < currentBlockHeight
             then Inr (push_sync
                    \<lparr>bs_start = currentBlockHeight + 1, bs_end = onr_BlockHeight response,
                     bs_target = onr_Account response\<rparr> s)
             else if Online = GetResponseNodesStateByBlockHeight (onr_BlockHeight response) (f_onlineWizard s)
             then Inr s
             else
               bindP (AddOnlineResponse (onr_BlockHeight response) (onr_Nodes response)
                        (walterLevel_of nodeInfos (f_tolerance s)) (onr_Master response)
                        (onr_ViewNum response) (f_onlineWizard s))
                 (\<lambda>((nodes, state), w).
                   let s1 = s\<lparr>f_onlineWizard := w\<rparr>;
                       s2 = (if Online = state
                             then notify EventOnline
                                    (s1\<lparr>f_viewChange := SetCurrentViewNum (onr_ViewNum response) (f_viewChange s1),
                                        f_nodes := Some (nodeInfos\<lparr>ni_master := onr_Master response\<rparr>)\<rparr>)
                             else s1)
                   in if DefaultViewNum = onr_BlockHeight response
                      then (case encode e (online_response e nodeInfos (onr_BlockHeight response) nodes
                                             (onr_Master response) 0) of
                              Inl err \<Rightarrow> Inr s2
                            | Inr msgRaw \<Rightarrow>
                                Inr (emit (BroadcastPeersFilter msgRaw (ni_peers nodeInfos) (ni_local nodeInfos)) s2))
                      else Inr s2)))"

section \<open>Dispatch\<close>

text \<open>
  Every case logs a field of the message before it calls the handler, so a nil pointer panics
  there. The default case returns an error, which \<open>SendEvent\<close> takes as the next event.
\<close>

definition handle :: "'m option \<Rightarrow> ('m \<Rightarrow> 's \<Rightarrow> 's outcome) \<Rightarrow> 's \<Rightarrow> ('s \<times> event option) outcome" where
  "handle m handler s =
     (case m of
        None \<Rightarrow> Inl NilDereference
      | Some et \<Rightarrow> bindP (handler et s) (\<lambda>s'. Inr (s', None)))"

definition ProcessEvent :: "'w env \<Rightarrow> 'w fbftCore \<Rightarrow> event \<Rightarrow> ('w fbftCore \<times> event option) outcome" where
  "ProcessEvent e s ev =
     with_nodes s (\<lambda>nodeInfos.
       case ev of
         EvRequest et \<Rightarrow> handle et (receiveRequest e) s
       | EvProposal et \<Rightarrow> handle et (receiveProposal e) s
       | EvResponse et \<Rightarrow> handle et (receiveResponse e) s
       | EvCommit et \<Rightarrow> handle et (receiveCommit e) s
       | EvSyncBlockReq et \<Rightarrow> handle et (receiveSyncBlockRequest e) s
       | EvSyncBlockResp et \<Rightarrow> handle et (receiveSyncBlockResponse e) s
       | EvViewChangeReq et \<Rightarrow> handle et (receiveChangeViewReq e) s
       | EvOnlineRequest et \<Rightarrow> handle et (receiveOnlineRequest e) s
       | EvOnlineResponse et \<Rightarrow> handle et (receiveOnlineResponse e) s
       | EvError err \<Rightarrow> Inr (s, Some (EvError ErrUnsupportedEvent))
       | EvOther x \<Rightarrow> Inr (s, Some (EvError ErrUnsupportedEvent)))"

fun known_event :: "event \<Rightarrow> bool" where
  "known_event (EvError _) = False"
| "known_event (EvOther _) = False"
| "known_event _ = True"

text \<open>
  \<open>handleClient\<close>: reads one message from the connection and sends the event it carries. The
  payload's type follows from the message type, so the type assertions of the code succeed on what
  \<open>ReadMessage\<close> returns; a payload of another type is the panic of a failed assertion.
\<close>

definition handleClient :: "'w env \<Rightarrow> bytes \<Rightarrow> 'w fbftCore \<Rightarrow> 'w fbftCore outcome option" where
  "handleClient e conn s =
     (case f_nodes s of
        None \<Rightarrow> Some (Inl InterfaceConversion)
      | Some nodeInfos \<Rightarrow>
          (case ReadMessage (json_Unmarshal e) conn of
             Inl err \<Rightarrow> Some (Inr s)
           | Inr (msg, rest) \<Rightarrow>
               (let t = msg_Type msg; send = SendEvent (ProcessEvent e) s
                in if t = RequestMessageType
                   then (case msg_PayLoad msg of
                           RequestMessage m \<Rightarrow> send (EvRequest m) | _ \<Rightarrow> Some (Inl InterfaceConversion))
                   else if t = ProposalMessageType
                   then (case msg_PayLoad msg of
                           ProposalMessage m \<Rightarrow> send (EvProposal m) | _ \<Rightarrow> Some (Inl InterfaceConversion))
                   else if t = ResponseMessageType
                   then (case msg_PayLoad msg of
                           ResponseMessage m \<Rightarrow>
                             (case m of
                                None \<Rightarrow> Some (Inl NilDereference)
                              | Some response \<Rightarrow>
                                  if acc_Id (res_Account response) = acc_Id (ni_master nodeInfos)
                                  then Some (Inr s) else send (EvResponse m))
                         | _ \<Rightarrow> Some (Inl InterfaceConversion))
                   else if t = SyncBlockReqMessageType
                   then (case msg_PayLoad msg of
                           SyncBlockReqMessage m \<Rightarrow> send (EvSyncBlockReq m) | _ \<Rightarrow> Some (Inl InterfaceConversion))
                   else if t = SyncBlockRespMessageType
                   then (case msg_PayLoad msg of
                           SyncBlockRespMessage m \<Rightarrow> send (EvSyncBlockResp m) | _ \<Rightarrow> Some (Inl InterfaceConversion))
                   else if t = CommitMessageType
                   then (case msg_PayLoad msg of
                           CommitMessage m \<Rightarrow> send (EvCommit m) | _ \<Rightarrow> Some (Inl InterfaceConversion))
                   else if t = ViewChangeMessageReqType
                   then (case msg_PayLoad msg of
                           ViewChangeReqMessage m \<Rightarrow> send (EvViewChangeReq m) | _ \<Rightarrow> Some (Inl InterfaceConversion))
                   else if t = OnlineRequestType
                   then (case msg_PayLoad msg of
                           OnlineRequestMessage m \<Rightarrow> send (EvOnlineRequest m) | _ \<Rightarrow> Some (Inl InterfaceConversion))
                   else if t = OnlineResponseType
                   then (case msg_PayLoad msg of
                           OnlineResponseMessage m \<Rightarrow> send (EvOnlineResponse m) | _ \<Rightarrow> Some (Inl InterfaceConversion))
                   else Some (Inr s))))"

section \<open>The core is a receiver of events\<close>

interpretation fbft_receiver: event_receiver
  "ProcessEvent e" "\<lambda>s. f_nodes s \<noteq> None" known_event for e :: "'w env"
proof unfold_locales
  fix ev :: event and s s' :: "'w fbftCore" and result
  show "result = None" if "known_event ev" "ProcessEvent e s ev = Inr (s', result)"
    using that by (cases ev) (auto simp: ProcessEvent_def with_nodes_def handle_def bindP_Inr_iff split: option.splits)
  show "\<exists>ev'. ProcessEvent e s ev = Inr (s, Some ev') \<and> \<not> known_event ev'"
    if "f_nodes s \<noteq> None" "\<not> known_event ev"
    using that by (cases ev) (auto simp: ProcessEvent_def with_nodes_def)
qed

end
