(* ===== verification/Fbft_Policy.thy ===== *)
theory Fbft_Policy
  imports Fbft_Dispatch
begin

text \<open>
  \<^verbatim>\<open>consensus/policy/fbft/fbft.go\<close>: the policy object around the core, and the steps of a running
  node. \<open>ToConsensus\<close> blocks in a \<open>select\<close> between its two halves, so it is three
  definitions: up to the \<open>select\<close>, the branch that receives a result, and the branch of the
  timer. \<open>p_pending\<close> is the proposal of the call that is blocked there. Its block is a pointer,
  and \<open>receiveRequest\<close> puts the same pointer into the cache when the cache has no content of that
  digest yet: \<open>p_shared\<close> is then the content whose payload is the block of the proposal, and the
  block is read and changed there, so that a commit message that reaches the master while the call
  is blocked changes the block under its hands. Every call brings a block object of its own: the
  producer outside builds a new one for each proposal.
\<close>

section \<open>\<open>FBFTPolicy\<close>\<close>

record 'w FBFTPolicy =
  p_local :: Account
  p_name :: string
  p_core :: "'w fbftCore"
  p_timeout :: ConsensusTimeout
  p_isProcessing :: "32 word"
  p_pending :: "Proposal option"
  p_shared :: "content_ref option"

definition FbftPolicyName :: string where "FbftPolicyName = ''fbft''"

definition NewFBFTPolicy :: "ConsensusTimeout \<Rightarrow> bool \<Rightarrow> SignatureVerifySwitch \<Rightarrow> 'w \<Rightarrow> 'w FBFTPolicy" where
  "NewFBFTPolicy timeout emptyBlock signVerify chain =
     \<lparr>p_local = zero_account, p_name = FbftPolicyName,
      p_core = NewFBFTCore timeout emptyBlock signVerify chain, p_timeout = timeout,
      p_isProcessing = 0, p_pending = None, p_shared = None\<rparr>"

text \<open>
  \<^verbatim>\<open>uint8((len(peers) - 1) / 3)\<close>. Go's division truncates towards zero, so for no peers the
  quotient of \<open>-1\<close> is zero, as it is for the truncating subtraction on \<open>nat\<close>.
\<close>

definition tolerance_of :: "nat \<Rightarrow> u8" where
  "tolerance_of n = of_nat ((n - 1) div 3)"

definition Initialization ::
  "Account \<Rightarrow> Account \<Rightarrow> Account list \<Rightarrow> bool \<Rightarrow> 'w FBFTPolicy \<Rightarrow> 'w FBFTPolicy outcome" where
  "Initialization local master peers onLine p =
     (let core = (p_core p)
            \<lparr>f_nodes := Some \<lparr>ni_local = local, ni_master = master, ni_peers = peers\<rparr>,
             f_tolerance := tolerance_of (length peers)\<rparr>
      in bindP (if \<not> onLine \<and> acc_Address local \<noteq> acc_Address master
                then waitMasterTimeout core else Inr core)
           (\<lambda>core'. Inr (p\<lparr>p_local := local, p_core := core'\<rparr>)))"

definition Prepare :: "Account \<Rightarrow> 'w FBFTPolicy \<Rightarrow> 'w FBFTPolicy outcome" where
  "Prepare account p =
     with_nodes (p_core p) (\<lambda>originNodes.
       Inr (p\<lparr>p_local := account,
              p_core := (p_core p)\<lparr>f_nodes := Some ((clone originNodes)\<lparr>ni_local := account\<rparr>)\<rparr>\<rparr>))"

text \<open>The content that was added to the cache from one state of the core to the next, if one was.\<close>

definition added_content :: "'w fbftCore \<Rightarrow> 'w fbftCore \<Rightarrow> content_ref option" where
  "added_content core core' =
     (let n = length (cp_heap (f_consensusPlugin core))
      in if n < length (cp_heap (f_consensusPlugin core')) then Some n else None)"

definition ToConsensus_begin :: "'w env \<Rightarrow> Proposal \<Rightarrow> 'w FBFTPolicy \<Rightarrow> (error option \<times> 'w FBFTPolicy) outcome" where
  "ToConsensus_begin e prop p =
     (if p_isProcessing p \<noteq> 0 then Inr (Some ErrPreviousRound, p)
      else
        (let request = \<lparr>req_Timestamp = prop_Timestamp prop, req_Account = p_local p, req_Payload = prop_Block prop\<rparr>
         in case SendEvent (ProcessEvent e) (p_core p) (EvRequest (Some request)) of
              None \<Rightarrow> Inl NeverReturns
            | Some out \<Rightarrow>
                bindP out (\<lambda>core.
                  Inr (None, p\<lparr>p_isProcessing := 1, p_core := core, p_pending := Some prop,
                               p_shared := added_content (p_core p) core\<rparr>))))"

text \<open>The block of the proposal as it is now, and a change of it.\<close>

definition pending_block :: "Proposal \<Rightarrow> 'w FBFTPolicy \<Rightarrow> Block" where
  "pending_block prop p =
     (case p_shared p of
        None \<Rightarrow> prop_Block prop
      | Some content \<Rightarrow> GetContentPayload (deref (f_consensusPlugin (p_core p)) content))"

definition set_pending_block :: "Block \<Rightarrow> 'w FBFTPolicy \<Rightarrow> 'w fbftCore \<Rightarrow> 'w fbftCore" where
  "set_pending_block block p core =
     (case p_shared p of
        None \<Rightarrow> core
      | Some content \<Rightarrow>
          (let plugin = f_consensusPlugin core
           in set_plugin (store content ((deref plugin content)\<lparr>c_payload := block\<rparr>) plugin) core))"

definition ToConsensus_result :: "'w env \<Rightarrow> Proposal \<Rightarrow> ConsensusResult \<Rightarrow> 'w FBFTPolicy
    \<Rightarrow> (error option \<times> 'w FBFTPolicy) outcome" where
  "ToConsensus_result e prop consensusResult p =
     (let core = (p_core p)\<lparr>f_result := tl (f_result (p_core p))\<rparr>;
          block = pending_block prop p;
          (err, block', result) =
            (case cr_Result consensusResult of
               Some err \<Rightarrow> (Some err, block, False)
             | None \<Rightarrow>
                 (let signed = set_SigData (cr_Signatures consensusResult) block
                  in (None, signed\<lparr>b_HeaderHash := HeaderHash e signed\<rparr>, True)))
      in bindP (tryToCommit e block' result (set_pending_block block' p core)) (\<lambda>core'.
           Inr (err, p\<lparr>p_core := core', p_isProcessing := 0, p_pending := None, p_shared := None\<rparr>)))"

definition ToConsensus_timeout :: "'w env \<Rightarrow> Proposal \<Rightarrow> 'w FBFTPolicy \<Rightarrow> (error option \<times> 'w FBFTPolicy) outcome" where
  "ToConsensus_timeout e prop p =
     bindP (tryToCommit e (pending_block prop p) False (p_core p)) (\<lambda>core.
       Inr (Some ErrConsensusTimeout,
            p\<lparr>p_core := core, p_isProcessing := 0, p_pending := None, p_shared := None\<rparr>))"

definition GetConsensusResult :: "'w FBFTPolicy \<Rightarrow> ConsensusInfo outcome" where
  "GetConsensusResult p =
     with_nodes (p_core p) (\<lambda>nodes.
       Inr \<lparr>ci_View = GetCurrentViewNum (f_viewChange (p_core p)), ci_Participate = ni_peers nodes,
            ci_Master = ni_master nodes\<rparr>)"

definition GoOnlineNow :: "'w env \<Rightarrow> 'w FBFTPolicy \<Rightarrow> 'w FBFTPolicy outcome" where
  "GoOnlineNow e p = bindP (sendOnlineRequest e (p_core p)) (\<lambda>core. Inr (p\<lparr>p_core := core\<rparr>))"

section \<open>A running node\<close>

text \<open>
  One rule per thing that can happen. Of its own (\<open>local_step\<close>) a node is initialised again with
  a new master (it keeps its account and the participants), prepared again, starts a round or asks to
  go online, the blocked call receives a result or times out, a \<open>waitResponse\<close> goroutine times out
  or receives a signal, the master timer fires, the block synchroniser moves, and the rest of the
  system writes to the chain; and a connection delivers bytes. Every step reads the clock anew. A
  step that panics ends the process, so it is no step. A label marks the steps that bring a request
  into the core with the digest of its block. \<open>A\<close> is the set of accounts in whose name
  responses arrive: the core checks a response's signature against the account the response names,
  not that this account is a peer, so with \<open>UNIV\<close> the relation has every step of the code, and a
  smaller set describes a network that lets only those accounts answer.
\<close>

datatype label = Internal | RequestFor hash

inductive local_step :: "'w env \<Rightarrow> 'w FBFTPolicy \<Rightarrow> label \<Rightarrow> 'w FBFTPolicy \<Rightarrow> bool"
  for e where
  initialise:
    "f_nodes (p_core p) = Some ns \<Longrightarrow> Initialization (ni_local ns) master (ni_peers ns) onLine p = Inr p' \<Longrightarrow>
     local_step e p Internal p'"
| prepare:
    "f_nodes (p_core p) = Some ns \<Longrightarrow> Prepare (ni_local ns) p = Inr p' \<Longrightarrow> local_step e p Internal p'"
| begin_round:
    "p_pending p = None \<Longrightarrow> ToConsensus_begin (e\<lparr>time_Now := t\<rparr>) prop p = Inr (None, p') \<Longrightarrow>
     local_step e p (RequestFor (b_MixDigest (prop_Block prop))) p'"
| round_result:
    "p_pending p = Some prop \<Longrightarrow> f_result (p_core p) = res # rest \<Longrightarrow>
     ToConsensus_result (e\<lparr>time_Now := t\<rparr>) prop res p = Inr (err, p') \<Longrightarrow>
     local_step e p Internal p'"
| round_timeout:
    "p_pending p = Some prop \<Longrightarrow> ToConsensus_timeout (e\<lparr>time_Now := t\<rparr>) prop p = Inr (err, p') \<Longrightarrow>
     local_step e p Internal p'"
| go_online:
    "GoOnlineNow (e\<lparr>time_Now := t\<rparr>) p = Inr p' \<Longrightarrow> local_step e p Internal p'"
| responses_timeout:
    "wt \<in> set (f_waiters (p_core p)) \<Longrightarrow> waitResponse_timeout wt (p_core p) = Inr c \<Longrightarrow>
     local_step e p Internal (p\<lparr>p_core := c\<rparr>)"
| responses_signal:
    "wt \<in> set (f_waiters (p_core p)) \<Longrightarrow> 0 < f_signal (p_core p) \<Longrightarrow>
     waitResponse_signal wt (p_core p) = Inr c \<Longrightarrow> local_step e p Internal (p\<lparr>p_core := c\<rparr>)"
| master_timeout:
    "local_step e p Internal (p\<lparr>p_core := waitMasterTimeout_fires (e\<lparr>time_Now := t\<rparr>) (p_core p)\<rparr>)"
| sync_next:
    "blockSyncHandler (e\<lparr>time_Now := t\<rparr>) (p_core p) = Inr c \<Longrightarrow> local_step e p Internal (p\<lparr>p_core := c\<rparr>)"
| sync_committed:
    "doSyncBlock_committed (e\<lparr>time_Now := t\<rparr>) (p_core p) = Inr c \<Longrightarrow> local_step e p Internal (p\<lparr>p_core := c\<rparr>)"
| sync_timeout:
    "local_step e p Internal (p\<lparr>p_core := doSyncBlock_timeout (p_core p)\<rparr>)"
| chain_moves:
    "local_step e p Internal (p\<lparr>p_core := (p_core p)\<lparr>f_chain := w\<rparr>\<rparr>)"

inductive_cases local_step_InternalE: "local_step e p Internal p'"
inductive_cases local_step_RequestE: "local_step e p (RequestFor d) p'"

inductive fbft_step :: "'w env \<Rightarrow> Account set \<Rightarrow> 'w FBFTPolicy \<Rightarrow> label \<Rightarrow> 'w FBFTPolicy \<Rightarrow> bool"
  for e A where
  deliver:
    "handleClient (e\<lparr>time_Now := t\<rparr>) conn (p_core p) = Some (Inr c) \<Longrightarrow>
     \<forall>msg rest. ReadMessage (json_Unmarshal e) conn = Inr (msg, rest) \<longrightarrow> msg_Type msg \<noteq> RequestMessageType \<Longrightarrow>
     \<forall>msg rest response. ReadMessage (json_Unmarshal e) conn = Inr (msg, rest) \<longrightarrow>
       msg_PayLoad msg = ResponseMessage (Some response) \<longrightarrow> res_Account response \<in> A \<Longrightarrow>
     fbft_step e A p Internal (p\<lparr>p_core := c\<rparr>)"
| deliver_request:
    "handleClient (e\<lparr>time_Now := t\<rparr>) conn (p_core p) = Some (Inr c) \<Longrightarrow>
     ReadMessage (json_Unmarshal e) conn = Inr (msg, rest) \<Longrightarrow> msg_Type msg = RequestMessageType \<Longrightarrow>
     msg_PayLoad msg = RequestMessage (Some request) \<Longrightarrow>
     fbft_step e A p (RequestFor (b_MixDigest (req_Payload request))) (p\<lparr>p_core := c\<rparr>)"
| alone: "local_step e p l p' \<Longrightarrow> fbft_step e A p l p'"

inductive_cases fbft_step_InternalE: "fbft_step e A p Internal p'"
inductive_cases fbft_step_RequestE: "fbft_step e A p (RequestFor d) p'"

text \<open>The states of a node that was created and initialised, and the digests requested on the way.\<close>

inductive fbft_run :: "'w env \<Rightarrow> Account set \<Rightarrow> 'w FBFTPolicy \<Rightarrow> hash set \<Rightarrow> 'w FBFTPolicy \<Rightarrow> bool"
  for e A where
  run_start: "fbft_run e A p {} p"
| run_internal: "fbft_run e A p D q \<Longrightarrow> fbft_step e A q Internal r \<Longrightarrow> fbft_run e A p D r"
| run_request: "fbft_run e A p D q \<Longrightarrow> fbft_step e A q (RequestFor d) r \<Longrightarrow> fbft_run e A p (insert d D) r"

definition fbft_started :: "Account set \<Rightarrow> Account list \<Rightarrow> 'w FBFTPolicy \<Rightarrow> bool" where
  "fbft_started A peers p \<longleftrightarrow>
     (\<exists>timeout emptyBlock signVerify chain local master onLine.
        local \<in> A \<and> Initialization local master peers onLine (NewFBFTPolicy timeout emptyBlock signVerify chain) = Inr p)"

definition fbft_reachable :: "'w env \<Rightarrow> Account set \<Rightarrow> Account list \<Rightarrow> hash set \<Rightarrow> 'w FBFTPolicy \<Rightarrow> bool" where
  "fbft_reachable e A peers D q \<longleftrightarrow> (\<exists>p. fbft_started A peers p \<and> fbft_run e A p D q)"

end
