(* ===== verification/Sample_Network.thy ===== *)
theory Sample_Network
  imports Fbft_Policy
begin

text \<open>
  A small concrete environment and node on which the properties are exercised: accounts whose
  address and id are a byte, signatures that carry the signer's address and the digest, a codec
  that writes one byte, and a chain that is its height.
\<close>

definition sample_node :: "u8 \<Rightarrow> Account" where
  "sample_node k = \<lparr>acc_Address = ucast k, acc_Extension = \<lparr>ext_Id = ucast k, ext_Url = ''node''\<rparr>\<rparr>"

definition sample_block :: "u8 \<Rightarrow> u64 \<Rightarrow> Block" where
  "sample_block d height =
     \<lparr>b_Header =
        \<lparr>h_ChainID = 0, h_PrevBlockHash = 0, h_StateRoot = 0, h_TxRoot = 0, h_ReceiptsRoot = 0,
         h_Height = height, h_Timestamp = 0, h_MixDigest = ucast d, h_SigData = [[0]]\<rparr>,
      b_Transactions = [[1]], b_HeaderHash = 0\<rparr>"

definition sample_sign :: "Account \<Rightarrow> hash \<Rightarrow> error + bytes" where
  "sample_sign a d =
     (if acc_Address a < 256 then Inr [ucast (acc_Address a), ucast d] else Inl (ErrExternal ''no key''))"

text \<open>A signature for another digest recovers an address that no byte is.\<close>

fun sample_verify :: "hash \<Rightarrow> bytes \<Rightarrow> address \<times> error option" where
  "sample_verify d [a, x] = (if x = ucast d then (ucast a, None) else (1000, None))"
| "sample_verify d _ = (1000, Some (ErrExternal ''bad signature''))"

definition sample_env :: "u64 env" where
  "sample_env =
     \<lparr>json_Marshal = \<lambda>p. Inr [0],
      json_Unmarshal = \<lambda>raw blank. Inr blank,
      signature_Sign = sample_sign,
      signature_Verify = sample_verify,
      rlpHash = \<lambda>h. of_nat (Suc (length (h_SigData h))),
      time_Now = 0,
      NewLatestStateRepository = \<lambda>w. None,
      NewRepositoryByBlockHash = \<lambda>w h. None,
      GetCurrentBlockHeight = \<lambda>w. w,
      GetCurrentBlock = \<lambda>w. Some (sample_block 0 w),
      GetBlockByHeight = \<lambda>w h. if h \<le> w then Inr (sample_block 0 h) else Inl (ErrExternal ''no block''),
      worker_VerifyBlock = \<lambda>w r b v. Inr [],
      WriteBlockWithReceipts = \<lambda>w r b rs. (None, b_Height b),
      EventWriteBlockWithReceipts = \<lambda>w r b rs emit. (None, b_Height b)\<rparr>"

lemma sample_env_sel [simp]:
  "json_Marshal sample_env p = Inr [0]"
  "json_Unmarshal sample_env raw blank = Inr blank"
  "signature_Sign sample_env = sample_sign"
  "signature_Verify sample_env = sample_verify"
  "rlpHash sample_env h = of_nat (Suc (length (h_SigData h)))"
  "NewLatestStateRepository sample_env w = None"
  "NewRepositoryByBlockHash sample_env w hh = None"
  "GetCurrentBlockHeight sample_env w = w"
  "GetCurrentBlock sample_env w = Some (sample_block 0 w)"
  "worker_VerifyBlock sample_env w r b v = Inr []"
  "WriteBlockWithReceipts sample_env w r b rs = (None, b_Height b)"
  "EventWriteBlockWithReceipts sample_env w r b rs ev = (None, b_Height b)"
  by (simp_all add: sample_env_def)

lemma sample_signs_correctly [simp]: "signs_correctly sample_env"
proof -
  have "ucast (ucast a :: 8 word) = a" if "a < 256" for a :: "160 word"
    using that by (simp add: word_less_nat_alt word_unat_eq_iff unsigned_ucast_eq unsigned_take_bit_eq take_bit_nat_eq_self)
  then show ?thesis
    by (auto simp: signs_correctly_def sample_sign_def split: if_splits)
qed

definition sample_policy :: "Account \<Rightarrow> Account \<Rightarrow> Account list \<Rightarrow> u64 FBFTPolicy" where
  "sample_policy local master peers =
     (let p = NewFBFTPolicy
            \<lparr>TimeoutToCollectResponseMsg = 1, TimeoutToWaitCommitMsg = 1, TimeoutToChangeView = 1\<rparr>
            False \<lparr>SyncVerifySignature = False, LocalVerifySignature = False\<rparr> 0
      in p\<lparr>p_local := local,
           p_core := (p_core p)\<lparr>f_nodes := Some \<lparr>ni_local = local, ni_master = master, ni_peers = peers\<rparr>,
                                f_tolerance := tolerance_of (length peers)\<rparr>\<rparr>)"

lemma sample_started: "local \<in> A \<Longrightarrow> fbft_started A peers (sample_policy local master peers)"
  unfolding fbft_started_def sample_policy_def
  by (rule exI [of _ "\<lparr>TimeoutToCollectResponseMsg = 1, TimeoutToWaitCommitMsg = 1, TimeoutToChangeView = 1\<rparr>"],
      rule exI [of _ False], rule exI [of _ "\<lparr>SyncVerifySignature = False, LocalVerifySignature = False\<rparr>"],
      rule exI [of _ 0], rule exI [of _ local], rule exI [of _ master], rule exI [of _ True])
    (simp add: Initialization_def Let_def)

lemma sample_reachable: "local \<in> A \<Longrightarrow> fbft_reachable e A peers {} (sample_policy local master peers)"
  using sample_started fbft_run.run_start unfolding fbft_reachable_def by blast

end
