(* ===== verification/Component_Contracts.thy ===== *)
theory Component_Contracts
  imports Sample_Network
begin

text \<open>
  What the shared components promise on their own: the proposal cache, the helpers on accounts and
  view numbers.
\<close>

section \<open>The proposal cache\<close>

text \<open>
  C19: the cache with its pointers implements a map from digests to contents: \<open>Add\<close> and
  \<open>Remove\<close> act on it as their specifications on the map, the pointer \<open>Add\<close> returns points
  to the content cached for the digest, and the invariant is kept.
\<close>

theorem plugin_refines_map:
  assumes "plugin_inv p"
  shows "plugin_inv (snd (Add d b p)) \<and> plugin_inv (Remove d p) \<and>
    view (snd (Add d b p)) = spec_add d b (view p) \<and> view (Remove d p) = spec_remove d (view p) \<and>
    view (snd (Add d b p)) d = Some (deref (snd (Add d b p)) (fst (Add d b p)))"
proof -
  have "view (snd (Add d b p)) d = Some (deref (snd (Add d b p)) (fst (Add d b p)))"
    using fst_Add [OF assms, of d b] by (simp add: view_def)
  then show ?thesis using assms plugin_inv_Add plugin_inv_Remove view_Add view_Remove by simp
qed

theorem plugin_refines_map_witness:
  "view (snd (Add 7 (sample_block 7 20) NewConsensusPlugin)) = spec_add 7 (sample_block 7 20) (view NewConsensusPlugin)"
  using plugin_refines_map [OF plugin_inv_New, of 7 "sample_block 7 20"] by simp

text \<open>
  from height 10 on, \<open>Add\<close> keeps exactly the cached contents that are at most ten blocks
  lower than the added one and never changes them, so a proposal that is added again keeps the
  signatures collected for it.
\<close>

theorem add_keeps_recent:
  assumes "plugin_inv p" and "10 \<le> b_Height b" and "view p d' = Some c"
  shows "(unat (b_Height b) \<le> unat (b_Height (c_payload c)) + 10 \<longrightarrow> view (snd (Add d b p)) d' = Some c) \<and>
    (unat (b_Height (c_payload c)) + 10 < unat (b_Height b) \<longrightarrow> d' \<noteq> d \<longrightarrow> view (snd (Add d b p)) d' = None)"
proof -
  have "unat (b_Height b - maxPayloadCacheNum) = unat (b_Height b) - 10"
    using assms(2) by (simp add: maxPayloadCacheNum_def unat_sub)
  then have old: "b_Height (c_payload c) < b_Height b - maxPayloadCacheNum \<longleftrightarrow>
      unat (b_Height (c_payload c)) + 10 < unat (b_Height b)"
    by (auto simp: word_less_nat_alt)
  show ?thesis
    using plugin_store.add_keeps [OF assms(1,3), of b d] plugin_store.look_add [OF assms(1), of d b] assms(3) old
    by (auto simp: spec_add_def Let_def map_loop_simps not_less)
qed

definition cached_plugin :: ConsensusPlugin where
  "cached_plugin = snd (Add 7 (sample_block 7 5) NewConsensusPlugin)"

lemma cached_plugin_facts:
  "plugin_inv cached_plugin" "view cached_plugin = [7 \<mapsto> newContent 7 (sample_block 7 5)]"
  using plugin_inv_Add [OF plugin_inv_New]
  by (simp_all add: cached_plugin_def) (auto simp: view_def Add_def NewConsensusPlugin_def fun_eq_iff)

theorem add_keeps_recent_witness:
  "view (snd (Add 8 (sample_block 8 12) cached_plugin)) 7 = Some (newContent 7 (sample_block 7 5)) \<and>
   view (snd (Add 8 (sample_block 8 16) cached_plugin)) 7 = None"
  using add_keeps_recent [OF cached_plugin_facts(1), of "sample_block 8 12" 7 "newContent 7 (sample_block 7 5)" 8]
    add_keeps_recent [OF cached_plugin_facts(1), of "sample_block 8 16" 7 "newContent 7 (sample_block 7 5)" 8]
  by (simp add: cached_plugin_facts(2) newContent_def) (simp add: sample_block_def word_le_nat_alt)

text \<open>
  below height 10 the subtraction in \<open>Add\<close> wraps around, and every content of a real height is
  taken for an old one: adding a proposal empties the cache, and a proposal that is added again loses
  the signatures and the state it had.
\<close>

theorem add_low_height_wipes:
  assumes "plugin_inv p" and "b_Height b < 10"
    and low: "\<And>d' c. view p d' = Some c \<Longrightarrow> uint (b_Height (c_payload c)) < 2 ^ 64 - 10"
  shows "view (snd (Add d b p)) = [d \<mapsto> newContent d b]"
proof -
  have "\<not> uint (10 :: u64) \<le> uint (b_Height b)" using assms(2) by (simp add: word_less_def)
  then have "uint (b_Height b - maxPayloadCacheNum) = uint (b_Height b) - 10 + 2 ^ 64"
    using uint_u64_diff [of "b_Height b" maxPayloadCacheNum] unfolding maxPayloadCacheNum_def by auto
  moreover have "0 \<le> uint (b_Height b)" by simp
  ultimately have "2 ^ 64 - 10 \<le> uint (b_Height b - maxPayloadCacheNum)" by linarith
  then have "b_Height (c_payload c) < b_Height b - maxPayloadCacheNum" if "view p d' = Some c" for d' c
    using low [OF that] unfolding word_less_def by linarith
  then have "delete_if (\<lambda>_ c. b_Height (c_payload c) < b_Height b - maxPayloadCacheNum) (view p) = Map.empty"
    by (auto simp: fun_eq_iff map_loop_simps)
  then show ?thesis using view_Add [OF assms(1), of d b] by (simp add: spec_add_def)
qed

theorem add_low_height_wipes_witness:
  "view (snd (Add 8 (sample_block 8 6) cached_plugin)) = [8 \<mapsto> newContent 8 (sample_block 8 6)]"
  by (rule add_low_height_wipes [OF cached_plugin_facts(1)])
    (auto simp: cached_plugin_facts(2) newContent_def sample_block_def word_less_nat_alt split: if_splits)

section \<open>Accounts and view numbers\<close>

text \<open>
  \<open>Abs\<close> is the distance of two numbers while they are less than \<open>2 ^ 63\<close> apart. For two
  numbers exactly \<open>2 ^ 63\<close> apart, and only for those, the result is negative.
\<close>

theorem Abs_distance:
  "(\<bar>uint x - uint y\<bar> < 2 ^ 63 \<longrightarrow> sint (Abs x y) = \<bar>uint x - uint y\<bar>) \<and> (sint (Abs x y) < 0 \<longleftrightarrow> x - y = 2 ^ 63)"
  using Abs_exact [of x y] Abs_opposite [of x y] by blast

theorem Abs_distance_witness: "sint (Abs 3 5) = 2 \<and> sint (Abs 0 (2 ^ 63)) < 0"
  using Abs_distance [of 3 5] Abs_distance [of 0 "2 ^ 63"] by simp

text \<open>
  \<open>AccountFilter\<close> is meant to drop every blacklisted account, but each turn of its loop starts
  again from the full list: the result is the list without the last blacklisted account only, and the
  empty list for an empty blacklist.
\<close>

theorem AccountFilter_honours_last_only:
  "AccountFilter blacklist accounts =
     (if blacklist = [] then [] else filter (\<lambda>a. a \<noteq> last blacklist) accounts)"
  by (rule AccountFilter_last)

text \<open>
  \<open>GetAccountWithMinId\<close> panics on no accounts and otherwise picks a member with the smallest
  id; when ids are unique the order of the list does not matter, so all nodes that saw the same
  requests pick the same master.
\<close>

theorem min_id_master_unique:
  assumes "set as = set bs" and "inj_on acc_Id (set as)"
  shows "GetAccountWithMinId as = GetAccountWithMinId bs \<and>
    (as = [] \<longrightarrow> GetAccountWithMinId as = Inl IndexOutOfRange) \<and>
    (as \<noteq> [] \<longrightarrow> (\<exists>m \<in> set as. GetAccountWithMinId as = Inr m \<and> (\<forall>a \<in> set as. acc_Id m \<le> acc_Id a)))"
proof -
  have "\<exists>m \<in> set as. GetAccountWithMinId as = Inr m \<and> (\<forall>a \<in> set as. acc_Id m \<le> acc_Id a)" if "as \<noteq> []"
    using GetAccountWithMinId_total [OF that] GetAccountWithMinId_min by blast
  then show ?thesis
    using GetAccountWithMinId_order_irrelevant [OF assms] by (auto simp: GetAccountWithMinId_def)
qed

theorem min_id_master_unique_witness:
  "GetAccountWithMinId [sample_node 3, sample_node 2] = GetAccountWithMinId [sample_node 2, sample_node 3, sample_node 2]"
  using min_id_master_unique [of "[sample_node 3, sample_node 2]" "[sample_node 2, sample_node 3, sample_node 2]"]
  by (simp add: insert_commute) (simp add: sample_node_def)

end
