(* ===== verification/Fbft_Invariants.thy ===== *)
theory Fbft_Invariants
  imports Fbft_Policy
begin

text \<open>
  The invariant of a running FBFT node and its preservation by every handler and every step. It
  says that the components keep their own invariants, that every signature a content collected
  verifies for the account it is filed under, that every \<open>waitResponse\<close> goroutine works on a
  digest that was requested, and that every successful result waiting for \<open>ToConsensus\<close> is
  backed by a quorum of verified signatures.
\<close>

section \<open>The environment does not depend on the clock\<close>

lemma time_irrelevant [simp]:
  "SignatureVerify (e\<lparr>time_Now := t\<rparr>) = SignatureVerify e"
  "SignPayload (e\<lparr>time_Now := t\<rparr>) = SignPayload e"
  "signs_correctly (e\<lparr>time_Now := t\<rparr>) = signs_correctly e"
  "HeaderHash (e\<lparr>time_Now := t\<rparr>) = HeaderHash e"
  "VerifyPayload (e\<lparr>time_Now := t\<rparr>) = VerifyPayload e"
  by (simp_all add: fun_eq_iff SignatureVerify_def SignPayload_def signs_correctly_def HeaderHash_def
      VerifyPayload_def VerifyPayloadUseExistedRepository_def cong: sum.case_cong option.case_cong)

section \<open>Certificates\<close>

text \<open>
  The specification of the threshold: what \<open>maybeCommit\<close> compares the number of signatures with
  after \<open>Initialization\<close> stored the tolerance of \<open>n\<close> peers, in eight bits.
\<close>

definition commit_threshold :: "nat \<Rightarrow> u8" where
  "commit_threshold n = of_nat n - tolerance_of n"

text \<open>
  A list of signatures certifies a digest when it holds the signatures of a set of accounts, one
  each, all verified, and passes the comparison with the threshold.
\<close>

definition certificate :: "'w env \<Rightarrow> Account set \<Rightarrow> nat \<Rightarrow> hash \<Rightarrow> bytes list \<Rightarrow> bool" where
  "certificate e A n digest sigs \<longleftrightarrow>
     (\<exists>m. finite (dom m) \<and> dom m \<subseteq> A \<and> set sigs = ran m \<and> length sigs = card (dom m) \<and>
          (\<forall>a s. m a = Some s \<longrightarrow> SignatureVerify e a s digest)) \<and>
     commit_threshold n \<le> of_nat (length sigs)"

section \<open>The plugin part\<close>

definition signed_content :: "'w env \<Rightarrow> Account set \<Rightarrow> Content \<Rightarrow> bool" where
  "signed_content e A c \<longleftrightarrow> (\<forall>a s. c_signMap c a = Some s \<longrightarrow> a \<in> A \<and> SignatureVerify e a s (c_digest c))"

definition plugin_ok :: "'w env \<Rightarrow> Account set \<Rightarrow> ConsensusPlugin \<Rightarrow> bool" where
  "plugin_ok e A p \<longleftrightarrow> plugin_inv p \<and> (\<forall>c \<in> set (cp_heap p). signed_content e A c)"

text \<open>
  What happens to a block that is in the cache: it is given other signatures, and a hash when it has
  none yet; a hash it has stays.
\<close>

definition resigned :: "Block \<Rightarrow> Block \<Rightarrow> bool" where
  "resigned b b' \<longleftrightarrow>
     (\<exists>sigs h. b' = (set_SigData sigs b)\<lparr>b_HeaderHash := h\<rparr> \<and> (b_HeaderHash b \<noteq> 0 \<longrightarrow> h = b_HeaderHash b))"

lemma resigned_refl [simp]: "resigned b b"
  unfolding resigned_def
  by (rule exI [of _ "b_SigData b"], rule exI [of _ "b_HeaderHash b"]) (cases b, simp add: set_SigData_def)

lemma resigned_trans:
  assumes "resigned a b" and "resigned b c"
  shows "resigned a c"
proof -
  obtain sigs h where b: "b = (set_SigData sigs a)\<lparr>b_HeaderHash := h\<rparr>" "b_HeaderHash a \<noteq> 0 \<longrightarrow> h = b_HeaderHash a"
    using assms(1) by (auto simp: resigned_def)
  obtain sigs' h' where c: "c = (set_SigData sigs' b)\<lparr>b_HeaderHash := h'\<rparr>" "b_HeaderHash b \<noteq> 0 \<longrightarrow> h' = b_HeaderHash b"
    using assms(2) by (auto simp: resigned_def)
  from b c have "c = (set_SigData sigs' a)\<lparr>b_HeaderHash := h'\<rparr>" "b_HeaderHash a \<noteq> 0 \<longrightarrow> h' = b_HeaderHash a" by auto
  then show ?thesis unfolding resigned_def by blast
qed

lemma resigned_signed:
  "resigned b ((set_SigData sigs b)\<lparr>b_HeaderHash := HeaderHash e (set_SigData sigs b)\<rparr>)"
  by (auto simp: resigned_def HeaderHash_def)

text \<open>
  A later heap: every old pointer still points to a content of the same digest, whose payload is
  still the same block, perhaps signed anew.
\<close>

definition heap_le :: "ConsensusPlugin \<Rightarrow> ConsensusPlugin \<Rightarrow> bool" where
  "heap_le p p' \<longleftrightarrow> length (cp_heap p) \<le> length (cp_heap p') \<and>
     (\<forall>r < length (cp_heap p). c_digest (deref p' r) = c_digest (deref p r) \<and>
        resigned (c_payload (deref p r)) (c_payload (deref p' r)))"

lemma heap_le_refl [simp]: "heap_le p p"
  by (simp add: heap_le_def)

lemma heap_le_trans: "heap_le p q \<Longrightarrow> heap_le q r \<Longrightarrow> heap_le p r"
  by (auto simp: heap_le_def intro: resigned_trans)

lemma heap_le_Add: "heap_le p (snd (Add d b p))"
  by (auto simp: heap_le_def Add_def Let_def nth_append split: option.splits)

lemma heap_le_Remove: "heap_le p (Remove d p)"
  by (auto simp: heap_le_def Remove_def split: option.splits)

lemma heap_le_store:
  assumes "c_digest c = c_digest (deref p r)" and "resigned (c_payload (deref p r)) (c_payload c)"
  shows "heap_le p (store r c p)"
proof -
  have "resigned (c_payload (deref p r')) (c_payload (deref (store r c p) r'))" if "r' < length (cp_heap p)" for r'
    using that assms(2) by (cases "r' = r") (auto simp: store_def)
  with assms(1) show ?thesis by (simp add: heap_le_def store_digest)
qed

lemma heap_le_SetLatest [simp]: "heap_le p (SetLatestBlockHeight h q) = heap_le p q"
  by (simp add: heap_le_def SetLatestBlockHeight_def)

lemma plugin_ok_inv: "plugin_ok e A p \<Longrightarrow> plugin_inv p"
  by (simp add: plugin_ok_def)

lemma plugin_ok_New [simp]: "plugin_ok e A NewConsensusPlugin"
  by (simp add: plugin_ok_def) (simp add: NewConsensusPlugin_def)

lemma plugin_ok_SetLatest [simp]: "plugin_ok e A (SetLatestBlockHeight h p) = plugin_ok e A p"
  by (simp add: plugin_ok_def) (simp add: SetLatestBlockHeight_def)

lemma plugin_ok_Add: "plugin_ok e A p \<Longrightarrow> plugin_ok e A (snd (Add d b p))"
  by (auto simp: plugin_ok_def plugin_inv_Add)
    (auto simp: Add_def Let_def newContent_def signed_content_def split: option.splits)

lemma plugin_ok_Remove: "plugin_ok e A p \<Longrightarrow> plugin_ok e A (Remove d p)"
  by (auto simp: plugin_ok_def plugin_inv_Remove) (auto simp: Remove_def split: option.splits)

lemma plugin_ok_store:
  assumes "plugin_ok e A p" and "content_inv c" and "signed_content e A c" and "c_digest c = c_digest (deref p r)"
  shows "plugin_ok e A (store r c p)"
proof -
  have "plugin_inv (store r c p)"
    using assms by (intro plugin_inv_store) (auto simp: plugin_ok_def)
  moreover have "signed_content e A c'" if "c' \<in> set (cp_heap (store r c p))" for c'
    using that assms set_update_subset_insert [of "cp_heap p" r c]
    by (auto simp: store_def plugin_ok_def)
  ultimately show ?thesis by (simp add: plugin_ok_def)
qed

lemma plugin_ok_deref:
  "plugin_ok e A p \<Longrightarrow> r < length (cp_heap p) \<Longrightarrow> content_inv (deref p r) \<and> signed_content e A (deref p r)"
  by (auto simp: plugin_ok_def plugin_inv_def)

lemma signed_AddSignature:
  assumes "signed_content e A c" and "a \<in> A" and "SignatureVerify e a s (c_digest c)"
  shows "signed_content e A (snd (AddSignature a s c))"
  using assms by (auto simp: signed_content_def AddSignature_cases)

lemma signed_SetState: "signed_content e A (snd (SetState st c)) = signed_content e A c"
  by (simp add: signed_content_def frame_simps)

lemma signed_payload: "signed_content e A (c\<lparr>c_payload := b\<rparr>) = signed_content e A c"
  by (simp add: signed_content_def)

lemmas content_ok_intros =
  content_inv_AddSignature content_inv_SetState signed_AddSignature

section \<open>The invariant of the core\<close>

definition timer_inv :: "'w fbftCore \<Rightarrow> bool" where
  "timer_inv s \<longleftrightarrow> ct_isRunning (f_coreTimer s) = (if f_masterWait s = None then 0 else 1)"

definition waiters_inv :: "hash set \<Rightarrow> 'w fbftCore \<Rightarrow> bool" where
  "waiters_inv D s \<longleftrightarrow>
     (\<forall>wt \<in> set (f_waiters s). wt_digest wt \<in> D \<and> wt_content wt < length (cp_heap (f_consensusPlugin s)) \<and>
        c_digest (deref (f_consensusPlugin s) (wt_content wt)) = wt_digest wt)"

definition results_inv :: "'w env \<Rightarrow> Account set \<Rightarrow> nat \<Rightarrow> hash set \<Rightarrow> 'w fbftCore \<Rightarrow> bool" where
  "results_inv e A n D s \<longleftrightarrow>
     (\<forall>res \<in> set (f_result s). cr_Result res = None \<longrightarrow> (\<exists>d \<in> D. certificate e A n d (cr_Signatures res)))"

definition core_inv :: "'w env \<Rightarrow> Account set \<Rightarrow> Account list \<Rightarrow> hash set \<Rightarrow> 'w fbftCore \<Rightarrow> bool" where
  "core_inv e A peers D s \<longleftrightarrow>
     (\<exists>ns. f_nodes s = Some ns \<and> ni_peers ns = peers \<and> ni_local ns \<in> A) \<and> f_tolerance s = tolerance_of (length peers) \<and>
     plugin_ok e A (f_consensusPlugin s) \<and> views_inv (f_viewChange s) \<and> wizard_inv (f_onlineWizard s) \<and>
     length (f_blockSyncChan s) \<le> blockSyncReqCacheLimit \<and> timer_inv s \<and>
     waiters_inv D s \<and> results_inv e A (length peers) D s"

named_theorems core_inv_intros

lemma core_inv_mono:
  assumes "core_inv e A peers D s" and "D \<subseteq> D'"
  shows "core_inv e A peers D' s"
  using assms by (fastforce simp: core_inv_def waiters_inv_def results_inv_def)

lemma core_inv_time [simp]: "core_inv (e\<lparr>time_Now := t\<rparr>) A peers D s = core_inv e A peers D s"
  by (simp add: core_inv_def plugin_ok_def signed_content_def results_inv_def certificate_def)

lemma core_inv_nodes: "core_inv e A peers D s \<Longrightarrow> f_nodes s = Some ns \<Longrightarrow> ni_peers ns = peers"
  by (auto simp: core_inv_def)

lemma core_inv_local: "core_inv e A peers D s \<Longrightarrow> f_nodes s = Some ns \<Longrightarrow> ni_local ns \<in> A"
  by (auto simp: core_inv_def)

lemma core_inv_plugin: "core_inv e A peers D s \<Longrightarrow> plugin_ok e A (f_consensusPlugin s)"
  by (simp add: core_inv_def)

lemma core_inv_emit [simp]: "core_inv e A peers D (emit g s) = core_inv e A peers D s"
  by (simp add: core_inv_def emit_def timer_inv_def waiters_inv_def results_inv_def)

lemma core_inv_notify [simp]: "core_inv e A peers D (notify ev s) = core_inv e A peers D s"
  by (simp add: notify_def)

lemma core_inv_effects [simp]: "core_inv e A peers D (s\<lparr>f_effects := x\<rparr>) = core_inv e A peers D s"
  by (simp add: core_inv_def timer_inv_def waiters_inv_def results_inv_def)

lemma core_inv_chain [simp]: "core_inv e A peers D (s\<lparr>f_chain := w\<rparr>) = core_inv e A peers D s"
  by (simp add: core_inv_def timer_inv_def waiters_inv_def results_inv_def)

lemma core_inv_syncing [simp]: "core_inv e A peers D (s\<lparr>f_syncing := x\<rparr>) = core_inv e A peers D s"
  by (simp add: core_inv_def timer_inv_def waiters_inv_def results_inv_def)

lemma core_inv_signal [simp]: "core_inv e A peers D (s\<lparr>f_signal := x\<rparr>) = core_inv e A peers D s"
  by (simp add: core_inv_def timer_inv_def waiters_inv_def results_inv_def)

lemma core_inv_stop [core_inv_intros]:
  "core_inv e A peers D s \<Longrightarrow> core_inv e A peers D (stopChangeViewTimer s)"
  by (auto simp: core_inv_def stopChangeViewTimer_def timer_inv_def waiters_inv_def results_inv_def
      split: option.splits)

lemma core_inv_waitMaster:
  "core_inv e A peers D s \<Longrightarrow> waitMasterTimeout s = Inr s' \<Longrightarrow> core_inv e A peers D s'"
  by (auto simp: waitMasterTimeout_def with_nodes_def core_inv_def timer_inv_def waiters_inv_def
      results_inv_def split: if_splits option.splits)

lemma core_inv_set_master [core_inv_intros]:
  "core_inv e A peers D s \<Longrightarrow> ni_peers ns = peers \<Longrightarrow> ni_local ns \<in> A \<Longrightarrow> core_inv e A peers D (set_master m ns s)"
  by (simp add: core_inv_def set_master_def clone_def timer_inv_def waiters_inv_def results_inv_def)

lemma core_inv_set_plugin [core_inv_intros]:
  assumes "core_inv e A peers D s" and "plugin_ok e A p" and "heap_le (f_consensusPlugin s) p"
  shows "core_inv e A peers D (set_plugin p s)"
  using assms by (auto simp: core_inv_def set_plugin_def timer_inv_def waiters_inv_def results_inv_def heap_le_def)

lemma core_inv_views [core_inv_intros]:
  "core_inv e A peers D s \<Longrightarrow> views_inv vc \<Longrightarrow> core_inv e A peers D (s\<lparr>f_viewChange := vc\<rparr>)"
  by (simp add: core_inv_def timer_inv_def waiters_inv_def results_inv_def)

lemma core_inv_wizard [core_inv_intros]:
  "core_inv e A peers D s \<Longrightarrow> wizard_inv w \<Longrightarrow> core_inv e A peers D (s\<lparr>f_onlineWizard := w\<rparr>)"
  by (simp add: core_inv_def timer_inv_def waiters_inv_def results_inv_def)

section \<open>The synchronisation queue\<close>

lemma pushOrReplace_spec:
  "pushOrReplace cap chan req =
     (if cap = 0 then [] else drop (Suc (length chan) - cap) (chan @ [req]))"
proof (induction cap chan req rule: pushOrReplace.induct)
  case (1 cap chan req)
  show ?case
  proof (cases "length chan < cap")
    case True
    then show ?thesis by (subst pushOrReplace.simps) auto
  next
    case False
    show ?thesis
    proof (cases chan)
      case Nil
      with False show ?thesis by (subst pushOrReplace.simps) simp
    next
      case (Cons x chan')
      with "1.IH" [OF False, of x chan'] False
      show ?thesis by (subst pushOrReplace.simps) (auto simp: Suc_diff_le not_less)
    qed
  qed
qed

lemma core_inv_push [core_inv_intros]:
  assumes "core_inv e A peers D s"
  shows "core_inv e A peers D (push_sync req s)"
  using assms by (simp add: core_inv_def push_sync_def timer_inv_def waiters_inv_def results_inv_def
      pushOrReplace_spec blockSyncReqCacheLimit_def)

section \<open>Handlers of the core\<close>

lemma plugin_ok_sign:
  assumes "plugin_ok e A p" and "r < length (cp_heap p)" and "a \<in> A"
    and "SignatureVerify e a s (c_digest (deref p r))"
  shows "plugin_ok e A (store r (snd (AddSignature a s (deref p r))) p)"
  using assms plugin_ok_deref [OF assms(1,2)]
  by (intro plugin_ok_store content_ok_intros) (auto simp: frame_simps)

lemma plugin_ok_state:
  assumes "plugin_ok e A p" and "r < length (cp_heap p)"
  shows "plugin_ok e A (store r (snd (SetState st (deref p r))) p)"
  using assms plugin_ok_deref [OF assms]
  by (intro plugin_ok_store content_ok_intros) (auto simp: frame_simps signed_SetState)

lemma Add_ref:
  assumes "plugin_ok e A p"
  shows "fst (Add d b p) < length (cp_heap (snd (Add d b p)))"
    and "c_digest (deref (snd (Add d b p)) (fst (Add d b p))) = d"
  using plugin_inv_ref [OF plugin_inv_Add fst_Add] plugin_ok_inv [OF assms] by blast+

lemma Get_ref:
  assumes "plugin_ok e A p" and "GetContentByHash d p = Inr r"
  shows "r < length (cp_heap p)" and "c_digest (deref p r) = d"
  using assms plugin_inv_ref [OF plugin_ok_inv [OF assms(1)], of d r]
  by (auto simp: GetContentByHash_def split: option.splits)

lemma core_inv_waitResponse [core_inv_intros]:
  assumes "core_inv e A peers D s" and "d \<in> D"
  shows "core_inv e A peers D (waitResponse d s)"
proof (cases "GetContentByHash d (f_consensusPlugin s)")
  case (Inl err)
  with assms show ?thesis by (simp add: waitResponse_def)
next
  case (Inr r)
  with assms Get_ref [OF core_inv_plugin [OF assms(1)] Inr] show ?thesis
    by (auto simp: waitResponse_def core_inv_def timer_inv_def waiters_inv_def results_inv_def)
qed

text \<open>The three plugin updates of a request: add the content, sign it, move its state.\<close>

lemma request_plugin:
  assumes ok: "plugin_ok e A p" and sig: "signs_correctly e" "SignPayload e a d = Inr sg" and a: "a \<in> A"
    and add: "Add d b p = (r, p1)" and sign: "AddSignature a sg (deref p1 r) = (added, c1)"
    and state: "SetState st c1 = (err, c2)"
  shows "plugin_ok e A p1" "plugin_ok e A (store r c1 p1)" "plugin_ok e A (store r c2 (store r c1 p1))"
    "heap_le p p1" "heap_le p (store r c1 p1)" "heap_le p (store r c2 (store r c1 p1))"
proof -
  have p1: "p1 = snd (Add d b p)" "r = fst (Add d b p)" using add by simp_all
  show ok1: "plugin_ok e A p1" using plugin_ok_Add [OF ok] by (simp add: p1)
  have r: "r < length (cp_heap p1)" "c_digest (deref p1 r) = d"
    using Add_ref [OF ok] by (simp_all add: p1)
  have c1: "c1 = snd (AddSignature a sg (deref p1 r))" using sign by simp
  show ok2: "plugin_ok e A (store r c1 p1)"
    unfolding c1 using ok1 r a SignPayload_verifies [OF sig] by (intro plugin_ok_sign) auto
  have c2: "c2 = snd (SetState st (deref (store r c1 p1) r))"
    using state r by (simp add: store_def)
  show "plugin_ok e A (store r c2 (store r c1 p1))"
    unfolding c2 using ok2 r by (intro plugin_ok_state) auto
  show le1: "heap_le p p1" using heap_le_Add by (simp add: p1)
  have le2: "heap_le p1 (store r c1 p1)"
    by (rule heap_le_store) (simp_all add: c1 frame_simps)
  have le3: "heap_le (store r c1 p1) (store r c2 (store r c1 p1))"
    unfolding c2 by (rule heap_le_store) (simp_all add: frame_simps)
  show "heap_le p (store r c1 p1)" using le1 le2 by (rule heap_le_trans)
  then show "heap_le p (store r c2 (store r c1 p1))" using le3 by (rule heap_le_trans)
qed

lemma set_plugin_set_plugin [simp]: "set_plugin p (set_plugin q s) = set_plugin p s"
  by (simp add: set_plugin_def)

lemma plugin_of_set_plugin [simp]: "f_consensusPlugin (set_plugin p s) = p"
  by (simp add: set_plugin_def)

lemma receiveRequest_inv:
  assumes inv: "core_inv e A peers D s" and sig: "signs_correctly e"
    and run: "receiveRequest e request s = Inr s'"
  shows "core_inv e A peers (insert (b_MixDigest (req_Payload request)) D) s'"
proof -
  let ?d = "b_MixDigest (req_Payload request)"
  let ?s1 = "stopChangeViewTimer s"
  have invD: "core_inv e A peers (insert ?d D) s" using inv by (rule core_inv_mono) auto
  then have inv1: "core_inv e A peers (insert ?d D) ?s1" by (rule core_inv_stop)
  obtain ns where ns: "f_nodes s = Some ns" using inv by (auto simp: core_inv_def)
  obtain r p1 where add: "Add ?d (req_Payload request) (f_consensusPlugin ?s1) = (r, p1)"
    by fastforce
  have p1: "p1 = snd (Add ?d (req_Payload request) (f_consensusPlugin ?s1))" using add by simp
  have inv2: "core_inv e A peers (insert ?d D) (set_plugin p1 ?s1)"
    unfolding p1 using inv1 plugin_ok_Add [OF core_inv_plugin [OF inv1]] heap_le_Add
    by (intro core_inv_set_plugin)
  show ?thesis
  proof (cases "SignPayload e (ni_local ns) ?d")
    case (Inl err)
    with run ns add inv2 inv1 invD show ?thesis
      by (auto simp: receiveRequest_def with_nodes_def Let_def split: if_splits)
  next
    case (Inr sg)
    obtain added c1 where sign: "AddSignature (ni_local ns) sg (deref p1 r) = (added, c1)" by fastforce
    obtain err c2 where state: "SetState InConsensus c1 = (err, c2)" by fastforce
    note pl = request_plugin [OF core_inv_plugin [OF inv1] sig Inr core_inv_local [OF inv ns] add sign state]
    have inv3: "core_inv e A peers (insert ?d D) (set_plugin (store r c1 p1) ?s1)"
      and inv4: "core_inv e A peers (insert ?d D) (set_plugin (store r c2 (store r c1 p1)) ?s1)"
      using inv1 pl by (auto intro!: core_inv_set_plugin)
    from run ns add Inr sign state inv4 inv3 inv2 inv1 invD show ?thesis
      by (auto simp: receiveRequest_def with_nodes_def Let_def intro!: core_inv_waitResponse
          split: if_splits sum.splits)
  qed
qed

lemma receiveProposal_cases:
  assumes "receiveProposal e proposal s = Inr s'"
  shows "s' = s \<or> (\<exists>ns. f_nodes s = Some ns \<and>
    (s' = stopChangeViewTimer s \<or>
     (\<exists>req. s' = push_sync req (set_master (pro_Account proposal) ns (stopChangeViewTimer (stopChangeViewTimer s)))) \<or>
     (\<exists>s2. waitMasterTimeout (stopChangeViewTimer s) = Inr s2 \<and>
       (s' = s2 \<or> (\<exists>d b g. s' = set_plugin (snd (Add d b (f_consensusPlugin s2))) s2 \<or>
          s' = emit g (set_plugin (snd (Add d b (f_consensusPlugin s2))) s2))))))"
  using assms
  by (simp add: receiveProposal_def with_nodes_def Let_def bindP_Inr_iff split: if_splits option.splits sum.splits) blast+

lemma receiveProposal_inv:
  assumes inv: "core_inv e A peers D s" and run: "receiveProposal e proposal s = Inr s'"
  shows "core_inv e A peers D s'"
proof -
  let ?s1 = "stopChangeViewTimer s"
  have inv1: "core_inv e A peers D ?s1" using inv by (rule core_inv_stop)
  have behind: "core_inv e A peers D (push_sync req (set_master m ns (stopChangeViewTimer ?s1)))"
    if "f_nodes s = Some ns" for req m ns
    using inv core_inv_nodes [OF inv that] core_inv_local [OF inv that] by (intro core_inv_intros)
  have waiting: "core_inv e A peers D s2" if "waitMasterTimeout ?s1 = Inr s2" for s2
    using inv1 that by (rule core_inv_waitMaster)
  have added: "core_inv e A peers D (set_plugin (snd (Add d b (f_consensusPlugin s2))) s2)"
    if "waitMasterTimeout ?s1 = Inr s2" for s2 d b
    using waiting [OF that] plugin_ok_Add [OF core_inv_plugin [OF waiting [OF that]]] heap_le_Add
    by (rule core_inv_set_plugin)
  from receiveProposal_cases [OF run] inv inv1 behind waiting added show ?thesis by auto
qed

lemma receiveResponse_inv:
  assumes inv: "core_inv e A peers D s" and run: "receiveResponse e response s = Inr s'"
    and a: "res_Account response \<in> A"
  shows "core_inv e A peers D s'"
proof -
  let ?p = "f_consensusPlugin s"
  have "core_inv e A peers D (set_plugin (store r c1 ?p) s)"
    if "GetContentByHash (res_Digest response) ?p = Inr r"
      "SignatureVerify e (res_Account response) (res_Signature response) (res_Digest response)"
      "AddSignature (res_Account response) (res_Signature response) (deref ?p r) = (added, c1)" for r added c1
  proof -
    have c1: "c1 = snd (AddSignature (res_Account response) (res_Signature response) (deref ?p r))"
      using that(3) by simp
    show ?thesis
      unfolding c1
      using inv that(1,2) a Get_ref [OF core_inv_plugin [OF inv] that(1)] core_inv_plugin [OF inv]
      by (intro core_inv_set_plugin plugin_ok_sign heap_le_store) (auto simp: frame_simps)
  qed
  with run inv show ?thesis
    by (auto simp: receiveResponse_def with_nodes_def Let_def split: if_splits sum.splits option.splits prod.splits)
qed

lemma commitBlock_inv: "core_inv e A peers D s \<Longrightarrow> core_inv e A peers D (commitBlock b s)"
  by (auto simp: commitBlock_def Let_def
      intro!: core_inv_set_plugin plugin_ok_Remove heap_le_Remove dest: core_inv_plugin)

lemma sendCommit_inv:
  "core_inv e A peers D s \<Longrightarrow> sendCommit e' commit b s = Inr s' \<Longrightarrow> core_inv e A peers D s'"
  by (auto simp: sendCommit_def with_nodes_def Let_def intro!: commitBlock_inv
      split: option.splits sum.splits if_splits)

lemma tryToCommit_inv:
  "core_inv e A peers D s \<Longrightarrow> tryToCommit e' b result s = Inr s' \<Longrightarrow> core_inv e A peers D s'"
  by (auto simp: tryToCommit_def with_nodes_def intro: sendCommit_inv split: option.splits)

lemma plugin_ok_payload:
  assumes "plugin_ok e A p"
  shows "plugin_ok e A (store r ((deref p r)\<lparr>c_payload := b\<rparr>) p)"
proof (cases "r < length (cp_heap p)")
  case True
  with assms plugin_ok_deref [OF assms] show ?thesis
    by (intro plugin_ok_store) (auto simp: content_inv_payload signed_payload)
next
  case False
  with assms show ?thesis by (simp add: store_def list_update_beyond)
qed

lemma core_inv_set_payload:
  assumes "core_inv e A peers D s" and "resigned (c_payload (deref (f_consensusPlugin s) r)) b"
  shows "core_inv e A peers D (set_plugin (store r ((deref (f_consensusPlugin s) r)\<lparr>c_payload := b\<rparr>) (f_consensusPlugin s)) s)"
  using assms plugin_ok_payload [OF core_inv_plugin [OF assms(1)]]
  by (intro core_inv_set_plugin heap_le_store) auto

lemma receiveCommit_inv:
  assumes inv: "core_inv e A peers D s" and run: "receiveCommit e' commit s = Inr s'"
  shows "core_inv e A peers D s'"
proof -
  let ?s1 = "stopChangeViewTimer s"
  let ?p = "f_consensusPlugin ?s1"
  have inv1: "core_inv e A peers D ?s1" using inv by (rule core_inv_stop)
  have stored: "core_inv e A peers D (set_plugin (store r ((deref ?p r)\<lparr>c_payload :=
      (set_SigData sigs (c_payload (deref ?p r)))\<lparr>b_HeaderHash := h\<rparr>\<rparr>) ?p) ?s1)"
    if "HeaderHash e' (set_SigData sigs (c_payload (deref ?p r))) = h" for r sigs h
    using core_inv_set_payload [OF inv1] resigned_signed [of "c_payload (deref ?p r)" e' sigs] that by blast
  from run inv1 show ?thesis
    by (auto simp: receiveCommit_def with_nodes_def Let_def GetContentPayload_def
        intro!: stored commitBlock_inv core_inv_set_master dest: core_inv_nodes core_inv_local
        split: if_splits sum.splits option.splits)
qed

section \<open>Collecting responses\<close>

text \<open>What \<open>maybeCommit\<close> accepts is a certificate for the digest.\<close>

lemma maybeCommit_certificate:
  assumes inv: "core_inv e A peers D s" and run: "maybeCommit d s = Inr (sigs, None)"
  shows "certificate e A (length peers) d sigs"
proof -
  let ?p = "f_consensusPlugin s"
  obtain ns where ns: "f_nodes s = Some ns" "ni_peers ns = peers" "f_tolerance s = tolerance_of (length peers)"
    using inv by (auto simp: core_inv_def)
  with run obtain r where r: "GetContentByHash d ?p = Inr r" "sigs = c_signatures (deref ?p r)"
      and le: "commit_threshold (length peers) \<le> of_nat (length sigs)"
    by (auto simp: maybeCommit_def with_nodes_def Let_def Signatures_def commit_threshold_def not_less
        split: sum.splits if_splits)
  note ok = core_inv_plugin [OF inv]
  have ref: "r < length (cp_heap ?p)" "c_digest (deref ?p r) = d" using Get_ref [OF ok r(1)] .
  show ?thesis
    using plugin_ok_deref [OF ok ref(1)] ref(2) r(2) le
    by (auto simp: certificate_def content_inv_def signed_content_def)
qed

lemma reached_consensus_inv:
  assumes inv: "core_inv e A peers D s" and wt: "wt \<in> set (f_waiters s)"
  shows "core_inv e A peers D (reached_consensus wt s)"
proof -
  let ?p = "f_consensusPlugin s"
  let ?p1 = "store (wt_content wt) (snd (SetState ToConsensus (deref ?p (wt_content wt)))) ?p"
  have "wt_content wt < length (cp_heap ?p)"
    using inv wt by (auto simp: core_inv_def waiters_inv_def)
  then have "plugin_ok e A ?p1"
    using core_inv_plugin [OF inv] by (intro plugin_ok_state)
  moreover have "heap_le ?p ?p1" by (rule heap_le_store) (simp_all add: frame_simps)
  ultimately show ?thesis
    using inv by (auto simp: reached_consensus_def Let_def intro!: core_inv_set_plugin)
qed

lemma waiters_reached [simp]: "f_waiters (reached_consensus wt s) = f_waiters s"
  by (simp add: reached_consensus_def Let_def set_plugin_def)

lemma send_result_inv:
  assumes "core_inv e A peers D s" and "wt \<in> set (f_waiters s)"
    and "cr_Result res = None \<Longrightarrow> certificate e A (length peers) (wt_digest wt) (cr_Signatures res)"
  shows "core_inv e A peers D (send_result wt res s)"
proof -
  have "wt_digest wt \<in> D" using assms(1,2) by (auto simp: core_inv_def waiters_inv_def)
  with assms show ?thesis
    by (auto simp: core_inv_def send_result_def timer_inv_def waiters_inv_def results_inv_def
        dest: notin_set_remove1 set_remove1_subset [THEN subsetD])
qed

lemma waitResponse_timeout_inv:
  assumes inv: "core_inv e A peers D s" and wt: "wt \<in> set (f_waiters s)"
    and run: "waitResponse_timeout wt s = Inr s'"
  shows "core_inv e A peers D s'"
  using run reached_consensus_inv [OF inv wt] inv wt maybeCommit_certificate [OF inv]
  by (auto simp: waitResponse_timeout_def bindP_Inr_iff intro!: send_result_inv split: if_splits)

lemma waitResponse_signal_inv:
  assumes inv: "core_inv e A peers D s" and wt: "wt \<in> set (f_waiters s)"
    and run: "waitResponse_signal wt s = Inr s'"
  shows "core_inv e A peers D s'"
proof -
  let ?s1 = "s\<lparr>f_signal := f_signal s - 1\<rparr>"
  have inv1: "core_inv e A peers D ?s1" and wt1: "wt \<in> set (f_waiters ?s1)" using inv wt by simp_all
  from run reached_consensus_inv [OF inv1 wt1] inv1 wt1 maybeCommit_certificate [OF inv1]
  show ?thesis
    by (auto simp: waitResponse_signal_def Let_def bindP_Inr_iff intro!: send_result_inv split: if_splits)
qed

lemma waitMasterTimeout_fires_inv:
  "core_inv e A peers D s \<Longrightarrow> core_inv e A peers D (waitMasterTimeout_fires e' s)"
  by (auto simp: waitMasterTimeout_fires_def Let_def core_inv_def timer_inv_def waiters_inv_def
      results_inv_def emit_def split: option.splits sum.splits)

section \<open>Synchronisation, view change, online\<close>

lemma sendSyncBlockMsg_inv:
  "core_inv e A peers D s \<Longrightarrow> sendSyncBlockMsg e' a b t s = Inr s' \<Longrightarrow> core_inv e A peers D s'"
  by (auto simp: sendSyncBlockMsg_def with_nodes_def split: option.splits)

lemma doSyncBlock_inv:
  "core_inv e A peers D s \<Longrightarrow> doSyncBlock e' req s = Inr s' \<Longrightarrow> core_inv e A peers D s'"
  by (auto simp: doSyncBlock_def Let_def bindP_Inr_iff intro: sendSyncBlockMsg_inv
      split: option.splits if_splits)

lemma core_inv_shorter_queue:
  "core_inv e A peers D s \<Longrightarrow> f_blockSyncChan s = x # xs \<Longrightarrow> core_inv e A peers D (s\<lparr>f_blockSyncChan := xs\<rparr>)"
  by (simp add: core_inv_def timer_inv_def waiters_inv_def results_inv_def)

lemma blockSyncHandler_inv:
  "core_inv e A peers D s \<Longrightarrow> blockSyncHandler e' s = Inr s' \<Longrightarrow> core_inv e A peers D s'"
  by (auto simp: blockSyncHandler_def intro: doSyncBlock_inv core_inv_shorter_queue
      split: option.splits list.splits)

lemma receiveSyncBlockRequest_inv:
  "core_inv e A peers D s \<Longrightarrow> receiveSyncBlockRequest e' req s = Inr s' \<Longrightarrow> core_inv e A peers D s'"
  by (auto simp: receiveSyncBlockRequest_def split: if_splits option.splits sum.splits)

lemma receiveSyncBlockResponse_inv:
  "core_inv e A peers D s \<Longrightarrow> receiveSyncBlockResponse e' resp s = Inr s' \<Longrightarrow> core_inv e A peers D s'"
  by (auto simp: receiveSyncBlockResponse_def bindP_Inr_iff)

lemma changeView_inv:
  assumes inv: "core_inv e A peers D s" and ns: "f_nodes s = Some ns"
    and run: "changeView e' v vr ns s = Inr s'"
  shows "core_inv e A peers D s'"
proof -
  obtain s1 m where s1: "sendChangeViewReq e' [] v s = Inr s1"
    and s': "s' = notify EventMasterChange (set_master m ns ((stopChangeViewTimer s1)
      \<lparr>f_viewChange := SetCurrentViewNum v (f_viewChange (stopChangeViewTimer s1))\<rparr>))"
    using run by (auto simp: changeView_def Let_def bindP_Inr_iff)
  have "core_inv e A peers D s1"
    using s1 inv by (auto simp: sendChangeViewReq_def with_nodes_def split: option.splits sum.splits)
  then have "core_inv e A peers D (stopChangeViewTimer s1)" by (rule core_inv_stop)
  then show ?thesis
    unfolding s' using core_inv_nodes [OF inv ns] core_inv_local [OF inv ns]
    by (auto intro!: core_inv_set_master core_inv_views) (simp add: core_inv_def)
qed

lemma receiveChangeViewReq_inv:
  assumes inv: "core_inv e A peers D s" and run: "receiveChangeViewReq e' req s = Inr s'"
  shows "core_inv e A peers D s'"
proof (cases "vcr_ViewNum req \<le> GetCurrentViewNum (f_viewChange s)")
  case True
  with run inv show ?thesis by (simp add: receiveChangeViewReq_def)
next
  case False
  obtain ns where ns: "f_nodes s = Some ns" using inv by (auto simp: core_inv_def)
  let ?n = "of_nat (length (ni_peers ns)) - f_tolerance s"
  show ?thesis
  proof (cases "AddViewRequest (vcr_ViewNum req) ?n (f_viewChange s)")
    case (Inl err)
    with False run ns inv show ?thesis by (simp add: receiveChangeViewReq_def with_nodes_def)
  next
    case (Inr r)
    obtain vr vc where r: "r = (vr, vc)" by (cases r)
    have "views_inv (f_viewChange s)" using inv by (simp add: core_inv_def)
    then have vc: "views_inv vc" "requests_inv vr" using views_inv_Add Inr r by blast+
    let ?vr = "if vr_state vr \<noteq> ViewEnd then snd (receive_all (vcr_Nodes req) (vr_state vr) vr) else vr"
    let ?s1 = "s\<lparr>f_viewChange := put_request (vcr_ViewNum req) ?vr vc\<rparr>"
    have "requests_inv ?vr" using vc(2) by (simp add: receive_all_inv)
    then have inv1: "core_inv e A peers D ?s1"
      using inv vc(1) by (intro core_inv_views views_inv_put) auto
    from False run ns Inr r have "s' = ?s1 \<or> changeView e' (vcr_ViewNum req) ?vr ns ?s1 = Inr s'"
      by (auto simp: receiveChangeViewReq_def with_nodes_def GetViewRequestState_def Let_def split_beta split: if_splits)
    then show ?thesis using inv1 ns changeView_inv [OF inv1] by auto
  qed
qed

lemma core_inv_master_in_place:
  "core_inv e A peers D s \<Longrightarrow> ni_peers ns = peers \<Longrightarrow> ni_local ns \<in> A \<Longrightarrow>
   core_inv e A peers D (s\<lparr>f_nodes := Some (ns\<lparr>ni_master := m\<rparr>)\<rparr>)"
  by (simp add: core_inv_def timer_inv_def waiters_inv_def results_inv_def)

lemma core_inv_AddOnlineResponse:
  assumes "core_inv e A peers D s" and "AddOnlineResponse h as l m v (f_onlineWizard s) = Inr (out, w)"
  shows "core_inv e A peers D (s\<lparr>f_onlineWizard := w\<rparr>)"
  using assms by (intro core_inv_wizard) (auto simp: core_inv_def intro: wizard_inv_AddOnlineResponse)

lemma sendOnlineRequest_inv:
  assumes "core_inv e A peers D s" and "sendOnlineRequest e' s = Inr s'"
  shows "core_inv e A peers D s'"
  using assms
  by (auto simp: sendOnlineRequest_def with_nodes_def Let_def bindP_Inr_iff intro: core_inv_AddOnlineResponse
      split: option.splits sum.splits if_splits)

lemma wizard_push_sync [simp]: "f_onlineWizard (push_sync req s) = f_onlineWizard s"
  by (simp add: push_sync_def)

lemma case_sum_Inr_iff:
  "case_sum f g x = Inr y \<longleftrightarrow> (\<exists>a. x = Inl a \<and> f a = Inr y) \<or> (\<exists>b. x = Inr b \<and> g b = Inr y)"
  by (cases x) auto

lemma receiveOnlineRequest_inv:
  assumes inv: "core_inv e A peers D s" and run: "receiveOnlineRequest e' req s = Inr s'"
  shows "core_inv e A peers D s'"
proof -
  obtain ns where ns: "f_nodes s = Some ns" using inv by (auto simp: core_inv_def)
  define h where "h = GetCurrentBlockHeight e' (f_chain s)"
  define s1 where "s1 = (if h < onq_BlockHeight req \<and> acc_Address (ni_local ns) \<noteq> acc_Address (onq_Account req)
    then push_sync \<lparr>bs_start = h + 1, bs_end = onq_BlockHeight req, bs_target = onq_Account req\<rparr> s else s)"
  have inv1: "core_inv e A peers D s1" using inv core_inv_push [OF inv] by (simp add: s1_def)
  have "core_inv e A peers D (s1\<lparr>f_onlineWizard := w\<rparr>)"
    if "AddOnlineResponse h' as l m v (f_onlineWizard s1) = Inr (out, w)" for h' as l m v out w
    using core_inv_AddOnlineResponse [OF inv1 that] .
  with run [unfolded receiveOnlineRequest_def with_nodes_def ns option.case Let_def, folded h_def, folded s1_def]
    inv1 show ?thesis
    by (auto simp: bindP_Inr_iff case_sum_Inr_iff split: if_splits)
qed

lemma receiveOnlineResponse_inv:
  assumes inv: "core_inv e A peers D s" and run: "receiveOnlineResponse e' resp s = Inr s'"
  shows "core_inv e A peers D s'"
proof -
  obtain ns where ns: "f_nodes s = Some ns" "ni_peers ns = peers" "ni_local ns \<in> A"
    using inv by (auto simp: core_inv_def)
  have adopted: "core_inv e A peers D (s\<lparr>f_onlineWizard := w, f_viewChange := SetCurrentViewNum v (f_viewChange s),
      f_nodes := Some (ns\<lparr>ni_master := m\<rparr>)\<rparr>)"
    if "core_inv e A peers D (s\<lparr>f_onlineWizard := w\<rparr>)" for w v m
    using that ns core_inv_views [OF that, of "SetCurrentViewNum v (f_viewChange s)"]
    by (intro core_inv_master_in_place) (auto simp: core_inv_def)
  show ?thesis
  proof (cases "AddOnlineResponse (onr_BlockHeight resp) (onr_Nodes resp) (walterLevel_of ns (f_tolerance s))
      (onr_Master resp) (onr_ViewNum resp) (f_onlineWizard s)")
    case (Inl err)
    with run ns inv core_inv_push [OF inv] show ?thesis
      by (auto simp: receiveOnlineResponse_def with_nodes_def Let_def split: if_splits)
  next
    case (Inr r)
    obtain as st w where r: "r = ((as, st), w)" by (metis surj_pair)
    have inv1: "core_inv e A peers D (s\<lparr>f_onlineWizard := w\<rparr>)"
      using core_inv_AddOnlineResponse [OF inv] Inr r by blast
    from run ns inv core_inv_push [OF inv] Inr r inv1 adopted [OF inv1] show ?thesis
      by (auto simp: receiveOnlineResponse_def with_nodes_def Let_def split: sum.splits if_splits)
  qed
qed

section \<open>Every event and every connection\<close>

lemma ProcessEvent_inv:
  assumes inv: "core_inv e A peers D s" and run: "ProcessEvent e s ev = Inr (s', nxt)"
    and other: "\<And>m. ev \<noteq> EvRequest m" and a: "\<And>m. ev = EvResponse (Some m) \<Longrightarrow> res_Account m \<in> A"
  shows "core_inv e A peers D s'"
  using run other inv a
  by (cases ev)
    (auto simp: ProcessEvent_def with_nodes_def handle_def bindP_Inr_iff
      intro: receiveProposal_inv receiveResponse_inv receiveCommit_inv receiveSyncBlockRequest_inv
        receiveSyncBlockResponse_inv receiveChangeViewReq_inv receiveOnlineRequest_inv
        receiveOnlineResponse_inv
      split: option.splits)

lemma SendEvent_inv:
  assumes inv: "core_inv e A peers D s" and run: "SendEvent (ProcessEvent e) s ev = Some (Inr s')"
    and ev: "known_event ev" "\<And>m. ev \<noteq> EvRequest m" "\<And>m. ev = EvResponse (Some m) \<Longrightarrow> res_Account m \<in> A"
  shows "core_inv e A peers D s'"
  using run ProcessEvent_inv [OF inv _ ev(2,3)]
  unfolding fbft_receiver.SendEvent_known [OF ev(1)]
  by (auto split: sum.splits prod.splits)

lemma SendEvent_request_inv:
  assumes inv: "core_inv e A peers D s" and sig: "signs_correctly e"
    and run: "SendEvent (ProcessEvent e) s (EvRequest (Some request)) = Some (Inr s')"
  shows "core_inv e A peers (insert (b_MixDigest (req_Payload request)) D) s'"
proof -
  have "receiveRequest e request s = Inr s'"
    using run fbft_receiver.SendEvent_known [of "EvRequest (Some request)" e s]
    by (auto simp: ProcessEvent_def with_nodes_def handle_def bindP_Inr_iff
        split: sum.splits prod.splits option.splits)
  then show ?thesis using receiveRequest_inv [OF inv sig] by blast
qed

lemma handleClient_inv:
  assumes inv: "core_inv e A peers D s" and run: "handleClient e conn s = Some (Inr s')"
    and other: "\<forall>msg rest. ReadMessage (json_Unmarshal e) conn = Inr (msg, rest) \<longrightarrow> msg_Type msg \<noteq> RequestMessageType"
    and a: "\<forall>msg rest response. ReadMessage (json_Unmarshal e) conn = Inr (msg, rest) \<longrightarrow>
      msg_PayLoad msg = ResponseMessage (Some response) \<longrightarrow> res_Account response \<in> A"
  shows "core_inv e A peers D s'"
  using run other inv a
  by (auto simp: handleClient_def Let_def intro: SendEvent_inv
      split: option.splits sum.splits prod.splits if_splits payload.splits)

lemma handleClient_request:
  assumes "handleClient e conn s = Some (Inr s')"
    and "ReadMessage (json_Unmarshal e) conn = Inr (msg, rest)" and "msg_Type msg = RequestMessageType"
    and "msg_PayLoad msg = RequestMessage m"
  shows "SendEvent (ProcessEvent e) s (EvRequest m) = Some (Inr s')"
  using assms by (auto simp: handleClient_def Let_def split: option.splits)

section \<open>Every step of a running node\<close>

lemma core_inv_Initialization:
  assumes "Initialization local master peers onLine (NewFBFTPolicy timeout emptyBlock signVerify chain) = Inr p"
    and "local \<in> A"
  shows "core_inv e A peers {} (p_core p)"
proof -
  let ?core = "(NewFBFTCore timeout emptyBlock signVerify chain)
    \<lparr>f_nodes := Some \<lparr>ni_local = local, ni_master = master, ni_peers = peers\<rparr>,
     f_tolerance := tolerance_of (length peers)\<rparr>"
  have "core_inv e A peers {} ?core"
    using assms(2) by (simp add: core_inv_def NewFBFTCore_def timer_inv_def waiters_inv_def results_inv_def)
  with assms show ?thesis
    by (auto simp: Initialization_def NewFBFTPolicy_def Let_def bindP_Inr_iff intro: core_inv_waitMaster
        split: if_splits)
qed

text \<open>Initialised again with another master, or prepared again.\<close>

lemma Initialization_inv:
  assumes "core_inv e A peers D (p_core p)" and "f_nodes (p_core p) = Some ns"
    and "Initialization (ni_local ns) master (ni_peers ns) onLine p = Inr p'"
  shows "core_inv e A peers D (p_core p')"
proof -
  let ?core = "(p_core p)\<lparr>f_nodes := Some \<lparr>ni_local = ni_local ns, ni_master = master, ni_peers = ni_peers ns\<rparr>,
     f_tolerance := tolerance_of (length (ni_peers ns))\<rparr>"
  have "core_inv e A peers D ?core"
    using assms(1,2) by (auto simp: core_inv_def timer_inv_def waiters_inv_def results_inv_def)
  with assms(3) show ?thesis
    by (auto simp: Initialization_def Let_def bindP_Inr_iff intro: core_inv_waitMaster split: if_splits)
qed

lemma Prepare_inv:
  assumes "core_inv e A peers D (p_core p)" and "f_nodes (p_core p) = Some ns" and "Prepare (ni_local ns) p = Inr p'"
  shows "core_inv e A peers D (p_core p')"
  using assms by (auto simp: Prepare_def with_nodes_def clone_def core_inv_def timer_inv_def waiters_inv_def results_inv_def)

lemma core_inv_drop_result:
  "core_inv e A peers D s \<Longrightarrow> core_inv e A peers D (s\<lparr>f_result := tl (f_result s)\<rparr>)"
  by (cases "f_result s") (auto simp: core_inv_def timer_inv_def waiters_inv_def results_inv_def)

lemma ToConsensus_begin_inv:
  assumes inv: "core_inv e A peers D (p_core p)" and sig: "signs_correctly e"
    and run: "ToConsensus_begin (e\<lparr>time_Now := t\<rparr>) prop p = Inr (None, p')"
  shows "core_inv e A peers (insert (b_MixDigest (prop_Block prop)) D) (p_core p')"
proof -
  let ?request = "\<lparr>req_Timestamp = prop_Timestamp prop, req_Account = p_local p, req_Payload = prop_Block prop\<rparr>"
  have "SendEvent (ProcessEvent (e\<lparr>time_Now := t\<rparr>)) (p_core p) (EvRequest (Some ?request)) = Some (Inr (p_core p'))"
    using run by (auto simp: ToConsensus_begin_def Let_def bindP_Inr_iff split: if_splits option.splits)
  then show ?thesis using SendEvent_request_inv [of "e\<lparr>time_Now := t\<rparr>" A peers D "p_core p" ?request] inv sig by simp
qed

text \<open>What \<open>ToConsensus\<close> does with the result it received: \<open>signed_block\<close> is the block it commits.\<close>

definition signed_block :: "'w env \<Rightarrow> Block \<Rightarrow> bytes list \<Rightarrow> Block" where
  "signed_block e b sigs = (set_SigData sigs b)\<lparr>b_HeaderHash := HeaderHash e (set_SigData sigs b)\<rparr>"

lemma ToConsensus_result_commits:
  assumes "ToConsensus_result e prop res p = Inr (err, p')"
  shows "\<exists>b. tryToCommit e b (err = None) (set_pending_block b p ((p_core p)\<lparr>f_result := tl (f_result (p_core p))\<rparr>)) = Inr (p_core p') \<and>
    p_pending p' = None \<and> p_shared p' = None \<and> err = cr_Result res \<and>
    b = (if err = None then signed_block e (pending_block prop p) (cr_Signatures res) else pending_block prop p)"
  using assms by (auto simp: ToConsensus_result_def signed_block_def Let_def bindP_Inr_iff split: option.splits)

lemma set_pending_block_inv:
  assumes inv: "core_inv e A peers D core" and plug: "f_consensusPlugin core = f_consensusPlugin (p_core p)"
    and b: "resigned (pending_block prop p) b"
  shows "core_inv e A peers D (set_pending_block b p core)"
proof (cases "p_shared p")
  case None
  with inv show ?thesis by (simp add: set_pending_block_def)
next
  case (Some r)
  with b plug have "resigned (c_payload (deref (f_consensusPlugin core) r)) b"
    by (simp add: pending_block_def GetContentPayload_def)
  from core_inv_set_payload [OF inv this] Some show ?thesis by (simp add: set_pending_block_def Let_def)
qed

lemma ToConsensus_result_inv:
  assumes inv: "core_inv e A peers D (p_core p)" and run: "ToConsensus_result e' prop res p = Inr (err, p')"
  shows "core_inv e A peers D (p_core p')"
proof -
  let ?core = "(p_core p)\<lparr>f_result := tl (f_result (p_core p))\<rparr>"
  obtain b where b: "tryToCommit e' b (err = None) (set_pending_block b p ?core) = Inr (p_core p')"
      "b = (if err = None then signed_block e' (pending_block prop p) (cr_Signatures res) else pending_block prop p)"
    using ToConsensus_result_commits [OF run] by blast
  then have "resigned (pending_block prop p) b" by (simp add: signed_block_def resigned_signed)
  from set_pending_block_inv [OF core_inv_drop_result [OF inv] _ this] b(1) show ?thesis
    by (auto intro: tryToCommit_inv)
qed

lemma ToConsensus_timeout_inv:
  assumes inv: "core_inv e A peers D (p_core p)" and run: "ToConsensus_timeout e' prop p = Inr (err, p')"
  shows "core_inv e A peers D (p_core p')"
  using run tryToCommit_inv [OF inv] by (auto simp: ToConsensus_timeout_def bindP_Inr_iff)

lemma GoOnlineNow_inv:
  assumes inv: "core_inv e A peers D (p_core p)" and run: "GoOnlineNow e' p = Inr p'"
  shows "core_inv e A peers D (p_core p')"
  using run sendOnlineRequest_inv [OF inv] by (auto simp: GoOnlineNow_def bindP_Inr_iff)

lemma doSyncBlock_committed_inv:
  "core_inv e A peers D s \<Longrightarrow> doSyncBlock_committed e' s = Inr s' \<Longrightarrow> core_inv e A peers D s'"
  by (auto simp: doSyncBlock_committed_def intro: doSyncBlock_inv split: option.splits)

lemma doSyncBlock_timeout_inv:
  "core_inv e A peers D s \<Longrightarrow> core_inv e A peers D (doSyncBlock_timeout s)"
  by (auto simp: doSyncBlock_timeout_def)

lemma local_step_Internal_inv:
  assumes step: "local_step e p Internal p'" and inv: "core_inv e A peers D (p_core p)"
  shows "core_inv e A peers D (p_core p')"
  using step inv
  by (elim local_step_InternalE) (auto intro: Initialization_inv Prepare_inv ToConsensus_result_inv ToConsensus_timeout_inv GoOnlineNow_inv
      waitResponse_timeout_inv waitResponse_signal_inv waitMasterTimeout_fires_inv blockSyncHandler_inv
      doSyncBlock_committed_inv doSyncBlock_timeout_inv)

lemma fbft_step_Internal_inv:
  assumes step: "fbft_step e A p Internal p'" and inv: "core_inv e A peers D (p_core p)"
  shows "core_inv e A peers D (p_core p')"
  using step
proof (elim fbft_step_InternalE, goal_cases)
  case (1 t conn c)
  then show ?thesis using handleClient_inv [of "e\<lparr>time_Now := t\<rparr>" A peers D "p_core p" conn c] inv by simp
qed (use inv in \<open>auto intro: local_step_Internal_inv\<close>)

lemma fbft_step_Request_inv:
  assumes step: "fbft_step e A p (RequestFor d) p'" and inv: "core_inv e A peers D (p_core p)" "signs_correctly e"
  shows "core_inv e A peers (insert d D) (p_core p')"
  using step
proof (elim fbft_step_RequestE, goal_cases)
  case (1 t conn c msg rest request)
  then show ?thesis
    using handleClient_request [of "e\<lparr>time_Now := t\<rparr>" conn "p_core p" c msg rest "Some request"]
      SendEvent_request_inv [of "e\<lparr>time_Now := t\<rparr>" A peers D "p_core p" request c] inv by auto
qed (use inv in \<open>auto elim: local_step_RequestE intro: ToConsensus_begin_inv\<close>)

lemma fbft_run_inv:
  assumes "fbft_run e A p D q" and "core_inv e A peers {} (p_core p)" and "signs_correctly e"
  shows "core_inv e A peers D (p_core q)"
  using assms by (induction rule: fbft_run.induct) (auto intro: fbft_step_Internal_inv fbft_step_Request_inv)

lemma fbft_reachable_inv:
  "fbft_reachable e A peers D q \<Longrightarrow> signs_correctly e \<Longrightarrow> core_inv e A peers D (p_core q)"
  by (auto simp: fbft_reachable_def fbft_started_def intro: fbft_run_inv core_inv_Initialization)

end
