(* ===== verification/Sample_Trace.thy ===== *)
theory Sample_Trace
  imports Fbft_Invariants Sample_Network
begin

text \<open>
  A run of a node that is its own only peer, step by step: a round is started and times out before
  the responses are counted, the late count succeeds, and the next round, for another block, takes
  the result of the first.
\<close>

lemma SendEvent_request:
  "SendEvent (ProcessEvent e) s (EvRequest (Some r)) = Some (with_nodes s (\<lambda>ns. receiveRequest e r s))"
  using fbft_receiver.SendEvent_known [of "EvRequest (Some r)" e s]
  by (cases "receiveRequest e r s") (auto simp: ProcessEvent_def with_nodes_def handle_def split: option.splits)

section \<open>The states\<close>

definition trace_proposal :: "u8 \<Rightarrow> Proposal" where
  "trace_proposal d = \<lparr>prop_Block = sample_block d 20, prop_Timestamp = 0\<rparr>"

definition trace_content :: "u8 \<Rightarrow> contentState \<Rightarrow> Content" where
  "trace_content d st =
     \<lparr>c_digest = ucast d, c_state = st, c_signMap = [sample_node 1 \<mapsto> [1, d]], c_signatures = [[1, d]],
      c_payload = sample_block d 20\<rparr>"

definition trace_waiter :: "u8 \<Rightarrow> content_ref \<Rightarrow> waiter" where
  "trace_waiter d r = \<lparr>wt_digest = ucast d, wt_content = r\<rparr>"

definition trace_result :: "u8 \<Rightarrow> ConsensusResult" where
  "trace_result d = \<lparr>cr_Signatures = [[1, d]], cr_Result = None\<rparr>"

text \<open>The block with digest \<open>d\<close> and the signatures that were collected for the digest 7.\<close>

definition trace_signed :: "u8 \<Rightarrow> Block" where
  "trace_signed d = (set_SigData [[1, 7]] (sample_block d 20))\<lparr>b_HeaderHash := 2\<rparr>"

definition trace0 :: "u64 FBFTPolicy" where
  "trace0 = sample_policy (sample_node 1) (sample_node 1) [sample_node 1]"

definition trace1 :: "u64 FBFTPolicy" where
  "trace1 = trace0\<lparr>p_isProcessing := 1, p_pending := Some (trace_proposal 7), p_shared := Some 0,
     p_core := (p_core trace0)
       \<lparr>f_consensusPlugin :=
          \<lparr>cp_latestBlockHeight = 0, cp_content = [7 \<mapsto> 0], cp_heap = [trace_content 7 InConsensus]\<rparr>,
        f_waiters := [trace_waiter 7 0]\<rparr>\<rparr>"

definition trace2 :: "u64 FBFTPolicy" where
  "trace2 = trace1\<lparr>p_isProcessing := 0, p_pending := None, p_shared := None,
     p_core := (p_core trace1)\<lparr>f_effects := [Notify EventConsensusFailed]\<rparr>\<rparr>"

definition trace3 :: "u64 FBFTPolicy" where
  "trace3 = trace2\<lparr>p_core := (p_core trace2)
     \<lparr>f_consensusPlugin :=
        \<lparr>cp_latestBlockHeight = 20, cp_content = [7 \<mapsto> 0], cp_heap = [trace_content 7 ToConsensus]\<rparr>,
      f_waiters := [], f_result := [trace_result 7]\<rparr>\<rparr>"

definition trace4 :: "u64 FBFTPolicy" where
  "trace4 = trace3\<lparr>p_isProcessing := 1, p_pending := Some (trace_proposal 8), p_shared := Some 1,
     p_core := (p_core trace3)
       \<lparr>f_consensusPlugin :=
          \<lparr>cp_latestBlockHeight = 20, cp_content = [7 \<mapsto> 0, 8 \<mapsto> 1],
           cp_heap = [trace_content 7 ToConsensus, trace_content 8 InConsensus]\<rparr>,
        f_waiters := [trace_waiter 8 1]\<rparr>\<rparr>"

definition trace5 :: "u64 FBFTPolicy" where
  "trace5 = trace4\<lparr>p_isProcessing := 0, p_pending := None, p_shared := None,
     p_core := (p_core trace4)
       \<lparr>f_consensusPlugin :=
          \<lparr>cp_latestBlockHeight = 20, cp_content = Map.empty,
           cp_heap = [trace_content 7 ToConsensus, (trace_content 8 InConsensus)\<lparr>c_payload := trace_signed 8\<rparr>]\<rparr>,
        f_result := [],
        f_effects := [Notify EventConsensusFailed,
          BlockSwitch (trace_signed 8)]\<rparr>\<rparr>"

text \<open>The other course: the count comes in time and the round succeeds.\<close>

definition trace_counted :: "u64 FBFTPolicy" where
  "trace_counted = trace1\<lparr>p_core := (p_core trace1)
     \<lparr>f_consensusPlugin :=
        \<lparr>cp_latestBlockHeight = 20, cp_content = [7 \<mapsto> 0], cp_heap = [trace_content 7 ToConsensus]\<rparr>,
      f_waiters := [], f_result := [trace_result 7]\<rparr>\<rparr>"

definition trace_committed :: "u64 FBFTPolicy" where
  "trace_committed = trace_counted\<lparr>p_isProcessing := 0, p_pending := None, p_shared := None,
     p_core := (p_core trace_counted)
       \<lparr>f_consensusPlugin :=
          \<lparr>cp_latestBlockHeight = 20, cp_content = Map.empty,
           cp_heap = [(trace_content 7 ToConsensus)\<lparr>c_payload := trace_signed 7\<rparr>]\<rparr>,
        f_result := [],
        f_effects := [BlockSwitch (trace_signed 7)]\<rparr>\<rparr>"

section \<open>The steps\<close>

lemmas trace_defs =
  trace0_def trace1_def trace2_def trace3_def trace4_def trace5_def trace_counted_def trace_committed_def
  trace_proposal_def trace_signed_def
  trace_content_def trace_waiter_def trace_result_def sample_policy_def NewFBFTPolicy_def
  NewFBFTCore_def NewConsensusPlugin_def sample_block_def sample_node_def contentState_defs

lemmas round_defs =
  with_nodes_def receiveRequest_def stopChangeViewTimer_def Add_def newContent_def SignPayload_def
  sample_sign_def AddSignature_def set_plugin_def store_def SetState_def EncodeMessage_def emit_def
  notify_def waitResponse_def GetContentByHash_def maybeCommit_def Signatures_def tolerance_of_def
  send_result_def reached_consensus_def GetContentPayload_def SetLatestBlockHeight_def
  tryToCommit_def sendCommit_def commitBlock_def Remove_def HeaderHash_def set_SigData_def
  maxPayloadCacheNum_def delete_if_def added_content_def pending_block_def set_pending_block_def

lemma trace_step1: "ToConsensus_begin sample_env (trace_proposal 7) trace0 = Inr (None, trace1)"
  by (simp add: ToConsensus_begin_def SendEvent_request trace_defs round_defs)

lemma trace_step2:
  "ToConsensus_timeout sample_env (trace_proposal 7) trace1 = Inr (Some ErrConsensusTimeout, trace2)"
  by (simp add: ToConsensus_timeout_def trace_defs round_defs)

lemma trace_step3: "waitResponse_timeout (trace_waiter 7 0) (p_core trace2) = Inr (p_core trace3)"
  by (simp add: waitResponse_timeout_def trace_defs round_defs)

lemma trace_step4: "ToConsensus_begin sample_env (trace_proposal 8) trace3 = Inr (None, trace4)"
  by (simp add: ToConsensus_begin_def SendEvent_request trace_defs round_defs fun_eq_iff)

lemma trace_step5:
  "ToConsensus_result sample_env (trace_proposal 8) (trace_result 7) trace4 = Inr (None, trace5)"
  by (simp add: ToConsensus_result_def trace_defs round_defs fun_eq_iff)

lemma trace_step_counted:
  "waitResponse_timeout (trace_waiter 7 0) (p_core trace1) = Inr (p_core trace_counted)"
  by (simp add: waitResponse_timeout_def trace_defs round_defs)

lemma trace_step_committed:
  "ToConsensus_result sample_env (trace_proposal 7) (trace_result 7) trace_counted = Inr (None, trace_committed)"
  by (simp add: ToConsensus_result_def trace_defs round_defs fun_eq_iff)

section \<open>The run\<close>

lemma sample_time [simp]: "sample_env\<lparr>time_Now := 0\<rparr> = sample_env"
  by (simp add: sample_env_def)

lemma trace_digest [simp]: "b_MixDigest (prop_Block (trace_proposal d)) = ucast d"
  by (simp add: trace_proposal_def sample_block_def)

lemma trace_run1: "fbft_run sample_env A trace0 {7} trace1"
proof -
  have "fbft_step sample_env A trace0 (RequestFor (b_MixDigest (prop_Block (trace_proposal 7)))) trace1"
    by (rule fbft_step.alone [OF local_step.begin_round [where t = 0]]) (simp_all add: trace_step1, simp add: trace_defs)
  from fbft_run.run_request [OF fbft_run.run_start this] show ?thesis by simp
qed

lemma trace_run_counted: "fbft_run sample_env A trace0 {7} trace_counted"
proof -
  have "fbft_step sample_env A trace1 Internal (trace1\<lparr>p_core := p_core trace_counted\<rparr>)"
    by (rule fbft_step.alone, rule local_step.responses_timeout [OF _ trace_step_counted]) (simp add: trace1_def)
  then have "fbft_step sample_env A trace1 Internal trace_counted" by (simp add: trace_counted_def)
  with trace_run1 show ?thesis by (rule fbft_run.run_internal)
qed

lemma trace_run3: "fbft_run sample_env A trace0 {7} trace3"
proof -
  have "fbft_step sample_env A trace1 Internal trace2"
    using trace_step2 by (intro fbft_step.alone [OF local_step.round_timeout [where t = 0]]) (auto simp: trace1_def)
  then have run2: "fbft_run sample_env A trace0 {7} trace2"
    by (rule fbft_run.run_internal [OF trace_run1])
  have "fbft_step sample_env A trace2 Internal (trace2\<lparr>p_core := p_core trace3\<rparr>)"
    by (rule fbft_step.alone, rule local_step.responses_timeout [OF _ trace_step3]) (simp add: trace2_def trace1_def)
  then have "fbft_step sample_env A trace2 Internal trace3" by (simp add: trace3_def)
  with run2 show ?thesis by (rule fbft_run.run_internal)
qed

lemma trace_run4: "fbft_run sample_env A trace0 {7, 8} trace4"
proof -
  have "fbft_step sample_env A trace3 (RequestFor (b_MixDigest (prop_Block (trace_proposal 8)))) trace4"
    by (rule fbft_step.alone [OF local_step.begin_round [where t = 0]]) (simp_all add: trace_step4, simp add: trace3_def trace2_def)
  from fbft_run.run_request [OF trace_run3 this] show ?thesis by (simp add: insert_commute)
qed

lemma trace_reachable:
  "fbft_reachable sample_env {sample_node 1} [sample_node 1] {} trace0"
  "fbft_reachable sample_env {sample_node 1} [sample_node 1] {7} trace3"
  "fbft_reachable sample_env {sample_node 1} [sample_node 1] {7, 8} trace4"
  using sample_started [of "sample_node 1" "{sample_node 1}" "[sample_node 1]" "sample_node 1"] fbft_run.run_start trace_run3 trace_run4
  by (auto simp: fbft_reachable_def trace0_def)

end
