(* ===== verification/Fbft_Safety.thy ===== *)
theory Fbft_Safety
  imports Sample_Trace
begin

text \<open>
  What a round of FBFT guarantees: the arithmetic of the threshold, what a block that is committed
  after a round carries, and where the guarantee ends.
\<close>

section \<open>The threshold\<close>

lemma commit_threshold_mod: "unat (commit_threshold n) = (n - (n - 1) div 3) mod 256"
proof -
  have "(n - 1) div 3 \<le> n" using div_le_dividend [of "n - 1" 3] by linarith
  then have "commit_threshold n = of_nat (n - (n - 1) div 3)"
    by (simp add: commit_threshold_def tolerance_of_def of_nat_diff)
  then show ?thesis by (simp only: unat_u8_of_nat)
qed

lemma commit_threshold_exact: "n \<le> 382 \<Longrightarrow> unat (commit_threshold n) = n - (n - 1) div 3"
  unfolding commit_threshold_mod by (rule mod_less) linarith

lemma tolerance_exact: "n \<le> 768 \<Longrightarrow> unat (tolerance_of n) = (n - 1) div 3"
  by (simp add: tolerance_of_def unat_u8_of_nat)

text \<open>From 383 peers on the subtraction loses 256.\<close>

lemma commit_threshold_wraps:
  assumes "383 \<le> n" and "n \<le> 766"
  shows "unat (commit_threshold n) = n - (n - 1) div 3 - 256"
proof -
  have "256 \<le> n - (n - 1) div 3" "n - (n - 1) div 3 < 512" using assms by linarith+
  then have "(n - (n - 1) div 3) mod 256 = n - (n - 1) div 3 - 256" by (simp add: mod_if)
  then show ?thesis by (simp add: commit_threshold_mod)
qed

interpretation fbft_quorum: quorum_threshold
  "\<lambda>n. 1 \<le> n \<and> n \<le> 382" "\<lambda>n. unat (tolerance_of n)" "\<lambda>n. unat (commit_threshold n)"
proof unfold_locales
  fix n :: nat
  assume "1 \<le> n \<and> n \<le> 382"
  then show "3 * unat (tolerance_of n) < n" "unat (commit_threshold n) = n - unat (tolerance_of n)"
    by (simp_all add: tolerance_exact commit_threshold_exact) (cases n; simp)
qed

text \<open>Passing the eight bit comparison means at least as many signatures as the threshold.\<close>

lemma threshold_passed: "commit_threshold n \<le> of_nat k \<Longrightarrow> unat (commit_threshold n) \<le> k"
  using mod_less_eq_dividend [of k 256] by (simp add: word_le_nat_alt unat_u8_of_nat)

section \<open>Rounds\<close>

text \<open>
  C5: in every reachable state of a node, a successful result that waits for \<open>ToConsensus\<close>
  holds verified signatures of distinct accounts, as many as the threshold, for a digest that was
  requested.
\<close>

theorem pending_results_certified:
  assumes "fbft_reachable e A peers D q" and "signs_correctly e"
    and "res \<in> set (f_result (p_core q))" and "cr_Result res = None"
  shows "\<exists>d \<in> D. certificate e A (length peers) d (cr_Signatures res)"
  using fbft_reachable_inv [OF assms(1,2)] assms(3,4) by (auto simp: core_inv_def results_inv_def)

theorem pending_results_certified_witness:
  "certificate sample_env {sample_node 1} 1 7 [[1, 7]]"
  using pending_results_certified [of sample_env "{sample_node 1}" "[sample_node 1]" "{7}" trace3 "trace_result 7"]
    trace_reachable(2)
  by (simp add: trace3_def trace_result_def)

text \<open>The message and the effects of a commit after a round.\<close>

definition commit_message :: "'w env \<Rightarrow> Account \<Rightarrow> Block \<Rightarrow> bool \<Rightarrow> Message" where
  "commit_message e local b result =
     \<lparr>msg_Type = CommitMessageType,
      msg_PayLoad = CommitMessage (Some
        \<lparr>com_Account = local, com_Timestamp = time_Now e, com_BlockHash = b_HeaderHash b,
         com_Digest = b_MixDigest b, com_Signatures = b_SigData b, com_Result = result\<rparr>)\<rparr>"

lemma tryToCommit_effects:
  assumes "f_nodes s = Some ns" and "tryToCommit e b True s = Inr s'" 
    and "encode e (commit_message e (ni_local ns) b True) = Inr raw"
  shows "f_effects s' = f_effects s @ sends raw (filter (\<lambda>p. p \<noteq> ni_local ns) (ni_peers ns)) @
    (if f_enableEmptyBlock s \<or> b_Transactions b \<noteq> [] then [BlockSwitch b] else [Notify EventBlockWithoutTxs])"
  using assms
  by (auto simp: tryToCommit_def sendCommit_def with_nodes_def commit_message_def commitBlock_def Let_def
      set_plugin_def emit_def notify_def sending)

section \<open>Certificates of two blocks\<close>

text \<open>
  two certificates given by peers, for whatever digests, share a peer outside any set of nodes
  that is within the tolerance, and that peer signed both digests. So two blocks are both certified
  only if a correct node signed both.
\<close>

theorem certificates_intersect:
  assumes peers: "distinct peers" "1 \<le> length peers" "length peers \<le> 382"
    and cert: "certificate e (set peers) (length peers) d sigs"
      "certificate e (set peers) (length peers) d' sigs'"
    and faulty: "finite B" "card B \<le> (length peers - 1) div 3"
  shows "\<exists>a s s'. a \<in> set peers \<and> a \<notin> B \<and> s \<in> set sigs \<and> s' \<in> set sigs' \<and>
    SignatureVerify e a s d \<and> SignatureVerify e a s' d'"
proof -
  let ?n = "length peers"
  obtain m where m: "dom m \<subseteq> set peers" "set sigs = ran m" "length sigs = card (dom m)"
      "\<And>a s. m a = Some s \<Longrightarrow> SignatureVerify e a s d" "unat (commit_threshold ?n) \<le> length sigs"
    using cert(1) by (auto simp: certificate_def dest: threshold_passed)
  obtain m' where m': "dom m' \<subseteq> set peers" "set sigs' = ran m'" "length sigs' = card (dom m')"
      "\<And>a s. m' a = Some s \<Longrightarrow> SignatureVerify e a s d'" "unat (commit_threshold ?n) \<le> length sigs'"
    using cert(2) by (auto simp: certificate_def dest: threshold_passed)
  obtain a where a: "a \<in> dom m" "a \<in> dom m'" "a \<notin> B"
    using fbft_quorum.correct_common_member [of ?n "set peers" "dom m" "dom m'" B] peers m m' faulty
    by (auto simp: distinct_card tolerance_exact)
  then obtain s s' where "m a = Some s" "m' a = Some s'" by blast
  with a m m' have "a \<in> set peers" "s \<in> set sigs" "s' \<in> set sigs'" "SignatureVerify e a s d" "SignatureVerify e a s' d'"
    by (auto intro: ranI)
  with a(3) show ?thesis by blast
qed

theorem certificates_intersect_witness:
  "\<exists>a s s'. a \<in> {sample_node 1} \<and> a \<notin> {} \<and> s \<in> {[1, 7]} \<and> s' \<in> {[1, 7 :: u8]} \<and>
    SignatureVerify sample_env a s 7 \<and> SignatureVerify sample_env a s' 7"
proof -
  have "certificate sample_env {sample_node 1} 1 7 [[1, 7]]"
    unfolding certificate_def
    by (rule conjI, rule exI [of _ "[sample_node 1 \<mapsto> [1, 7]]"])
      (simp_all add: SignatureVerify_def sample_node_def commit_threshold_def tolerance_of_def)
  then show ?thesis
    using certificates_intersect [of "[sample_node 1]" sample_env 7 "[[1, 7]]" 7 "[[1, 7]]" "{}"] by simp
qed

end
