(* ===== verification/Fbft_Handlers.thy ===== *)
theory Fbft_Handlers
  imports Fbft_Safety
begin

text \<open>
  What the handlers of the FBFT core do on each branch: when a proposal is answered, what a response
  adds, what a commit message changes, and which of these happen without authentication.
\<close>

section \<open>Proposals\<close>

definition response_message :: "nodesInfo \<Rightarrow> ProposalMsg \<Rightarrow> bytes \<Rightarrow> Message" where
  "response_message ns proposal sg =
     \<lparr>msg_Type = ResponseMessageType,
      msg_PayLoad = ResponseMessage (Some
        \<lparr>res_Account = ni_local ns, res_Timestamp = pro_Timestamp proposal,
         res_Digest = b_MixDigest (pro_Payload proposal), res_Signature = sg,
         res_BlockHeight = b_Height (pro_Payload proposal)\<rparr>)\<rparr>"

lemma frames [simp]:
  "f_effects (stopChangeViewTimer s) = f_effects s"
  "f_nodes (stopChangeViewTimer s) = f_nodes s"
  "f_chain (stopChangeViewTimer s) = f_chain s"
  "f_consensusPlugin (stopChangeViewTimer s) = f_consensusPlugin s"
  "f_enableLocalVerifySignature (stopChangeViewTimer s) = f_enableLocalVerifySignature s"
  "f_viewChange (stopChangeViewTimer s) = f_viewChange s"
  "f_masterWait (stopChangeViewTimer s) = None"
  "f_effects (set_plugin p s) = f_effects s"
  "f_chain (set_plugin p s) = f_chain s"
  "f_nodes (set_plugin p s) = f_nodes s"
  "f_enableLocalVerifySignature (set_plugin p s) = f_enableLocalVerifySignature s"
  "f_effects (set_master m ns s) = f_effects s"
  "f_effects (push_sync req s) = f_effects s"
  "f_nodes (push_sync req s) = f_nodes s"
  by (simp_all add: stopChangeViewTimer_def set_plugin_def set_master_def push_sync_def split: option.splits)

lemma waitMasterTimeout_frames:
  assumes "waitMasterTimeout s = Inr s'"
  shows "f_effects s' = f_effects s" "f_chain s' = f_chain s" "f_nodes s' = f_nodes s"
    "f_enableLocalVerifySignature s' = f_enableLocalVerifySignature s"
    "f_consensusPlugin s' = f_consensusPlugin s" "ct_isRunning (f_coreTimer s') \<noteq> 0"
  using assms by (auto simp: waitMasterTimeout_def with_nodes_def split: if_splits option.splits)

lemma next_height:
  fixes h c :: u64
  assumes "\<not> h \<le> c" and "\<not> (h \<noteq> 0 \<and> c < h - 1)"
  shows "h = c + 1"
proof -
  have lt: "uint c < uint h" using assms(1) by (simp add: word_le_def)
  then have "1 \<le> uint h" using uint_u64_bounds(1) [of c] by linarith
  then have h: "h \<noteq> 0" "uint (h - 1) = uint h - 1"
    using uint_u64_diff [of h 1] by auto
  with assms(2) lt have "uint (h - 1) = uint c" by (simp add: word_less_def)
  then have "h - 1 = c" by (simp add: word_uint_eq_iff)
  then show ?thesis by (simp add: algebra_simps)
qed

lemma receiveProposal_sends:
  assumes run: "receiveProposal e proposal s = Inr s'" and sent: "f_effects s' \<noteq> f_effects s"
  shows "\<exists>ns sg raw receipts. f_nodes s = Some ns \<and> pro_Account proposal = ni_master ns \<and>
    ni_local ns \<noteq> ni_master ns \<and>
    b_Height (pro_Payload proposal) = GetCurrentBlockHeight e (f_chain s) + 1 \<and>
    SignatureVerify e (ni_master ns) (pro_Signature proposal) (b_MixDigest (pro_Payload proposal)) \<and>
    VerifyPayload e (f_chain s) (pro_Payload proposal) (f_enableLocalVerifySignature s) = Inr receipts \<and>
    SignPayload e (ni_local ns) (b_MixDigest (pro_Payload proposal)) = Inr sg \<and>
    encode e (response_message ns proposal sg) = Inr raw \<and>
    f_effects s' = f_effects s @ [SendTo (acc_Url (ni_master ns)) raw]"
  using run sent
  by (auto simp: receiveProposal_def with_nodes_def Let_def bindP_Inr_iff response_message_def
      waitMasterTimeout_frames sending emit_def DefaultBlockHeight_def dest: next_height
      split: if_splits option.splits sum.splits)

text \<open>
  C8: a proposal makes the core send something only when it comes from the current master, carries
  the block right after the chain's last, its signature is the master's signature of the digest and
  the block passes verification; what is sent is one response to the master with the node's own
  signature of that digest.
\<close>

theorem receiveProposal_answers:
  assumes run: "receiveProposal e proposal s = Inr s'" and sent: "f_effects s' \<noteq> f_effects s"
  shows "\<exists>ns sg raw receipts. f_nodes s = Some ns \<and> pro_Account proposal = ni_master ns \<and>
    ni_local ns \<noteq> ni_master ns \<and>
    b_Height (pro_Payload proposal) = GetCurrentBlockHeight e (f_chain s) + 1 \<and>
    SignatureVerify e (ni_master ns) (pro_Signature proposal) (b_MixDigest (pro_Payload proposal)) \<and>
    VerifyPayload e (f_chain s) (pro_Payload proposal) (f_enableLocalVerifySignature s) = Inr receipts \<and>
    SignPayload e (ni_local ns) (b_MixDigest (pro_Payload proposal)) = Inr sg \<and>
    encode e (response_message ns proposal sg) = Inr raw \<and>
    f_effects s' = f_effects s @ [SendTo (acc_Url (ni_master ns)) raw]"
  using receiveProposal_sends [OF assms] .

definition follower :: "u64 fbftCore" where
  "follower = p_core (sample_policy (sample_node 2) (sample_node 1) [sample_node 1, sample_node 2, sample_node 3, sample_node 4])"

definition follower_proposal :: ProposalMsg where
  "follower_proposal = \<lparr>pro_Account = sample_node 1, pro_Timestamp = 0, pro_Payload = sample_block 7 1, pro_Signature = [1, 7]\<rparr>"

lemmas follower_defs =
  follower_def follower_proposal_def sample_policy_def NewFBFTPolicy_def NewFBFTCore_def sample_node_def sample_block_def

lemmas proposal_defs =
  receiveProposal_def with_nodes_def waitMasterTimeout_def SignatureVerify_def VerifyPayload_def
  VerifyPayloadUseExistedRepository_def SignPayload_def sample_sign_def EncodeMessage_def
  stopChangeViewTimer_def set_plugin_def emit_def sending DefaultBlockHeight_def

theorem receiveProposal_answers_witness:
  "\<exists>s' sg raw. receiveProposal sample_env follower_proposal follower = Inr s' \<and>
     SignPayload sample_env (sample_node 2) 7 = Inr sg \<and> f_effects s' = [SendTo ''node'' raw]"
proof -
  obtain s' where s': "receiveProposal sample_env follower_proposal follower = Inr s'"
      "f_effects s' \<noteq> f_effects follower"
    by (simp add: proposal_defs follower_defs)
  from receiveProposal_answers [OF this] s'(1) show ?thesis
    by (auto simp: follower_defs)
qed

lemma far_height:
  fixes h c :: u64
  assumes "c < h" and "h \<noteq> c + 1"
  shows "h \<noteq> 0 \<and> c < h - 1"
  using assms next_height [of h c] by (auto simp: not_le)

text \<open>
  a proposal more than one block ahead of the chain makes its sender the master and queues a
  synchronisation with it. No signature is checked on this path, so any sender can do it.
\<close>

theorem far_proposal_takes_master:
  assumes "NewLatestStateRepository e (f_chain s) = None" and "f_nodes s = Some ns"
    and "GetCurrentBlockHeight e (f_chain s) < b_Height (pro_Payload proposal)"
    and "b_Height (pro_Payload proposal) \<noteq> GetCurrentBlockHeight e (f_chain s) + 1"
  shows "\<exists>s'. receiveProposal e proposal s = Inr s' \<and>
    f_nodes s' = Some (ns\<lparr>ni_master := pro_Account proposal\<rparr>) \<and> f_masterWait s' = None \<and>
    last (f_blockSyncChan s') =
      \<lparr>bs_start = GetCurrentBlockHeight e (f_chain s) + 1, bs_end = b_Height (pro_Payload proposal),
       bs_target = pro_Account proposal\<rparr>"
  using assms far_height [OF assms(3,4)]
  by (auto simp: receiveProposal_def with_nodes_def Let_def DefaultBlockHeight_def not_le)
    (simp_all add: push_sync_def set_master_def clone_def pushOrReplace_spec blockSyncReqCacheLimit_def)

theorem far_proposal_takes_master_witness:
  "\<exists>s'. receiveProposal sample_env (follower_proposal\<lparr>pro_Account := sample_node 4, pro_Payload := sample_block 9 5\<rparr>) follower = Inr s' \<and>
     (\<exists>ns. f_nodes s' = Some ns \<and> ni_master ns = sample_node 4)"
  using far_proposal_takes_master [of sample_env follower
      "\<lparr>ni_local = sample_node 2, ni_master = sample_node 1, ni_peers = [sample_node 1, sample_node 2, sample_node 3, sample_node 4]\<rparr>"
      "follower_proposal\<lparr>pro_Account := sample_node 4, pro_Payload := sample_block 9 5\<rparr>"]
  by (auto simp: follower_defs)

section \<open>Commits\<close>

text \<open>
  a commit message with a failed result makes its sender the master and raises
  \<open>EventConsensusFailed\<close>, whoever the sender is: nothing in the message is verified.
\<close>

theorem failed_commit_takes_master:
  assumes "f_nodes s = Some ns" and "\<not> com_Result commit"
  shows "\<exists>s'. receiveCommit e commit s = Inr s' \<and> f_nodes s' = Some (ns\<lparr>ni_master := com_Account commit\<rparr>) \<and>
    f_effects s' = f_effects s @ [Notify EventConsensusFailed] \<and> f_consensusPlugin s' = f_consensusPlugin s"
  using assms
  by (simp add: receiveCommit_def with_nodes_def Let_def notify_def emit_def)
    (simp add: set_master_def clone_def)

definition sample_commit :: "bool \<Rightarrow> bytes list \<Rightarrow> hash \<Rightarrow> Commit" where
  "sample_commit result sigs bh =
     \<lparr>com_Account = sample_node 4, com_Timestamp = 0, com_BlockHash = bh, com_Digest = 7, com_Signatures = sigs,
      com_Result = result\<rparr>"

lemma sample_commit_simps:
  "com_Result (sample_commit r sigs bh) = r" "com_Digest (sample_commit r sigs bh) = 7"
  "com_BlockHash (sample_commit r sigs bh) = bh" "com_Signatures (sample_commit r sigs bh) = sigs"
  by (simp_all add: sample_commit_def)

lemma block_digest: "b_MixDigest (sample_block k h) = ucast k"
  by (simp add: sample_block_def)

theorem failed_commit_takes_master_witness:
  "\<exists>s' ns. receiveCommit sample_env (sample_commit False [] 0) follower = Inr s' \<and>
     f_nodes s' = Some ns \<and> ni_master ns = sample_node 4 \<and> f_effects s' = [Notify EventConsensusFailed]"
  using failed_commit_takes_master [of follower
      "\<lparr>ni_local = sample_node 2, ni_master = sample_node 1, ni_peers = [sample_node 1, sample_node 2, sample_node 3, sample_node 4]\<rparr>"
      "sample_commit False [] 0" sample_env]
  by (auto simp: follower_defs sample_commit_def)

lemma Get_of_view:
  "view p d = Some c \<Longrightarrow> \<exists>r. GetContentByHash d p = Inr r \<and> cp_content p d = Some r \<and> deref p r = c"
  by (auto simp: view_def GetContentByHash_def split: option.splits)

lemma receiveCommit_spec:
  assumes inv: "plugin_inv (f_consensusPlugin s)" and ok: "com_Result commit"
    and cached: "view (f_consensusPlugin s) (com_Digest commit) = Some c"
    and digest: "b_MixDigest (c_payload c) = com_Digest commit"
    and b: "b = signed_block e (c_payload c) (com_Signatures commit)"
    and m: "m = (view (f_consensusPlugin s))(com_Digest commit \<mapsto> c\<lparr>c_payload := b\<rparr>)"
  shows "\<exists>s'. receiveCommit e commit s = Inr s' \<and> f_nodes s' = f_nodes s \<and> f_masterWait s' = None \<and>
    plugin_inv (f_consensusPlugin s') \<and>
    (if b_HeaderHash b = com_BlockHash commit
     then view (f_consensusPlugin s') = spec_remove (com_Digest commit) m \<and>
       f_effects s' = f_effects s @
         (if f_enableEmptyBlock s \<or> b_Transactions b \<noteq> [] then [BlockSwitch b] else [Notify EventBlockWithoutTxs])
     else view (f_consensusPlugin s') = m \<and> f_effects s' = f_effects s)"
proof -
  let ?s1 = "stopChangeViewTimer s"
  obtain r where r: "GetContentByHash (com_Digest commit) (f_consensusPlugin ?s1) = Inr r"
      "cp_content (f_consensusPlugin s) (com_Digest commit) = Some r" "deref (f_consensusPlugin s) r = c"
    using Get_of_view [OF cached] by auto
  let ?p = "store r (c\<lparr>c_payload := b\<rparr>) (f_consensusPlugin s)"
  have view_p: "view ?p = m" using view_store [OF inv r(2)] by (simp add: m)
  have b': "b = (set_SigData (com_Signatures commit) (c_payload c))
      \<lparr>b_HeaderHash := HeaderHash e (set_SigData (com_Signatures commit) (c_payload c))\<rparr>"
    by (simp add: b signed_block_def)
  have "b_MixDigest b = com_Digest commit" using digest by (simp add: b')
  moreover have "receiveCommit e commit s =
      (if b_HeaderHash b \<noteq> com_BlockHash commit then Inr (set_plugin ?p ?s1) else Inr (commitBlock b (set_plugin ?p ?s1)))"
    unfolding b' using ok r by (simp add: receiveCommit_def Let_def GetContentPayload_def)
  moreover have "f_enableEmptyBlock ?s1 = f_enableEmptyBlock s" by (simp add: stopChangeViewTimer_def split: option.splits)
  moreover have "f_masterWait (set_plugin p ?s1) = None" for p
    by (simp add: set_plugin_def)
  moreover have "plugin_inv ?p"
    using inv r plugin_inv_content [OF inv r(2)] by (intro plugin_inv_store) (auto simp: content_inv_payload)
  moreover from this have "plugin_inv (Remove d ?p)" for d by (rule plugin_inv_Remove)
  ultimately show ?thesis
    using view_p view_Remove [of "com_Digest commit" ?p]
    by (auto simp: commitBlock_def Let_def notify_def emit_def)
      (auto simp: set_plugin_def)
qed

text \<open>
  C13: a successful commit message for a cached proposal puts the message's signatures into the
  cached block. If the block's header hash is then the one the message names, the proposal and all
  cached ones that are not higher leave the cache and the block goes to the block switch (or is
  reported empty); if not, nothing leaves the node, but the block in the cache stays changed. The
  signatures themselves are not verified.
\<close>

theorem receiveCommit_success:
  assumes inv: "plugin_inv (f_consensusPlugin s)" and ok: "com_Result commit"
    and cached: "view (f_consensusPlugin s) (com_Digest commit) = Some c"
    and digest: "b_MixDigest (c_payload c) = com_Digest commit"
    and b: "b = signed_block e (c_payload c) (com_Signatures commit)"
    and m: "m = (view (f_consensusPlugin s))(com_Digest commit \<mapsto> c\<lparr>c_payload := b\<rparr>)"
  shows "\<exists>s'. receiveCommit e commit s = Inr s' \<and> f_nodes s' = f_nodes s \<and> f_masterWait s' = None \<and>
    (if b_HeaderHash b = com_BlockHash commit
     then view (f_consensusPlugin s') = spec_remove (com_Digest commit) m \<and>
       f_effects s' = f_effects s @
         (if f_enableEmptyBlock s \<or> b_Transactions b \<noteq> [] then [BlockSwitch b] else [Notify EventBlockWithoutTxs])
     else view (f_consensusPlugin s') = m \<and> f_effects s' = f_effects s)"
  using receiveCommit_spec [OF assms] by meson

definition cached_follower :: "u64 fbftCore" where
  "cached_follower = set_plugin (snd (Add 7 (sample_block 7 1) NewConsensusPlugin)) follower"

lemma cached_follower_view:
  "plugin_inv (f_consensusPlugin cached_follower)"
  "view (f_consensusPlugin cached_follower) 7 = Some (newContent 7 (sample_block 7 1))"
  using plugin_inv_Add [OF plugin_inv_New]
  by (simp_all add: cached_follower_def) (simp add: view_def Add_def NewConsensusPlugin_def)

theorem receiveCommit_success_witness:
  "\<exists>s'. receiveCommit sample_env (sample_commit True [[1, 7], [3, 7], [4, 7]] 4) cached_follower = Inr s' \<and>
     f_effects s' = f_effects cached_follower @
       [BlockSwitch (signed_block sample_env (sample_block 7 1) [[1, 7], [3, 7], [4, 7]])]"
proof -
  let ?b = "signed_block sample_env (sample_block 7 1) [[1, 7], [3, 7], [4, 7]]"
  have "b_HeaderHash ?b = 4" "b_Transactions ?b \<noteq> []"
    by (simp_all add: signed_block_def HeaderHash_def sample_block_def set_SigData_def)
  moreover have "view (f_consensusPlugin cached_follower) (com_Digest (sample_commit True [[1, 7], [3, 7], [4, 7]] 4))
      = Some (newContent 7 (sample_block 7 1))"
    using cached_follower_view(2) by (simp add: sample_commit_def)
  ultimately show ?thesis
    using receiveCommit_success [OF cached_follower_view(1) _ _ _ refl refl,
        of "sample_commit True [[1, 7], [3, 7], [4, 7]] 4" "newContent 7 (sample_block 7 1)" sample_env]
    by (auto simp: sample_commit_simps newContent_def block_digest)
qed

text \<open>
  C39: one commit message with made-up signatures blocks a block for good. The header hash the core
  computes for it is stored in the cached block and kept as it is from then on, so the correct
  commit message, which the core would have accepted before, is refused after it.
\<close>

theorem bogus_commit_poisons:
  assumes inv: "plugin_inv (f_consensusPlugin s)" 
    and cached: "view (f_consensusPlugin s) d = Some c" "b_MixDigest (c_payload c) = d" "b_HeaderHash (c_payload c) = 0"
    and h: "hash_of = (\<lambda>sigs. rlpHash e (b_Header (set_SigData sigs (c_payload c))))"
    and bogus: "com_Result bogus" "com_Digest bogus = d" "com_BlockHash bogus \<noteq> hash_of (com_Signatures bogus)"
      "hash_of (com_Signatures bogus) \<noteq> 0"
    and good: "com_Result good" "com_Digest good = d" "com_BlockHash good = hash_of (com_Signatures good)"
      "com_BlockHash good \<noteq> hash_of (com_Signatures bogus)"
  shows "(\<exists>s0. receiveCommit e good s = Inr s0 \<and> f_effects s0 \<noteq> f_effects s) \<and>
    (\<exists>s1 s2. receiveCommit e bogus s = Inr s1 \<and> receiveCommit e good s1 = Inr s2 \<and> f_effects s2 = f_effects s)"
proof
  have hash: "b_HeaderHash (signed_block e (c_payload c) sigs) = hash_of sigs" for sigs
    using cached(3) by (simp add: signed_block_def HeaderHash_def h)
  have d: "view (f_consensusPlugin s) (com_Digest bogus) = Some c" "b_MixDigest (c_payload c) = com_Digest bogus"
      "view (f_consensusPlugin s) (com_Digest good) = Some c" "b_MixDigest (c_payload c) = com_Digest good"
    using cached bogus good by simp_all
  show "\<exists>s0. receiveCommit e good s = Inr s0 \<and> f_effects s0 \<noteq> f_effects s"
    using receiveCommit_spec [OF inv good(1) d(3,4) refl refl, of e] good(3) hash by auto
  let ?b = "signed_block e (c_payload c) (com_Signatures bogus)"
  let ?c = "c\<lparr>c_payload := ?b\<rparr>"
  obtain s1 where s1: "receiveCommit e bogus s = Inr s1" "plugin_inv (f_consensusPlugin s1)"
      "view (f_consensusPlugin s1) d = Some ?c" "f_effects s1 = f_effects s"
    using receiveCommit_spec [OF inv bogus(1) d(1,2) refl refl, of e] bogus(2,3) hash by auto
  have "b_HeaderHash (signed_block e ?b sigs) = hash_of (com_Signatures bogus)" for sigs
    using hash bogus(4) by (simp add: signed_block_def [of e ?b] HeaderHash_sticky)
  moreover have "view (f_consensusPlugin s1) (com_Digest good) = Some ?c" "b_MixDigest (c_payload ?c) = com_Digest good"
    using s1(3) good(2) cached(2) by (simp_all add: signed_block_def)
  ultimately show "\<exists>s1 s2. receiveCommit e bogus s = Inr s1 \<and> receiveCommit e good s1 = Inr s2 \<and> f_effects s2 = f_effects s"
    using receiveCommit_spec [OF s1(2) good(1) _ _ refl refl, of ?c e] s1(1,4) good(4) by auto
qed

theorem bogus_commit_poisons_witness:
  "\<exists>s1 s2. receiveCommit sample_env (sample_commit True [] 9) cached_follower = Inr s1 \<and>
     receiveCommit sample_env (sample_commit True [[1, 7], [3, 7], [4, 7]] 4) s1 = Inr s2 \<and>
     f_effects s2 = f_effects cached_follower"
  using bogus_commit_poisons [OF cached_follower_view _ _ refl, of "sample_commit True [] 9" sample_env
      "sample_commit True [[1, 7], [3, 7], [4, 7]] 4"]
  by (simp add: sample_commit_simps newContent_def block_digest) (simp add: sample_block_def set_SigData_def)

section \<open>Responses\<close>

lemma maybeCommit_counts:
  assumes reach: "fbft_reachable e A peers D q" "signs_correctly e"
    and cached: "view (f_consensusPlugin (p_core q)) d = Some c" and few: "card (dom (c_signMap c)) < 256"
  shows "\<exists>err. maybeCommit d (p_core q) = Inr (c_signatures c, err) \<and>
    (err = None \<longleftrightarrow> unat (commit_threshold (length peers)) \<le> card (dom (c_signMap c)))"
proof -
  let ?s = "p_core q" and ?n = "length peers"
  have inv: "core_inv e A peers D ?s" using reach by (rule fbft_reachable_inv)
  then obtain ns where ns: "f_nodes ?s = Some ns" "ni_peers ns = peers" "f_tolerance ?s = tolerance_of ?n"
    by (auto simp: core_inv_def)
  obtain r where r: "GetContentByHash d (f_consensusPlugin ?s) = Inr r" "deref (f_consensusPlugin ?s) r = c"
    using Get_of_view [OF cached] by auto
  have "content_inv c" using plugin_ok_deref [OF core_inv_plugin [OF inv] Get_ref(1) [OF core_inv_plugin [OF inv] r(1)]] r(2) by simp
  then have len: "length (c_signatures c) = card (dom (c_signMap c))" by (simp add: content_inv_def)
  have "(of_nat (length (c_signatures c)) :: u8) < commit_threshold ?n \<longleftrightarrow> card (dom (c_signMap c)) < unat (commit_threshold ?n)"
    using few len by (simp add: word_less_nat_alt u8_of_nat_small)
  then show ?thesis
    using ns r by (auto simp: maybeCommit_def with_nodes_def Signatures_def Let_def commit_threshold_def)
qed



text \<open>
  C20: with 383 to 766 peers the same count loses the quorum. In a reachable state \<open>maybeCommit\<close>
  accepts a cached digest as soon as 256 accounts fewer signed than the peers less a third, because
  it subtracts in eight bits; with 383 peers it accepts every cached digest.
\<close>

theorem maybeCommit_loses_quorum:
  assumes reach: "fbft_reachable e A peers D q" "signs_correctly e"
    and n: "383 \<le> length peers" "length peers \<le> 766"
    and cached: "view (f_consensusPlugin (p_core q)) d = Some c" and few: "card (dom (c_signMap c)) < 256"
  shows "\<exists>err. maybeCommit d (p_core q) = Inr (c_signatures c, err) \<and>
    (err = None \<longleftrightarrow> length peers - (length peers - 1) div 3 \<le> card (dom (c_signMap c)) + 256) \<and>
    (length peers = 383 \<longrightarrow> err = None)"
  using maybeCommit_counts [OF reach cached few] n by (auto simp: commit_threshold_wraps)

definition crowd :: "nat \<Rightarrow> u64 FBFTPolicy" where
  "crowd k = (sample_policy (sample_node 1) (sample_node 1) (replicate k (sample_node 1)))
     \<lparr>p_isProcessing := 1, p_pending := Some (trace_proposal 7), p_shared := Some 0,
      p_core := (p_core (sample_policy (sample_node 1) (sample_node 1) (replicate k (sample_node 1))))
        \<lparr>f_consensusPlugin := f_consensusPlugin (p_core trace1), f_waiters := [trace_waiter 7 0]\<rparr>\<rparr>"

lemma crowd_reachable: "fbft_reachable sample_env UNIV (replicate k (sample_node 1)) {7} (crowd k)"
proof -
  let ?p = "sample_policy (sample_node 1) (sample_node 1) (replicate k (sample_node 1))"
  have "ToConsensus_begin sample_env (trace_proposal 7) ?p = Inr (None, crowd k)"
    by (simp add: ToConsensus_begin_def SendEvent_request crowd_def trace_defs round_defs sending)
  then have "fbft_step sample_env UNIV ?p (RequestFor (b_MixDigest (prop_Block (trace_proposal 7)))) (crowd k)"
    by (intro fbft_step.alone [OF local_step.begin_round [where t = 0]]) (simp_all add: sample_policy_def NewFBFTPolicy_def)
  from fbft_run.run_request [OF fbft_run.run_start this] sample_started [of "sample_node 1" UNIV] show ?thesis
    unfolding fbft_reachable_def by fastforce
qed

theorem maybeCommit_loses_quorum_witness: "\<exists>err. maybeCommit 7 (p_core (crowd 383)) = Inr ([[1, 7]], err) \<and> err = None"
  using maybeCommit_loses_quorum [OF crowd_reachable [of 383], of 7 "trace_content 7 InConsensus"]
  by (simp add: crowd_def trace1_def view_def) (simp add: trace_content_def)

text \<open>Several responses one after the other.\<close>

fun receiveResponses :: "'w env \<Rightarrow> Response list \<Rightarrow> 'w fbftCore \<Rightarrow> 'w fbftCore outcome" where
  "receiveResponses e [] s = Inr s"
| "receiveResponses e (r # rs) s = bindP (receiveResponse e r s) (receiveResponses e rs)"

definition valid_response :: "'w env \<Rightarrow> Response \<Rightarrow> bool" where
  "valid_response e r \<longleftrightarrow> SignatureVerify e (res_Account r) (res_Signature r) (res_Digest r)"

definition add_response :: "Response \<Rightarrow> Content \<Rightarrow> Content" where
  "add_response r c = snd (AddSignature (res_Account r) (res_Signature r) c)"

lemma receiveResponse_master:
  assumes inv: "plugin_inv (f_consensusPlugin s)" and ns: "f_nodes s = Some ns" "ni_local ns = ni_master ns"
    and c: "view (f_consensusPlugin s) (res_Digest r) = Some c" "c_state c \<noteq> ToConsensus"
    and h: "GetLatestBlockHeight (f_consensusPlugin s) < res_BlockHeight r"
  shows "\<exists>p'. receiveResponse e r s =
      Inr (if valid_response e r then s\<lparr>f_consensusPlugin := p', f_signal := f_signal s + 1\<rparr> else s) \<and>
    plugin_inv p' \<and> view p' = (view (f_consensusPlugin s))(res_Digest r \<mapsto> add_response r c) \<and>
    GetLatestBlockHeight p' = GetLatestBlockHeight (f_consensusPlugin s)"
proof -
  let ?p = "f_consensusPlugin s"
  obtain ref where ref: "GetContentByHash (res_Digest r) ?p = Inr ref" "cp_content ?p (res_Digest r) = Some ref"
      "deref ?p ref = c"
    using Get_of_view [OF c(1)] by auto
  let ?p' = "store ref (add_response r c) ?p"
  have "plugin_inv ?p'"
    using inv ref plugin_inv_content [OF inv ref(2)]
    by (intro plugin_inv_store) (auto simp: add_response_def content_inv_AddSignature frame_simps)
  moreover have "view ?p' = (view ?p)(res_Digest r \<mapsto> add_response r c)"
    using view_store [OF inv ref(2)] by simp
  moreover have "GetLatestBlockHeight ?p' = GetLatestBlockHeight ?p"
    by (simp add: GetLatestBlockHeight_def store_def)
  moreover have "receiveResponse e r s =
      Inr (if valid_response e r then s\<lparr>f_consensusPlugin := ?p', f_signal := f_signal s + 1\<rparr> else s)"
    using ns ref c(2) h
    by (auto simp: receiveResponse_def with_nodes_def Let_def State_def valid_response_def add_response_def
        set_plugin_def split_beta)
  ultimately show ?thesis by blast
qed

lemma receiveResponses_master:
  assumes "plugin_inv (f_consensusPlugin s)" and "f_nodes s = Some ns" "ni_local ns = ni_master ns"
    and "view (f_consensusPlugin s) d = Some c" "c_state c \<noteq> ToConsensus"
    and "\<forall>r \<in> set rs. res_Digest r = d \<and> GetLatestBlockHeight (f_consensusPlugin s) < res_BlockHeight r"
  shows "\<exists>s'. receiveResponses e rs s = Inr s' \<and> f_nodes s' = f_nodes s \<and>
    view (f_consensusPlugin s') d = Some (fold add_response (filter (valid_response e) rs) c) \<and>
    f_signal s' = f_signal s + length (filter (valid_response e) rs)"
  using assms
proof (induction rs arbitrary: s c)
  case Nil
  then show ?case by simp
next
  case (Cons r rs)
  then have "res_Digest r = d" "GetLatestBlockHeight (f_consensusPlugin s) < res_BlockHeight r" by simp_all
  with receiveResponse_master [OF Cons.prems(1-3), of r c e] Cons.prems(4,5)
  obtain p' where p': "receiveResponse e r s =
      Inr (if valid_response e r then s\<lparr>f_consensusPlugin := p', f_signal := f_signal s + 1\<rparr> else s)"
    "plugin_inv p'" "view p' = (view (f_consensusPlugin s))(d \<mapsto> add_response r c)"
    "GetLatestBlockHeight p' = GetLatestBlockHeight (f_consensusPlugin s)" by auto
  show ?case
  proof (cases "valid_response e r")
    case True
    have "c_state (add_response r c) \<noteq> ToConsensus" using Cons.prems(5) by (simp add: add_response_def frame_simps)
    then show ?thesis
      using Cons.IH [of "s\<lparr>f_consensusPlugin := p', f_signal := f_signal s + 1\<rparr>" "add_response r c"] Cons.prems p' True
      by simp
  next
    case False
    with Cons.IH [of s c] Cons.prems p' show ?thesis by simp
  qed
qed

lemma fold_add_response:
  "fold add_response rs c =
     fold (\<lambda>(a, s) c. snd (AddSignature a s c)) (map (\<lambda>r. (res_Account r, res_Signature r)) rs) c"
  by (induction rs arbitrary: c) (simp_all add: add_response_def)

lemma responses_counted:
  assumes inv: "plugin_inv (f_consensusPlugin s)" and "f_nodes s = Some ns" "ni_local ns = ni_master ns"
    and c: "view (f_consensusPlugin s) d = Some c" "c_state c \<noteq> ToConsensus"
    and "\<forall>r \<in> set rs. res_Digest r = d \<and> GetLatestBlockHeight (f_consensusPlugin s) < res_BlockHeight r"
  shows "\<exists>s' c'. receiveResponses e rs s = Inr s' \<and> view (f_consensusPlugin s') d = Some c' \<and>
    length (Signatures c') = card (dom (c_signMap c) \<union> res_Account ` {r \<in> set rs. valid_response e r}) \<and>
    f_signal s' = f_signal s + length (filter (valid_response e) rs)"
proof -
  have "content_inv c" using plugin_store.look_inv [OF inv c(1)] by simp
  then have "length (Signatures (fold add_response (filter (valid_response e) rs) c)) =
      card (dom (c_signMap c) \<union> res_Account ` {r \<in> set rs. valid_response e r})"
    unfolding fold_add_response Signatures_def
    using signatures.count_fold [of c "map (\<lambda>r. (res_Account r, res_Signature r)) (filter (valid_response e) rs)"]
    by (simp add: image_image)
  then show ?thesis using receiveResponses_master [OF assms, of e] by auto
qed

text \<open>
  C12: on the master, responses for a digest that is still collecting are counted once per account:
  after any list of them the content holds one signature for each account that had signed before or
  whose response verifies, and every verified response wakes the collecting goroutine once.
\<close>

theorem responses_counted_once:
  assumes inv: "plugin_inv (f_consensusPlugin s)" and "f_nodes s = Some ns" "ni_local ns = ni_master ns"
    and c: "view (f_consensusPlugin s) d = Some c" "c_state c \<noteq> ToConsensus"
    and "\<forall>r \<in> set rs. res_Digest r = d \<and> GetLatestBlockHeight (f_consensusPlugin s) < res_BlockHeight r"
  shows "\<exists>s' c'. receiveResponses e rs s = Inr s' \<and> view (f_consensusPlugin s') d = Some c' \<and>
    length (Signatures c') = card (dom (c_signMap c) \<union> res_Account ` {r \<in> set rs. valid_response e r}) \<and>
    f_signal s' = f_signal s + length (filter (valid_response e) rs)"
  using responses_counted [OF assms] .

text \<open>The master of four peers that is collecting signatures for digest 7.\<close>

definition collecting_master :: "u64 fbftCore" where
  "collecting_master = (p_core (sample_policy (sample_node 1) (sample_node 1) [sample_node 1, sample_node 2, sample_node 3, sample_node 4]))
     \<lparr>f_consensusPlugin :=
        \<lparr>cp_latestBlockHeight = 0, cp_content = [7 \<mapsto> 0], cp_heap = [trace_content 7 InConsensus]\<rparr>\<rparr>"

definition sample_response :: "Account \<Rightarrow> bytes \<Rightarrow> Response" where
  "sample_response a sg =
     \<lparr>res_Account = a, res_Timestamp = 0, res_Digest = 7, res_Signature = sg, res_BlockHeight = 20\<rparr>"

lemma collecting_master_facts:
  "plugin_inv (f_consensusPlugin collecting_master)"
  "f_nodes collecting_master = Some \<lparr>ni_local = sample_node 1, ni_master = sample_node 1, ni_peers = [sample_node 1, sample_node 2, sample_node 3, sample_node 4]\<rparr>"
  "view (f_consensusPlugin collecting_master) 7 = Some (trace_content 7 InConsensus)"
  "GetLatestBlockHeight (f_consensusPlugin collecting_master) = 0"
  by (simp_all add: collecting_master_def sample_policy_def Let_def view_def GetLatestBlockHeight_def)
    (simp add: plugin_inv_def content_inv_def trace_content_def)

theorem responses_counted_once_witness:
  "\<exists>s' c'. receiveResponses sample_env
       [sample_response (sample_node 2) [2, 7], sample_response (sample_node 2) [2, 7], sample_response (sample_node 3) [2, 7]]
       collecting_master = Inr s' \<and>
     view (f_consensusPlugin s') 7 = Some c' \<and> length (Signatures c') = 2"
proof -
  have valid: "{r. (r = sample_response (sample_node 2) [2, 7] \<or> r = sample_response (sample_node 3) [2, 7]) \<and>
      valid_response sample_env r} = {sample_response (sample_node 2) [2, 7]}"
    by (auto simp: valid_response_def SignatureVerify_def sample_response_def sample_node_def)
  show ?thesis
    using responses_counted_once [OF collecting_master_facts(1,2) _ collecting_master_facts(3), of
        "[sample_response (sample_node 2) [2, 7], sample_response (sample_node 2) [2, 7], sample_response (sample_node 3) [2, 7]]" sample_env]
    by (simp add: collecting_master_facts(4) valid)
      (auto simp: sample_response_def trace_content_def contentState_defs sample_node_def)
qed

text \<open>
  the count is per account value, and the account is the one the response names. A single key
  holder who answers under different extensions (ids, urls) of one address is counted once for each,
  so one signer alone can reach every threshold.
\<close>

theorem one_signer_counted_often:
  assumes inv: "plugin_inv (f_consensusPlugin s)" and ns: "f_nodes s = Some ns" "ni_local ns = ni_master ns"
    and c: "view (f_consensusPlugin s) d = Some c" "c_state c \<noteq> ToConsensus"
    and h: "GetLatestBlockHeight (f_consensusPlugin s) < h"
    and sig: "SignatureVerify e a sg d" and exts: "distinct exts"
    and fresh: "\<forall>x \<in> set exts. a\<lparr>acc_Extension := x\<rparr> \<notin> dom (c_signMap c)"
    and rs: "rs = map (\<lambda>x. \<lparr>res_Account = a\<lparr>acc_Extension := x\<rparr>, res_Timestamp = t, res_Digest = d,
        res_Signature = sg, res_BlockHeight = h\<rparr>) exts"
  shows "\<exists>s' c'. receiveResponses e rs s = Inr s' \<and> view (f_consensusPlugin s') d = Some c' \<and>
    length (Signatures c') = card (dom (c_signMap c)) + length exts"
proof -
  have valid: "valid_response e r" if "r \<in> set rs" for r
    using that sig by (auto simp: rs valid_response_def SignatureVerify_def)
  have acc: "res_Account ` {r \<in> set rs. valid_response e r} = (\<lambda>x. a\<lparr>acc_Extension := x\<rparr>) ` set exts"
  proof -
    have "{r \<in> set rs. valid_response e r} = set rs" using valid by blast
    then show ?thesis by (simp add: rs image_image)
  qed
  have "inj_on (\<lambda>x. a\<lparr>acc_Extension := x\<rparr>) (set exts)"
    by (rule inj_onI) (metis Account.select_convs(2) Account.surjective Account.update_convs(2))
  then have "card ((\<lambda>x. a\<lparr>acc_Extension := x\<rparr>) ` set exts) = length exts"
    using exts by (simp add: card_image distinct_card)
  moreover have "finite (dom (c_signMap c))"
    using plugin_store.look_inv [OF inv c(1)] by (simp add: content_inv_def)
  ultimately have "card (dom (c_signMap c) \<union> (\<lambda>x. a\<lparr>acc_Extension := x\<rparr>) ` set exts) =
      card (dom (c_signMap c)) + length exts"
    using fresh by (subst card_Un_disjoint) auto
  moreover have "\<forall>r \<in> set rs. res_Digest r = d \<and> GetLatestBlockHeight (f_consensusPlugin s) < res_BlockHeight r"
    using h by (simp add: rs)
  ultimately show ?thesis using responses_counted [OF inv ns c, of rs e] acc by auto
qed

theorem one_signer_counted_often_witness:
  "\<exists>rs s' c'. receiveResponses sample_env rs collecting_master = Inr s' \<and>
     (\<forall>r \<in> set rs. acc_Address (res_Account r) = 2) \<and>
     view (f_consensusPlugin s') 7 = Some c' \<and> length (Signatures c') = 3"
proof -
  let ?exts = "[\<lparr>ext_Id = 5, ext_Url = []\<rparr>, \<lparr>ext_Id = 6, ext_Url = []\<rparr>] :: AccountExtension list"
  let ?rs = "map (\<lambda>x. \<lparr>res_Account = (sample_node 2)\<lparr>acc_Extension := x\<rparr>, res_Timestamp = 0, res_Digest = 7,
      res_Signature = [2, 7], res_BlockHeight = 20\<rparr>) ?exts"
  have "\<exists>s' c'. receiveResponses sample_env ?rs collecting_master = Inr s' \<and>
      view (f_consensusPlugin s') 7 = Some c' \<and> length (Signatures c') = 3"
    using one_signer_counted_often [OF collecting_master_facts(1,2) _ collecting_master_facts(3) _ _ _ _ _ refl,
        of 20 sample_env "sample_node 2" "[2, 7]" ?exts 0]
    by (simp add: collecting_master_facts(4))
      (simp add: trace_content_def contentState_defs SignatureVerify_def sample_node_def numeral_3_eq_3)
  moreover have "\<forall>r \<in> set ?rs. acc_Address (res_Account r) = 2" by (simp add: sample_node_def)
  ultimately show ?thesis by blast
qed

end
