(* ===== verification/Fbft_Provenance.thy ===== *)
theory Fbft_Provenance
  imports Fbft_Handlers
begin

text \<open>
  Where the signatures in a node's cache come from. A step of a node never takes back what the node
  sent or collected; the signatures it adds are the node's own and those a delivered response
  carries. \<open>evolves\<close> says this of two states, for a predicate \<open>new\<close> on the added ones.
\<close>

section \<open>How a core may change\<close>

type_synonym signing = "Account \<Rightarrow> bytes \<Rightarrow> hash \<Rightarrow> bool"

definition plugin_evolves :: "signing \<Rightarrow> ConsensusPlugin \<Rightarrow> ConsensusPlugin \<Rightarrow> bool" where
  "plugin_evolves new p p' \<longleftrightarrow> heap_le p p' \<and>
     (\<forall>r < length (cp_heap p'). \<forall>a s. c_signMap (deref p' r) a = Some s \<longrightarrow>
        r < length (cp_heap p) \<and> c_signMap (deref p r) a = Some s \<or> new a s (c_digest (deref p' r)))"

definition evolves :: "signing \<Rightarrow> 'w fbftCore \<Rightarrow> 'w fbftCore \<Rightarrow> bool" where
  "evolves new s s' \<longleftrightarrow>
     plugin_evolves new (f_consensusPlugin s) (f_consensusPlugin s') \<and>
     (\<exists>sent. f_effects s' = f_effects s @ sent) \<and> set (f_result s') \<subseteq> set (f_result s) \<and>
     map_option ni_local (f_nodes s') = map_option ni_local (f_nodes s)"

named_theorems evolves_intros "how the updates of the handlers evolve a core"

lemma plugin_evolves_refl [simp]: "plugin_evolves new p p"
  by (simp add: plugin_evolves_def)

lemma plugin_evolves_trans:
  assumes "plugin_evolves new p q" and "plugin_evolves new q r"
  shows "plugin_evolves new p r"
  unfolding plugin_evolves_def
proof (intro conjI allI impI)
  show "heap_le p r" using assms heap_le_trans by (auto simp: plugin_evolves_def)
  fix i a s
  assume i: "i < length (cp_heap r)" and sign: "c_signMap (deref r i) a = Some s"
  have "c_digest (deref r i) = c_digest (deref q i)" if "i < length (cp_heap q)"
    using that assms(2) by (simp add: plugin_evolves_def heap_le_def)
  then show "i < length (cp_heap p) \<and> c_signMap (deref p i) a = Some s \<or> new a s (c_digest (deref r i))"
    using i sign assms unfolding plugin_evolves_def by metis
qed

lemma plugin_evolves_Add: "plugin_evolves new p (snd (Add d b p))"
  using heap_le_Add [of p d b]
  by (auto simp: plugin_evolves_def Add_def Let_def nth_append newContent_def split: option.splits if_splits)

lemma plugin_evolves_Remove: "plugin_evolves new p (Remove d p)"
  using heap_le_Remove [of p d] by (auto simp: plugin_evolves_def Remove_def split: option.splits)

lemma plugin_evolves_SetLatest [simp]:
  "plugin_evolves new p (SetLatestBlockHeight h q) = plugin_evolves new p q"
  by (simp add: plugin_evolves_def) (simp add: SetLatestBlockHeight_def)

lemma plugin_evolves_store:
  assumes "c_digest c = c_digest (deref p r)" and "resigned (c_payload (deref p r)) (c_payload c)"
    and "\<And>a s. c_signMap c a = Some s \<Longrightarrow> c_signMap (deref p r) a = Some s \<or> new a s (c_digest c)"
  shows "plugin_evolves new p (store r c p)"
proof -
  have "deref (store r c p) i = (if i = r then c else deref p i)" if "i < length (cp_heap p)" for i
    using that by (simp add: store_def)
  then show ?thesis
    using assms heap_le_store [OF assms(1,2)] by (auto simp: plugin_evolves_def)
qed

lemma plugin_evolves_sign:
  "new a s (c_digest (deref p r)) \<Longrightarrow> plugin_evolves new p (store r (snd (AddSignature a s (deref p r))) p)"
  by (rule plugin_evolves_store) (auto simp: AddSignature_cases frame_simps split: if_splits)

lemma plugin_evolves_state: "plugin_evolves new p (store r (snd (SetState st (deref p r))) p)"
  by (rule plugin_evolves_store) (auto simp: frame_simps)

lemma plugin_evolves_payload:
  "resigned (c_payload (deref p r)) b \<Longrightarrow> plugin_evolves new p (store r ((deref p r)\<lparr>c_payload := b\<rparr>) p)"
  by (rule plugin_evolves_store) auto

lemma evolves_refl [simp]: "evolves new s s"
  by (simp add: evolves_def)

lemma evolves_trans: "evolves new s t \<Longrightarrow> evolves new t u \<Longrightarrow> evolves new s u"
  by (auto simp: evolves_def intro: plugin_evolves_trans)

lemma evolves_mono:
  "evolves new s t \<Longrightarrow> (\<And>a sg d. new a sg d \<Longrightarrow> new' a sg d) \<Longrightarrow> evolves new' s t"
  unfolding evolves_def plugin_evolves_def by metis

text \<open>The fields \<open>evolves\<close> does not look at.\<close>

lemma evolves_fields [simp]:
  "evolves new s (t\<lparr>f_signal := x1\<rparr>) = evolves new s t"
  "evolves new s (t\<lparr>f_coreTimer := x2\<rparr>) = evolves new s t"
  "evolves new s (t\<lparr>f_masterWait := x3\<rparr>) = evolves new s t"
  "evolves new s (t\<lparr>f_viewChange := x4\<rparr>) = evolves new s t"
  "evolves new s (t\<lparr>f_onlineWizard := x5\<rparr>) = evolves new s t"
  "evolves new s (t\<lparr>f_chain := x6\<rparr>) = evolves new s t"
  "evolves new s (t\<lparr>f_syncing := x7\<rparr>) = evolves new s t"
  "evolves new s (t\<lparr>f_blockSyncChan := x8\<rparr>) = evolves new s t"
  "evolves new s (t\<lparr>f_waiters := x9\<rparr>) = evolves new s t"
  "evolves new s (push_sync req t) = evolves new s t"
  "evolves new s (stopChangeViewTimer t) = evolves new s t"
  by (simp_all add: evolves_def push_sync_def stopChangeViewTimer_def split: option.splits)

lemma evolves_set_plugin [evolves_intros]:
  "evolves new s t \<Longrightarrow> plugin_evolves new (f_consensusPlugin t) p \<Longrightarrow> evolves new s (set_plugin p t)"
  by (auto simp: evolves_def set_plugin_def intro: plugin_evolves_trans)

lemma evolves_emit [evolves_intros]:
  "evolves new s t \<Longrightarrow> (\<And>eff. \<exists>sent. g eff = eff @ sent) \<Longrightarrow> evolves new s (emit g t)"
  by (auto simp: evolves_def emit_def) (metis append.assoc)

lemma evolves_notify [simp]: "evolves new s t \<Longrightarrow> evolves new s (notify ev t)"
  unfolding notify_def by (rule evolves_emit) auto

lemma evolves_waitMaster:
  "evolves new s t \<Longrightarrow> waitMasterTimeout t = Inr u \<Longrightarrow> evolves new s u"
  by (auto simp: waitMasterTimeout_def with_nodes_def split: if_splits option.splits)

lemma evolves_set_master [evolves_intros]:
  "evolves new s t \<Longrightarrow> map_option ni_local (f_nodes s) = Some (ni_local ns) \<Longrightarrow> evolves new s (set_master m ns t)"
  by (auto simp: evolves_def set_master_def clone_def)

lemma evolves_nodes:
  "evolves new s t \<Longrightarrow> f_nodes t = Some ns \<Longrightarrow> map_option ni_local (f_nodes s) = Some (ni_local ns)"
  by (auto simp: evolves_def)

lemma evolves_waitResponse [simp]: "evolves new s (waitResponse d t) = evolves new s t"
  by (simp add: waitResponse_def split: sum.splits)

lemma send_grows:
  "\<exists>sent. BroadcastPeers raw as eff = eff @ sent" "\<exists>sent. BroadcastPeersFilter raw as a eff = eff @ sent"
  "\<exists>sent. Unicast a raw eff = eff @ sent" "\<exists>sent. eff @ xs = eff @ sent"
  by (simp_all add: sending)

lemmas evolves_send = evolves_emit [OF _ send_grows(1)] evolves_emit [OF _ send_grows(2)]
  evolves_emit [OF _ send_grows(3)] evolves_emit [OF _ send_grows(4)]

section \<open>The handlers\<close>

text \<open>The signature a node adds on a request is its own; a delivered response adds the one it carries.\<close>

abbreviation own_signature :: "'w env \<Rightarrow> 'w fbftCore \<Rightarrow> signing" where
  "own_signature e s \<equiv> \<lambda>a sg d. map_option ni_local (f_nodes s) = Some a \<and> SignPayload e a d = Inr sg"

abbreviation carried_signature :: "'w env \<Rightarrow> Response \<Rightarrow> signing" where
  "carried_signature e r \<equiv> \<lambda>a sg d.
     a = res_Account r \<and> sg = res_Signature r \<and> d = res_Digest r \<and> SignatureVerify e a sg d"

lemma receiveRequest_evolves:
  assumes ok: "plugin_ok e A (f_consensusPlugin s)" and run: "receiveRequest e request s = Inr s'"
  shows "evolves (own_signature e s) s s'"
proof -
  let ?d = "b_MixDigest (req_Payload request)"
  let ?new = "own_signature e s"
  obtain ns where ns: "f_nodes s = Some ns" using run by (auto simp: receiveRequest_def with_nodes_def split: option.splits)
  obtain r p1 where add: "Add ?d (req_Payload request) (f_consensusPlugin s) = (r, p1)" by fastforce
  have p1: "p1 = snd (Add ?d (req_Payload request) (f_consensusPlugin s))" "r = fst (Add ?d (req_Payload request) (f_consensusPlugin s))"
    using add by simp_all
  have step1: "plugin_evolves ?new (f_consensusPlugin s) p1" by (simp add: p1 plugin_evolves_Add)
  have r: "r < length (cp_heap p1)" "c_digest (deref p1 r) = ?d" using Add_ref [OF ok] by (simp_all add: p1)
  show ?thesis
  proof (cases "SignPayload e (ni_local ns) ?d")
    case (Inl err)
    with run ns add step1 show ?thesis
      by (auto simp: receiveRequest_def with_nodes_def Let_def intro!: evolves_intros split: if_splits)
  next
    case (Inr sg)
    obtain added c1 where sign: "AddSignature (ni_local ns) sg (deref p1 r) = (added, c1)" by fastforce
    obtain err c2 where state: "SetState InConsensus c1 = (err, c2)" by fastforce
    have step2: "plugin_evolves ?new (f_consensusPlugin s) (store r c1 p1)"
      using plugin_evolves_trans [OF step1 plugin_evolves_sign [of ?new "ni_local ns" sg p1 r]] Inr ns r sign by simp
    have step3: "plugin_evolves ?new (f_consensusPlugin s) (store r c2 (store r c1 p1))"
      using plugin_evolves_trans [OF step2 plugin_evolves_state [of ?new "store r c1 p1" r InConsensus]] r state
      by (simp add: store_def)
    from run ns add Inr sign state step1 step2 step3 show ?thesis
      by (auto simp: receiveRequest_def with_nodes_def Let_def intro!: evolves_intros evolves_send
          split: if_splits sum.splits)
  qed
qed

lemma receiveProposal_evolves:
  assumes run: "receiveProposal e proposal s = Inr s'"
  shows "evolves new s s'"
proof -
  have waits: "evolves new s s2" if "waitMasterTimeout (stopChangeViewTimer s) = Inr s2" for s2
    using evolves_waitMaster [OF _ that] by simp
  from run waits show ?thesis
    by (auto simp: receiveProposal_def with_nodes_def Let_def bindP_Inr_iff
        intro!: evolves_intros evolves_send plugin_evolves_Add split: if_splits option.splits sum.splits)
qed

lemma receiveResponse_evolves:
  assumes ok: "plugin_ok e A (f_consensusPlugin s)" and run: "receiveResponse e response s = Inr s'"
  shows "evolves (carried_signature e response) s s'"
proof -
  let ?p = "f_consensusPlugin s"
  have "plugin_evolves (carried_signature e response) ?p (store r c1 ?p)"
    if "GetContentByHash (res_Digest response) ?p = Inr r"
      "SignatureVerify e (res_Account response) (res_Signature response) (res_Digest response)"
      "AddSignature (res_Account response) (res_Signature response) (deref ?p r) = (added, c1)" for r added c1
    using plugin_evolves_sign [of "carried_signature e response" "res_Account response" "res_Signature response" ?p r]
      that Get_ref [OF ok that(1)] by simp
  with run show ?thesis
    by (auto simp: receiveResponse_def with_nodes_def Let_def intro!: evolves_intros
        split: if_splits sum.splits option.splits prod.splits)
qed

lemma commitBlock_evolves: "evolves new s t \<Longrightarrow> evolves new s (commitBlock b t)"
  by (auto simp: commitBlock_def Let_def intro!: evolves_intros evolves_send evolves_notify plugin_evolves_Remove)

lemma tryToCommit_evolves:
  "tryToCommit e b result t = Inr u \<Longrightarrow> evolves new s t \<Longrightarrow> evolves new s u"
  by (auto simp: tryToCommit_def sendCommit_def with_nodes_def Let_def
      intro!: commitBlock_evolves evolves_send evolves_notify split: option.splits sum.splits if_splits)

lemma receiveCommit_evolves:
  assumes run: "receiveCommit e commit s = Inr s'"
  shows "evolves new s s'"
proof -
  have stored: "plugin_evolves new p (store r ((deref p r)\<lparr>c_payload := (set_SigData sigs (c_payload (deref p r)))\<lparr>b_HeaderHash := h\<rparr>\<rparr>) p)"
    if "HeaderHash e (set_SigData sigs (c_payload (deref p r))) = h" for p r sigs h
    using plugin_evolves_payload [OF resigned_signed [of "c_payload (deref p r)" e sigs]] that by simp
  from run show ?thesis
    by (auto simp: receiveCommit_def with_nodes_def Let_def GetContentPayload_def
        intro!: stored commitBlock_evolves evolves_notify evolves_intros split: if_splits sum.splits option.splits)
qed

lemma sendSyncBlockMsg_loop_grows:
  assumes "sendSyncBlockMsg_loop e ns i j target eff = Some eff'"
  shows "\<exists>sent. eff' = eff @ sent"
  using assms
proof (induction rule: sendSyncBlockMsg_loop.raw_induct [rotated 1, consumes 1])
  case (1 loop e ns i j target eff eff')
  then show ?case by (auto simp: sending split: if_splits sum.splits) (metis append.assoc)
qed

lemma sendSyncBlockMsg_evolves:
  "sendSyncBlockMsg e i j target t = Inr u \<Longrightarrow> evolves new s t \<Longrightarrow> evolves new s u"
  by (auto simp: sendSyncBlockMsg_def with_nodes_def evolves_def dest!: sendSyncBlockMsg_loop_grows
      split: option.splits)

lemma doSyncBlock_evolves:
  "doSyncBlock e req t = Inr u \<Longrightarrow> evolves new s t \<Longrightarrow> evolves new s u"
  by (auto simp: doSyncBlock_def Let_def bindP_Inr_iff intro: sendSyncBlockMsg_evolves
      split: option.splits if_splits)

lemma receiveChangeViewReq_evolves:
  assumes run: "receiveChangeViewReq e req s = Inr s'"
  shows "evolves new s s'"
proof -
  have changes: "evolves new s u" if "changeView e v vr ns t = Inr u" "evolves new s t" "f_nodes t = Some ns" for v vr ns t u
    using that(1) evolves_nodes [OF that(2,3)] that(2,3)
    by (auto simp: changeView_def Let_def bindP_Inr_iff sendChangeViewReq_def with_nodes_def
        intro!: evolves_notify evolves_intros evolves_send split: option.splits sum.splits)
  from run show ?thesis
    by (auto simp: receiveChangeViewReq_def with_nodes_def Let_def split_beta elim!: changes
        split: if_splits option.splits sum.splits)
qed

lemma sendOnlineRequest_evolves:
  "sendOnlineRequest e s = Inr s' \<Longrightarrow> evolves new s s'"
  by (auto simp: sendOnlineRequest_def with_nodes_def Let_def bindP_Inr_iff intro!: evolves_send evolves_notify
      split: option.splits sum.splits if_splits)

lemma receiveOnlineRequest_evolves:
  "receiveOnlineRequest e req s = Inr s' \<Longrightarrow> evolves new s s'"
  by (auto simp: receiveOnlineRequest_def with_nodes_def Let_def bindP_Inr_iff case_sum_Inr_iff
      intro!: evolves_send evolves_notify split: option.splits if_splits)

lemma evolves_master_in_place [evolves_intros]:
  "evolves new s t \<Longrightarrow> map_option ni_local (f_nodes s) = Some (ni_local ns) \<Longrightarrow>
   evolves new s (t\<lparr>f_nodes := Some (ns\<lparr>ni_master := m\<rparr>)\<rparr>)"
  by (auto simp: evolves_def)

lemma receiveOnlineResponse_evolves:
  "receiveOnlineResponse e resp s = Inr s' \<Longrightarrow> evolves new s s'"
  by (auto simp: receiveOnlineResponse_def with_nodes_def Let_def bindP_Inr_iff case_sum_Inr_iff
      intro!: evolves_send evolves_notify evolves_intros split: option.splits if_splits)

lemma receiveSync_evolves:
  "receiveSyncBlockRequest e req s = Inr s' \<Longrightarrow> evolves new s s'"
  "receiveSyncBlockResponse e resp s = Inr s' \<Longrightarrow> evolves new s s'"
  by (auto simp: receiveSyncBlockRequest_def receiveSyncBlockResponse_def bindP_Inr_iff intro!: evolves_send
      split: if_splits option.splits sum.splits)

lemmas handler_evolves = receiveProposal_evolves receiveCommit_evolves receiveChangeViewReq_evolves
  receiveOnlineRequest_evolves receiveOnlineResponse_evolves receiveSync_evolves

section \<open>Deliveries and steps\<close>

text \<open>What one delivered message may add: the signature of a response, or one's own on a request.\<close>

fun carried :: "'w env \<Rightarrow> payload \<Rightarrow> signing" where
  "carried e (ResponseMessage (Some r)) = carried_signature e r"
| "carried e _ = (\<lambda>a sg d. False)"

lemma SendEvent_evolves:
  assumes ok: "plugin_ok e A (f_consensusPlugin s)" and known: "known_event ev"
    and run: "SendEvent (ProcessEvent e) s ev = Some (Inr s')"
  shows "evolves (\<lambda>a sg d. own_signature e s a sg d \<or> (\<exists>r. ev = EvResponse (Some r) \<and> carried_signature e r a sg d)) s s'"
  using run unfolding fbft_receiver.SendEvent_known [OF known]
  by (cases ev)
    (auto simp: ProcessEvent_def with_nodes_def handle_def bindP_Inr_iff
      intro: handler_evolves evolves_mono [OF receiveRequest_evolves [OF ok]] evolves_mono [OF receiveResponse_evolves [OF ok]]
      split: option.splits sum.splits prod.splits)

lemma handleClient_evolves:
  assumes ok: "plugin_ok e A (f_consensusPlugin s)" and run: "handleClient e conn s = Some (Inr s')"
  shows "evolves (\<lambda>a sg d. own_signature e s a sg d \<or>
    (\<exists>msg rest. ReadMessage (json_Unmarshal e) conn = Inr (msg, rest) \<and> carried e (msg_PayLoad msg) a sg d)) s s'"
proof (cases "ReadMessage (json_Unmarshal e) conn")
  case (Inl err)
  with run show ?thesis by (auto simp: handleClient_def split: option.splits)
next
  case (Inr mr)
  obtain msg rest where mr: "mr = (msg, rest)" by (cases mr)
  have "s' = s \<or> (\<exists>ev. known_event ev \<and> SendEvent (ProcessEvent e) s ev = Some (Inr s') \<and>
      (\<forall>r. ev = EvResponse (Some r) \<longrightarrow> msg_PayLoad msg = ResponseMessage (Some r)))"
    using run Inr mr
    by (auto simp: handleClient_def Let_def split: option.splits if_splits payload.splits) force+
  then show ?thesis
    using Inr mr by (auto intro: evolves_mono [OF SendEvent_evolves [OF ok]])
qed

lemma reached_consensus_evolves: "evolves new s (reached_consensus wt s)"
  by (auto simp: reached_consensus_def Let_def intro!: evolves_intros plugin_evolves_state)

lemma maybeCommit_signal [simp]: "maybeCommit d (s\<lparr>f_signal := x\<rparr>) = maybeCommit d s"
  by (simp add: maybeCommit_def with_nodes_def split: option.splits sum.splits)

lemma evolves_from_signal [simp]: "evolves new (s\<lparr>f_signal := x\<rparr>) t = evolves new s t"
  by (simp add: evolves_def)

lemma result_of_reached [simp]: "f_result (reached_consensus wt s) = f_result s"
  by (simp add: reached_consensus_def Let_def set_plugin_def)

text \<open>
  The steps of its own: the result channel only gets the count of a \<open>waitResponse\<close> goroutine.
\<close>

definition counted :: "'w fbftCore \<Rightarrow> ConsensusResult \<Rightarrow> bool" where
  "counted s res \<longleftrightarrow>
     (\<exists>wt \<in> set (f_waiters s). maybeCommit (wt_digest wt) s = Inr (cr_Signatures res, cr_Result res))"

definition steps_to :: "signing \<Rightarrow> 'w fbftCore \<Rightarrow> 'w fbftCore \<Rightarrow> bool" where
  "steps_to new s s' \<longleftrightarrow> (\<exists>t rs. s' = t\<lparr>f_result := rs\<rparr> \<and> evolves new s t \<and>
     (\<forall>res \<in> set rs. res \<in> set (f_result s) \<or> counted s res))"

lemma evolves_steps_to: "evolves new s s' \<Longrightarrow> steps_to new s s'"
  unfolding steps_to_def by (rule exI [of _ s'], rule exI [of _ "f_result s'"]) (auto simp: evolves_def)

lemma waitResponse_steps:
  assumes wt: "wt \<in> set (f_waiters s)"
  shows "waitResponse_timeout wt s = Inr s' \<Longrightarrow> steps_to new s s'"
    and "waitResponse_signal wt s = Inr s' \<Longrightarrow> steps_to new s s'"
proof -
  have sends: "steps_to new s (send_result wt \<lparr>cr_Signatures = sigs, cr_Result = err\<rparr> t)"
    if "maybeCommit (wt_digest wt) s = Inr (sigs, err)" "evolves new s t" "f_result t = f_result s" for sigs err t
    unfolding steps_to_def
    by (rule exI [of _ "t\<lparr>f_waiters := remove1 wt (f_waiters t)\<rparr>"],
        rule exI [of _ "f_result t @ [\<lparr>cr_Signatures = sigs, cr_Result = err\<rparr>]"])
      (use that wt in \<open>auto simp: send_result_def counted_def\<close>)
  have reached: "evolves new s (reached_consensus wt (s\<lparr>f_signal := n\<rparr>))" for n
    using reached_consensus_evolves [of new "s\<lparr>f_signal := n\<rparr>"] by simp
  show "steps_to new s s'" if "waitResponse_timeout wt s = Inr s'"
    using that by (auto simp: waitResponse_timeout_def bindP_Inr_iff reached_consensus_evolves intro!: sends)
  show "steps_to new s s'" if "waitResponse_signal wt s = Inr s'"
    using that reached
    by (auto simp: waitResponse_signal_def Let_def bindP_Inr_iff intro!: sends intro: evolves_steps_to split: if_splits)
qed

lemma evolves_drop_result: "evolves new s (s\<lparr>f_result := tl (f_result s)\<rparr>)"
  by (cases "f_result s") (auto simp: evolves_def)

lemma set_pending_block_evolves:
  assumes "resigned (pending_block prop p) b" and "f_consensusPlugin t = f_consensusPlugin (p_core p)" and "evolves new s t"
  shows "evolves new s (set_pending_block b p t)"
  using assms
  by (auto simp: set_pending_block_def pending_block_def GetContentPayload_def Let_def
      intro!: evolves_intros plugin_evolves_payload split: option.splits)

lemma Initialization_evolves:
  assumes "f_nodes (p_core p) = Some ns" and "Initialization (ni_local ns) master peers onLine p = Inr p'"
  shows "evolves new (p_core p) (p_core p')"
proof -
  have "evolves new (p_core p) ((p_core p)\<lparr>f_nodes := Some \<lparr>ni_local = ni_local ns, ni_master = master, ni_peers = peers\<rparr>,
      f_tolerance := tolerance_of (length peers)\<rparr>)"
    using assms(1) by (simp add: evolves_def)
  with assms(2) show ?thesis
    by (auto simp: Initialization_def Let_def bindP_Inr_iff intro: evolves_waitMaster split: if_splits)
qed

lemma Prepare_evolves:
  "f_nodes (p_core p) = Some ns \<Longrightarrow> Prepare (ni_local ns) p = Inr p' \<Longrightarrow> evolves new (p_core p) (p_core p')"
  by (auto simp: Prepare_def with_nodes_def clone_def evolves_def)

lemma local_step_steps:
  assumes inv: "core_inv e A peers D (p_core p)" and step: "local_step e p l p'"
  shows "steps_to (own_signature e (p_core p)) (p_core p) (p_core p')"
  using step
proof cases
  case (begin_round t pr)
  let ?ev = "EvRequest (Some
      \<lparr>req_Timestamp = prop_Timestamp pr, req_Account = p_local p, req_Payload = prop_Block pr\<rparr>)"
  have "SendEvent (ProcessEvent (e\<lparr>time_Now := t\<rparr>)) (p_core p) ?ev = Some (Inr (p_core p'))"
    using begin_round by (auto simp: ToConsensus_begin_def Let_def bindP_Inr_iff split: if_splits option.splits)
  moreover have "plugin_ok (e\<lparr>time_Now := t\<rparr>) A (f_consensusPlugin (p_core p))"
    using inv core_inv_plugin [of "e\<lparr>time_Now := t\<rparr>"] by simp
  ultimately have "evolves (own_signature e (p_core p)) (p_core p) (p_core p')"
    using SendEvent_evolves [of "e\<lparr>time_Now := t\<rparr>" A "p_core p" ?ev "p_core p'"] by simp
  then show ?thesis by (rule evolves_steps_to)
next
  case (initialise ns master onLine)
  then show ?thesis by (blast intro: evolves_steps_to Initialization_evolves)
next
  case (prepare ns)
  then show ?thesis by (blast intro: evolves_steps_to Prepare_evolves)
next
  case (round_result pr res rest t err)
  let ?e = "e\<lparr>time_Now := t\<rparr>" and ?s = "(p_core p)\<lparr>f_result := tl (f_result (p_core p))\<rparr>"
  obtain b where b: "tryToCommit ?e b (err = None) (set_pending_block b p ?s) = Inr (p_core p')"
      "b = (if err = None then signed_block ?e (pending_block pr p) (cr_Signatures res) else pending_block pr p)"
    using ToConsensus_result_commits round_result by blast
  then have "resigned (pending_block pr p) b"
    using resigned_signed [of "pending_block pr p" ?e] by (simp add: signed_block_def)
  then have "evolves (own_signature e (p_core p)) (p_core p) (set_pending_block b p ?s)"
    by (rule set_pending_block_evolves) (simp_all add: evolves_drop_result)
  with b(1) show ?thesis by (auto intro: evolves_steps_to tryToCommit_evolves)
next
  case (responses_timeout wt c)
  then show ?thesis by (simp add: waitResponse_steps)
next
  case (responses_signal wt c)
  then show ?thesis by (simp add: waitResponse_steps)
qed (auto simp: ToConsensus_timeout_def GoOnlineNow_def Let_def bindP_Inr_iff
    waitMasterTimeout_fires_def blockSyncHandler_def doSyncBlock_committed_def doSyncBlock_timeout_def
    intro!: evolves_steps_to evolves_send
    intro: tryToCommit_evolves sendOnlineRequest_evolves doSyncBlock_evolves
    split: option.splits sum.splits list.splits)

end
