(* ===== verification/Fbft_Network.thy ===== *)
theory Fbft_Network
  imports Fbft_Provenance
begin

text \<open>
  Several FBFT nodes together. A network maps the account of every correct node to its state and
  the digests that were requested at it; the other peers are faulty and have no state. A step is a
  step of one correct node of its own, or the delivery of bytes to one. The bytes may come from
  anywhere, under two separate conditions. \<open>unforged\<close> is the unforgeability of signatures: a
  signature that verifies for the address of a correct node arrives only after a correct node with
  that address sent its signature of the same digest. \<open>responses_from\<close> bounds the accounts in
  whose name responses arrive; the program does not check this, so with \<open>UNIV\<close> there is no
  condition and the network has every step of the code, and a theorem that needs another set says so.
\<close>

section \<open>Networks\<close>

type_synonym 'w network = "Account \<rightharpoonup> 'w FBFTPolicy \<times> hash set"

text \<open>The signatures a message carries: account, signature and the digest that is signed.\<close>

fun claims :: "payload \<Rightarrow> (Account \<times> bytes \<times> hash) set" where
  "claims (ResponseMessage (Some r)) = {(res_Account r, res_Signature r, res_Digest r)}"
| "claims (ProposalMessage (Some p)) = {(pro_Account p, pro_Signature p, b_MixDigest (pro_Payload p))}"
| "claims _ = {}"

definition sent_signature :: "'w env \<Rightarrow> Account \<Rightarrow> 'w fbftCore \<Rightarrow> hash \<Rightarrow> bool" where
  "sent_signature e a s d \<longleftrightarrow> (\<exists>msg raw url sg. SendTo url raw \<in> set (f_effects s) \<and>
     encode e msg = Inr raw \<and> (a, sg, d) \<in> claims (msg_PayLoad msg))"

text \<open>
  \<open>a\<close> signed \<open>d\<close>, as far as the correct nodes are concerned: a correct node of this account has
  sent its signature; and when the account is not a correct node's but has the address of one (the
  program compares addresses only when it verifies, and accounts when it counts), a correct node
  with that address has. A key that no correct node holds signs anything.
\<close>

definition signed_by :: "'w env \<Rightarrow> 'w network \<Rightarrow> Account \<Rightarrow> hash \<Rightarrow> bool" where
  "signed_by e N a d \<longleftrightarrow>
     (case N a of
        Some (p, D) \<Rightarrow> sent_signature e a (p_core p) d
      | None \<Rightarrow> (\<exists>b \<in> dom N. acc_Address b = acc_Address a) \<longrightarrow>
          (\<exists>b p D. N b = Some (p, D) \<and> acc_Address b = acc_Address a \<and> sent_signature e b (p_core p) d))"

definition unforged :: "'w env \<Rightarrow> 'w network \<Rightarrow> bytes \<Rightarrow> bool" where
  "unforged e N conn \<longleftrightarrow>
     (\<forall>msg rest a sg d. ReadMessage (json_Unmarshal e) conn = Inr (msg, rest) \<longrightarrow>
        (a, sg, d) \<in> claims (msg_PayLoad msg) \<longrightarrow> SignatureVerify e a sg d \<longrightarrow> signed_by e N a d)"

definition responses_from :: "'w env \<Rightarrow> Account set \<Rightarrow> bytes \<Rightarrow> bool" where
  "responses_from e A conn \<longleftrightarrow>
     (\<forall>msg rest r. ReadMessage (json_Unmarshal e) conn = Inr (msg, rest) \<longrightarrow>
        msg_PayLoad msg = ResponseMessage (Some r) \<longrightarrow> res_Account r \<in> A)"

lemma responses_from_UNIV [simp]: "responses_from e UNIV conn"
  by (simp add: responses_from_def)

fun label_digests :: "label \<Rightarrow> hash set" where
  "label_digests Internal = {}"
| "label_digests (RequestFor d) = {d}"

definition requested :: "'w env \<Rightarrow> bytes \<Rightarrow> hash set" where
  "requested e conn =
     (case ReadMessage (json_Unmarshal e) conn of
        Inl err \<Rightarrow> {}
      | Inr (msg, rest) \<Rightarrow>
          (case msg_PayLoad msg of
             RequestMessage (Some request) \<Rightarrow>
               if msg_Type msg = RequestMessageType then {b_MixDigest (req_Payload request)} else {}
           | _ \<Rightarrow> {}))"

inductive net_step :: "'w env \<Rightarrow> Account set \<Rightarrow> 'w network \<Rightarrow> 'w network \<Rightarrow> bool"
  for e A where
  net_alone:
    "N x = Some (p, D) \<Longrightarrow> local_step e p l p' \<Longrightarrow>
     net_step e A N (N(x \<mapsto> (p', label_digests l \<union> D)))"
| net_deliver:
    "N x = Some (p, D) \<Longrightarrow> responses_from e A conn \<Longrightarrow> unforged e N conn \<Longrightarrow>
     handleClient (e\<lparr>time_Now := t\<rparr>) conn (p_core p) = Some (Inr c) \<Longrightarrow>
     net_step e A N (N(x \<mapsto> (p\<lparr>p_core := c\<rparr>, requested e conn \<union> D)))"

definition runs_as :: "Account \<Rightarrow> 'w FBFTPolicy \<Rightarrow> bool" where
  "runs_as x p \<longleftrightarrow> map_option ni_local (f_nodes (p_core p)) = Some x"

definition net_started :: "Account set \<Rightarrow> Account list \<Rightarrow> 'w network \<Rightarrow> bool" where
  "net_started A peers N \<longleftrightarrow>
     (\<forall>x p D. N x = Some (p, D) \<longrightarrow> D = {} \<and> x \<in> A \<and> runs_as x p \<and> fbft_started A peers p)"

inductive net_reachable :: "'w env \<Rightarrow> Account set \<Rightarrow> Account list \<Rightarrow> 'w network \<Rightarrow> bool"
  for e A peers where
  net_init: "net_started A peers N \<Longrightarrow> net_reachable e A peers N"
| net_next: "net_reachable e A peers N \<Longrightarrow> net_step e A N N' \<Longrightarrow> net_reachable e A peers N'"

section \<open>Every node of a network is a node\<close>

lemma deliver_is_step:
  assumes "responses_from e A conn" and "handleClient (e\<lparr>time_Now := t\<rparr>) conn (p_core p) = Some (Inr c)"
  shows "(requested e conn = {} \<and> fbft_step e A p Internal (p\<lparr>p_core := c\<rparr>)) \<or>
    (\<exists>d. requested e conn = {d} \<and> fbft_step e A p (RequestFor d) (p\<lparr>p_core := c\<rparr>))"
proof -
  consider (request) msg rest where "ReadMessage (json_Unmarshal e) conn = Inr (msg, rest)" "msg_Type msg = RequestMessageType"
    | (other) "\<forall>msg rest. ReadMessage (json_Unmarshal e) conn = Inr (msg, rest) \<longrightarrow> msg_Type msg \<noteq> RequestMessageType"
    by blast
  then show ?thesis
  proof cases
    case request
    with assms(2) obtain request where r: "msg_PayLoad msg = RequestMessage (Some request)"
      by (auto simp: handleClient_def Let_def fbft_receiver.SendEvent_known ProcessEvent_def with_nodes_def handle_def
          split: option.splits payload.splits)
    have "fbft_step e A p (RequestFor (b_MixDigest (req_Payload request))) (p\<lparr>p_core := c\<rparr>)"
      using fbft_step.deliver_request [OF assms(2) request r] .
    with request r show ?thesis by (simp add: requested_def)
  next
    case other
    then have "requested e conn = {}"
      by (auto simp: requested_def split: sum.splits payload.splits option.splits)
    moreover have "fbft_step e A p Internal (p\<lparr>p_core := c\<rparr>)"
      using fbft_step.deliver [OF assms(2) other] assms(1) by (auto simp: responses_from_def)
    ultimately show ?thesis by blast
  qed
qed

lemma run_extends:
  assumes "fbft_reachable e A peers D p"
    and "(E = {} \<and> fbft_step e A p Internal p') \<or> (\<exists>d. E = {d} \<and> fbft_step e A p (RequestFor d) p')"
  shows "fbft_reachable e A peers (E \<union> D) p'"
proof -
  obtain p0 where p0: "fbft_started A peers p0" "fbft_run e A p0 D p"
    using assms(1) unfolding fbft_reachable_def by (elim exE conjE)
  have "fbft_run e A p0 (E \<union> D) p'"
    using p0(2) assms(2) by (auto intro: fbft_run.run_internal fbft_run.run_request)
  with p0(1) show ?thesis unfolding fbft_reachable_def by blast
qed

lemma label_step: "local_step e p l p' \<Longrightarrow> (label_digests l = {} \<and> fbft_step e A p Internal p') \<or>
    (\<exists>d. label_digests l = {d} \<and> fbft_step e A p (RequestFor d) p')"
  by (cases l) (auto intro: fbft_step.alone)

lemma net_node_reachable:
  assumes "net_reachable e A peers N" and "N x = Some (p, D)"
  shows "fbft_reachable e A peers D p"
  using assms
proof (induction arbitrary: x p D rule: net_reachable.induct)
  case (net_init N)
  then have "D = {}" "fbft_started A peers p" by (simp_all add: net_started_def)
  with fbft_run.run_start show ?case unfolding fbft_reachable_def by blast
next
  case (net_next N N')
  from net_next.hyps(2) show ?case
  proof cases
    case (net_alone y q E l q')
    with net_next.prems net_next.IH run_extends [OF _ label_step] show ?thesis
      by (cases "x = y") fastforce+
  next
    case (net_deliver y q E conn t c)
    with net_next.prems net_next.IH run_extends [OF _ deliver_is_step] show ?thesis
      by (cases "x = y") fastforce+
  qed
qed

lemma carried_time [simp]: "carried (e\<lparr>time_Now := t\<rparr>) = carried e"
proof (intro ext)
  show "carried (e\<lparr>time_Now := t\<rparr>) m a sg d = carried e m a sg d" for m a sg d
    by (cases "(e, m)" rule: carried.cases) auto
qed

section \<open>Whose signatures a node holds\<close>

text \<open>\<open>x\<close> may count a signature of \<open>a\<close> for \<open>d\<close> when it is its own or \<open>a\<close> signed \<open>d\<close>.\<close>

definition vouched :: "'w env \<Rightarrow> 'w network \<Rightarrow> Account \<Rightarrow> Account \<Rightarrow> hash \<Rightarrow> bool" where
  "vouched e N x a d \<longleftrightarrow> a = x \<or> signed_by e N a d"

definition node_vouched :: "'w env \<Rightarrow> 'w network \<Rightarrow> Account set \<Rightarrow> nat \<Rightarrow> Account \<Rightarrow> hash set \<Rightarrow> 'w fbftCore \<Rightarrow> bool" where
  "node_vouched e N A n x D s \<longleftrightarrow>
     map_option ni_local (f_nodes s) = Some x \<and>
     (\<forall>r < length (cp_heap (f_consensusPlugin s)). \<forall>a sg.
        c_signMap (deref (f_consensusPlugin s) r) a = Some sg \<longrightarrow>
        vouched e N x a (c_digest (deref (f_consensusPlugin s) r))) \<and>
     (\<forall>res \<in> set (f_result s). cr_Result res = None \<longrightarrow>
        (\<exists>d \<in> D. certificate e {a \<in> A. vouched e N x a d} n d (cr_Signatures res)))"

lemma certificate_mono: "certificate e A n d sigs \<Longrightarrow> A \<subseteq> B \<Longrightarrow> certificate e B n d sigs"
  unfolding certificate_def by blast

lemma maybeCommit_vouched:
  assumes inv: "core_inv e A peers D s" and run: "maybeCommit d s = Inr (sigs, None)"
    and v: "\<forall>r < length (cp_heap (f_consensusPlugin s)). \<forall>a sg.
      c_signMap (deref (f_consensusPlugin s) r) a = Some sg \<longrightarrow> V a (c_digest (deref (f_consensusPlugin s) r))"
  shows "certificate e {a \<in> A. V a d} (length peers) d sigs"
proof -
  let ?p = "f_consensusPlugin s"
  obtain m where "commit_threshold (length peers) \<le> of_nat (length sigs)"
    using maybeCommit_certificate [OF inv run] by (auto simp: certificate_def)
  moreover obtain r where r: "GetContentByHash d ?p = Inr r" "sigs = c_signatures (deref ?p r)"
    using run by (auto simp: maybeCommit_def with_nodes_def Let_def Signatures_def split: option.splits sum.splits if_splits)
  note ref = Get_ref [OF core_inv_plugin [OF inv] r(1)]
  ultimately show ?thesis
    using plugin_ok_deref [OF core_inv_plugin [OF inv] ref(1)] ref v r(2)
    by (auto simp: certificate_def content_inv_def signed_content_def intro!: exI [of _ "c_signMap (deref ?p r)"])
qed

lemma steps_vouched:
  assumes nv: "node_vouched e N A (length peers) x D s" and inv: "core_inv e A peers D s"
    and step: "steps_to new s s'" and D: "D \<subseteq> D'"
    and new: "\<And>a sg d. new a sg d \<Longrightarrow> vouched e N' x a d"
    and mono: "\<And>a d. vouched e N x a d \<Longrightarrow> vouched e N' x a d"
  shows "node_vouched e N' A (length peers) x D' s'"
proof -
  obtain t rs where s': "s' = t\<lparr>f_result := rs\<rparr>" and t: "evolves new s t"
    and rs: "\<forall>res \<in> set rs. res \<in> set (f_result s) \<or> counted s res"
    using step by (auto simp: steps_to_def)
  have certs: "\<exists>d \<in> D. certificate e {a \<in> A. vouched e N x a d} (length peers) d (cr_Signatures res)"
    if "res \<in> set rs" "cr_Result res = None" for res
  proof (cases "res \<in> set (f_result s)")
    case True
    with nv that(2) show ?thesis by (simp add: node_vouched_def)
  next
    case False
    with rs that obtain wt where wt: "wt \<in> set (f_waiters s)" "maybeCommit (wt_digest wt) s = Inr (cr_Signatures res, None)"
      by (auto simp: counted_def)
    then have "wt_digest wt \<in> D" using inv by (auto simp: core_inv_def waiters_inv_def)
    moreover have "certificate e {a \<in> A. vouched e N x a (wt_digest wt)} (length peers) (wt_digest wt) (cr_Signatures res)"
      using maybeCommit_vouched [OF inv wt(2), of "vouched e N x"] nv by (simp add: node_vouched_def)
    ultimately show ?thesis by blast
  qed
  have "\<exists>d \<in> D'. certificate e {a \<in> A. vouched e N' x a d} (length peers) d (cr_Signatures res)"
    if "res \<in> set rs" "cr_Result res = None" for res
    using certs [OF that] D mono by (blast intro: certificate_mono)
  moreover have "vouched e N' x a (c_digest (deref (f_consensusPlugin t) r))"
    if "r < length (cp_heap (f_consensusPlugin t))" "c_signMap (deref (f_consensusPlugin t) r) a = Some sg" for r a sg
  proof -
    have "r < length (cp_heap (f_consensusPlugin s)) \<and> c_signMap (deref (f_consensusPlugin s) r) a = Some sg \<or>
        new a sg (c_digest (deref (f_consensusPlugin t) r))"
      using that t by (auto simp: evolves_def plugin_evolves_def)
    moreover have "c_digest (deref (f_consensusPlugin t) r) = c_digest (deref (f_consensusPlugin s) r)"
      if "r < length (cp_heap (f_consensusPlugin s))"
      using that t by (auto simp: evolves_def plugin_evolves_def heap_le_def)
    ultimately show ?thesis using nv new mono by (auto simp: node_vouched_def)
  qed
  ultimately show ?thesis
    using nv t by (auto simp: s' node_vouched_def evolves_def)
qed

lemma steps_to_effects: "steps_to new s s' \<Longrightarrow> \<exists>sent. f_effects s' = f_effects s @ sent"
  by (auto simp: steps_to_def evolves_def)

lemma sent_signature_grows:
  "sent_signature e a s d \<Longrightarrow> \<exists>sent. f_effects s' = f_effects s @ sent \<Longrightarrow> sent_signature e a s' d"
  by (auto simp: sent_signature_def) blast+

lemma signed_by_update:
  assumes x: "N x = Some (p, D)" and grows: "\<exists>sent. f_effects (p_core p') = f_effects (p_core p) @ sent"
    and signed: "signed_by e N a d"
  shows "signed_by e (N(x \<mapsto> (p', D'))) a d"
proof (cases "N a")
  case None
  with x have [simp]: "a \<noteq> x" by auto
  show ?thesis
  proof (cases "\<exists>b \<in> dom N. acc_Address b = acc_Address a")
    case True
    with signed None obtain b q E where b: "N b = Some (q, E)" "acc_Address b = acc_Address a" "sent_signature e b (p_core q) d"
      by (auto simp: signed_by_def)
    define N' where "N' = N(x \<mapsto> (p', D'))"
    have "\<exists>r F. N' b = Some (r, F) \<and> sent_signature e b (p_core r) d"
      using b x grows sent_signature_grows [of e x "p_core p" d] by (cases "b = x") (auto simp: N'_def)
    moreover have "N' a = None" using None by (simp add: N'_def)
    ultimately have "signed_by e N' a d" using b(2) by (auto simp: signed_by_def)
    then show ?thesis by (simp only: N'_def)
  next
    case False
    with x None show ?thesis by (auto simp: signed_by_def)
  qed
next
  case (Some qE)
  with assms sent_signature_grows [of e x "p_core p" d "p_core p'"] show ?thesis by (cases "a = x") (auto simp: signed_by_def split: prod.splits)
qed

lemma vouched_update:
  assumes "N x = Some (p, D)" and "\<exists>sent. f_effects (p_core p') = f_effects (p_core p) @ sent"
    and "vouched e N y a d"
  shows "vouched e (N(x \<mapsto> (p', D'))) y a d"
  using assms(3) signed_by_update [where N = N, OF assms(1,2)] by (auto simp: vouched_def)

definition net_inv :: "'w env \<Rightarrow> Account set \<Rightarrow> nat \<Rightarrow> 'w network \<Rightarrow> bool" where
  "net_inv e A n N \<longleftrightarrow> (\<forall>x p D. N x = Some (p, D) \<longrightarrow> node_vouched e N A n x D (p_core p))"

lemma node_vouched_mono:
  assumes "node_vouched e N A n x D s" and "\<And>a d. vouched e N x a d \<Longrightarrow> vouched e N' x a d"
  shows "node_vouched e N' A n x D s"
proof -
  have "{a \<in> A. vouched e N x a d} \<subseteq> {a \<in> A. vouched e N' x a d}" for d using assms(2) by blast
  with assms show ?thesis unfolding node_vouched_def by (meson certificate_mono)
qed

lemma net_inv_update:
  assumes net: "net_inv e A (length peers) N" and x: "N x = Some (p, D)" and inv: "core_inv e A peers D (p_core p)"
    and step: "steps_to new (p_core p) (p_core p')" and D: "D \<subseteq> D'"
    and new: "\<And>a sg d. new a sg d \<Longrightarrow> vouched e N x a d"
  shows "net_inv e A (length peers) (N(x \<mapsto> (p', D')))"
proof -
  have mono: "vouched e (N(x \<mapsto> (p', D'))) y a d" if "vouched e N y a d" for y a d
    using vouched_update [where N = N and x = x, OF x steps_to_effects [OF step] that] .
  have "node_vouched e (N(x \<mapsto> (p', D'))) A (length peers) x D' (p_core p')"
  proof (rule steps_vouched [OF _ inv step D])
    show "node_vouched e N A (length peers) x D (p_core p)" using net x by (simp add: net_inv_def)
  qed (use new mono in blast)+
  moreover have "node_vouched e (N(x \<mapsto> (p', D'))) A (length peers) y E (p_core q)"
    if "N y = Some (q, E)" for y q E
    using net that by (intro node_vouched_mono [OF _ mono]) (auto simp: net_inv_def)
  ultimately show ?thesis by (auto simp: net_inv_def)
qed

lemma net_reachable_inv:
  assumes "net_reachable e A peers N" and sig: "signs_correctly e"
  shows "net_inv e A (length peers) N"
  using assms(1)
proof (induction rule: net_reachable.induct)
  case (net_init N)
  show ?case
    unfolding net_inv_def
  proof (intro allI impI)
    fix x p D
    assume "N x = Some (p, D)"
    with net_init have "runs_as x p" "fbft_started A peers p" by (simp_all add: net_started_def)
    then show "node_vouched e N A (length peers) x D (p_core p)"
      by (auto simp: node_vouched_def runs_as_def fbft_started_def Initialization_def Let_def bindP_Inr_iff
          NewFBFTPolicy_def NewFBFTCore_def NewConsensusPlugin_def waitMasterTimeout_def with_nodes_def split: if_splits)
  qed
next
  case (net_next N N')
  from net_next.hyps(2) show ?case
  proof cases
    case (net_alone x p D l p')
    note inv = fbft_reachable_inv [OF net_node_reachable [OF net_next.hyps(1) net_alone(2)] sig]
    have "map_option ni_local (f_nodes (p_core p)) = Some x"
      using net_next.IH net_alone(2) by (simp add: net_inv_def node_vouched_def)
    then have "vouched e N x a d" if "own_signature e (p_core p) a sg d" for a sg d
      using that by (simp add: vouched_def)
    then show ?thesis
      unfolding net_alone(1)
      using net_inv_update [OF net_next.IH net_alone(2) inv local_step_steps [OF inv net_alone(3)]] by blast
  next
    case (net_deliver x p D conn t c)
    note inv = fbft_reachable_inv [OF net_node_reachable [OF net_next.hyps(1) net_deliver(2)] sig]
    let ?new = "\<lambda>a sg d. own_signature e (p_core p) a sg d \<or> (\<exists>msg rest.
        ReadMessage (json_Unmarshal e) conn = Inr (msg, rest) \<and> carried e (msg_PayLoad msg) a sg d)"
    have own: "map_option ni_local (f_nodes (p_core p)) = Some x"
      using net_next.IH net_deliver(2) by (simp add: net_inv_def node_vouched_def)
    have carries: "(a, sg, d) \<in> claims m \<and> SignatureVerify e a sg d" if "carried e m a sg d" for m a sg d
      using that by (cases "(e, m)" rule: carried.cases) auto
    have "vouched e N x a d" if "?new a sg d" for a sg d
      using that own net_deliver(4) carries by (fastforce simp: vouched_def unforged_def)
    moreover have "steps_to ?new (p_core p) c"
      using handleClient_evolves [OF core_inv_plugin net_deliver(5)] inv
      by (simp add: evolves_steps_to)
    ultimately show ?thesis
      unfolding net_deliver(1)
      by (intro net_inv_update [OF net_next.IH net_deliver(2) inv, of ?new]) auto
  qed
qed

section \<open>What a result means for the network\<close>

lemma result_certificate:
  assumes "net_reachable e A peers N" and "signs_correctly e"
    and "N x = Some (p, D)" and "res \<in> set (f_result (p_core p))" and "cr_Result res = None"
  shows "\<exists>d \<in> D. certificate e {a \<in> A. vouched e N x a d} (length peers) d (cr_Signatures res)"
  using net_reachable_inv [OF assms(1,2)] assms(3-5) by (auto simp: net_inv_def node_vouched_def)

lemma certificate_signers:
  assumes "certificate e A n d sigs"
  shows "\<exists>S \<subseteq> A. unat (commit_threshold n) \<le> card S"
proof -
  obtain m :: "Account \<rightharpoonup> bytes" where "dom m \<subseteq> A" "length sigs = card (dom m)" "commit_threshold n \<le> of_nat (length sigs)"
    using assms unfolding certificate_def by blast
  with threshold_passed show ?thesis by metis
qed

end
