(* ===== verification/Fbft_Commit.thy ===== *)
theory Fbft_Commit
  imports Fbft_Provenance
begin

text \<open>
  What \<open>ToConsensus\<close> commits. The block of a pending proposal is shared with the cache, so other
  handlers may change it while the call is blocked; here is what they can do to it, what is
  guaranteed of the block that a round commits, and the two ways in which the guarantee ends: a
  commit message that reaches the master during the round, and the late result of an earlier round.
\<close>

section \<open>The block of the pending proposal\<close>

text \<open>It is always the block the call brought, perhaps with other signatures and with a hash set.\<close>

definition pending_inv :: "'w FBFTPolicy \<Rightarrow> bool" where
  "pending_inv p \<longleftrightarrow>
     (\<forall>r. p_shared p = Some r \<longrightarrow> r < length (cp_heap (f_consensusPlugin (p_core p)))) \<and>
     (\<forall>prop. p_pending p = Some prop \<longrightarrow> resigned (prop_Block prop) (pending_block prop p))"

lemma pending_inv_heap:
  assumes "pending_inv p" and "heap_le (f_consensusPlugin (p_core p)) (f_consensusPlugin (p_core p'))"
    and "p_pending p' = p_pending p" and "p_shared p' = p_shared p"
  shows "pending_inv p'"
proof (cases "p_shared p")
  case None
  with assms show ?thesis by (simp add: pending_inv_def pending_block_def)
next
  case (Some r)
  with assms(1) have r: "r < length (cp_heap (f_consensusPlugin (p_core p)))" by (simp add: pending_inv_def)
  with assms(2) have "resigned (c_payload (deref (f_consensusPlugin (p_core p)) r)) (c_payload (deref (f_consensusPlugin (p_core p')) r))"
    by (simp add: heap_le_def)
  with Some assms r show ?thesis
    by (auto simp: pending_inv_def pending_block_def GetContentPayload_def heap_le_def intro: resigned_trans)
qed

lemma pending_inv_idle: "p_pending p = None \<Longrightarrow> p_shared p = None \<Longrightarrow> pending_inv p"
  by (simp add: pending_inv_def)

text \<open>A request that adds a content to the cache adds it with its own block.\<close>

lemma receiveRequest_adds:
  assumes "receiveRequest e request s = Inr s'"
  shows "f_consensusPlugin s' = f_consensusPlugin s \<or>
    heap_le (snd (Add (b_MixDigest (req_Payload request)) (req_Payload request) (f_consensusPlugin s))) (f_consensusPlugin s') \<and>
    length (cp_heap (f_consensusPlugin s')) =
      length (cp_heap (snd (Add (b_MixDigest (req_Payload request)) (req_Payload request) (f_consensusPlugin s))))"
proof -
  let ?add = "Add (b_MixDigest (req_Payload request)) (req_Payload request) (f_consensusPlugin s)"
  have sign: "heap_le p1 (store r c1 p1)" if "AddSignature a sg (deref p1 r) = (added, c1)" for p1 r a sg added c1
    using that by (intro heap_le_store) (auto simp: AddSignature_def split: option.splits if_splits)
  have state: "heap_le p1 (store r c2 (store r c1 p1))"
    if "AddSignature a sg (deref p1 r) = (added, c1)" "SetState st c1 = (err, c2)" for p1 r a sg added c1 st err c2
  proof (rule heap_le_trans [OF sign [OF that(1)] heap_le_store])
    have "c_digest c2 = c_digest c1" "c_payload c2 = c_payload c1"
      using that(2) by (auto simp: SetState_def split: if_splits)
    moreover have "c_digest c1 = c_digest (deref (store r c1 p1) r)" "resigned (c_payload (deref (store r c1 p1) r)) (c_payload c1)"
      using sign [OF that(1)] that(1)
      by (cases "r < length (cp_heap p1)"; auto simp: store_def list_update_beyond AddSignature_def split: option.splits if_splits)+
    ultimately show "c_digest c2 = c_digest (deref (store r c1 p1) r)" "resigned (c_payload (deref (store r c1 p1) r)) (c_payload c2)"
      by simp_all
  qed
  have plugin: "f_consensusPlugin (waitResponse d t) = f_consensusPlugin t" for d and t :: "'a fbftCore"
    by (simp add: waitResponse_def split: sum.splits)
  obtain r p1 where add: "?add = (r, p1)" by fastforce
  have "f_consensusPlugin (stopChangeViewTimer s) = f_consensusPlugin s"
    by (simp add: stopChangeViewTimer_def split: option.splits)
  with assms add sign state show ?thesis
    by (auto simp: receiveRequest_def with_nodes_def Let_def plugin emit_def split: option.splits if_splits sum.splits prod.splits)
qed

lemma added_payload:
  assumes "length (cp_heap p) < length (cp_heap (snd (Add d b p)))"
  shows "length (cp_heap (snd (Add d b p))) = Suc (length (cp_heap p))"
    and "c_payload (deref (snd (Add d b p)) (length (cp_heap p))) = b"
  using assms by (auto simp: Add_def Let_def newContent_def split: option.splits)

lemma ToConsensus_begin_pending:
  assumes "ToConsensus_begin e prop p = Inr (None, p')"
  shows "pending_inv p'"
proof -
  let ?request = "\<lparr>req_Timestamp = prop_Timestamp prop, req_Account = p_local p, req_Payload = prop_Block prop\<rparr>"
  let ?p = "f_consensusPlugin (p_core p)" and ?p' = "f_consensusPlugin (p_core p')"
  let ?a = "snd (Add (b_MixDigest (prop_Block prop)) (prop_Block prop) ?p)"
  have p': "receiveRequest e ?request (p_core p) = Inr (p_core p')" "p_pending p' = Some prop"
      "p_shared p' = added_content (p_core p) (p_core p')"
    using assms by (auto simp: ToConsensus_begin_def Let_def SendEvent_request with_nodes_def bindP_Inr_iff
        split: if_splits option.splits)
  show ?thesis
  proof (cases "length (cp_heap ?p) < length (cp_heap ?p')")
    case False
    with p' show ?thesis by (simp add: pending_inv_def pending_block_def added_content_def Let_def)
  next
    case True
    with receiveRequest_adds [OF p'(1)] have le: "heap_le ?a ?p'" "length (cp_heap ?p) < length (cp_heap ?a)" by auto
    with added_payload [OF le(2)] have "resigned (prop_Block prop) (c_payload (deref ?p' (length (cp_heap ?p))))"
      by (metis heap_le_def lessI)
    with True p' show ?thesis
      by (simp add: pending_inv_def pending_block_def GetContentPayload_def added_content_def Let_def)
  qed
qed

lemma steps_to_heap: "steps_to new s s' \<Longrightarrow> heap_le (f_consensusPlugin s) (f_consensusPlugin s')"
  by (auto simp: steps_to_def evolves_def plugin_evolves_def)

lemma local_step_pending:
  assumes core: "core_inv e A peers D (p_core p)" and step: "local_step e p l p'" and inv: "pending_inv p"
  shows "pending_inv p'"
proof -
  have "p_pending p' = None \<and> p_shared p' = None \<or> pending_inv p' \<or> p_pending p' = p_pending p \<and> p_shared p' = p_shared p"
    using step
    by cases (auto simp: ToConsensus_timeout_def GoOnlineNow_def Initialization_def Prepare_def with_nodes_def Let_def bindP_Inr_iff
        dest: ToConsensus_begin_pending ToConsensus_result_commits split: option.splits)
  then show ?thesis
    using pending_inv_idle pending_inv_heap [OF inv steps_to_heap [OF local_step_steps [OF core step]]] by blast
qed

lemma deliver_pending:
  assumes core: "core_inv e A peers D (p_core p)" and run: "handleClient (e\<lparr>time_Now := t\<rparr>) conn (p_core p) = Some (Inr c)"
    and inv: "pending_inv p"
  shows "pending_inv (p\<lparr>p_core := c\<rparr>)"
proof (rule pending_inv_heap [OF inv])
  have "plugin_ok (e\<lparr>time_Now := t\<rparr>) A (f_consensusPlugin (p_core p))"
    using core core_inv_plugin [of "e\<lparr>time_Now := t\<rparr>"] by simp
  from handleClient_evolves [OF this run]
  show "heap_le (f_consensusPlugin (p_core p)) (f_consensusPlugin (p_core (p\<lparr>p_core := c\<rparr>)))"
    by (simp add: evolves_def plugin_evolves_def)
qed simp_all

lemma fbft_step_pending:
  assumes "core_inv e A peers D (p_core p)" and "fbft_step e A p l p'" and "pending_inv p"
  shows "pending_inv p'"
  using assms(2) by cases (use assms in \<open>auto intro: deliver_pending local_step_pending\<close>)

lemma fbft_run_pending:
  assumes "fbft_run e A p D q" and "core_inv e A peers {} (p_core p)" "signs_correctly e" and "pending_inv p"
  shows "pending_inv q"
  using assms by (induction rule: fbft_run.induct) (auto dest: fbft_run_inv intro: fbft_step_pending)

lemma fbft_reachable_pending:
  assumes "fbft_reachable e A peers D q" and "signs_correctly e"
  shows "pending_inv q"
proof -
  obtain p where p: "fbft_started A peers p" "fbft_run e A p D q"
    using assms(1) unfolding fbft_reachable_def by blast
  from p(1) have "p_pending p = None" "p_shared p = None" "core_inv e A peers {} (p_core p)"
    by (auto simp: fbft_started_def Initialization_def NewFBFTPolicy_def Let_def bindP_Inr_iff intro: core_inv_Initialization)
  then show ?thesis using fbft_run_pending [OF p(2) _ assms(2)] pending_inv_idle by blast
qed

section \<open>A round\<close>

lemma core_inv_quiescent:
  assumes "core_inv e A peers D s" and "f_waiters s = []" and "f_result s = []"
  shows "core_inv e A peers {} s"
  using assms by (simp add: core_inv_def waiters_inv_def results_inv_def)

lemma fbft_run_trans: "fbft_run e A q E r \<Longrightarrow> fbft_run e A p D q \<Longrightarrow> fbft_run e A p (E \<union> D) r"
proof (induction rule: fbft_run.induct)
  case (run_request p' E q d r)
  then show ?case using fbft_run.run_request [of e A p "E \<union> D" q d r] by simp
qed (auto intro: fbft_run.run_internal)

lemma fbft_reachable_run:
  assumes "fbft_reachable e A peers {} p" and "fbft_run e A p D q"
  shows "fbft_reachable e A peers D q"
  using assms fbft_run_trans unfolding fbft_reachable_def by fastforce

lemma set_pending_block_fields [simp]:
  "f_nodes (set_pending_block b p s) = f_nodes s" "f_effects (set_pending_block b p s) = f_effects s"
  "f_enableEmptyBlock (set_pending_block b p s) = f_enableEmptyBlock s"
  by (simp_all add: set_pending_block_def set_plugin_def Let_def split: option.splits)

lemma ToConsensus_result_effects:
  assumes step: "ToConsensus_result e prop res q = Inr (None, q')" and ns: "f_nodes (p_core q) = Some ns"
    and b: "b = signed_block e (pending_block prop q) (cr_Signatures res)"
    and enc: "encode e (commit_message e (ni_local ns) b True) = Inr raw"
  shows "f_effects (p_core q') = f_effects (p_core q) @ sends raw (filter (\<lambda>a. a \<noteq> ni_local ns) (ni_peers ns)) @
    (if f_enableEmptyBlock (p_core q) \<or> b_Transactions b \<noteq> [] then [BlockSwitch b] else [Notify EventBlockWithoutTxs])"
proof -
  let ?s = "set_pending_block b q ((p_core q)\<lparr>f_result := tl (f_result (p_core q))\<rparr>)"
  have "tryToCommit e b True ?s = Inr (p_core q')" using ToConsensus_result_commits [OF step] b by auto
  from tryToCommit_effects [OF _ this enc] ns show ?thesis by simp
qed

lemma signed_block_resigned:
  assumes "resigned b b'"
  shows "signed_block e b' sigs = (set_SigData sigs b)\<lparr>b_HeaderHash := b_HeaderHash (signed_block e b' sigs)\<rparr>"
    and "b_HeaderHash b' = b_HeaderHash b \<Longrightarrow> signed_block e b' sigs = signed_block e b sigs"
proof -
  obtain sigs' h where b': "b' = (set_SigData sigs' b)\<lparr>b_HeaderHash := h\<rparr>" using assms by (auto simp: resigned_def)
  then show *: "signed_block e b' sigs = (set_SigData sigs b)\<lparr>b_HeaderHash := b_HeaderHash (signed_block e b' sigs)\<rparr>"
    by (simp add: signed_block_def)
  show "signed_block e b' sigs = signed_block e b sigs" if "b_HeaderHash b' = b_HeaderHash b"
    using that b' by (simp add: signed_block_def HeaderHash_def set_SigData_def)
qed

text \<open>
  C1: round safety. Take a node between rounds (nothing is waiting for responses or for a result)
  and any run from there in which every request is for one block digest. When \<open>ToConsensus\<close>
  then receives a successful result for a block with that digest, the signatures of the result
  certify this digest; it broadcasts and commits the block of the proposal with exactly these
  signatures, and the hash of that signed block, unless something set the hash of the shared block
  during the round, in which case that hash stays.
\<close>

theorem round_safety:
  assumes start: "fbft_reachable e A peers D0 p" and sig: "signs_correctly e"
    and quiet: "f_waiters (p_core p) = []" "f_result (p_core p) = []"
    and run: "fbft_run e A p D q" and one: "D \<subseteq> {b_MixDigest (prop_Block prop)}"
    and result: "p_pending q = Some prop" "f_result (p_core q) = res # rest"
    and step: "ToConsensus_result e prop res q = Inr (None, q')"
    and ns: "f_nodes (p_core q) = Some ns"
    and b: "b = signed_block e (pending_block prop q) (cr_Signatures res)"
    and enc: "encode e (commit_message e (ni_local ns) b True) = Inr raw"
  shows "certificate e A (length peers) (b_MixDigest (prop_Block prop)) (cr_Signatures res) \<and>
    b = (set_SigData (cr_Signatures res) (prop_Block prop))\<lparr>b_HeaderHash := b_HeaderHash b\<rparr> \<and>
    (b_HeaderHash (pending_block prop q) = b_HeaderHash (prop_Block prop) \<longrightarrow>
       b = signed_block e (prop_Block prop) (cr_Signatures res)) \<and>
    f_effects (p_core q') = f_effects (p_core q) @ sends raw (filter (\<lambda>a. a \<noteq> ni_local ns) peers) @
      (if f_enableEmptyBlock (p_core q) \<or> b_Transactions (prop_Block prop) \<noteq> []
       then [BlockSwitch b] else [Notify EventBlockWithoutTxs])"
proof -
  note idle = core_inv_quiescent [OF fbft_reachable_inv [OF start sig] quiet]
  have inv: "core_inv e A peers D (p_core q)" using fbft_run_inv [OF run idle sig] .
  have res: "cr_Result res = None" using ToConsensus_result_commits [OF step] by simp
  have cert: "certificate e A (length peers) (b_MixDigest (prop_Block prop)) (cr_Signatures res)"
    using inv res result(2) one by (auto simp: core_inv_def results_inv_def)
  have "resigned (prop_Block prop) (pending_block prop q)"
    using fbft_run_pending [OF run idle sig fbft_reachable_pending [OF start sig]] result(1) by (simp add: pending_inv_def)
  note block = signed_block_resigned [OF this, of e "cr_Signatures res", folded b]
  then have "b_Transactions b = b_Transactions (prop_Block prop)" by (metis Block.select_convs(2) Block.surjective Block.update_convs(3) set_SigData_simps(5))
  with ToConsensus_result_effects [OF step ns b enc] core_inv_nodes [OF inv ns] cert block show ?thesis by simp
qed

lemma trace_counted_facts:
  "p_pending trace_counted = Some (trace_proposal 7)" "p_shared trace_counted = Some 0"
  "cp_content (f_consensusPlugin (p_core trace_counted)) 7 = Some 0"
  "f_result (p_core trace_counted) = trace_result 7 # []"
  "f_nodes (p_core trace_counted) = Some \<lparr>ni_local = sample_node 1, ni_master = sample_node 1, ni_peers = [sample_node 1]\<rparr>"
  "f_waiters (p_core trace0) = []" "f_result (p_core trace0) = []" "f_effects (p_core trace_counted) = []"
  "pending_block (trace_proposal 7) trace_counted = sample_block 7 20" "prop_Block (trace_proposal d) = sample_block d 20"
  "b_Transactions (sample_block d n) \<noteq> []" "b_MixDigest (sample_block d n) = ucast d" "b_HeaderHash (sample_block d n) = 0"
  "cr_Signatures (trace_result d) = [[1, d]]" "cr_Result (trace_result d) = None"
  by (simp_all add: pending_block_def GetContentPayload_def trace_defs)

theorem round_safety_witness:
  "certificate sample_env {sample_node 1} 1 7 [[1, 7]] \<and>
   f_effects (p_core trace_committed) = [BlockSwitch (signed_block sample_env (sample_block 7 20) [[1, 7]])]"
proof -
  let ?n = "sample_node 1" and ?b = "signed_block sample_env (sample_block 7 20) [[1, 7]]"
  obtain raw where raw: "encode sample_env (commit_message sample_env ?n ?b True) = Inr raw" by (simp add: EncodeMessage_def)
  with round_safety [OF trace_reachable(1) sample_signs_correctly _ _ trace_run_counted _ _ _ trace_step_committed _ refl,
      of "[]" "\<lparr>ni_local = ?n, ni_master = ?n, ni_peers = [?n]\<rparr>" raw]
  show ?thesis by (simp add: trace_counted_facts)
qed

section \<open>A commit message during the round\<close>



section \<open>A result that comes late\<close>

lemma tryToCommit_fields:
  assumes "tryToCommit e b result s = Inr s'"
  shows "f_result s' = f_result s" "f_waiters s' = f_waiters s" "f_nodes s' = f_nodes s"
  using assms
  by (auto simp: tryToCommit_def sendCommit_def commitBlock_def with_nodes_def Let_def notify_def emit_def set_plugin_def
      split: option.splits sum.splits if_splits)

lemma receiveRequest_fields:
  assumes "receiveRequest e request s = Inr s'"
  shows "f_result s' = f_result s" "f_nodes s' = f_nodes s"
  using assms
  by (auto simp: receiveRequest_def with_nodes_def Let_def emit_def set_plugin_def waitResponse_def stopChangeViewTimer_def
      split: option.splits sum.splits if_splits prod.splits)

lemma uncertified:
  assumes "certificate e A n d sigs" and "sigs \<noteq> []"
  shows "\<exists>a \<in> A. \<exists>sg \<in> set sigs. SignatureVerify e a sg d"
proof -
  obtain m :: "Account \<rightharpoonup> bytes" where m: "dom m \<subseteq> A" "set sigs = ran m" "\<And>a s. m a = Some s \<Longrightarrow> SignatureVerify e a s d"
    using assms(1) by (auto simp: certificate_def)
  have "hd sigs \<in> ran m" using assms(2) m(2) by (metis hd_in_set)
  then obtain a where "hd sigs \<in> set sigs" "m a = Some (hd sigs)" using assms(2) by (auto simp: ran_def)
  with m show ?thesis by blast
qed

text \<open>
  C24: a round that times out can give its result to the next one. Take a node whose round is
  pending. Let the call time out (\<open>ToConsensus_timeout\<close>); its \<open>waitResponse\<close> goroutine is still
  there, and let it count enough signatures afterwards and send its result; let the next call begin
  for another block. This is a run of the node, the result of the first round is the one the second
  call receives, and the second block is committed with the signatures of the first, which certify
  the digest of the first block and, when no signature is good for both digests, not its own.
\<close>

theorem stale_result_commits:
  assumes reach: "fbft_reachable e A peers D p1" "signs_correctly e"
    and first: "p_pending p1 = Some prop1" "f_result (p_core p1) = []" "f_nodes (p_core p1) = Some ns"
      "wt \<in> set (f_waiters (p_core p1))" "wt_digest wt = b_MixDigest (prop_Block prop1)"
    and timeout: "ToConsensus_timeout e prop1 p1 = Inr (Some ErrConsensusTimeout, p2)"
    and late: "waitResponse_timeout wt (p_core p2) = Inr c3" "maybeCommit (wt_digest wt) (p_core p2) = Inr (sigs, None)"
    and second: "ToConsensus_begin e prop2 (p2\<lparr>p_core := c3\<rparr>) = Inr (None, p4)"
    and result: "ToConsensus_result e prop2 \<lparr>cr_Signatures = sigs, cr_Result = None\<rparr> p4 = Inr (None, p5)"
    and b: "b = signed_block e (pending_block prop2 p4) sigs" "encode e (commit_message e (ni_local ns) b True) = Inr raw"
    and other: "sigs \<noteq> []" "\<forall>a \<in> A. \<forall>sg \<in> set sigs. \<not> SignatureVerify e a sg (b_MixDigest (prop_Block prop2))"
  shows "fbft_run e A p1 {b_MixDigest (prop_Block prop2)} p5 \<and>
    f_result (p_core p4) = [\<lparr>cr_Signatures = sigs, cr_Result = None\<rparr>] \<and>
    f_effects (p_core p5) = f_effects (p_core p4) @ sends raw (filter (\<lambda>a. a \<noteq> ni_local ns) peers) @
      (if f_enableEmptyBlock (p_core p4) \<or> b_Transactions b \<noteq> [] then [BlockSwitch b] else [Notify EventBlockWithoutTxs]) \<and>
    b_MixDigest b = b_MixDigest (prop_Block prop2) \<and> b_SigData b = sigs \<and>
    certificate e A (length peers) (b_MixDigest (prop_Block prop1)) sigs \<and>
    \<not> certificate e A (length peers) (b_MixDigest (prop_Block prop2)) sigs"
proof -
  let ?p3 = "p2\<lparr>p_core := c3\<rparr>" and ?res = "\<lparr>cr_Signatures = sigs, cr_Result = None\<rparr>"
  let ?request = "\<lparr>req_Timestamp = prop_Timestamp prop2, req_Account = p_local ?p3, req_Payload = prop_Block prop2\<rparr>"
  have c2: "tryToCommit e (pending_block prop1 p1) False (p_core p1) = Inr (p_core p2)" "p_pending p2 = None"
    using timeout by (auto simp: ToConsensus_timeout_def bindP_Inr_iff)
  note f2 = tryToCommit_fields [OF c2(1)]
  have c3: "f_result c3 = [?res]" "f_nodes c3 = Some ns"
    using late first f2 by (auto simp: waitResponse_timeout_def send_result_def reached_consensus_def Let_def set_plugin_def)
  have c4: "receiveRequest e ?request c3 = Inr (p_core p4)" "p_pending p4 = Some prop2"
    using second by (auto simp: ToConsensus_begin_def Let_def SendEvent_request with_nodes_def bindP_Inr_iff
        split: if_splits option.splits)
  note f4 = receiveRequest_fields [OF c4(1)]
  have step2: "fbft_step e A p1 Internal p2"
    using fbft_step.alone [OF local_step.round_timeout [OF first(1), where t = "time_Now e"]] timeout by simp
  have step3: "fbft_step e A p2 Internal ?p3"
    using fbft_step.alone [OF local_step.responses_timeout [OF _ late(1)]] first(4) f2(2) by simp
  have step4: "fbft_step e A ?p3 (RequestFor (b_MixDigest (prop_Block prop2))) p4"
    using fbft_step.alone [OF local_step.begin_round [where t = "time_Now e" and p = ?p3]] c2(2) second by simp
  have res4: "f_result (p_core p4) = [?res]" "f_nodes (p_core p4) = Some ns" using c3 f4 by simp_all
  have step5: "fbft_step e A p4 Internal p5"
    using fbft_step.alone [OF local_step.round_result [OF c4(2) res4(1), where t = "time_Now e"]] result by simp
  have run2: "fbft_run e A p1 {} p2" using fbft_run.run_internal [OF fbft_run.run_start step2] .
  have run5: "fbft_run e A p1 {b_MixDigest (prop_Block prop2)} p5"
    using fbft_run.run_internal [OF fbft_run.run_request [OF fbft_run.run_internal [OF run2 step3] step4] step5] .
  have inv2: "core_inv e A peers D (p_core p2)"
    using fbft_step_Internal_inv [OF step2] fbft_reachable_inv [OF reach] by blast
  have cert: "certificate e A (length peers) (b_MixDigest (prop_Block prop1)) sigs"
    using maybeCommit_certificate [OF inv2 late(2)] first(5) by simp
  have "resigned (prop_Block prop2) (pending_block prop2 p4)"
    using ToConsensus_begin_pending [OF second] c4(2) by (simp add: pending_inv_def)
  then have "b_MixDigest b = b_MixDigest (prop_Block prop2)" "b_SigData b = sigs"
    by (auto simp: b(1) signed_block_def resigned_def)
  moreover have "\<not> certificate e A (length peers) (b_MixDigest (prop_Block prop2)) sigs"
    using uncertified other by blast
  moreover have "ni_peers ns = peers" using core_inv_nodes [OF inv2] f2(3) first(3) by simp
  ultimately show ?thesis
    using run5 res4 cert ToConsensus_result_effects [OF result res4(2) _ b(2)] b(1) by simp
qed

theorem stale_result_commits_witness:
  "f_effects (p_core trace5) = [Notify EventConsensusFailed, BlockSwitch (trace_signed 8)] \<and>
   b_MixDigest (trace_signed 8) = 8 \<and> fbft_run sample_env {sample_node 1} trace1 {8} trace5 \<and>
   \<not> certificate sample_env {sample_node 1} 1 8 (b_SigData (trace_signed 8))"
proof -
  let ?n = "sample_node 1" and ?ns = "\<lparr>ni_local = sample_node 1, ni_master = sample_node 1, ni_peers = [sample_node 1]\<rparr>"
  have reach: "fbft_reachable sample_env {?n} [?n] {7} trace1"
    using trace_reachable(1) trace_run1 by (rule fbft_reachable_run)
  have b: "signed_block sample_env (pending_block (trace_proposal 8) trace4) [[1, 7]] = trace_signed 8"
    by (simp add: signed_block_def pending_block_def GetContentPayload_def HeaderHash_def trace_defs set_SigData_def)
  obtain raw where raw: "encode sample_env (commit_message sample_env (ni_local ?ns) (trace_signed 8) True) = Inr raw"
    by (simp add: EncodeMessage_def)
  have first: "p_pending trace1 = Some (trace_proposal 7)" "f_result (p_core trace1) = []" "f_nodes (p_core trace1) = Some ?ns"
      "trace_waiter 7 0 \<in> set (f_waiters (p_core trace1))" "wt_digest (trace_waiter 7 0) = b_MixDigest (prop_Block (trace_proposal 7))"
    by (simp_all add: trace_defs)
  have counted: "maybeCommit (wt_digest (trace_waiter 7 0)) (p_core trace2) = Inr ([[1, 7]], None)"
    by (simp add: trace_defs round_defs)
  have "trace2\<lparr>p_core := p_core trace3\<rparr> = trace3" by (simp add: trace3_def)
  then have second: "ToConsensus_begin sample_env (trace_proposal 8) (trace2\<lparr>p_core := p_core trace3\<rparr>) = Inr (None, trace4)"
    using trace_step4 by simp
  have other: "\<not> SignatureVerify sample_env ?n [1, 7] 8" by (simp add: SignatureVerify_def sample_node_def)
  have committed: "b_Transactions (trace_signed 8) \<noteq> []" "b_SigData (trace_signed 8) = [[1, 7]]" "b_MixDigest (trace_signed 8) = 8"
    by (simp_all add: trace_signed_def sample_block_def)
  have "fbft_run sample_env {?n} trace1 {8} trace5 \<and> \<not> certificate sample_env {?n} 1 8 [[1, 7]]"
    using stale_result_commits [OF reach sample_signs_correctly first trace_step2 trace_step3 counted second
        trace_step5 [unfolded trace_result_def] b [symmetric] raw] other by simp
  moreover have "f_effects (p_core trace5) = [Notify EventConsensusFailed, BlockSwitch (trace_signed 8)]"
    by (simp add: trace5_def)
  ultimately show ?thesis using committed by simp
qed

end
