(* ===== verification/Fbft_View_Change.thy ===== *)
theory Fbft_View_Change
  imports Fbft_Handlers
begin

text \<open>
  View changes of the FBFT core: when a request moves the node to a new view, who becomes master,
  which view numbers can be reached, and what the node tells the others.
\<close>

section \<open>One request\<close>

definition view_change_message :: "'w env \<Rightarrow> nodesInfo \<Rightarrow> Account list \<Rightarrow> u64 \<Rightarrow> Message" where
  "view_change_message e ns nodes v =
     \<lparr>msg_Type = ViewChangeMessageReqType,
      msg_PayLoad = ViewChangeReqMessage (Some
        \<lparr>vcr_Account = ni_local ns, vcr_Nodes = nodes, vcr_Timestamp = time_Now e, vcr_ViewNum = v\<rparr>)\<rparr>"

lemma view_simps [simp]:
  "GetCurrentViewNum (SetCurrentViewNum v vc) = v"
  "GetCurrentViewNum (put_request v' vr vc) = GetCurrentViewNum vc"
  by (simp_all add: GetCurrentViewNum_def SetCurrentViewNum_def put_request_def)

lemma changeView_runs:
  assumes ns: "f_nodes s = Some ns" and enc: "encode e (view_change_message e ns [] v) = Inr raw"
    and ne: "vr_nodes vr \<noteq> []"
  shows "\<exists>s' m. changeView e v vr ns s = Inr s' \<and> GetAccountWithMinId (vr_nodes vr) = Inr m \<and>
    GetCurrentViewNum (f_viewChange s') = v \<and> f_nodes s' = Some (ns\<lparr>ni_master := m\<rparr>) \<and> f_masterWait s' = None \<and>
    f_effects s' = f_effects s @ sends raw (filter (\<lambda>p. p \<noteq> ni_local ns) (ni_peers ns)) @ [Notify EventMasterChange]"
proof -
  obtain m where m: "GetAccountWithMinId (vr_nodes vr) = Inr m" using GetAccountWithMinId_total [OF ne] by blast
  have "sendChangeViewReq e [] v s = Inr (emit (BroadcastPeersFilter raw (ni_peers ns) (ni_local ns)) s)"
    using ns enc by (simp add: sendChangeViewReq_def with_nodes_def view_change_message_def)
  with m show ?thesis
    by (simp add: changeView_def Let_def GetReceivedAccounts_def notify_def set_master_def clone_def)
      (simp add: emit_def sending)
qed

lemma receive_all_ends_iff:
  assumes "requests_inv vr" and "threshold_inv vr" and "vr_state vr = Viewing"
    and "card (set (vr_nodes vr) \<union> set as) < 256"
  shows "fst (receive_all as Viewing vr) = ViewEnd \<longleftrightarrow>
    set (vr_nodes vr) \<union> set as \<noteq> {} \<and> unat (vr_toChange vr) \<le> card (set (vr_nodes vr) \<union> set as)"
proof -
  let ?vr = "snd (receive_all as Viewing vr)"
  have "threshold_inv ?vr" unfolding receive_all_fold using assms by (intro threshold_inv_fold)
  moreover have "fst (receive_all as Viewing vr) = vr_state ?vr" using receive_all_state [of Viewing vr as] assms(3) by simp
  moreover have "vr_nodes ?vr \<noteq> [] \<longleftrightarrow> set (vr_nodes vr) \<union> set as \<noteq> {}"
    using receive_all_nodes [OF assms(1), of as Viewing] by (metis set_empty)
  ultimately show ?thesis
    using receive_all_count [OF assms(1), of as Viewing] receive_all_toChange [of as Viewing vr]
    by (simp add: threshold_inv_def)
qed

lemma receiveChangeViewReq_spec:
  assumes ns: "f_nodes s = Some ns" and new: "GetCurrentViewNum (f_viewChange s) < vcr_ViewNum req"
    and add: "AddViewRequest (vcr_ViewNum req) (of_nat (length (ni_peers ns)) - f_tolerance s) (f_viewChange s) = Inr (vr, vc)"
    and vr: "requests_inv vr" "threshold_inv vr" "vr_state vr = Viewing"
    and S: "S = set (vr_nodes vr) \<union> set (vcr_Nodes req)" "card S < 256"
    and enc: "encode e (view_change_message e ns [] (vcr_ViewNum req)) = Inr raw"
  shows "\<exists>s'. receiveChangeViewReq e req s = Inr s' \<and>
    (if S \<noteq> {} \<and> unat (vr_toChange vr) \<le> card S
     then GetCurrentViewNum (f_viewChange s') = vcr_ViewNum req \<and>
       (\<exists>m \<in> S. (\<forall>a \<in> S. acc_Id m \<le> acc_Id a) \<and> f_nodes s' = Some (ns\<lparr>ni_master := m\<rparr>)) \<and>
       f_masterWait s' = None \<and>
       f_effects s' = f_effects s @ sends raw (filter (\<lambda>p. p \<noteq> ni_local ns) (ni_peers ns)) @ [Notify EventMasterChange]
     else GetCurrentViewNum (f_viewChange s') = GetCurrentViewNum (f_viewChange s) \<and> f_nodes s' = f_nodes s \<and>
       f_effects s' = f_effects s)"
proof -
  let ?v = "vcr_ViewNum req"
  let ?vr = "snd (receive_all (vcr_Nodes req) Viewing vr)"
  let ?s1 = "s\<lparr>f_viewChange := put_request ?v ?vr vc\<rparr>"
  have cur: "GetCurrentViewNum vc = GetCurrentViewNum (f_viewChange s)"
    using add by (simp add: GetCurrentViewNum_def frame_simps)
  have ends: "fst (receive_all (vcr_Nodes req) Viewing vr) = ViewEnd \<longleftrightarrow> S \<noteq> {} \<and> unat (vr_toChange vr) \<le> card S"
    using receive_all_ends_iff [OF vr, of "vcr_Nodes req"] S by simp
  have nodes: "set (vr_nodes ?vr) = S" using receive_all_nodes [OF vr(1)] S by simp
  have run: "receiveChangeViewReq e req s =
      (if fst (receive_all (vcr_Nodes req) Viewing vr) = ViewEnd then changeView e ?v ?vr ns ?s1 else Inr ?s1)"
    using ns new [folded not_le] add vr(3)
    by (simp add: receiveChangeViewReq_def with_nodes_def GetViewRequestState_def split_beta)
  show ?thesis
  proof (cases "S \<noteq> {} \<and> unat (vr_toChange vr) \<le> card S")
    case True
    then have "vr_nodes ?vr \<noteq> []" using nodes by auto
    from changeView_runs [OF _ enc this, of ?s1] ns obtain s' m where s': "changeView e ?v ?vr ns ?s1 = Inr s'"
        "GetAccountWithMinId (vr_nodes ?vr) = Inr m" "GetCurrentViewNum (f_viewChange s') = ?v"
        "f_nodes s' = Some (ns\<lparr>ni_master := m\<rparr>)" "f_masterWait s' = None"
        "f_effects s' = f_effects ?s1 @ sends raw (filter (\<lambda>p. p \<noteq> ni_local ns) (ni_peers ns)) @ [Notify EventMasterChange]"
      by auto
    with GetAccountWithMinId_min [OF s'(2)] nodes True ends run show ?thesis by auto
  next
    case False
    with ends run cur show ?thesis by simp
  qed
qed

text \<open>
  C7: view change. While fewer than 256 accounts have asked for a view, a request for an acceptable
  higher view moves the node exactly when the distinct accounts that asked reach the threshold: then
  the view number is the requested one, the master is the account with the smallest id among those
  that asked, the timer is stopped and a request is broadcast; otherwise view, master and the outside
  world do not change. The broadcast request names no nodes, although the code means to send those
  that asked.
\<close>

theorem view_change_quorum:
  assumes "f_nodes s = Some ns" and "GetCurrentViewNum (f_viewChange s) < vcr_ViewNum req"
    and "AddViewRequest (vcr_ViewNum req) (of_nat (length (ni_peers ns)) - f_tolerance s) (f_viewChange s) = Inr (vr, vc)"
    and "requests_inv vr" "threshold_inv vr" "vr_state vr = Viewing"
    and "S = set (vr_nodes vr) \<union> set (vcr_Nodes req)" "card S < 256"
    and "encode e (view_change_message e ns [] (vcr_ViewNum req)) = Inr raw"
  shows "\<exists>s'. receiveChangeViewReq e req s = Inr s' \<and>
    (if S \<noteq> {} \<and> unat (vr_toChange vr) \<le> card S
     then GetCurrentViewNum (f_viewChange s') = vcr_ViewNum req \<and>
       (\<exists>m \<in> S. (\<forall>a \<in> S. acc_Id m \<le> acc_Id a) \<and> f_nodes s' = Some (ns\<lparr>ni_master := m\<rparr>)) \<and>
       f_masterWait s' = None \<and>
       f_effects s' = f_effects s @ sends raw (filter (\<lambda>p. p \<noteq> ni_local ns) (ni_peers ns)) @ [Notify EventMasterChange]
     else GetCurrentViewNum (f_viewChange s') = GetCurrentViewNum (f_viewChange s) \<and> f_nodes s' = f_nodes s \<and>
       f_effects s' = f_effects s)"
  using receiveChangeViewReq_spec [OF assms] .

definition view_request :: "Account list \<Rightarrow> u64 \<Rightarrow> ViewChangeReq" where
  "view_request nodes v = \<lparr>vcr_Account = sample_node 3, vcr_Nodes = nodes, vcr_Timestamp = 0, vcr_ViewNum = v\<rparr>"

lemma view_request_simps [simp]:
  "vcr_Nodes (view_request nodes v) = nodes" "vcr_ViewNum (view_request nodes v) = v"
  by (simp_all add: view_request_def)

lemma AddViewRequest_New:
  assumes "v = 1 \<or> v = - 1"
  shows "AddViewRequest v n NewViewChange = Inr (NewRequests n, NewViewChange\<lparr>vc_viewRequests := [v \<mapsto> NewRequests n]\<rparr>)"
proof -
  have "sint (Abs 0 v) \<le> 1" using assms by (auto simp: Abs_within_one)
  then show ?thesis
    by (simp add: AddViewRequest_def NewViewChange_def DefaultWalterLevel_def DefaultViewNum_def)
qed

lemma follower_facts:
  "f_nodes follower = Some \<lparr>ni_local = sample_node 2, ni_master = sample_node 1, ni_peers = [sample_node 1, sample_node 2, sample_node 3, sample_node 4]\<rparr>"
  "f_viewChange follower = NewViewChange" "f_tolerance follower = 1" "f_effects follower = []"
  by (simp_all add: follower_def sample_policy_def NewFBFTPolicy_def NewFBFTCore_def tolerance_of_def)

lemma card_node_set: "card {sample_node 2, sample_node 3, sample_node 4} = 3"
  by (simp add: sample_node_def)

lemma sample_encode: "encode sample_env m = Inr (encodeMessageHeader (buildMessageHeader m 1) @ [0])"
  by (simp add: EncodeMessage_def)

theorem view_change_quorum_witness:
  "\<exists>s' ns. receiveChangeViewReq sample_env (view_request [sample_node 4, sample_node 3, sample_node 2, sample_node 3] 1) follower = Inr s' \<and>
     GetCurrentViewNum (f_viewChange s') = 1 \<and> f_nodes s' = Some ns \<and> acc_Id (ni_master ns) = 2"
proof -
  let ?ns = "\<lparr>ni_local = sample_node 2, ni_master = sample_node 1, ni_peers = [sample_node 1, sample_node 2, sample_node 3, sample_node 4]\<rparr>"
  have "\<exists>s'. receiveChangeViewReq sample_env (view_request [sample_node 4, sample_node 3, sample_node 2, sample_node 3] 1) follower = Inr s' \<and>
      GetCurrentViewNum (f_viewChange s') = 1 \<and>
      (\<exists>m \<in> {sample_node 2, sample_node 3, sample_node 4}. (\<forall>a \<in> {sample_node 2, sample_node 3, sample_node 4}. acc_Id m \<le> acc_Id a) \<and>
        f_nodes s' = Some (?ns\<lparr>ni_master := m\<rparr>))"
    using view_change_quorum [OF follower_facts(1), of "view_request [sample_node 4, sample_node 3, sample_node 2, sample_node 3] 1"
        "NewRequests 3" "NewViewChange\<lparr>vc_viewRequests := [1 \<mapsto> NewRequests 3]\<rparr>" "{sample_node 2, sample_node 3, sample_node 4}"
        sample_env, OF _ _ requests_inv_New threshold_inv_New _ _ _ sample_encode]
      AddViewRequest_New [of 1 3] card_node_set
    by (simp add: follower_facts NewRequests_def insert_commute)
      (auto simp: NewViewChange_def GetCurrentViewNum_def DefaultViewNum_def)
  then show ?thesis by (auto simp: sample_node_def)
qed

section \<open>The numbers of views\<close>

text \<open>
  a view change request never lowers the view number of a node, and moves it to the next one
  only, apart from two jumps the distance of \<open>Abs\<close> lets through: from view 0 to the largest
  number, and by half the range.
\<close>

theorem view_number_steps:
  assumes inv: "views_inv (f_viewChange s)" and run: "receiveChangeViewReq e req s = Inr s'"
    and cur: "v = GetCurrentViewNum (f_viewChange s)" and cur': "v' = GetCurrentViewNum (f_viewChange s')"
  shows "v \<le> v' \<and> (v' = v \<or> v' = vcr_ViewNum req \<and> (v' = v + 1 \<or> v = 0 \<and> v' = - 1 \<or> v - v' = 2 ^ 63))"
proof -
  have "v' = v \<or> v' = vcr_ViewNum req \<and> v < v' \<and> (\<exists>n r. AddViewRequest v' n (f_viewChange s) = Inr r)"
    using run
    by (auto simp: cur cur' receiveChangeViewReq_def changeView_def sendChangeViewReq_def with_nodes_def Let_def
        bindP_Inr_iff notify_def emit_def set_master_def GetCurrentViewNum_def put_request_def SetCurrentViewNum_def
        frame_simps not_le split: if_splits option.splits sum.splits prod.splits) blast+
  then show ?thesis
  proof
    assume "v' = vcr_ViewNum req \<and> v < v' \<and> (\<exists>n r. AddViewRequest v' n (f_viewChange s) = Inr r)"
    then have v': "v' = vcr_ViewNum req" "v < v'" "v' = v \<or> v = v' + 1 \<or> v' = v + 1 \<or> v - v' = 2 ^ 63"
      using AddViewRequest_window [of "f_viewChange s" v'] inv
      by (auto simp: views_inv_def cur GetCurrentViewNum_def)
    moreover have "v = 0 \<and> v' = - 1" if "v = v' + 1"
    proof -
      have "v' = v - 1" using that by simp
      moreover have "\<not> 1 \<le> uint v"
        using uint_u64_diff [of v 1] v'(2) unfolding \<open>v' = v - 1\<close> word_less_def by auto
      with uint_u64_bounds(1) [of v] have "uint v = 0" by linarith
      then have "v = 0" by (simp add: uint_0_iff)
      ultimately show ?thesis by simp
    qed
    ultimately show ?thesis by auto
  qed simp
qed

theorem view_number_steps_witness:
  "\<exists>s'. receiveChangeViewReq sample_env (view_request [sample_node 4] 1) follower = Inr s' \<and>
     GetCurrentViewNum (f_viewChange s') \<in> {0, 1}"
proof -
  have "views_inv (f_viewChange follower)" "GetCurrentViewNum (f_viewChange follower) = 0"
    by (simp_all add: follower_facts) (simp add: NewViewChange_def GetCurrentViewNum_def DefaultViewNum_def)
  moreover obtain s' where "receiveChangeViewReq sample_env (view_request [sample_node 4] 1) follower = Inr s'"
    using AddViewRequest_New [of 1 3]
    by (simp add: receiveChangeViewReq_def with_nodes_def follower_facts GetViewRequestState_def NewRequests_def
        ReceiveViewRequestByAccount_def Let_def GetCurrentViewNum_def NewViewChange_def DefaultViewNum_def
        word_le_nat_alt)
  ultimately show ?thesis
    using view_number_steps [of follower sample_env "view_request [sample_node 4] 1" s' 0, OF _ _ _ refl] by auto
qed

text \<open>
  one message can end view changes for good. A node in view 0 that receives a request for the
  largest view number naming enough accounts (the list of accounts in the message is not
  authenticated) moves to that view, and ignores every view change request from then on.
\<close>

theorem view_exhausted_by_one_message:
  assumes ns: "f_nodes s = Some ns" and fresh: "f_viewChange s = NewViewChange"
    and v: "vcr_ViewNum req = - 1" and few: "card (set (vcr_Nodes req)) < 256" "vcr_Nodes req \<noteq> []"
    and enough: "unat (of_nat (length (ni_peers ns)) - f_tolerance s) \<le> card (set (vcr_Nodes req))"
    and enc: "encode e (view_change_message e ns [] (- 1)) = Inr raw"
  shows "\<exists>s'. receiveChangeViewReq e req s = Inr s' \<and> GetCurrentViewNum (f_viewChange s') = - 1 \<and>
    (\<forall>req'. receiveChangeViewReq e req' s' = Inr s')"
proof -
  let ?n = "of_nat (length (ni_peers ns)) - f_tolerance s :: u8"
  have "GetCurrentViewNum (f_viewChange s) < vcr_ViewNum req"
    by (simp add: fresh v GetCurrentViewNum_def NewViewChange_def DefaultViewNum_def word_gt_0)
  moreover have "AddViewRequest (vcr_ViewNum req) ?n (f_viewChange s) =
      Inr (NewRequests ?n, NewViewChange\<lparr>vc_viewRequests := [- 1 \<mapsto> NewRequests ?n]\<rparr>)"
    using AddViewRequest_New [of "- 1" ?n] by (simp add: fresh v)
  ultimately have "\<exists>s'. receiveChangeViewReq e req s = Inr s' \<and> GetCurrentViewNum (f_viewChange s') = - 1"
    using receiveChangeViewReq_spec [OF ns _ _ requests_inv_New threshold_inv_New _ refl, of req ?n _ e raw] v few enough enc
    by (auto simp: NewRequests_def)
  then show ?thesis by (auto simp: receiveChangeViewReq_def)
qed

theorem view_exhausted_by_one_message_witness:
  "\<exists>s'. receiveChangeViewReq sample_env (view_request [sample_node 2, sample_node 3, sample_node 4] (- 1)) follower = Inr s' \<and>
     (\<forall>req'. receiveChangeViewReq sample_env req' s' = Inr s')"
  using view_exhausted_by_one_message [OF follower_facts(1,2), of "view_request [sample_node 2, sample_node 3, sample_node 4] (- 1)" sample_env,
      OF _ _ _ _ sample_encode] card_node_set
  by (auto simp: follower_facts(3))

text \<open>
  a request that names no nodes, such as the one a node broadcasts after a view change, moves no
  other node: view, master and effects of the receiver stay as they are unless it had already counted
  enough requests for that view.
\<close>

theorem empty_view_request_ineffective:
  assumes "f_nodes s = Some ns" and "vcr_Nodes req = []"
    and "\<forall>vr. GetRequestByViewNum (vcr_ViewNum req) (f_viewChange s) = Some vr \<longrightarrow> vr_state vr \<noteq> ViewEnd"
  shows "\<exists>s'. receiveChangeViewReq e req s = Inr s' \<and>
    GetCurrentViewNum (f_viewChange s') = GetCurrentViewNum (f_viewChange s) \<and> f_nodes s' = f_nodes s \<and>
    f_effects s' = f_effects s"
proof (cases "AddViewRequest (vcr_ViewNum req) (of_nat (length (ni_peers ns)) - f_tolerance s) (f_viewChange s)")
  case (Inl err)
  with assms(1) show ?thesis by (simp add: receiveChangeViewReq_def with_nodes_def)
next
  case (Inr r)
  obtain vr vc where r: "r = (vr, vc)" by (cases r)
  have "vr_state vr \<noteq> ViewEnd"
    using Inr assms(3)
    by (auto simp: r AddViewRequest_def GetRequestByViewNum_def NewRequests_def split: if_splits option.splits)
  moreover have "GetCurrentViewNum vc = GetCurrentViewNum (f_viewChange s)"
    using Inr by (simp add: r GetCurrentViewNum_def frame_simps)
  ultimately show ?thesis
    using assms(1,2) Inr by (simp add: r receiveChangeViewReq_def with_nodes_def GetViewRequestState_def Let_def)
qed

theorem empty_view_request_ineffective_witness:
  "\<exists>s'. receiveChangeViewReq sample_env (view_request [] 1) follower = Inr s' \<and> f_nodes s' = f_nodes follower"
  using empty_view_request_ineffective [OF follower_facts(1), of "view_request [] 1" sample_env]
  by (auto simp: follower_facts(2) GetRequestByViewNum_def NewViewChange_def)

end
