(* ===== verification/Fbft_Sync_Online.thy ===== *)
theory Fbft_Sync_Online
  imports Fbft_View_Change
begin

text \<open>
  Block synchronisation, coming online and the delivery of messages: termination of the loops over
  block heights, what a synchronisation request and response do, when a node goes online or panics,
  and that a message one node encodes reaches the right handler of another.
\<close>

section \<open>Loops over heights\<close>

text \<open>The blocks at the heights from \<open>index\<close> to \<open>end'\<close> the repository has.\<close>

definition blocks_between :: "'w env \<Rightarrow> 'w \<Rightarrow> u64 \<Rightarrow> u64 \<Rightarrow> Block list" where
  "blocks_between e w index end' =
     concat (map (\<lambda>k. case GetBlockByHeight e w (of_nat k) of Inl err \<Rightarrow> [] | Inr b \<Rightarrow> [b])
       [unat index ..< Suc (unat end')])"

lemma blocks_between_step:
  assumes "index \<le> end'" and "end' \<noteq> - 1"
  shows "blocks_between e w index end' =
    (case GetBlockByHeight e w index of Inl err \<Rightarrow> [] | Inr b \<Rightarrow> [b]) @ blocks_between e w (index + 1) end'"
proof -
  have "index \<noteq> - 1" using assms by (metis word_n1_ge order_antisym)
  then have s: "unat (index + 1) = Suc (unat index)" by (rule unat_succ)
  have "unat index < Suc (unat end')" using assms(1) by (simp add: word_le_nat_alt)
  then have "[unat index ..< Suc (unat end')] = unat index # [Suc (unat index) ..< Suc (unat end')]"
    by (rule upt_conv_Cons)
  then show ?thesis by (simp add: blocks_between_def s)
qed

lemma collectBlocks_returns:
  assumes "end' \<noteq> - 1"
  shows "collectBlocks e w index end' acc = Some (acc @ blocks_between e w index end')"
proof (induction "Suc (unat end') - unat index" arbitrary: index acc rule: less_induct)
  case less
  show ?case
  proof (cases "index \<le> end'")
    case True
    then have "index \<noteq> - 1" using assms by (metis word_n1_ge order_antisym)
    then have "Suc (unat end') - unat (index + 1) < Suc (unat end') - unat index"
      using True by (simp add: unat_succ word_le_nat_alt)
    from less [OF this] show ?thesis
      using True blocks_between_step [OF True assms, of e w]
      by (subst collectBlocks.simps) (auto split: sum.splits)
  next
    case False
    then show ?thesis
      by (subst collectBlocks.simps) (simp add: blocks_between_def word_le_nat_alt not_le)
  qed
qed

lemma collectBlocks_loops: "collectBlocks e w index (- 1) acc = None"
proof (rule ccontr)
  assume "collectBlocks e w index (- 1) acc \<noteq> None"
  then obtain out where "collectBlocks e w index (- 1) acc = Some out" by blast
  then have "(- 1 :: u64) \<noteq> - 1"
  proof (rule collectBlocks.raw_induct [where P = "\<lambda>e w index end' acc out. end' \<noteq> - 1", rotated])
    fix loop e w index end' acc out
    assume IH: "\<And>e w index end' acc out. loop e w index end' acc = Some out \<Longrightarrow> end' \<noteq> - 1"
      and eq: "(if index \<le> end' then loop e w (index + 1) end'
          (case GetBlockByHeight e w index of Inl err \<Rightarrow> acc | Inr block \<Rightarrow> acc @ [block]) else Some acc) = Some out"
    show "end' \<noteq> - 1"
      using IH eq by (cases "index \<le> end'") auto
  qed
  then show False by simp
qed

section \<open>Serving and using synchronisation\<close>

definition sync_response_message :: "Block list \<Rightarrow> Message" where
  "sync_response_message blocks =
     \<lparr>msg_Type = SyncBlockRespMessageType, msg_PayLoad = SyncBlockRespMessage (Some \<lparr>sbr_Blocks = blocks\<rparr>)\<rparr>"

text \<open>
  C26: a synchronisation request is answered to its sender with exactly the blocks the repository has
  between its two heights, in ascending order. The one exception is a request whose last height is
  the largest 64 bit number: the loop over the heights never ends and the handler does not return.
\<close>

theorem sync_request_served:
  assumes "NewLatestStateRepository e (f_chain s) = None"
  shows "receiveSyncBlockRequest e req s =
    (if sbq_BlockEnd req = - 1 then Inl NeverReturns
     else case encode e (sync_response_message
                 (blocks_between e (f_chain s) (sbq_BlockStart req) (sbq_BlockEnd req))) of
            Inl err \<Rightarrow> Inr s
          | Inr raw \<Rightarrow> Inr (s\<lparr>f_effects := f_effects s @ [SendTo (acc_Url (sbq_Account req)) raw]\<rparr>))"
  using assms
  by (auto simp: receiveSyncBlockRequest_def collectBlocks_loops collectBlocks_returns sync_response_message_def
      emit_def sending split: sum.splits)

theorem sync_request_served_witness:
  "receiveSyncBlockRequest sample_env
     \<lparr>sbq_Account = sample_node 3, sbq_Timestamp = 0, sbq_BlockStart = 1, sbq_BlockEnd = - 1\<rparr> follower = Inl NeverReturns"
  using sync_request_served [of sample_env follower
      "\<lparr>sbq_Account = sample_node 3, sbq_Timestamp = 0, sbq_BlockStart = 1, sbq_BlockEnd = - 1\<rparr>"] by simp

lemma syncBlocks_loop_preserves:
  assumes "syncBlocks_loop e verify blocks w = Inr w'" and "P w"
    and "\<And>w b r. P w \<Longrightarrow> b \<in> set blocks \<Longrightarrow> GetCurrentBlockHeight e w < b_Height b \<Longrightarrow>
      worker_VerifyBlock e w LatestStateRepository b verify = Inr r \<Longrightarrow>
      P (snd (WriteBlockWithReceipts e w LatestStateRepository b r))"
  shows "P w'"
  using assms
proof (induction e verify blocks w rule: syncBlocks_loop.induct)
  case (1 e verify w)
  then show ?case by simp
next
  case (2 e verify b blocks w)
  from "2.prems" "2.IH" show ?case
    by (auto simp: VerifyPayloadUseExistedRepository_def split: if_splits sum.splits)
qed

text \<open>
  C27: a synchronisation response changes the chain only by writing blocks of the response that are
  higher than the chain's last block at that moment and that the validator accepts on it: whatever
  holds of the chain and is kept by such a write holds after the response.
\<close>

theorem sync_response_writes_verified:
  assumes "receiveSyncBlockResponse e resp s = Inr s'" and "P (f_chain s)"
    and "\<And>w b r. P w \<Longrightarrow> b \<in> set (sbr_Blocks resp) \<Longrightarrow> GetCurrentBlockHeight e w < b_Height b \<Longrightarrow>
      worker_VerifyBlock e w LatestStateRepository b (f_enableSyncVerifySignature s) = Inr r \<Longrightarrow>
      P (snd (WriteBlockWithReceipts e w LatestStateRepository b r))"
  shows "P (f_chain s') \<and> s' = s\<lparr>f_chain := f_chain s'\<rparr>"
  using assms(1) syncBlocks_loop_preserves [where P = P, OF _ assms(2,3)]
  by (auto simp: receiveSyncBlockResponse_def bindP_Inr_iff)

theorem sync_response_writes_verified_witness:
  "\<exists>s'. receiveSyncBlockResponse sample_env \<lparr>sbr_Blocks = [sample_block 1 1, sample_block 2 1]\<rparr> follower = Inr s' \<and>
     f_chain s' \<le> 1"
proof -
  let ?resp = "\<lparr>sbr_Blocks = [sample_block 1 1, sample_block 2 1]\<rparr>"
  obtain s' where run: "receiveSyncBlockResponse sample_env ?resp follower = Inr s'"
    by (simp add: receiveSyncBlockResponse_def VerifyPayloadUseExistedRepository_def follower_defs)
  moreover have "f_chain s' \<le> 1"
    by (rule sync_response_writes_verified [where P = "\<lambda>w. w \<le> 1", OF run, THEN conjunct1])
      (auto simp: follower_defs)
  ultimately show ?thesis by blast
qed

text \<open>The request for one block, and \<open>sendSyncBlockMsg\<close> for a single height.\<close>

definition sync_request_message :: "'w env \<Rightarrow> nodesInfo \<Rightarrow> u64 \<Rightarrow> Message" where
  "sync_request_message e ns h =
     \<lparr>msg_Type = SyncBlockReqMessageType,
      msg_PayLoad = SyncBlockReqMessage (Some
        \<lparr>sbq_Account = ni_local ns, sbq_Timestamp = time_Now e, sbq_BlockStart = h, sbq_BlockEnd = h\<rparr>)\<rparr>"

lemma sendSyncBlockMsg_one:
  assumes "f_nodes s = Some ns" and "h \<noteq> - 1" and "encode e (sync_request_message e ns h) = Inr raw"
  shows "sendSyncBlockMsg e h h target s = Inr (s\<lparr>f_effects := f_effects s @ [SendTo (acc_Url target) raw]\<rparr>)"
proof -
  have "\<not> h + 1 \<le> h" using unat_succ [OF assms(2)] by (simp add: word_le_nat_alt)
  then show ?thesis
    using assms(1,3)
    by (simp add: sendSyncBlockMsg_def with_nodes_def sync_request_message_def sendSyncBlockMsg_loop.simps sending)
qed

text \<open>
  the block synchroniser asks its target for the next block only: it stops when the chain has
  reached the end of the request, and else sends one request for the height after the chain's last
  block and keeps working on the same request.
\<close>

theorem doSyncBlock_asks_next:
  assumes "f_nodes s = Some ns" and "GetCurrentBlock e (f_chain s) = Some b" and "b_Height b + 1 \<noteq> - 1"
    and "encode e (sync_request_message e ns (b_Height b + 1)) = Inr raw"
  shows "doSyncBlock e req s =
    (if bs_end req \<le> b_Height b then Inr (s\<lparr>f_syncing := None\<rparr>)
     else Inr (s\<lparr>f_effects := f_effects s @ [SendTo (acc_Url (bs_target req)) raw], f_syncing := Some req\<rparr>))"
  using assms sendSyncBlockMsg_one [OF assms(1,3,4)] by (simp add: doSyncBlock_def Let_def)

theorem doSyncBlock_asks_next_witness:
  "\<exists>raw. doSyncBlock sample_env \<lparr>bs_start = 1, bs_end = 3, bs_target = sample_node 4\<rparr> follower =
     Inr (follower\<lparr>f_effects := [SendTo ''node'' raw], f_syncing := Some \<lparr>bs_start = 1, bs_end = 3, bs_target = sample_node 4\<rparr>\<rparr>)"
proof -
  have b: "GetCurrentBlock sample_env (f_chain follower) = Some (sample_block 0 0)" "b_Height (sample_block 0 0) = 0"
    by (simp_all add: follower_defs)
  obtain raw where raw: "encode sample_env (sync_request_message sample_env
      \<lparr>ni_local = sample_node 2, ni_master = sample_node 1, ni_peers = [sample_node 1, sample_node 2, sample_node 3, sample_node 4]\<rparr>
      (b_Height (sample_block 0 0) + 1)) = Inr raw"
    using sample_encode by blast
  show ?thesis
    using doSyncBlock_asks_next [OF follower_facts(1) b(1) _ raw, of "\<lparr>bs_start = 1, bs_end = 3, bs_target = sample_node 4\<rparr>"]
    by (auto simp: b(2) follower_facts(4) sample_node_def)
qed

text \<open>
  an online response from a node that is behind queues a synchronisation request that runs
  backwards, from the height after the local one to the lower one of the response, although the
  comment says blocks are to be fetched from the remote node. The synchroniser drops such a request
  without sending anything.
\<close>

theorem backward_sync_dropped:
  assumes "NewLatestStateRepository e (f_chain s) = None" and "f_nodes s = Some ns"
    and low: "onr_BlockHeight resp < GetCurrentBlockHeight e (f_chain s)"
    and b: "GetCurrentBlock e (f_chain s) = Some b" "b_Height b = GetCurrentBlockHeight e (f_chain s)"
  shows "\<exists>s' req. receiveOnlineResponse e resp s = Inr s' \<and> last (f_blockSyncChan s') = req \<and>
    bs_end req < bs_start req - 1 \<and> f_effects s' = f_effects s \<and>
    doSyncBlock e req s' = Inr (s'\<lparr>f_syncing := None\<rparr>)"
proof -
  let ?req = "\<lparr>bs_start = GetCurrentBlockHeight e (f_chain s) + 1, bs_end = onr_BlockHeight resp,
      bs_target = onr_Account resp\<rparr>"
  have "receiveOnlineResponse e resp s = Inr (push_sync ?req s)"
    using assms(1-3) by (simp add: receiveOnlineResponse_def with_nodes_def)
  moreover have "last (f_blockSyncChan (push_sync ?req s)) = ?req"
    by (simp add: push_sync_def pushOrReplace_spec blockSyncReqCacheLimit_def)
  moreover have "f_chain (push_sync ?req s) = f_chain s" by (simp add: push_sync_def)
  moreover from this have "doSyncBlock e ?req (push_sync ?req s) = Inr ((push_sync ?req s)\<lparr>f_syncing := None\<rparr>)"
    using b low by (simp add: doSyncBlock_def less_imp_le)
  ultimately show ?thesis using low by (intro exI [of _ "push_sync ?req s"] exI [of _ ?req]) simp
qed

theorem backward_sync_dropped_witness:
  "\<exists>s' req. receiveOnlineResponse sample_env
      \<lparr>onr_Account = sample_node 4, onr_Timestamp = 0, onr_BlockHeight = 2, onr_ViewNum = 0, onr_Nodes = [],
       onr_Master = sample_node 1\<rparr> (follower\<lparr>f_chain := 5\<rparr>) = Inr s' \<and>
     bs_end req < bs_start req - 1 \<and> doSyncBlock sample_env req s' = Inr (s'\<lparr>f_syncing := None\<rparr>)"
  using backward_sync_dropped [of sample_env "follower\<lparr>f_chain := 5\<rparr>" _
      "\<lparr>onr_Account = sample_node 4, onr_Timestamp = 0, onr_BlockHeight = 2, onr_ViewNum = 0, onr_Nodes = [],
       onr_Master = sample_node 1\<rparr>" "sample_block 0 5"] follower_facts(1)
  by (auto simp: sample_block_def)

section \<open>The synchronisation queue and the timer\<close>

text \<open>
  \<open>pushOrReplace\<close> always gets its request into the queue: behind the others if there is
  room, and after dropping the oldest if the queue is full. The queue never exceeds its capacity.
\<close>

theorem pushOrReplace_newest_last:
  assumes "0 < cap" and "length chan \<le> cap"
  shows "pushOrReplace cap chan req = (if length chan < cap then chan else tl chan) @ [req] \<and>
    length (pushOrReplace cap chan req) \<le> cap"
proof -
  have "drop (Suc (length chan) - cap) (chan @ [req]) = (if length chan < cap then chan else tl chan) @ [req]"
    using assms by (cases chan) (auto simp: Suc_diff_le)
  then show ?thesis using assms by (auto simp: pushOrReplace_spec)
qed

theorem pushOrReplace_newest_last_witness:
  "pushOrReplace 2 [1, 2] (3 :: nat) = [2, 3] \<and> length (pushOrReplace 2 [1, 2] (3 :: nat)) \<le> 2"
  using pushOrReplace_newest_last [of 2 "[1, 2]" "3 :: nat"] by simp

text \<open>
  C6: in every reachable state of a node the set of peers is the one it was initialised with, the
  fault tolerance is a third of it, at most forty synchronisation requests are queued, every view
  request set and every online response set counts its distinct senders, and the flag of the master
  timer is raised exactly while a goroutine waits on it.
\<close>

theorem reachable_invariant:
  assumes "fbft_reachable e A peers D q" and "signs_correctly e"
  shows "(\<exists>ns. f_nodes (p_core q) = Some ns \<and> ni_peers ns = peers) \<and>
    f_tolerance (p_core q) = of_nat ((length peers - 1) div 3) \<and>
    length (f_blockSyncChan (p_core q)) \<le> 40 \<and>
    (\<forall>v vr. GetRequestByViewNum v (f_viewChange (p_core q)) = Some vr \<longrightarrow> distinct (GetReceivedAccounts vr)) \<and>
    (\<forall>h rn. ow_response (f_onlineWizard (p_core q)) h = Some rn \<longrightarrow> distinct (map acc_Address (rn_nodes rn))) \<and>
    ct_isRunning (f_coreTimer (p_core q)) = (if f_masterWait (p_core q) = None then 0 else 1)"
proof -
  have inv: "core_inv e A peers D (p_core q)" using assms by (rule fbft_reachable_inv)
  have "(\<exists>ns. f_nodes (p_core q) = Some ns \<and> ni_peers ns = peers)"
      "f_tolerance (p_core q) = of_nat ((length peers - 1) div 3)" "length (f_blockSyncChan (p_core q)) \<le> 40"
      "ct_isRunning (f_coreTimer (p_core q)) = (if f_masterWait (p_core q) = None then 0 else 1)"
    using inv by (auto simp: core_inv_def tolerance_of_def blockSyncReqCacheLimit_def timer_inv_def)
  moreover have "\<forall>v vr. GetRequestByViewNum v (f_viewChange (p_core q)) = Some vr \<longrightarrow> distinct (GetReceivedAccounts vr)"
    using inv by (simp add: core_inv_def views_inv_def requests_inv_def GetRequestByViewNum_def GetReceivedAccounts_def)
  moreover have "\<forall>h rn. ow_response (f_onlineWizard (p_core q)) h = Some rn \<longrightarrow> distinct (map acc_Address (rn_nodes rn))"
    using inv by (simp add: core_inv_def wizard_inv_def response_inv_def)
  ultimately show ?thesis by blast
qed

theorem reachable_invariant_witness:
  "length (f_blockSyncChan (p_core trace4)) \<le> 40 \<and> f_tolerance (p_core trace4) = 0"
  using reachable_invariant [OF trace_reachable(3)] by simp

section \<open>Coming online\<close>

lemma receiveOnlineResponse_counts:
  assumes "NewLatestStateRepository e (f_chain s) = None" and "f_nodes s = Some ns"
    and "GetCurrentBlockHeight e (f_chain s) \<le> onr_BlockHeight resp"
    and "GetResponseNodesStateByBlockHeight (onr_BlockHeight resp) (f_onlineWizard s) \<noteq> Online"
    and "AddOnlineResponse (onr_BlockHeight resp) (onr_Nodes resp) (walterLevel_of ns (f_tolerance s))
      (onr_Master resp) (onr_ViewNum resp) (f_onlineWizard s) = Inr ((nodes, state), w)"
  shows "\<exists>s' sent. receiveOnlineResponse e resp s = Inr s' \<and> f_onlineWizard s' = w \<and>
    f_effects s' = f_effects s @ (if state = Online then [Notify EventOnline] else []) @ sent \<and>
    (\<forall>ev. Notify ev \<notin> set sent) \<and>
    f_nodes s' = Some (if state = Online then ns\<lparr>ni_master := onr_Master resp\<rparr> else ns) \<and>
    GetCurrentViewNum (f_viewChange s') =
      (if state = Online then onr_ViewNum resp else GetCurrentViewNum (f_viewChange s))"
  using assms [folded not_less]
  by (auto simp: receiveOnlineResponse_def with_nodes_def Let_def notify_def emit_def sending split: sum.splits)

text \<open>
  C25: an online response for the local height or a higher one, when the responses for that height
  are not complete and its master does not contradict them, brings the node online exactly when the
  nodes it names together with those counted before have enough distinct addresses: the node then
  takes over the response's master and view number and raises \<open>EventOnline\<close>; otherwise master
  and view stay.
\<close>

theorem online_response_agreement:
  assumes "NewLatestStateRepository e (f_chain s) = None" and "f_nodes s = Some ns"
    and "wizard_inv (f_onlineWizard s)" and "onr_Nodes resp \<noteq> []"
    and "GetCurrentBlockHeight e (f_chain s) \<le> onr_BlockHeight resp"
    and "GetResponseNodesStateByBlockHeight (onr_BlockHeight resp) (f_onlineWizard s) \<noteq> Online"
    and "\<not> disagrees (onr_BlockHeight resp) (onr_Master resp) (onr_ViewNum resp) (f_onlineWizard s)"
    and "rn = entry_of (onr_BlockHeight resp) (walterLevel_of ns (f_tolerance s)) (onr_Master resp) (f_onlineWizard s)"
    and "agreed \<longleftrightarrow> rn_walterLevel rn \<le> int (card (acc_Address ` (set (rn_nodes rn) \<union> set (onr_Nodes resp))))"
  shows "\<exists>s' sent. receiveOnlineResponse e resp s = Inr s' \<and>
    f_effects s' = f_effects s @ (if agreed then [Notify EventOnline] else []) @ sent \<and>
    (\<forall>ev. Notify ev \<notin> set sent) \<and>
    f_nodes s' = Some (if agreed then ns\<lparr>ni_master := onr_Master resp\<rparr> else ns) \<and>
    GetCurrentViewNum (f_viewChange s') = (if agreed then onr_ViewNum resp else GetCurrentViewNum (f_viewChange s))"
proof -
  let ?l = "walterLevel_of ns (f_tolerance s)"
  obtain nodes state w where add: "AddOnlineResponse (onr_BlockHeight resp) (onr_Nodes resp) ?l (onr_Master resp)
      (onr_ViewNum resp) (f_onlineWizard s) = Inr ((nodes, state), w)"
    using assms(7) AddOnlineResponse_panics_iff [of "onr_BlockHeight resp" "onr_Nodes resp" ?l "onr_Master resp"
        "onr_ViewNum resp" "f_onlineWizard s"]
    by (metis old.sum.exhaust prod.collapse)
  have "state = Online \<longleftrightarrow> agreed"
    using AddOnlineResponse_result(1) [OF assms(3,4) add] assms(8,9) by simp
  with receiveOnlineResponse_counts [OF assms(1,2,5,6) add] show ?thesis by (cases agreed) auto
qed

definition sample_online :: "Account \<Rightarrow> Account list \<Rightarrow> OnlineResponse" where
  "sample_online master nodes =
     \<lparr>onr_Account = sample_node 4, onr_Timestamp = 0, onr_BlockHeight = 3, onr_ViewNum = 2, onr_Nodes = nodes,
      onr_Master = master\<rparr>"

lemma follower_online:
  "f_onlineWizard follower = NewOnlineWizard" "f_chain follower = 0"
  "walterLevel_of \<lparr>ni_local = sample_node 2, ni_master = sample_node 1,
     ni_peers = [sample_node 1, sample_node 2, sample_node 3, sample_node 4]\<rparr> (f_tolerance follower) = 3"
  by (simp_all add: follower_facts(3) walterLevel_of_def) (simp_all add: follower_defs)

theorem online_response_agreement_witness:
  "\<exists>s' ns. receiveOnlineResponse sample_env (sample_online (sample_node 3) [sample_node 2, sample_node 3, sample_node 4]) follower
      = Inr s' \<and> f_nodes s' = Some ns \<and> ni_master ns = sample_node 3 \<and> GetCurrentViewNum (f_viewChange s') = 2"
proof -
  let ?r = "sample_online (sample_node 3) [sample_node 2, sample_node 3, sample_node 4]"
  have r: "onr_Nodes ?r = [sample_node 2, sample_node 3, sample_node 4]" "onr_Master ?r = sample_node 3"
      "onr_ViewNum ?r = 2" "onr_BlockHeight ?r = 3" by (simp_all add: sample_online_def)
  have "card (acc_Address ` {sample_node 2, sample_node 3, sample_node 4}) = 3" by (simp add: sample_node_def)
  then have agreed: "True \<longleftrightarrow> rn_walterLevel (NewResponseNodes 3 (sample_node 3)) \<le>
      int (card (acc_Address ` (set (rn_nodes (NewResponseNodes 3 (sample_node 3))) \<union> set (onr_Nodes ?r))))"
    by (simp add: NewResponseNodes_def r)
  have "entry_of 3 3 (sample_node 3) NewOnlineWizard = NewResponseNodes 3 (sample_node 3)"
    by (simp add: entry_of_def NewOnlineWizard_def)
  then show ?thesis
    using online_response_agreement [OF _ follower_facts(1) _ _ _ _ _ _ agreed, of sample_env]
    by (simp add: follower_online r)
      (auto simp: disagrees_def NewOnlineWizard_def GetResponseNodesStateByBlockHeight_def)
qed

text \<open>
  an online response whose master differs from the one recorded for its height, with a view
  number that is not higher, makes the node panic: one message from anyone stops the process.
\<close>

theorem online_disagreement_panics:
  assumes "NewLatestStateRepository e (f_chain s) = None" and "f_nodes s = Some ns"
    and "GetCurrentBlockHeight e (f_chain s) \<le> onr_BlockHeight resp"
    and "ow_response (f_onlineWizard s) (onr_BlockHeight resp) = Some rn"
    and "onr_BlockHeight resp \<le> ow_blockHeight (f_onlineWizard s)"
    and "rn_state rn \<noteq> Online" and "onr_Master resp \<noteq> rn_master rn" and "onr_ViewNum resp \<le> rn_viewNum rn"
  shows "receiveOnlineResponse e resp s = Inl (Panicf ''master not in agreement'')"
proof -
  have "disagrees (onr_BlockHeight resp) (onr_Master resp) (onr_ViewNum resp) (f_onlineWizard s)"
    using assms by (auto simp: disagrees_def)
  with assms [folded not_less] show ?thesis
    by (simp add: receiveOnlineResponse_def with_nodes_def Let_def AddOnlineResponse_cases
        GetResponseNodesStateByBlockHeight_def GetResponseState_def)
qed

theorem online_disagreement_panics_witness:
  "receiveOnlineResponse sample_env (sample_online (sample_node 3) [])
     (follower\<lparr>f_onlineWizard :=
        \<lparr>ow_blockHeight = 3, ow_blockHeightList = [3],
         ow_response = [3 \<mapsto> (NewResponseNodes 3 (sample_node 1))\<lparr>rn_viewNum := 2\<rparr>]\<rparr>\<rparr>)
   = Inl (Panicf ''master not in agreement'')"
  using online_disagreement_panics [of sample_env "follower\<lparr>f_onlineWizard :=
        \<lparr>ow_blockHeight = 3, ow_blockHeightList = [3],
         ow_response = [3 \<mapsto> (NewResponseNodes 3 (sample_node 1))\<lparr>rn_viewNum := 2\<rparr>]\<rparr>\<rparr>" _
      "sample_online (sample_node 3) []" "(NewResponseNodes 3 (sample_node 1))\<lparr>rn_viewNum := 2\<rparr>"] follower_facts(1)
  by (simp add: sample_online_def follower_online NewResponseNodes_def) (simp add: sample_node_def)

section \<open>Delivery\<close>

text \<open>The event a payload becomes, and the type a message with it has.\<close>

fun event_of :: "payload \<Rightarrow> event" where
  "event_of (RequestMessage m) = EvRequest m"
| "event_of (ProposalMessage m) = EvProposal m"
| "event_of (ResponseMessage m) = EvResponse m"
| "event_of (CommitMessage m) = EvCommit m"
| "event_of (SyncBlockReqMessage m) = EvSyncBlockReq m"
| "event_of (SyncBlockRespMessage m) = EvSyncBlockResp m"
| "event_of (ViewChangeReqMessage m) = EvViewChangeReq m"
| "event_of (OnlineRequestMessage m) = EvOnlineRequest m"
| "event_of (OnlineResponseMessage m) = EvOnlineResponse m"
| "event_of (BareSyncBlockResp r) = EvOther ''SyncBlockResp''"

fun type_of :: "payload \<Rightarrow> MessageType" where
  "type_of (RequestMessage m) = RequestMessageType"
| "type_of (ProposalMessage m) = ProposalMessageType"
| "type_of (ResponseMessage m) = ResponseMessageType"
| "type_of (CommitMessage m) = CommitMessageType"
| "type_of (SyncBlockReqMessage m) = SyncBlockReqMessageType"
| "type_of (SyncBlockRespMessage m) = SyncBlockRespMessageType"
| "type_of (ViewChangeReqMessage m) = ViewChangeMessageReqType"
| "type_of (OnlineRequestMessage m) = OnlineRequestType"
| "type_of (OnlineResponseMessage m) = OnlineResponseType"
| "type_of (BareSyncBlockResp r) = SyncBlockRespMessageType"

lemma makeEmptyMessage_blank: "makeEmptyMessage (type_of p) = Inr (blank_of p)"
  by (cases p) (simp_all add: makeEmptyMessage_def message_type_defs)

lemma ReadMessage_encoded:
  assumes "json_roundtrip marshal unmarshal p" and "\<forall>r. p \<noteq> BareSyncBlockResp r"
    and "marshal p = Inr body" and "length body < 2 ^ 32"
    and "EncodeMessage marshal \<lparr>msg_Type = type_of p, msg_PayLoad = p\<rparr> = Inr raw"
  shows "ReadMessage unmarshal (raw @ rest) = Inr (\<lparr>msg_Type = type_of p, msg_PayLoad = p\<rparr>, rest)"
proof -
  have "unmarshal body (blank_of p) = Inr p" using assms(1-3) by (simp add: json_roundtrip_def)
  then show ?thesis
    using ReadMessage_Encode [of marshal "\<lparr>msg_Type = type_of p, msg_PayLoad = p\<rparr>" body raw unmarshal rest] assms(3-5)
    by (simp add: DecodeMessage_def makeEmptyMessage_blank)
qed

text \<open>
  C35: round trip. The bytes \<open>EncodeMessage\<close> produces for a message of one of the nine kinds are
  read back by \<open>ReadMessage\<close> as the same message, and what follows on the connection stays
  unread, given that the JSON codec restores a payload into an empty message of its type.
\<close>

theorem message_roundtrip:
  assumes "json_roundtrip marshal unmarshal p" and "\<forall>r. p \<noteq> BareSyncBlockResp r"
    and "marshal p = Inr body" and "length body < 2 ^ 32"
    and "EncodeMessage marshal \<lparr>msg_Type = type_of p, msg_PayLoad = p\<rparr> = Inr raw"
  shows "ReadMessage unmarshal (raw @ rest) = Inr (\<lparr>msg_Type = type_of p, msg_PayLoad = p\<rparr>, rest)"
  using ReadMessage_encoded [OF assms] .

text \<open>A codec for two commit messages and for messages without content.\<close>

definition codec_commit :: "bool \<Rightarrow> payload" where
  "codec_commit ok = CommitMessage (Some
     \<lparr>com_Account = sample_node 1, com_Timestamp = 3, com_BlockHash = 2, com_Digest = 7, com_Signatures = [[1, 7], [2, 7]],
      com_Result = ok\<rparr>)"

definition sample_marshal :: "payload \<Rightarrow> error + bytes" where
  "sample_marshal p =
     (if p = codec_commit True then Inr [123, 49, 125]
      else if p = codec_commit False then Inr [123, 48, 125]
      else if p = blank_of p then Inr [123, 125]
      else Inl (ErrExternal ''unsupported''))"

definition sample_unmarshal :: "bytes \<Rightarrow> payload \<Rightarrow> error + payload" where
  "sample_unmarshal raw blank =
     (if raw = [123, 49, 125] then Inr (codec_commit True)
      else if raw = [123, 48, 125] then Inr (codec_commit False)
      else Inr blank)"

lemma sample_codec: "json_roundtrip sample_marshal sample_unmarshal p"
  by (auto simp: json_roundtrip_def sample_marshal_def sample_unmarshal_def split: if_splits)

theorem message_roundtrip_witness:
  "\<exists>raw. EncodeMessage sample_marshal \<lparr>msg_Type = CommitMessageType, msg_PayLoad = codec_commit True\<rparr> = Inr raw \<and>
     ReadMessage sample_unmarshal (raw @ [7]) = Inr (\<lparr>msg_Type = CommitMessageType, msg_PayLoad = codec_commit True\<rparr>, [7])"
  using message_roundtrip [OF sample_codec, of "codec_commit True" "[123, 49, 125]" _ "[7]"]
  by (simp add: sample_marshal_def EncodeMessage_def) (simp add: codec_commit_def)

lemma handleClient_message:
  assumes "ReadMessage (json_Unmarshal e) conn = Inr (\<lparr>msg_Type = type_of p, msg_PayLoad = p\<rparr>, rest)"
    and "f_nodes s = Some ns" and "\<forall>r. p \<noteq> BareSyncBlockResp r" and "p \<noteq> ResponseMessage None"
    and "\<forall>r. p = ResponseMessage (Some r) \<longrightarrow> acc_Id (res_Account r) \<noteq> acc_Id (ni_master ns)"
  shows "handleClient e conn s = SendEvent (ProcessEvent e) s (event_of p)"
  using assms by (cases p) (auto simp: handleClient_def message_type_defs split: option.splits)

text \<open>
  C36: delivery. A connection that carries the encoding of a message of one of the nine kinds is
  handled by the core as the event for that message; only a response that claims to come from the
  master is dropped instead.
\<close>

theorem delivery:
  assumes ns: "f_nodes s = Some ns" and codec: "json_roundtrip (json_Marshal e) (json_Unmarshal e) p"
    and p: "\<forall>r. p \<noteq> BareSyncBlockResp r" "\<forall>r. p = ResponseMessage (Some r) \<longrightarrow> acc_Id (res_Account r) \<noteq> acc_Id (ni_master ns)"
      "p \<noteq> ResponseMessage None"
    and raw: "json_Marshal e p = Inr body" "length body < 2 ^ 32"
      "encode e \<lparr>msg_Type = type_of p, msg_PayLoad = p\<rparr> = Inr raw"
  shows "handleClient e (raw @ rest) s = SendEvent (ProcessEvent e) s (event_of p)"
  using handleClient_message [OF ReadMessage_encoded [OF codec p(1) raw] ns p(1,3,2)] .

theorem delivery_witness:
  "\<exists>raw commit. codec_commit True = CommitMessage (Some commit) \<and>
     handleClient (sample_env\<lparr>json_Marshal := sample_marshal, json_Unmarshal := sample_unmarshal\<rparr>) (raw @ []) follower =
     SendEvent (ProcessEvent (sample_env\<lparr>json_Marshal := sample_marshal, json_Unmarshal := sample_unmarshal\<rparr>)) follower
       (EvCommit (Some commit))"
proof -
  let ?e = "sample_env\<lparr>json_Marshal := sample_marshal, json_Unmarshal := sample_unmarshal\<rparr>"
  obtain commit where c: "codec_commit True = CommitMessage (Some commit)" by (simp add: codec_commit_def)
  obtain raw where "encode ?e \<lparr>msg_Type = type_of (codec_commit True), msg_PayLoad = codec_commit True\<rparr> = Inr raw"
    by (simp add: sample_marshal_def EncodeMessage_def)
  then have "handleClient ?e (raw @ []) follower = SendEvent (ProcessEvent ?e) follower (event_of (codec_commit True))"
    using delivery [OF follower_facts(1), of ?e "codec_commit True" "[123, 49, 125]" raw "[]"] sample_codec
    by (simp add: c) (simp add: sample_marshal_def c)
  with c show ?thesis by auto
qed

text \<open>
  a well-formed connection can stop the process: a message of any of the nine kinds whose JSON
  leaves the inner pointer nil (the empty object does) makes the handler dereference nil.
\<close>

theorem blank_message_panics:
  assumes "f_nodes s = Some ns" and "ReadMessage (json_Unmarshal e) conn = Inr (\<lparr>msg_Type = type_of p, msg_PayLoad = blank_of p\<rparr>, rest)"
  shows "handleClient e conn s = Some (Inl NilDereference)"
  using assms
  by (cases p) (auto simp: handleClient_def message_type_defs fbft_receiver.SendEvent_known ProcessEvent_def
      with_nodes_def handle_def)

theorem blank_message_panics_witness:
  "handleClient sample_env (encodeMessageHeader \<lparr>mh_Magic = 0, mh_MessageType = CommitMessageType, mh_Length = 0\<rparr>) follower =
     Some (Inl NilDereference)"
proof -
  have "ReadMessage (json_Unmarshal sample_env)
      (encodeMessageHeader \<lparr>mh_Magic = 0, mh_MessageType = CommitMessageType, mh_Length = 0\<rparr> @ []) =
      Inr (\<lparr>msg_Type = type_of (CommitMessage None), msg_PayLoad = blank_of (CommitMessage None)\<rparr>, [])"
    unfolding ReadMessage_def readMessageHeader_encode
    by (simp add: ReadFull_def DecodeMessage_def makeEmptyMessage_def message_type_defs)
  then show ?thesis using blank_message_panics [OF follower_facts(1), of sample_env _ "CommitMessage None"] by simp
qed

text \<open>
  the event loop of every connection ends: whatever bytes arrive, \<open>handleClient\<close> sends the
  core at most one event, and one the core knows, so \<open>SendEvent\<close> stops after one turn.
\<close>

theorem handleClient_event_loop_ends: "\<exists>out. handleClient e conn s = Some out"
  by (auto simp: handleClient_def Let_def fbft_receiver.SendEvent_known
      split: option.splits sum.splits prod.splits if_splits payload.splits)

text \<open>
  an event the core does not know never ends: \<open>ProcessEvent\<close> returns an error, \<open>SendEvent\<close>
  takes that error for the next event, and so on for ever.
\<close>

theorem unknown_event_never_returns:
  assumes "f_nodes s \<noteq> None" and "\<not> known_event ev"
  shows "SendEvent (ProcessEvent e) s ev = None"
  using fbft_receiver.SendEvent_unknown [OF assms] .

theorem unknown_event_never_returns_witness: "SendEvent (ProcessEvent sample_env) follower (EvOther ''x'') = None"
  using unknown_event_never_returns [of follower "EvOther ''x''" sample_env] by (simp add: follower_facts(1))

end
