(* ===== verification/Fbft_Round.thy ===== *)
theory Fbft_Round
  imports Fbft_Network Fbft_Commit Fbft_Sync_Online Fbft_View_Change
begin

text \<open>
  A whole round of FBFT across the nodes of a network: from \<open>ToConsensus\<close> at the master over the
  proposal, the responses and the commit message to the block switch of every node that took part.
  And what a faulty master can make of the same handlers.
\<close>

section \<open>The handlers when nothing stands in the way\<close>

lemma succ_height:
  fixes c h :: u64
  assumes "h = c + 1" and "c \<noteq> - 1"
  shows "\<not> h \<le> c" "\<not> c < h - 1" "c < h"
proof -
  have "unat h = Suc (unat c)" using assms unat_succ by blast
  then show "\<not> h \<le> c" "c < h" by (simp_all add: word_le_nat_alt word_less_nat_alt)
  show "\<not> c < h - 1" using assms(1) by simp
qed

text \<open>What a node needs for it to accept a block from the master and sign it.\<close>

definition accepts_block :: "'w env \<Rightarrow> Block \<Rightarrow> 'w fbftCore \<Rightarrow> bool" where
  "accepts_block e b s \<longleftrightarrow>
     NewLatestStateRepository e (f_chain s) = None \<and>
     b_Height b = GetCurrentBlockHeight e (f_chain s) + 1 \<and> GetCurrentBlockHeight e (f_chain s) \<noteq> - 1 \<and>
     \<not> isl (VerifyPayload e (f_chain s) b (f_enableLocalVerifySignature s))"

lemma waitMasterTimeout_returns:
  assumes "f_nodes s = Some ns"
  shows "\<exists>t w. waitMasterTimeout s = Inr (s\<lparr>f_coreTimer := t, f_masterWait := w\<rparr>)"
proof (cases "ct_isRunning (f_coreTimer s) = 0")
  case True
  with assms show ?thesis by (auto simp: waitMasterTimeout_def with_nodes_def)
next
  case False
  then have "waitMasterTimeout s = Inr (s\<lparr>f_coreTimer := f_coreTimer s, f_masterWait := f_masterWait s\<rparr>)"
    by (simp add: waitMasterTimeout_def)
  then show ?thesis by blast
qed

lemma stopChangeViewTimer_shape: "\<exists>t w. stopChangeViewTimer s = s\<lparr>f_coreTimer := t, f_masterWait := w\<rparr>"
proof (cases "f_masterWait s")
  case None
  then have "stopChangeViewTimer s = s\<lparr>f_coreTimer := f_coreTimer s, f_masterWait := f_masterWait s\<rparr>"
    by (simp add: stopChangeViewTimer_def)
  then show ?thesis by blast
next
  case (Some w)
  then have "stopChangeViewTimer s = s\<lparr>f_coreTimer := (f_coreTimer s)\<lparr>ct_isRunning := 0\<rparr>, f_masterWait := None\<rparr>"
    by (simp add: stopChangeViewTimer_def)
  then show ?thesis by blast
qed

lemma receiveProposal_accepts:
  assumes ns: "f_nodes s = Some ns" "ni_local ns \<noteq> ni_master ns" "pro_Account proposal = ni_master ns"
    and block: "accepts_block e (pro_Payload proposal) s"
    and sigs: "SignatureVerify e (ni_master ns) (pro_Signature proposal) (b_MixDigest (pro_Payload proposal))"
      "SignPayload e (ni_local ns) (b_MixDigest (pro_Payload proposal)) = Inr sg"
    and raw: "encode e (response_message ns proposal sg) = Inr raw"
  shows "\<exists>t w. receiveProposal e proposal s = Inr (s\<lparr>f_coreTimer := t, f_masterWait := w,
      f_consensusPlugin := snd (Add (b_MixDigest (pro_Payload proposal)) (pro_Payload proposal) (f_consensusPlugin s)),
      f_effects := f_effects s @ [SendTo (acc_Url (ni_master ns)) raw]\<rparr>)"
proof -
  obtain t1 w1 where stop: "stopChangeViewTimer s = s\<lparr>f_coreTimer := t1, f_masterWait := w1\<rparr>"
    using stopChangeViewTimer_shape by blast
  obtain t w where wait: "waitMasterTimeout (s\<lparr>f_coreTimer := t1, f_masterWait := w1\<rparr>) =
      Inr (s\<lparr>f_coreTimer := t, f_masterWait := w\<rparr>)"
    using waitMasterTimeout_returns [of "s\<lparr>f_coreTimer := t1, f_masterWait := w1\<rparr>" ns] ns(1) by auto
  have h: "\<not> b_Height (pro_Payload proposal) \<le> GetCurrentBlockHeight e (f_chain s)"
      "\<not> GetCurrentBlockHeight e (f_chain s) < b_Height (pro_Payload proposal) - 1"
    using block succ_height unfolding accepts_block_def by blast+
  obtain receipts where "VerifyPayload e (f_chain s) (pro_Payload proposal) (f_enableLocalVerifySignature s) = Inr receipts"
    using block by (auto simp: accepts_block_def isl_def) (metis sum.exhaust)
  then show ?thesis
    using ns sigs raw h wait block unfolding accepts_block_def
    by (simp add: receiveProposal_def with_nodes_def stop Let_def response_message_def set_plugin_def emit_def sending)
      (intro exI, rule refl)
qed

text \<open>The master's part: the request, and the contents it works on.\<close>

definition proposal_of :: "Account \<Rightarrow> i64 \<Rightarrow> Block \<Rightarrow> bytes \<Rightarrow> ProposalMsg" where
  "proposal_of m ts b sg = \<lparr>pro_Account = m, pro_Timestamp = ts, pro_Payload = b, pro_Signature = sg\<rparr>"

definition proposed_content :: "Account \<Rightarrow> bytes \<Rightarrow> Block \<Rightarrow> Content" where
  "proposed_content m sg b =
     \<lparr>c_digest = b_MixDigest b, c_state = InConsensus, c_signMap = [m \<mapsto> sg], c_signatures = [sg], c_payload = b\<rparr>"

lemma view_Add_fresh:
  assumes "plugin_inv p" and "view p d = None"
  shows "\<exists>r p'. Add d b p = (r, p') \<and> plugin_inv p' \<and> cp_content p' d = Some r \<and> r < length (cp_heap p') \<and>
    deref p' r = newContent d b \<and> view p' = spec_add d b (view p) \<and> cp_latestBlockHeight p' = cp_latestBlockHeight p \<and>
    r = length (cp_heap p) \<and> length (cp_heap p') = Suc (length (cp_heap p))"
proof -
  obtain r p' where add: "Add d b p = (r, p')" by fastforce
  have inv: "plugin_inv p'" "cp_content p' d = Some r" "view p' = spec_add d b (view p)"
    using plugin_inv_Add [OF assms(1), of d b] fst_Add [OF assms(1), of d b] view_Add [OF assms(1), of d b] add by simp_all
  moreover have "view p' d = Some (newContent d b)"
    using inv(3) assms(2) by (simp add: spec_add_def Let_def map_loop_simps)
  then have "deref p' r = newContent d b" using inv(2) by (simp add: view_def)
  moreover have "cp_latestBlockHeight p' = cp_latestBlockHeight p"
    using add by (auto simp: Add_def Let_def split: option.splits)
  moreover have "cp_content p d = None" using assms(2) by (simp add: view_def)
  then have "r = length (cp_heap p) \<and> length (cp_heap p') = Suc (length (cp_heap p))"
    using add by (auto simp: Add_def Let_def delete_if_def split: option.splits)
  ultimately show ?thesis using add plugin_inv_ref [OF inv(1,2)] by blast
qed

lemma receiveRequest_accepts:
  assumes ns: "f_nodes s = Some ns" "ni_local ns = m" "ni_master ns = m" and acc: "req_Account request = m"
    and b: "req_Payload request = b" "b_SigData b \<noteq> []" and sg: "SignPayload e m (b_MixDigest b) = Inr sg"
    and inv: "plugin_inv (f_consensusPlugin s)" and fresh: "view (f_consensusPlugin s) (b_MixDigest b) = None"
    and raw: "encode e \<lparr>msg_Type = ProposalMessageType,
      msg_PayLoad = ProposalMessage (Some (proposal_of m (req_Timestamp request) b sg))\<rparr> = Inr raw"
  shows "\<exists>t w p' r. receiveRequest e request s = Inr (s\<lparr>f_coreTimer := t, f_masterWait := w, f_consensusPlugin := p',
      f_waiters := f_waiters s @ [\<lparr>wt_digest = b_MixDigest b, wt_content = r\<rparr>],
      f_effects := f_effects s @ sends raw (filter (\<lambda>p. p \<noteq> m) (ni_peers ns))\<rparr>) \<and>
    plugin_inv p' \<and> view p' (b_MixDigest b) = Some (proposed_content m sg b) \<and>
    cp_latestBlockHeight p' = cp_latestBlockHeight (f_consensusPlugin s) \<and>
    cp_content p' (b_MixDigest b) = Some (length (cp_heap (f_consensusPlugin s))) \<and>
    length (cp_heap p') = Suc (length (cp_heap (f_consensusPlugin s)))"
proof -
  let ?d = "b_MixDigest b" and ?c = "proposed_content m sg b"
  obtain t w where stop: "stopChangeViewTimer s = s\<lparr>f_coreTimer := t, f_masterWait := w\<rparr>"
    using stopChangeViewTimer_shape by blast
  obtain r p1 where p1: "Add ?d b (f_consensusPlugin s) = (r, p1)" "plugin_inv p1" "cp_content p1 ?d = Some r"
      "r < length (cp_heap p1)" "deref p1 r = newContent ?d b" "cp_latestBlockHeight p1 = cp_latestBlockHeight (f_consensusPlugin s)"
      and new: "r = length (cp_heap (f_consensusPlugin s))" "length (cp_heap p1) = Suc (length (cp_heap (f_consensusPlugin s)))"
    using view_Add_fresh [OF inv fresh, of b] by blast
  obtain c1 where c1: "AddSignature m sg (newContent ?d b) = (True, c1)" "SetState InConsensus c1 = (None, ?c)"
      "c_digest c1 = ?d" "content_inv c1"
    by (simp add: AddSignature_def SetState_def newContent_def contentState_defs proposed_content_def content_inv_def)
  let ?p = "store r ?c (store r c1 p1)"
  have inv1: "plugin_inv (store r c1 p1)"
    using p1 c1 by (intro plugin_inv_store) (auto simp: newContent_def)
  moreover have "deref (store r c1 p1) r = c1" using p1(4) by (simp add: store_def)
  ultimately have "plugin_inv ?p"
    using c1(3) by (intro plugin_inv_store [OF inv1]) (auto simp: proposed_content_def content_inv_def)
  moreover have "view ?p ?d = Some ?c" using view_store [OF inv1, of ?d r ?c] p1(3) by simp
  moreover have "cp_latestBlockHeight ?p = cp_latestBlockHeight (f_consensusPlugin s)" using p1(6) by (simp add: store_def)
  moreover have "cp_content ?p ?d = Some (length (cp_heap (f_consensusPlugin s))) \<and>
      length (cp_heap ?p) = Suc (length (cp_heap (f_consensusPlugin s)))"
    using p1(3) new by (simp add: store_def)
  moreover have "GetContentByHash ?d ?p = Inr r" using p1(3) by (simp add: GetContentByHash_def)
  then have "receiveRequest e request s = Inr (s\<lparr>f_coreTimer := t, f_masterWait := w, f_consensusPlugin := ?p,
      f_waiters := f_waiters s @ [\<lparr>wt_digest = ?d, wt_content = r\<rparr>],
      f_effects := f_effects s @ sends raw (filter (\<lambda>p. p \<noteq> m) (ni_peers ns))\<rparr>)"
    using ns acc b sg p1 c1 raw
    by (simp add: receiveRequest_def with_nodes_def stop Let_def set_plugin_def emit_def sending waitResponse_def
        proposal_of_def)
  ultimately show ?thesis by blast
qed

section \<open>Steps of a network\<close>

abbreviation net_steps :: "'w env \<Rightarrow> Account set \<Rightarrow> 'w network \<Rightarrow> 'w network \<Rightarrow> bool" where
  "net_steps e A \<equiv> (net_step e A)\<^sup>*\<^sup>*"

lemma env_time_id [simp]: "e\<lparr>time_Now := time_Now e\<rparr> = e"
  by simp

lemma SendEvent_handler:
  assumes "f_nodes s = Some ns"
  shows "SendEvent (ProcessEvent e) s (EvProposal (Some m1)) = Some (receiveProposal e m1 s)"
    and "SendEvent (ProcessEvent e) s (EvResponse (Some m2)) = Some (receiveResponse e m2 s)"
    and "SendEvent (ProcessEvent e) s (EvCommit (Some m3)) = Some (receiveCommit e m3 s)"
  using assms
  by (simp_all add: fbft_receiver.SendEvent_known ProcessEvent_def with_nodes_def handle_def)
    (cases "receiveProposal e m1 s"; cases "receiveResponse e m2 s"; cases "receiveCommit e m3 s"; simp)+

text \<open>What may be delivered, and that more can be when more was sent.\<close>

abbreviation admissible :: "'w env \<Rightarrow> Account set \<Rightarrow> 'w network \<Rightarrow> bytes \<Rightarrow> bool" where
  "admissible e A N conn \<equiv> responses_from e A conn \<and> unforged e N conn"

lemma admissible_update:
  assumes "admissible e A N conn" and "N x = Some (p, D)"
    and "\<exists>sent. f_effects (p_core p') = f_effects (p_core p) @ sent"
  shows "admissible e A (N(x \<mapsto> (p', D'))) conn"
  using assms(1) signed_by_update [where N = N, OF assms(2,3)] by (auto simp: unforged_def)

text \<open>The same bytes to several nodes, one after the other.\<close>

lemma deliver_all:
  assumes "distinct xs" and "\<forall>x \<in> set xs. N x = Some (p x, D x) \<and> handleClient e conn (p_core (p x)) = Some (Inr (c x)) \<and>
      (\<exists>sent. f_effects (c x) = f_effects (p_core (p x)) @ sent)"
    and "admissible e A N conn" and "requested e conn = {}"
  shows "net_steps e A N (\<lambda>y. if y \<in> set xs then Some ((p y)\<lparr>p_core := c y\<rparr>, D y) else N y)"
  using assms
proof (induction xs arbitrary: N)
  case Nil
  then show ?case by simp
next
  case (Cons x xs)
  let ?N = "N(x \<mapsto> ((p x)\<lparr>p_core := c x\<rparr>, D x))"
  have x: "N x = Some (p x, D x)" "handleClient e conn (p_core (p x)) = Some (Inr (c x))"
    using Cons.prems(2) by simp_all
  have "net_step e A N ?N"
    using net_deliver [where N = N and x = x, OF x(1) conjunct1 [OF Cons.prems(3)] conjunct2 [OF Cons.prems(3)], of "time_Now e"] x(2) Cons.prems(4) by simp
  moreover have "net_steps e A ?N (\<lambda>y. if y \<in> set xs then Some ((p y)\<lparr>p_core := c y\<rparr>, D y) else ?N y)"
  proof (rule Cons.IH)
    show "admissible e A ?N conn"
      using admissible_update [OF Cons.prems(3) x(1)] Cons.prems(2,3) by simp
  qed (use Cons.prems in auto)
  moreover have "(\<lambda>y. if y \<in> set xs then Some ((p y)\<lparr>p_core := c y\<rparr>, D y) else ?N y) =
      (\<lambda>y. if y \<in> set (x # xs) then Some ((p y)\<lparr>p_core := c y\<rparr>, D y) else N y)"
    by auto
  ultimately show ?case by (metis (no_types, lifting) converse_rtranclp_into_rtranclp)
qed

text \<open>Several responses to the master, one after the other.\<close>

lemma receiveResponse_content:
  "receiveResponse e r s = Inr s' \<Longrightarrow> cp_content (f_consensusPlugin s') = cp_content (f_consensusPlugin s)"
  by (auto simp: receiveResponse_def with_nodes_def Let_def set_plugin_def store_def
      split: option.splits if_splits sum.splits prod.splits)

lemma deliver_responses:
  assumes "N m = Some (pm, D)" and "f_nodes (p_core pm) = Some ns" "ni_local ns = m" "ni_master ns = m"
    and "plugin_inv (f_consensusPlugin (p_core pm))" "view (f_consensusPlugin (p_core pm)) d = Some c" "c_state c \<noteq> ToConsensus"
    and "\<forall>r \<in> set rs. res_Digest r = d \<and> GetLatestBlockHeight (f_consensusPlugin (p_core pm)) < res_BlockHeight r \<and>
      valid_response e r \<and> acc_Id (res_Account r) \<noteq> acc_Id m \<and> admissible e A N (conn r) \<and>
      ReadMessage (json_Unmarshal e) (conn r) = Inr (\<lparr>msg_Type = ResponseMessageType, msg_PayLoad = ResponseMessage (Some r)\<rparr>, [])"
  shows "\<exists>p'. net_steps e A N (N(m \<mapsto> (pm\<lparr>p_core := (p_core pm)\<lparr>f_consensusPlugin := p',
        f_signal := f_signal (p_core pm) + length rs\<rparr>\<rparr>, D))) \<and>
    plugin_inv p' \<and> view p' d = Some (fold add_response rs c) \<and> cp_content p' = cp_content (f_consensusPlugin (p_core pm))"
  using assms
proof (induction rs arbitrary: N pm c)
  case Nil
  have "N(m \<mapsto> (pm, D)) = N" using Nil.prems(1) by (rule map_upd_triv)
  then have steps: "net_steps e A N (N(m \<mapsto> (pm\<lparr>p_core := (p_core pm)\<lparr>f_consensusPlugin := f_consensusPlugin (p_core pm),
      f_signal := f_signal (p_core pm) + length []\<rparr>\<rparr>, D)))" by simp
  show ?case
    by (intro exI [of _ "f_consensusPlugin (p_core pm)"] conjI, rule steps) (use Nil.prems in simp_all)
next
  case (Cons r rs)
  let ?s = "p_core pm"
  have r: "res_Digest r = d" "GetLatestBlockHeight (f_consensusPlugin ?s) < res_BlockHeight r" "valid_response e r"
      "acc_Id (res_Account r) \<noteq> acc_Id m" "admissible e A N (conn r)"
      "ReadMessage (json_Unmarshal e) (conn r) = Inr (\<lparr>msg_Type = ResponseMessageType, msg_PayLoad = ResponseMessage (Some r)\<rparr>, [])"
    using Cons.prems(8) by simp_all
  obtain p1 where p1: "receiveResponse e r ?s = Inr (?s\<lparr>f_consensusPlugin := p1, f_signal := f_signal ?s + 1\<rparr>)"
      "plugin_inv p1" "view p1 = (view (f_consensusPlugin ?s))(d \<mapsto> add_response r c)"
      "GetLatestBlockHeight p1 = GetLatestBlockHeight (f_consensusPlugin ?s)"
    using receiveResponse_master [OF Cons.prems(5,2), of r c e] Cons.prems(3,4,6,7) r(1-3) by auto
  let ?s1 = "?s\<lparr>f_consensusPlugin := p1, f_signal := f_signal ?s + 1\<rparr>"
  have content: "cp_content p1 = cp_content (f_consensusPlugin ?s)" using receiveResponse_content [OF p1(1)] by simp
  let ?pm = "pm\<lparr>p_core := ?s1\<rparr>"
  have "handleClient e (conn r) ?s = Some (Inr ?s1)"
    using handleClient_message [of e "conn r" "ResponseMessage (Some r)" "[]" ?s ns] r(4,6) Cons.prems(2,4) p1(1)
    by (simp add: SendEvent_handler)
  moreover have "requested e (conn r) = {}" using r(6) by (simp add: requested_def)
  moreover define N1 where "N1 = N(m \<mapsto> (?pm, D))"
  ultimately have step: "net_step e A N N1"
    using net_deliver [where N = N and x = m, OF Cons.prems(1) conjunct1 [OF r(5)] conjunct2 [OF r(5)], of "time_Now e"] by simp
  have N1: "N1 m = Some (?pm, D)" "\<And>z. N1(m \<mapsto> z) = N(m \<mapsto> z)" by (simp_all add: N1_def)
  have upd: "admissible e A N1 (conn r')" if "admissible e A N (conn r')" for r'
    unfolding N1_def using admissible_update [OF that Cons.prems(1)] that by simp
  have "\<exists>p'. net_steps e A N1 (N1(m \<mapsto> (?pm\<lparr>p_core := (p_core ?pm)\<lparr>f_consensusPlugin := p',
        f_signal := f_signal (p_core ?pm) + length rs\<rparr>\<rparr>, D))) \<and>
      plugin_inv p' \<and> view p' d = Some (fold add_response rs (add_response r c)) \<and>
      cp_content p' = cp_content (f_consensusPlugin (p_core ?pm))"
  proof (rule Cons.IH [where N = N1 and pm = ?pm and c = "add_response r c"])
    show "c_state (add_response r c) \<noteq> ToConsensus" using Cons.prems(7) by (simp add: add_response_def frame_simps)
  qed (use Cons.prems p1 upd N1(1) in auto)
  then obtain p' where p': "net_steps e A N1 (N(m \<mapsto> (pm\<lparr>p_core := ?s\<lparr>f_consensusPlugin := p',
        f_signal := f_signal ?s + length (r # rs)\<rparr>\<rparr>, D)))" "plugin_inv p'" "view p' d = Some (fold add_response (r # rs) c)"
      "cp_content p' = cp_content (f_consensusPlugin ?s)"
    unfolding N1(2) using content by auto
  show ?case
    by (intro exI [of _ p'] conjI, rule converse_rtranclp_into_rtranclp [OF step p'(1)]) (use p' in simp_all)
qed

section \<open>A round without faults\<close>

text \<open>
  The JSON codec transmits a payload when it writes it and reads what it wrote back into an empty
  message of its type.
\<close>

definition transmits :: "'w env \<Rightarrow> payload \<Rightarrow> bool" where
  "transmits e p \<longleftrightarrow> (\<exists>body. json_Marshal e p = Inr body \<and> length body < 2 ^ 32 \<and>
     json_Unmarshal e body (blank_of p) = Inr p)"

lemma transmits_raw:
  assumes "transmits e p"
  shows "\<exists>raw. encode e \<lparr>msg_Type = type_of p, msg_PayLoad = p\<rparr> = Inr raw \<and>
    ReadMessage (json_Unmarshal e) raw = Inr (\<lparr>msg_Type = type_of p, msg_PayLoad = p\<rparr>, [])"
proof -
  let ?m = "\<lparr>msg_Type = type_of p, msg_PayLoad = p\<rparr>"
  obtain body where body: "json_Marshal e p = Inr body" "length body < 2 ^ 32" "json_Unmarshal e body (blank_of p) = Inr p"
    using assms unfolding transmits_def by blast
  then obtain raw where raw: "encode e ?m = Inr raw" by (auto simp: EncodeMessage_def)
  have "ReadMessage (json_Unmarshal e) (raw @ []) = Inr (?m, [])"
    using ReadMessage_Encode [OF _ raw body(2), of "json_Unmarshal e" "[]"] body
    by (simp add: DecodeMessage_def makeEmptyMessage_blank del: append_Nil2)
  with raw show ?thesis by auto
qed

definition response_of :: "Account \<Rightarrow> i64 \<Rightarrow> Block \<Rightarrow> bytes \<Rightarrow> Response" where
  "response_of x ts b sg = \<lparr>res_Account = x, res_Timestamp = ts, res_Digest = b_MixDigest b, res_Signature = sg,
     res_BlockHeight = b_Height b\<rparr>"

lemma response_of_simps [simp]:
  "res_Account (response_of x ts b sg) = x" "res_Digest (response_of x ts b sg) = b_MixDigest b"
  "res_Signature (response_of x ts b sg) = sg" "res_BlockHeight (response_of x ts b sg) = b_Height b"
  by (simp_all add: response_of_def)

lemma response_message_of:
  "response_message ns (proposal_of m ts b sgm) sg =
     \<lparr>msg_Type = type_of (ResponseMessage (Some (response_of (ni_local ns) ts b sg))),
      msg_PayLoad = ResponseMessage (Some (response_of (ni_local ns) ts b sg))\<rparr>"
  by (simp add: response_message_def response_of_def proposal_of_def)

text \<open>A node that waits for the block \<open>b\<close> of the master \<open>m\<close>, and a master between rounds.\<close>

definition ready :: "'w env \<Rightarrow> Account \<Rightarrow> Account list \<Rightarrow> Block \<Rightarrow> Account \<Rightarrow> 'w fbftCore \<Rightarrow> bool" where
  "ready e m peers b x s \<longleftrightarrow>
     f_nodes s = Some \<lparr>ni_local = x, ni_master = m, ni_peers = peers\<rparr> \<and>
     plugin_inv (f_consensusPlugin s) \<and> view (f_consensusPlugin s) (b_MixDigest b) = None \<and>
     cp_latestBlockHeight (f_consensusPlugin s) < b_Height b \<and> accepts_block e b s \<and>
     (f_enableEmptyBlock s \<or> b_Transactions b \<noteq> [])"

definition idle_master :: "Account \<Rightarrow> Account list \<Rightarrow> 'w FBFTPolicy \<Rightarrow> bool" where
  "idle_master m peers p \<longleftrightarrow>
     p_local p = m \<and> p_isProcessing p = 0 \<and> p_pending p = None \<and> f_waiters (p_core p) = [] \<and>
     f_result (p_core p) = [] \<and> f_tolerance (p_core p) = tolerance_of (length peers)"

text \<open>Phase one: the request. The master then collects responses.\<close>

definition collecting :: "Account \<Rightarrow> Account list \<Rightarrow> Proposal \<Rightarrow> bytes \<Rightarrow> 'w FBFTPolicy \<Rightarrow> bool" where
  "collecting m peers pr sgm p \<longleftrightarrow>
     (let s = p_core p; b = prop_Block pr
      in p_pending p = Some pr \<and> p_shared p = cp_content (f_consensusPlugin s) (b_MixDigest b) \<and> f_nodes s = Some \<lparr>ni_local = m, ni_master = m, ni_peers = peers\<rparr> \<and>
         wt_digest ` set (f_waiters s) = {b_MixDigest b} \<and> f_result s = [] \<and> f_tolerance s = tolerance_of (length peers) \<and>
         plugin_inv (f_consensusPlugin s) \<and> view (f_consensusPlugin s) (b_MixDigest b) = Some (proposed_content m sgm b) \<and>
         cp_latestBlockHeight (f_consensusPlugin s) < b_Height b \<and> (f_enableEmptyBlock s \<or> b_Transactions b \<noteq> []))"

lemma round_begins:
  assumes m: "N m = Some (pm, D)" "idle_master m peers pm" "ready e m peers (prop_Block pr) m (p_core pm)"
    and b: "b_SigData (prop_Block pr) \<noteq> []" and sg: "SignPayload e m (b_MixDigest (prop_Block pr)) = Inr sg"
    and raw: "encode e \<lparr>msg_Type = ProposalMessageType,
      msg_PayLoad = ProposalMessage (Some (proposal_of m (prop_Timestamp pr) (prop_Block pr) sg))\<rparr> = Inr raw"
  shows "\<exists>q. net_step e A N (N(m \<mapsto> (q, insert (b_MixDigest (prop_Block pr)) D))) \<and> collecting m peers pr sg q \<and>
    f_effects (p_core q) = f_effects (p_core pm) @ sends raw (filter (\<lambda>p. p \<noteq> m) peers)"
proof -
  let ?s = "p_core pm" and ?b = "prop_Block pr"
  let ?d = "b_MixDigest ?b"
  let ?request = "\<lparr>req_Timestamp = prop_Timestamp pr, req_Account = m, req_Payload = ?b\<rparr>"
  obtain t w p' r where run: "receiveRequest e ?request ?s = Inr (?s\<lparr>f_coreTimer := t, f_masterWait := w, f_consensusPlugin := p',
      f_waiters := f_waiters ?s @ [\<lparr>wt_digest = ?d, wt_content = r\<rparr>],
      f_effects := f_effects ?s @ sends raw (filter (\<lambda>p. p \<noteq> m) peers)\<rparr>)"
      "plugin_inv p'" "view p' ?d = Some (proposed_content m sg ?b)"
      "cp_latestBlockHeight p' = cp_latestBlockHeight (f_consensusPlugin ?s)"
      "cp_content p' ?d = Some (length (cp_heap (f_consensusPlugin ?s)))"
      "length (cp_heap p') = Suc (length (cp_heap (f_consensusPlugin ?s)))"
    using receiveRequest_accepts [of ?s "\<lparr>ni_local = m, ni_master = m, ni_peers = peers\<rparr>" m ?request ?b e sg raw] m(3) b sg raw
    by (auto simp: ready_def)
  define q where "q = pm\<lparr>p_isProcessing := 1, p_pending := Some pr, p_shared := cp_content p' ?d,
      p_core := ?s\<lparr>f_coreTimer := t, f_masterWait := w, f_consensusPlugin := p',
        f_waiters := [\<lparr>wt_digest = ?d, wt_content = r\<rparr>],
        f_effects := f_effects ?s @ sends raw (filter (\<lambda>p. p \<noteq> m) peers)\<rparr>\<rparr>"
  have "ToConsensus_begin e pr pm = Inr (None, q)"
    using run m(2,3)
    by (simp add: q_def ToConsensus_begin_def SendEvent_request with_nodes_def idle_master_def ready_def added_content_def)
  then have "local_step e pm (RequestFor ?d) q"
    using m(2) by (intro local_step.begin_round [where t = "time_Now e"]) (simp_all add: idle_master_def)
  from net_alone [where N = N and x = m, OF m(1) this, of A]
  have "net_step e A N (N(m \<mapsto> (q, insert ?d D)))" by simp
  moreover have "collecting m peers pr sg q"
    using m(2,3) run(2-4) by (simp add: q_def collecting_def idle_master_def ready_def)
  ultimately show ?thesis by (intro exI [of _ q] conjI) (simp_all add: q_def)
qed

text \<open>Phase two: the followers answer.\<close>

definition answered :: "Account \<Rightarrow> Account list \<Rightarrow> Block \<Rightarrow> Account \<Rightarrow> 'w fbftCore \<Rightarrow> bool" where
  "answered m peers b x s \<longleftrightarrow>
     f_nodes s = Some \<lparr>ni_local = x, ni_master = m, ni_peers = peers\<rparr> \<and>
     plugin_inv (f_consensusPlugin s) \<and> view (f_consensusPlugin s) (b_MixDigest b) = Some (newContent (b_MixDigest b) b) \<and>
     (f_enableEmptyBlock s \<or> b_Transactions b \<noteq> [])"

lemma follower_answers:
  assumes s: "ready e m peers b x s" and m: "x \<noteq> m"
    and sigs: "SignatureVerify e m sgm (b_MixDigest b)" "SignPayload e x (b_MixDigest b) = Inr sg"
    and proposal: "ReadMessage (json_Unmarshal e) conn = Inr (\<lparr>msg_Type = ProposalMessageType,
      msg_PayLoad = ProposalMessage (Some (proposal_of m ts b sgm))\<rparr>, [])"
    and raw: "encode e \<lparr>msg_Type = ResponseMessageType, msg_PayLoad = ResponseMessage (Some (response_of x ts b sg))\<rparr> = Inr raw"
  shows "\<exists>s'. handleClient e conn s = Some (Inr s') \<and> answered m peers b x s' \<and>
    f_effects s' = f_effects s @ [SendTo (acc_Url m) raw]"
proof -
  let ?ns = "\<lparr>ni_local = x, ni_master = m, ni_peers = peers\<rparr>" and ?d = "b_MixDigest b"
  have ns: "f_nodes s = Some ?ns" using s by (simp add: ready_def)
  have "encode e (response_message ?ns (proposal_of m ts b sgm) sg) = Inr raw"
    using raw by (simp add: response_message_of)
  from receiveProposal_accepts [OF ns _ _ _ _ _ this] obtain t w where
    run: "receiveProposal e (proposal_of m ts b sgm) s = Inr (s\<lparr>f_coreTimer := t, f_masterWait := w,
      f_consensusPlugin := snd (Add ?d b (f_consensusPlugin s)),
      f_effects := f_effects s @ [SendTo (acc_Url m) raw]\<rparr>)"
    using s m sigs by (auto simp: proposal_of_def ready_def)
  obtain r p' where "Add ?d b (f_consensusPlugin s) = (r, p')" "plugin_inv p'" "cp_content p' ?d = Some r"
      "deref p' r = newContent ?d b"
    using view_Add_fresh [of "f_consensusPlugin s" ?d b] s by (auto simp: ready_def)
  then have "answered m peers b x (s\<lparr>f_coreTimer := t, f_masterWait := w,
      f_consensusPlugin := snd (Add ?d b (f_consensusPlugin s)), f_effects := f_effects s @ [SendTo (acc_Url m) raw]\<rparr>)"
    using s by (simp add: answered_def ready_def view_def)
  then show ?thesis
    using handleClient_message [of e conn "ProposalMessage (Some (proposal_of m ts b sgm))" "[]" s ?ns] proposal ns run
    by (simp add: SendEvent_handler)
qed

text \<open>Phase four: the master counts, takes the result and commits.\<close>

lemma master_commits:
  assumes m: "N m = Some (pm, D)" and ns: "f_nodes (p_core pm) = Some \<lparr>ni_local = m, ni_master = m, ni_peers = peers\<rparr>"
    and shared: "pending_block pr pm = b" "p_shared pm = Some r" "r < length (cp_heap (f_consensusPlugin (p_core pm)))"
    and round: "p_pending pm = Some pr" "prop_Block pr = b" "wt \<in> set (f_waiters (p_core pm))" "wt_digest wt = b_MixDigest b"
      "0 < f_signal (p_core pm)" "f_result (p_core pm) = []"
    and count: "maybeCommit (b_MixDigest b) (p_core pm) = Inr (sigs, None)"
    and block: "block = signed_block e b sigs" "f_enableEmptyBlock (p_core pm) \<or> b_Transactions b \<noteq> []"
    and raw: "encode e (commit_message e m block True) = Inr raw"
  shows "\<exists>q. net_steps e A N (N(m \<mapsto> (q, D))) \<and> p_pending q = None \<and> p_isProcessing q = 0 \<and>
    f_effects (p_core q) = f_effects (p_core pm) @ sends raw (filter (\<lambda>p. p \<noteq> m) peers) @ [BlockSwitch block]"
proof -
  let ?s = "p_core pm" and ?res = "\<lparr>cr_Signatures = sigs, cr_Result = None\<rparr>"
  let ?s1 = "reached_consensus wt (?s\<lparr>f_signal := f_signal ?s - 1\<rparr>)"
  let ?s2 = "send_result wt ?res ?s1"
  have s1: "f_nodes ?s1 = f_nodes ?s" "f_effects ?s1 = f_effects ?s" "f_enableEmptyBlock ?s1 = f_enableEmptyBlock ?s"
    by (simp_all add: reached_consensus_def Let_def set_plugin_def)
  have "waitResponse_signal wt ?s = Inr ?s2"
    using count round(4) by (simp add: waitResponse_signal_def)
  then have step1: "local_step e pm Internal (pm\<lparr>p_core := ?s2\<rparr>)"
    using round(3,5) by (intro local_step.responses_signal)
  let ?p1 = "pm\<lparr>p_core := ?s2\<rparr>" and ?s3 = "?s2\<lparr>f_result := []\<rparr>"
  have f1: "f_result ?s2 = [?res]" using round(6) by (simp add: send_result_def)
  have nodes3: "f_nodes ?s3 = Some \<lparr>ni_local = m, ni_master = m, ni_peers = peers\<rparr>" "f_effects ?s3 = f_effects ?s"
      "f_enableEmptyBlock ?s3 = f_enableEmptyBlock ?s"
    using ns s1 by (simp_all add: send_result_def)
  have b1: "pending_block pr ?p1 = b"
    using shared by (cases "r = wt_content wt")
      (simp_all add: pending_block_def GetContentPayload_def send_result_def reached_consensus_def Let_def set_plugin_def
        SetLatestBlockHeight_def store_def frame_simps)
  let ?s4 = "set_pending_block block ?p1 ?s3"
  have "\<exists>s4. tryToCommit e block True ?s4 = Inr s4"
    using nodes3(1) raw by (simp add: tryToCommit_def sendCommit_def with_nodes_def commit_message_def)
  then obtain s4 where s4: "tryToCommit e block True ?s4 = Inr s4" by blast
  let ?q = "?p1\<lparr>p_core := s4, p_isProcessing := 0, p_pending := None, p_shared := None\<rparr>"
  have "ToConsensus_result e pr ?res ?p1 = Inr (None, ?q)"
    using s4 f1 b1 by (simp add: ToConsensus_result_def Let_def block(1) signed_block_def)
  then have step2: "local_step e ?p1 Internal ?q"
    using round(1) f1 by (intro local_step.round_result [where t = "time_Now e" and err = None]) simp_all
  have "net_step e A N (N(m \<mapsto> (?p1, D)))" "net_step e A (N(m \<mapsto> (?p1, D))) (N(m \<mapsto> (?q, D)))"
    using net_alone [where N = N and x = m, OF m step1]
      net_alone [where N = "N(m \<mapsto> (?p1, D))" and x = m, OF _ step2] by simp_all
  then have "net_steps e A N (N(m \<mapsto> (?q, D)))" by (meson r_into_rtranclp rtranclp.rtrancl_into_rtrancl)
  moreover have "f_effects s4 = f_effects ?s @ sends raw (filter (\<lambda>p. p \<noteq> m) peers) @ [BlockSwitch block]"
    using tryToCommit_effects [OF _ s4] raw nodes3 block by (simp add: signed_block_def)
  ultimately show ?thesis by (intro exI [of _ ?q] conjI) simp_all
qed

text \<open>Phase five: the followers commit.\<close>

lemma follower_commits:
  assumes s: "answered m peers b x s" and block: "block = signed_block e b sigs"
    and conn: "ReadMessage (json_Unmarshal e) conn = Inr (commit_message e m block True, [])"
  shows "\<exists>s'. handleClient e conn s = Some (Inr s') \<and> f_effects s' = f_effects s @ [BlockSwitch block]"
proof -
  let ?c = "newContent (b_MixDigest b) b"
  let ?com = "\<lparr>com_Account = m, com_Timestamp = time_Now e, com_BlockHash = b_HeaderHash block,
      com_Digest = b_MixDigest block, com_Signatures = b_SigData block, com_Result = True\<rparr>"
  have b: "b_MixDigest block = b_MixDigest b" "b_SigData block = sigs" "b_Transactions block = b_Transactions b"
    by (simp_all add: block signed_block_def)
  have "\<exists>s'. receiveCommit e ?com s = Inr s' \<and> f_effects s' = f_effects s @ [BlockSwitch block]"
  proof -
    have "view (f_consensusPlugin s) (com_Digest ?com) = Some ?c" "b_MixDigest (c_payload ?c) = com_Digest ?com"
        "block = signed_block e (c_payload ?c) (com_Signatures ?com)" "plugin_inv (f_consensusPlugin s)"
        "f_enableEmptyBlock s \<or> b_Transactions block \<noteq> []"
      using s b by (simp_all add: answered_def newContent_def) (simp add: block)
    from receiveCommit_spec [OF this(4) _ this(1,2,3) refl] this(5) show ?thesis by auto
  qed
  moreover have "ReadMessage (json_Unmarshal e) conn = Inr (\<lparr>msg_Type = type_of (CommitMessage (Some ?com)),
      msg_PayLoad = CommitMessage (Some ?com)\<rparr>, [])"
    using conn by (simp add: commit_message_def)
  ultimately show ?thesis
    using handleClient_message [of e conn "CommitMessage (Some ?com)" "[]" s] s
    by (auto simp: answered_def SendEvent_handler)
qed

section \<open>The whole round\<close>

text \<open>
  The circumstances of a good round: the master and the peers \<open>rs\<close> that answer are enough for the
  threshold, they can sign, and the codec transmits the messages of the round.
\<close>

definition good_round :: "'w env \<Rightarrow> Account list \<Rightarrow> Account \<Rightarrow> Account list \<Rightarrow> Proposal \<Rightarrow> (Account \<Rightarrow> bytes) \<Rightarrow> bool" where
  "good_round e peers m rs pr sg \<longleftrightarrow>
     (let b = prop_Block pr; ts = prop_Timestamp pr; n = length peers
      in set (m # rs) \<subseteq> set peers \<and> distinct (m # rs) \<and> rs \<noteq> [] \<and> (\<forall>x \<in> set rs. acc_Id x \<noteq> acc_Id m) \<and>
         n - (n - 1) div 3 \<le> Suc (length rs) \<and> n \<le> 255 \<and>
         b_SigData b \<noteq> [] \<and> signs_correctly e \<and> (\<forall>x \<in> set (m # rs). SignPayload e x (b_MixDigest b) = Inr (sg x)) \<and>
         transmits e (ProposalMessage (Some (proposal_of m ts b (sg m)))) \<and>
         (\<forall>x \<in> set rs. transmits e (ResponseMessage (Some (response_of x ts b (sg x))))) \<and>
         transmits e (msg_PayLoad (commit_message e m (signed_block e b (map sg (m # rs))) True)))"

definition has_answered :: "'w env \<Rightarrow> Account \<Rightarrow> Account list \<Rightarrow> Proposal \<Rightarrow> (Account \<Rightarrow> bytes) \<Rightarrow> Account \<Rightarrow> 'w network \<Rightarrow> bool" where
  "has_answered e m peers pr sg x N \<longleftrightarrow> (\<exists>q E raw. N x = Some (q, E) \<and> answered m peers (prop_Block pr) x (p_core q) \<and>
     encode e \<lparr>msg_Type = ResponseMessageType,
       msg_PayLoad = ResponseMessage (Some (response_of x (prop_Timestamp pr) (prop_Block pr) (sg x)))\<rparr> = Inr raw \<and>
     SendTo (acc_Url m) raw \<in> set (f_effects (p_core q)))"

lemma admissible_sent:
  assumes "ReadMessage (json_Unmarshal e) conn = Inr (msg, [])" and "claims (msg_PayLoad msg) = {(a, sg0, d)}"
    and "N a = Some (p, D)" and "SendTo url conn \<in> set (f_effects (p_core p))" "encode e msg = Inr conn"
    and "\<forall>r. msg_PayLoad msg = ResponseMessage (Some r) \<longrightarrow> res_Account r \<in> A"
  shows "admissible e A N conn"
proof -
  have "sent_signature e a (p_core p) d"
    unfolding sent_signature_def using assms(2,4,5) by blast
  with assms show ?thesis by (simp add: responses_from_def unforged_def signed_by_def)
qed

lemma round_answered:
  assumes good: "good_round e peers m rs pr sg"
    and proposal: "ReadMessage (json_Unmarshal e) conn = Inr (\<lparr>msg_Type = ProposalMessageType,
      msg_PayLoad = ProposalMessage (Some (proposal_of m (prop_Timestamp pr) (prop_Block pr) (sg m)))\<rparr>, [])"
    and adm: "admissible e A N conn"
    and rs: "\<forall>x \<in> set rs. \<exists>p E. N x = Some (p, E) \<and> ready e m peers (prop_Block pr) x (p_core p)"
  shows "\<exists>N'. net_steps e A N N' \<and> N' m = N m \<and> (\<forall>x \<in> set rs. has_answered e m peers pr sg x N')"
proof -
  let ?b = "prop_Block pr" and ?ts = "prop_Timestamp pr"
  have g: "distinct rs" "m \<notin> set rs" "signs_correctly e" "SignPayload e m (b_MixDigest ?b) = Inr (sg m)"
      "\<forall>x \<in> set rs. SignPayload e x (b_MixDigest ?b) = Inr (sg x)"
      "\<forall>x \<in> set rs. transmits e (ResponseMessage (Some (response_of x ?ts ?b (sg x))))"
    using good by (simp_all add: good_round_def Let_def)
  let ?answer = "\<lambda>x p E c raw. N x = Some (p, E) \<and> handleClient e conn (p_core p) = Some (Inr c) \<and>
      answered m peers ?b x c \<and> f_effects c = f_effects (p_core p) @ [SendTo (acc_Url m) raw] \<and>
      encode e \<lparr>msg_Type = ResponseMessageType, msg_PayLoad = ResponseMessage (Some (response_of x ?ts ?b (sg x)))\<rparr> = Inr raw"
  have "\<exists>p E c raw. ?answer x p E c raw" if x: "x \<in> set rs" for x
  proof -
    obtain p E where p: "N x = Some (p, E)" "ready e m peers ?b x (p_core p)" "x \<noteq> m" using rs g(2) x by blast
    obtain raw where raw: "encode e \<lparr>msg_Type = ResponseMessageType,
        msg_PayLoad = ResponseMessage (Some (response_of x ?ts ?b (sg x)))\<rparr> = Inr raw"
      using transmits_raw g(6) x by fastforce
    have "SignatureVerify e m (sg m) (b_MixDigest ?b)" "SignPayload e x (b_MixDigest ?b) = Inr (sg x)"
      using SignPayload_verifies [OF g(3,4)] g(5) x by auto
    from follower_answers [OF p(2,3) this proposal raw] p(1) raw show ?thesis by blast
  qed
  then obtain p E c raw where f: "\<forall>x \<in> set rs. ?answer x (p x) (E x) (c x) (raw x)" by metis
  define N' where "N' = (\<lambda>y. if y \<in> set rs then Some ((p y)\<lparr>p_core := c y\<rparr>, E y) else N y)"
  have "net_steps e A N N'"
    unfolding N'_def using deliver_all [OF g(1) _ adm] f proposal by (simp add: requested_def)
  moreover have "has_answered e m peers pr sg x N'" if "x \<in> set rs" for x
    using f that by (auto simp: has_answered_def N'_def)
  moreover have "N' m = N m" using g(2) by (simp add: N'_def)
  ultimately show ?thesis by blast
qed

lemma round_proposed:
  assumes good: "good_round e peers m rs pr sg"
    and m: "N m = Some (pm, D)" "idle_master m peers pm" "ready e m peers (prop_Block pr) m (p_core pm)"
    and rs: "\<forall>x \<in> set rs. \<exists>p E. N x = Some (p, E) \<and> ready e m peers (prop_Block pr) x (p_core p)"
  shows "\<exists>N' p' D'. net_steps e (set peers) N N' \<and> N' m = Some (p', D') \<and> collecting m peers pr (sg m) p' \<and>
    (\<forall>x \<in> set rs. has_answered e m peers pr sg x N')"
proof -
  let ?A = "set peers" and ?d = "b_MixDigest (prop_Block pr)"
  let ?pmsg = "\<lparr>msg_Type = ProposalMessageType,
    msg_PayLoad = ProposalMessage (Some (proposal_of m (prop_Timestamp pr) (prop_Block pr) (sg m)))\<rparr>"
  have g: "set rs \<subseteq> set peers" "m \<notin> set rs" "rs \<noteq> []" "b_SigData (prop_Block pr) \<noteq> []" "SignPayload e m ?d = Inr (sg m)"
      "transmits e (ProposalMessage (Some (proposal_of m (prop_Timestamp pr) (prop_Block pr) (sg m))))"
    using good by (simp_all add: good_round_def Let_def)
  obtain raw where raw: "encode e ?pmsg = Inr raw" "ReadMessage (json_Unmarshal e) raw = Inr (?pmsg, [])"
    using transmits_raw [OF g(6)] by auto
  obtain q where step: "net_step e ?A N (N(m \<mapsto> (q, insert ?d D)))" and q: "collecting m peers pr (sg m) q"
      "f_effects (p_core q) = f_effects (p_core pm) @ sends raw (filter (\<lambda>p. p \<noteq> m) peers)"
    using round_begins [where N = N and m = m, OF m g(4,5) raw(1), of ?A] by blast
  define N1 where "N1 = N(m \<mapsto> (q, insert ?d D))"
  obtain x0 where "x0 \<in> set peers" "x0 \<noteq> m" using g(1-3) by (cases rs) auto
  then have "SendTo (acc_Url x0) raw \<in> set (f_effects (p_core q))" by (auto simp: q(2))
  then have "admissible e ?A N1 raw"
    using admissible_sent [OF raw(2), of m "sg m" ?d N1 q "insert ?d D"] raw(1) by (simp add: N1_def proposal_of_def)
  moreover have "\<forall>x \<in> set rs. \<exists>p E. N1 x = Some (p, E) \<and> ready e m peers (prop_Block pr) x (p_core p)"
    using rs g(2) by (auto simp: N1_def)
  ultimately obtain N2 where N2: "net_steps e ?A N1 N2" "N2 m = N1 m" "\<forall>x \<in> set rs. has_answered e m peers pr sg x N2"
    using round_answered [OF good raw(2)] by blast
  have "net_steps e ?A N N2"
    using step N2(1) unfolding N1_def by (rule converse_rtranclp_into_rtranclp)
  with N2(2,3) q(1) show ?thesis by (auto simp: N1_def)
qed

lemma responses_signatures:
  assumes "distinct rs" and "\<forall>x \<in> set rs. c_signMap c x = None"
  shows "c_signatures (fold add_response (map (\<lambda>x. response_of x ts b (sg x)) rs) c) = c_signatures c @ map sg rs"
  using assms
proof (induction rs arbitrary: c)
  case Nil
  then show ?case by simp
next
  case (Cons x rs)
  let ?c = "add_response (response_of x ts b (sg x)) c"
  have "c_signatures ?c = c_signatures c @ [sg x]" "\<forall>y \<in> set rs. c_signMap ?c y = None"
    using Cons.prems by (auto simp: add_response_def response_of_def AddSignature_def)
  with Cons.IH [of ?c] Cons.prems show ?case by simp
qed

lemma responses_payload: "c_payload (fold add_response rs c) = c_payload c"
  by (induction rs arbitrary: c) (simp_all add: add_response_def frame_simps)

lemma quorum_accepts:
  assumes "f_nodes s = Some ns" "ni_peers ns = peers" "f_tolerance s = tolerance_of (length peers)"
    and "view (f_consensusPlugin s) d = Some c" and "length peers - (length peers - 1) div 3 \<le> length (c_signatures c)"
    and "length (c_signatures c) \<le> length peers" "length peers \<le> 255"
  shows "maybeCommit d s = Inr (c_signatures c, None)"
proof -
  have "\<not> (of_nat (length (c_signatures c)) :: u8) < commit_threshold (length peers)"
    using assms(5-7) by (simp add: word_less_nat_alt u8_of_nat_small commit_threshold_exact)
  then show ?thesis
    using assms(1-3) Get_of_view [OF assms(4)]
    by (auto simp: maybeCommit_def with_nodes_def Let_def Signatures_def commit_threshold_def)
qed

lemma responses_admissible:
  assumes "has_answered e m peers pr sg x N" and "x \<in> A"
    and "transmits e (ResponseMessage (Some (response_of x (prop_Timestamp pr) (prop_Block pr) (sg x))))"
  shows "\<exists>raw. admissible e A N raw \<and> ReadMessage (json_Unmarshal e) raw = Inr (\<lparr>msg_Type = ResponseMessageType,
    msg_PayLoad = ResponseMessage (Some (response_of x (prop_Timestamp pr) (prop_Block pr) (sg x)))\<rparr>, [])"
proof -
  let ?r = "response_of x (prop_Timestamp pr) (prop_Block pr) (sg x)"
  obtain q E raw where q: "N x = Some (q, E)" "SendTo (acc_Url m) raw \<in> set (f_effects (p_core q))"
      "encode e \<lparr>msg_Type = ResponseMessageType, msg_PayLoad = ResponseMessage (Some ?r)\<rparr> = Inr raw"
    using assms(1) by (auto simp: has_answered_def)
  moreover have "ReadMessage (json_Unmarshal e) raw = Inr (\<lparr>msg_Type = ResponseMessageType, msg_PayLoad = ResponseMessage (Some ?r)\<rparr>, [])"
    using transmits_raw [OF assms(3)] q(3) by auto
  moreover from this have "admissible e A N raw"
    using admissible_sent [where N = N and a = x, OF _ _ q(1,2)] q(3) assms(2) by simp
  ultimately show ?thesis by blast
qed

lemma round_responses:
  assumes good: "good_round e peers m rs pr sg" and m: "N m = Some (p, D)" "collecting m peers pr (sg m) p"
    and rs: "\<forall>x \<in> set rs. has_answered e m peers pr sg x N"
  shows "\<exists>p' c. net_steps e (set peers) N (N(m \<mapsto> (p\<lparr>p_core := (p_core p)\<lparr>f_consensusPlugin := p',
      f_signal := f_signal (p_core p) + length rs\<rparr>\<rparr>, D))) \<and>
    view p' (b_MixDigest (prop_Block pr)) = Some c \<and> c_signatures c = map sg (m # rs) \<and> c_payload c = prop_Block pr \<and>
    plugin_inv p' \<and> cp_content p' = cp_content (f_consensusPlugin (p_core p))"
proof -
  let ?A = "set peers" and ?b = "prop_Block pr" and ?s = "p_core p"
  let ?d = "b_MixDigest ?b" and ?r = "\<lambda>x. response_of x (prop_Timestamp pr) (prop_Block pr) (sg x)"
  let ?c = "proposed_content m (sg m) ?b"
  have g: "set (m # rs) \<subseteq> set peers" "distinct (m # rs)" "\<forall>x \<in> set rs. acc_Id x \<noteq> acc_Id m" "signs_correctly e"
      "\<forall>x \<in> set rs. SignPayload e x ?d = Inr (sg x)" "\<forall>x \<in> set rs. transmits e (ResponseMessage (Some (?r x)))"
    using good by (simp_all add: good_round_def Let_def)
  have c: "f_nodes ?s = Some \<lparr>ni_local = m, ni_master = m, ni_peers = peers\<rparr>" "plugin_inv (f_consensusPlugin ?s)"
      "view (f_consensusPlugin ?s) ?d = Some ?c" "cp_latestBlockHeight (f_consensusPlugin ?s) < b_Height ?b"
    using m(2) by (simp_all add: collecting_def Let_def)
  obtain conn where conn: "\<forall>x \<in> set rs. admissible e ?A N (conn x) \<and> ReadMessage (json_Unmarshal e) (conn x) =
      Inr (\<lparr>msg_Type = ResponseMessageType, msg_PayLoad = ResponseMessage (Some (?r x))\<rparr>, [])"
    using responses_admissible rs g(1,6) by (metis list.set_intros(2) subsetD)
  have "valid_response e (?r x)" if "x \<in> set rs" for x
    using SignPayload_verifies [OF g(4)] g(5) that by (simp add: valid_response_def)
  then have all: "\<forall>r \<in> set (map ?r rs). res_Digest r = ?d \<and> GetLatestBlockHeight (f_consensusPlugin ?s) < res_BlockHeight r \<and>
      valid_response e r \<and> acc_Id (res_Account r) \<noteq> acc_Id m \<and> admissible e ?A N (conn (res_Account r)) \<and>
      ReadMessage (json_Unmarshal e) (conn (res_Account r)) =
        Inr (\<lparr>msg_Type = ResponseMessageType, msg_PayLoad = ResponseMessage (Some r)\<rparr>, [])"
    using conn c(4) g(3) by (auto simp: GetLatestBlockHeight_def)
  have "c_state ?c \<noteq> ToConsensus" by (simp add: proposed_content_def contentState_defs)
  from deliver_responses [where N = N and m = m, OF m(1) c(1) _ _ c(2,3) this all]
  obtain p' where p': "net_steps e ?A N (N(m \<mapsto> (p\<lparr>p_core := ?s\<lparr>f_consensusPlugin := p',
      f_signal := f_signal ?s + length rs\<rparr>\<rparr>, D)))" "view p' ?d = Some (fold add_response (map ?r rs) ?c)"
      "plugin_inv p'" "cp_content p' = cp_content (f_consensusPlugin ?s)"
    by auto
  have "\<forall>x \<in> set rs. c_signMap ?c x = None" using g(2) by (auto simp: proposed_content_def)
  with responses_signatures [of rs ?c] g(2) have "c_signatures (fold add_response (map ?r rs) ?c) = map sg (m # rs)"
    by simp (simp add: proposed_content_def)
  moreover have "c_payload (fold add_response (map ?r rs) ?c) = ?b"
    by (simp add: responses_payload) (simp add: proposed_content_def)
  ultimately show ?thesis using p' by blast
qed

lemma round_counted:
  assumes good: "good_round e peers m rs pr sg" and m: "N m = Some (p, D)" "collecting m peers pr (sg m) p"
    and rs: "\<forall>x \<in> set rs. has_answered e m peers pr sg x N"
    and block: "block = signed_block e (prop_Block pr) (map sg (m # rs))"
    and raw: "encode e (commit_message e m block True) = Inr raw"
  shows "\<exists>q. net_steps e (set peers) N (N(m \<mapsto> (q, D))) \<and> p_pending q = None \<and> p_isProcessing q = 0 \<and>
    BlockSwitch block \<in> set (f_effects (p_core q))"
proof -
  let ?A = "set peers" and ?b = "prop_Block pr" and ?s = "p_core p"
  let ?d = "b_MixDigest ?b"
  have g: "set (m # rs) \<subseteq> set peers" "distinct (m # rs)" "rs \<noteq> []"
      "length peers - (length peers - 1) div 3 \<le> Suc (length rs)" "length peers \<le> 255"
    using good by (simp_all add: good_round_def Let_def)
  have c: "p_pending p = Some pr" "f_nodes ?s = Some \<lparr>ni_local = m, ni_master = m, ni_peers = peers\<rparr>"
      "wt_digest ` set (f_waiters ?s) = {?d}" "f_result ?s = []" "f_tolerance ?s = tolerance_of (length peers)"
      "f_enableEmptyBlock ?s \<or> b_Transactions ?b \<noteq> []" "p_shared p = cp_content (f_consensusPlugin ?s) ?d"
    using m(2) by (simp_all add: collecting_def Let_def)
  obtain p' cc where p': "net_steps e ?A N (N(m \<mapsto> (p\<lparr>p_core := ?s\<lparr>f_consensusPlugin := p',
      f_signal := f_signal ?s + length rs\<rparr>\<rparr>, D)))" "view p' ?d = Some cc" "c_signatures cc = map sg (m # rs)"
      and cc: "c_payload cc = ?b" "plugin_inv p'" "cp_content p' = cp_content (f_consensusPlugin ?s)"
    using round_responses [where N = N and m = m, OF good m rs] by blast
  define p3 where "p3 = p\<lparr>p_core := ?s\<lparr>f_consensusPlugin := p', f_signal := f_signal ?s + length rs\<rparr>\<rparr>"
  have "card (set (m # rs)) \<le> length peers" using g(1) by (meson card_length card_mono finite_set order_trans)
  then have len: "Suc (length rs) \<le> length peers" using g(2) distinct_card [of "m # rs"] by simp
  have count: "maybeCommit ?d (p_core p3) = Inr (map sg (m # rs), None)"
    using quorum_accepts [of "p_core p3" _ peers ?d cc] c(2,5) p'(2,3) g(4,5) len by (simp add: p3_def)
  obtain wt where wt: "wt \<in> set (f_waiters ?s)" "wt_digest wt = ?d" using c(3) by (metis imageE singletonI)
  obtain r where r: "cp_content p' ?d = Some r" "deref p' r = cc" "r < length (cp_heap p')"
    using p'(2) plugin_inv_ref [OF cc(2)] by (auto simp: view_def)
  have shared: "p_shared p3 = Some r" "pending_block pr p3 = ?b"
    using r c(7) cc by (simp_all add: p3_def pending_block_def GetContentPayload_def)
  define N3 where "N3 = N(m \<mapsto> (p3, D))"
  have "\<exists>q. net_steps e ?A N3 (N3(m \<mapsto> (q, D))) \<and> p_pending q = None \<and> p_isProcessing q = 0 \<and>
      f_effects (p_core q) = f_effects (p_core p3) @ sends raw (filter (\<lambda>p. p \<noteq> m) peers) @ [BlockSwitch block]"
    by (rule master_commits [where N = N3 and m = m and pm = p3, OF _ _ shared(2,1) _ _ refl _ wt(2) _ _ count block _ raw])
      (use c wt g(3) r(3) in \<open>auto simp: p3_def N3_def\<close>)
  then obtain q where q: "net_steps e ?A N3 (N(m \<mapsto> (q, D)))" "p_pending q = None" "p_isProcessing q = 0"
      "BlockSwitch block \<in> set (f_effects (p_core q))" by (auto simp: N3_def)
  have "net_steps e ?A N (N(m \<mapsto> (q, D)))"
    using p'(1) q(1) unfolding N3_def p3_def by (rule rtranclp_trans)
  with q show ?thesis by blast
qed

lemma signatures_certify:
  assumes "set xs \<subseteq> set peers" "distinct xs" "length peers - (length peers - 1) div 3 \<le> length xs" "length peers \<le> 255"
    and "signs_correctly e" "\<forall>x \<in> set xs. SignPayload e x d = Inr (sg x)"
  shows "certificate e (set peers) (length peers) d (map sg xs)"
proof -
  let ?m = "(\<lambda>x. Some (sg x)) |` set xs"
  have "dom ?m = set xs" "ran ?m = sg ` set xs" by (auto simp: ran_def restrict_map_def split: if_splits)
  moreover have "SignatureVerify e a s d" if "?m a = Some s" for a s
    using that assms(6) SignPayload_verifies [OF assms(5)] by (auto simp: restrict_map_def split: if_splits)
  moreover have "card (set xs) = length (map sg xs)" using assms(2) distinct_card by simp
  moreover have "card (set xs) \<le> length peers" using assms(1) by (meson card_length card_mono finite_set order_trans)
  then have "length xs \<le> length peers" using assms(2) by (simp add: distinct_card)
  then have "commit_threshold (length peers) \<le> of_nat (length (map sg xs))"
    using assms(3,4) by (simp add: word_le_nat_alt u8_of_nat_small commit_threshold_exact)
  ultimately show ?thesis using assms(1) unfolding certificate_def by (intro conjI exI [of _ ?m]) auto
qed

lemma good_round_certified:
  "good_round e peers m rs pr sg \<Longrightarrow>
   certificate e (set peers) (length peers) (b_MixDigest (prop_Block pr)) (map sg (m # rs))"
  by (rule signatures_certify) (simp_all add: good_round_def Let_def)

text \<open>
  C4: liveness of a round. Take any network in which an idle master and enough peers for the
  threshold agree on the master and the next block, their signing works and the codec transmits the
  messages of the round. Then there is a run of the network, from \<open>ToConsensus\<close> at the master on,
  with the answers of just these peers, at whose last state \<open>ToConsensus\<close> has returned and the
  master and each of the peers have handed the same block to the block switch, and the block carries
  signatures that certify its digest.
\<close>

theorem fault_free_round:
  assumes good: "good_round e peers m rs pr sg"
    and m: "N m = Some (pm, D)" "idle_master m peers pm" "ready e m peers (prop_Block pr) m (p_core pm)"
    and rs: "\<forall>x \<in> set rs. \<exists>p E. N x = Some (p, E) \<and> ready e m peers (prop_Block pr) x (p_core p)"
    and block: "block = signed_block e (prop_Block pr) (map sg (m # rs))"
  shows "\<exists>N'. net_steps e (set peers) N N' \<and>
    (\<exists>q E. N' m = Some (q, E) \<and> p_pending q = None \<and> p_isProcessing q = 0) \<and>
    (\<forall>x \<in> set (m # rs). \<exists>q E. N' x = Some (q, E) \<and> BlockSwitch block \<in> set (f_effects (p_core q))) \<and>
    certificate e (set peers) (length peers) (b_MixDigest block) (b_SigData block)"
proof -
  let ?A = "set peers" and ?com = "commit_message e m block True"
  have g: "distinct rs" "m \<notin> set rs" "transmits e (msg_PayLoad ?com)" using good block by (simp_all add: good_round_def Let_def)
  obtain raw where raw: "encode e ?com = Inr raw" "ReadMessage (json_Unmarshal e) raw = Inr (?com, [])"
    using transmits_raw [OF g(3)] by (auto simp: commit_message_def)
  obtain N2 p2 D2 where N2: "net_steps e ?A N N2" "N2 m = Some (p2, D2)" "collecting m peers pr (sg m) p2"
      "\<forall>x \<in> set rs. has_answered e m peers pr sg x N2"
    using round_proposed [where N = N and m = m, OF good m rs] by blast
  obtain q where q: "net_steps e ?A N2 (N2(m \<mapsto> (q, D2)))" "p_pending q = None" "p_isProcessing q = 0"
      "BlockSwitch block \<in> set (f_effects (p_core q))"
    using round_counted [where N = N2 and m = m, OF good N2(2-4) block raw(1)] by blast
  define N3 where "N3 = N2(m \<mapsto> (q, D2))"
  have "\<exists>p E c. N3 x = Some (p, E) \<and> handleClient e raw (p_core p) = Some (Inr c) \<and> f_effects c = f_effects (p_core p) @ [BlockSwitch block]"
    if x: "x \<in> set rs" for x
  proof -
    obtain p E where "N2 x = Some (p, E)" "answered m peers (prop_Block pr) x (p_core p)"
      using N2(4) x unfolding has_answered_def by blast
    with follower_commits [OF this(2) block raw(2)] x g(2) show ?thesis by (auto simp: N3_def)
  qed
  then obtain p E c where f: "\<forall>x \<in> set rs. N3 x = Some (p x, E x) \<and> handleClient e raw (p_core (p x)) = Some (Inr (c x)) \<and>
      f_effects (c x) = f_effects (p_core (p x)) @ [BlockSwitch block]"
    by metis
  define N4 where "N4 = (\<lambda>y. if y \<in> set rs then Some ((p y)\<lparr>p_core := c y\<rparr>, E y) else N3 y)"
  have "admissible e ?A N3 raw" "requested e raw = {}"
    using raw(2) by (simp_all add: responses_from_def unforged_def requested_def commit_message_def)
  then have "net_steps e ?A N3 N4"
    unfolding N4_def using f by (intro deliver_all [where conn = raw, OF g(1)]) auto
  with N2(1) q(1) have "net_steps e ?A N N4" unfolding N3_def by (meson rtranclp_trans)
  moreover have "N4 m = Some (q, D2)" using g(2) by (simp add: N4_def N3_def)
  moreover have "\<exists>q E. N4 x = Some (q, E) \<and> BlockSwitch block \<in> set (f_effects (p_core q))" if "x \<in> set rs" for x
    using f that by (simp add: N4_def)
  moreover have "certificate e ?A (length peers) (b_MixDigest block) (b_SigData block)"
    using good_round_certified [OF good] by (simp add: block signed_block_def)
  ultimately show ?thesis using q(2-4) by (intro exI [of _ N4] conjI) auto
qed

text \<open>Two nodes and a codec for the three messages of their round.\<close>

definition round_proposal :: Proposal where
  "round_proposal = \<lparr>prop_Block = sample_block 7 1, prop_Timestamp = 0\<rparr>"

definition round_block :: Block where
  "round_block = signed_block sample_env (sample_block 7 1) [[1, 7], [2, 7]]"

definition round_payloads :: "payload list" where
  "round_payloads =
     [ProposalMessage (Some (proposal_of (sample_node 1) 0 (sample_block 7 1) [1, 7])),
      ResponseMessage (Some (response_of (sample_node 2) 0 (sample_block 7 1) [2, 7])),
      msg_PayLoad (commit_message sample_env (sample_node 1) round_block True)]"

definition round_env :: "u64 env" where
  "round_env = sample_env
     \<lparr>json_Marshal := \<lambda>p. if p = round_payloads ! 0 then Inr [0] else if p = round_payloads ! 1 then Inr [1]
        else if p = round_payloads ! 2 then Inr [2] else Inl (ErrExternal ''unsupported''),
      json_Unmarshal := \<lambda>raw blank. if raw = [0] then Inr (round_payloads ! 0) else if raw = [1] then Inr (round_payloads ! 1)
        else if raw = [2] then Inr (round_payloads ! 2) else Inl (ErrExternal ''unsupported'')\<rparr>"

definition round_net :: "u64 network" where
  "round_net =
     [sample_node 1 \<mapsto> (sample_policy (sample_node 1) (sample_node 1) [sample_node 1, sample_node 2], {}),
      sample_node 2 \<mapsto> (sample_policy (sample_node 2) (sample_node 1) [sample_node 1, sample_node 2], {})]"

lemma round_payloads_transmitted: "i < 3 \<Longrightarrow> transmits round_env (round_payloads ! i)"
proof -
  assume "i < 3"
  then consider "i = 0" | "i = 1" | "i = 2" by linarith
  then show ?thesis
    by cases (simp_all add: transmits_def round_env_def round_payloads_def commit_message_def)
qed

lemma round_env_simps:
  "signed_block round_env = signed_block sample_env" "commit_message round_env = commit_message sample_env"
  "SignPayload round_env = SignPayload sample_env" "signs_correctly round_env"
  "accepts_block round_env b s = accepts_block sample_env b s"
  using sample_signs_correctly
  by (simp_all add: fun_eq_iff round_env_def signed_block_def commit_message_def HeaderHash_def SignPayload_def
      signs_correctly_def accepts_block_def VerifyPayload_def VerifyPayloadUseExistedRepository_def sample_env_def)

lemma round_good:
  "good_round round_env [sample_node 1, sample_node 2] (sample_node 1) [sample_node 2] round_proposal
     (\<lambda>a. [ucast (acc_Address a), 7])"
  using round_payloads_transmitted [of 0] round_payloads_transmitted [of 1] round_payloads_transmitted [of 2]
  by (simp add: good_round_def round_proposal_def round_env_simps round_payloads_def round_block_def)
    (simp add: sample_node_def sample_block_def SignPayload_def sample_sign_def)

lemma round_ready:
  "ready round_env (sample_node 1) [sample_node 1, sample_node 2] (sample_block 7 1) x
     (p_core (sample_policy x (sample_node 1) [sample_node 1, sample_node 2]))"
  by (simp add: ready_def round_env_simps)
    (simp add: sample_policy_def NewFBFTPolicy_def NewFBFTCore_def NewConsensusPlugin_def accepts_block_def sample_block_def
      plugin_inv_def view_def VerifyPayload_def VerifyPayloadUseExistedRepository_def)

theorem fault_free_round_witness:
  "\<exists>N' q E. net_steps round_env {sample_node 1, sample_node 2} round_net N' \<and> N' (sample_node 2) = Some (q, E) \<and>
     BlockSwitch round_block \<in> set (f_effects (p_core q))"
proof -
  let ?sg = "\<lambda>a. [ucast (acc_Address a), 7]" and ?n1 = "sample_node 1" and ?n2 = "sample_node 2"
  have "round_net ?n1 = Some (sample_policy ?n1 ?n1 [?n1, ?n2], {})" "round_net ?n2 = Some (sample_policy ?n2 ?n1 [?n1, ?n2], {})"
    by (simp_all add: round_net_def sample_node_def)
  moreover have "idle_master ?n1 [?n1, ?n2] (sample_policy ?n1 ?n1 [?n1, ?n2])"
    by (simp add: idle_master_def sample_policy_def NewFBFTPolicy_def NewFBFTCore_def)
  moreover have "round_block = signed_block round_env (prop_Block round_proposal) (map ?sg [?n1, ?n2])"
    by (simp add: round_env_simps round_block_def round_proposal_def) (simp add: sample_node_def)
  ultimately show ?thesis
    using fault_free_round [OF round_good, of round_net "sample_policy ?n1 ?n1 [?n1, ?n2]" "{}" round_block] round_ready
    by (auto simp: round_proposal_def)
qed

section \<open>Correct followers of a correct master\<close>

text \<open>
  C9: a correct follower signs only what its master signed. When a delivery of a proposal makes a
  correct node send something while its master is a correct node, the master has sent its own
  signature of the same digest before.
\<close>

theorem follower_signs_masters_block:
  assumes node: "N x = Some (p, D)" "f_nodes (p_core p) = Some ns" and master: "N (ni_master ns) = Some (q, E)"
    and conn: "unforged e N conn" "ReadMessage (json_Unmarshal e) conn = Inr (msg, rest)"
      "msg_Type msg = ProposalMessageType" "msg_PayLoad msg = ProposalMessage (Some proposal)"
    and run: "handleClient e conn (p_core p) = Some (Inr c)" and sent: "f_effects c \<noteq> f_effects (p_core p)"
  shows "sent_signature e (ni_master ns) (p_core q) (b_MixDigest (pro_Payload proposal))"
proof -
  have "receiveProposal e proposal (p_core p) = Inr c"
    using run node(2) conn(2-4)
    by (auto simp: handleClient_def Let_def message_type_defs fbft_receiver.SendEvent_known ProcessEvent_def with_nodes_def
        handle_def bindP_Inr_iff split: sum.splits prod.splits)
  from receiveProposal_sends [OF this sent] node(2)
  have "pro_Account proposal = ni_master ns"
      "SignatureVerify e (ni_master ns) (pro_Signature proposal) (b_MixDigest (pro_Payload proposal))" by auto
  with conn(1,2,4) master show ?thesis by (fastforce simp: unforged_def signed_by_def)
qed

theorem follower_signs_masters_block_witness:
  "\<exists>q :: u64 FBFTPolicy. sent_signature round_env (sample_node 1) (p_core q) 7 \<and> map_option ni_local (f_nodes (p_core q)) = Some (sample_node 1)"
proof -
  let ?n1 = "sample_node 1" and ?n2 = "sample_node 2"
  let ?p = "sample_policy ?n2 ?n1 [?n1, ?n2]" and ?q = "sample_policy ?n1 ?n1 [?n1, ?n2]"
  let ?msg = "\<lparr>msg_Type = ProposalMessageType, msg_PayLoad = ProposalMessage (Some (proposal_of ?n1 0 (sample_block 7 1) [1, 7]))\<rparr>"
  let ?resp = "\<lparr>msg_Type = ResponseMessageType, msg_PayLoad = ResponseMessage (Some (response_of ?n2 0 (sample_block 7 1) [2, 7]))\<rparr>"
  obtain raw where raw: "encode round_env ?msg = Inr raw" "ReadMessage (json_Unmarshal round_env) raw = Inr (?msg, [])"
    using transmits_raw [OF round_payloads_transmitted [of 0]] by (auto simp: round_payloads_def)
  obtain raw' where raw': "encode round_env ?resp = Inr raw'"
    using transmits_raw [OF round_payloads_transmitted [of 1]] by (auto simp: round_payloads_def)
  let ?q1 = "?q\<lparr>p_core := (p_core ?q)\<lparr>f_effects := [SendTo ''node'' raw]\<rparr>\<rparr>"
  define N :: "u64 network" where "N = [?n1 \<mapsto> (?q1, {}), ?n2 \<mapsto> (?p, {})]"
  have "SignatureVerify round_env ?n1 [1, 7] (b_MixDigest (sample_block 7 1))"
      "SignPayload round_env ?n2 (b_MixDigest (sample_block 7 1)) = Inr [2, 7]" "?n2 \<noteq> ?n1"
    by (simp_all add: SignatureVerify_def SignPayload_def round_env_def sample_sign_def block_digest) (simp_all add: sample_node_def)
  from follower_answers [OF round_ready this(3,1,2) raw(2) raw'] obtain c where
    c: "handleClient round_env raw (p_core ?p) = Some (Inr c)" "f_effects c \<noteq> f_effects (p_core ?p)" by auto
  have N: "N ?n2 = Some (?p, {})" "N ?n1 = Some (?q1, {})" using \<open>?n2 \<noteq> ?n1\<close> by (simp_all add: N_def)
  have adm: "unforged round_env N raw"
    using admissible_sent [where N = N and a = ?n1, OF raw(2) _ N(2), of "[1, 7]" 7 "''node''" UNIV] raw(1)
    by (simp add: proposal_of_def block_digest)
  let ?ns = "\<lparr>ni_local = ?n2, ni_master = ?n1, ni_peers = [?n1, ?n2]\<rparr>"
  have ns: "f_nodes (p_core ?p) = Some ?ns" by (simp add: sample_policy_def Let_def)
  have master: "N (ni_master ?ns) = Some (?q1, {})" using N(2) by simp
  have "sent_signature round_env ?n1 (p_core ?q1) 7"
    using follower_signs_masters_block [where N = N and x = ?n2 and proposal = "proposal_of ?n1 0 (sample_block 7 1) [1, 7]",
        OF N(1) ns master adm raw(2) _ _ c]
    by (simp add: proposal_of_def block_digest)
  then show ?thesis by (intro exI [of _ ?q1]) (simp add: sample_policy_def Let_def)
qed

section \<open>A faulty master\<close>

text \<open>
  A follower keeps no record of what it signed at a height: it answers a second proposal for the
  same height as it answered the first.
\<close>

lemma follower_answers_twice:
  assumes ns: "f_nodes s = Some ns" "ni_local ns \<noteq> ni_master ns" "pro_Account p1 = ni_master ns" "pro_Account p2 = ni_master ns"
    and blocks: "accepts_block e (pro_Payload p1) s" "accepts_block e (pro_Payload p2) s"
    and sigs: "SignatureVerify e (ni_master ns) (pro_Signature p1) (b_MixDigest (pro_Payload p1))"
      "SignatureVerify e (ni_master ns) (pro_Signature p2) (b_MixDigest (pro_Payload p2))"
      "SignPayload e (ni_local ns) (b_MixDigest (pro_Payload p1)) = Inr sg1"
      "SignPayload e (ni_local ns) (b_MixDigest (pro_Payload p2)) = Inr sg2"
    and raw: "encode e (response_message ns p1 sg1) = Inr raw1" "encode e (response_message ns p2 sg2) = Inr raw2"
  shows "\<exists>s1 s2. receiveProposal e p1 s = Inr s1 \<and> receiveProposal e p2 s1 = Inr s2 \<and>
    f_effects s2 = f_effects s @ [SendTo (acc_Url (ni_master ns)) raw1, SendTo (acc_Url (ni_master ns)) raw2]"
proof -
  obtain t w where s1: "receiveProposal e p1 s = Inr (s\<lparr>f_coreTimer := t, f_masterWait := w,
      f_consensusPlugin := snd (Add (b_MixDigest (pro_Payload p1)) (pro_Payload p1) (f_consensusPlugin s)),
      f_effects := f_effects s @ [SendTo (acc_Url (ni_master ns)) raw1]\<rparr>)" (is "_ = Inr ?s1")
    using receiveProposal_accepts [OF ns(1-3) blocks(1) sigs(1,3) raw(1)] by blast
  have "f_nodes ?s1 = Some ns" "accepts_block e (pro_Payload p2) ?s1"
    using ns(1) blocks(2) by (simp_all add: accepts_block_def)
  from receiveProposal_accepts [OF this(1) ns(2,4) this(2) sigs(2,4) raw(2)] s1 show ?thesis by fastforce
qed

text \<open>
  C10: a faulty master alone gets two blocks of one height certified. It signs two blocks with
  different digests and proposes both to the correct followers; each follower that accepts the
  blocks sends its signature of both, and as soon as the followers are as many as the threshold
  (which they are without the master for four peers and more) their signatures certify both digests.
\<close>

theorem equivocation_certified:
  assumes rs: "distinct rs" "set rs \<subseteq> set peers" "m \<notin> set rs"
    and quorum: "length peers - (length peers - 1) div 3 \<le> length rs" "length peers \<le> 255"
    and followers: "\<forall>x \<in> set rs. f_nodes (s x) = Some \<lparr>ni_local = x, ni_master = m, ni_peers = peers\<rparr> \<and>
      accepts_block e b1 (s x) \<and> accepts_block e b2 (s x)"
    and sigs: "signs_correctly e" "\<forall>x \<in> set rs. SignPayload e x (b_MixDigest b1) = Inr (sg1 x) \<and> SignPayload e x (b_MixDigest b2) = Inr (sg2 x)"
    and proposals: "p1 = proposal_of m ts b1 sgm1" "p2 = proposal_of m ts b2 sgm2"
      "SignatureVerify e m sgm1 (b_MixDigest b1)" "SignatureVerify e m sgm2 (b_MixDigest b2)"
    and raw: "\<forall>x \<in> set rs. encode e \<lparr>msg_Type = ResponseMessageType, msg_PayLoad = ResponseMessage (Some (response_of x ts b1 (sg1 x)))\<rparr> = Inr (raw1 x) \<and>
      encode e \<lparr>msg_Type = ResponseMessageType, msg_PayLoad = ResponseMessage (Some (response_of x ts b2 (sg2 x)))\<rparr> = Inr (raw2 x)"
  shows "(\<forall>x \<in> set rs. \<exists>s1 s2. receiveProposal e p1 (s x) = Inr s1 \<and> receiveProposal e p2 s1 = Inr s2 \<and>
      f_effects s2 = f_effects (s x) @ [SendTo (acc_Url m) (raw1 x), SendTo (acc_Url m) (raw2 x)]) \<and>
    certificate e (set peers) (length peers) (b_MixDigest b1) (map sg1 rs) \<and>
    certificate e (set peers) (length peers) (b_MixDigest b2) (map sg2 rs)"
proof (intro conjI ballI)
  fix x
  assume x: "x \<in> set rs"
  let ?ns = "\<lparr>ni_local = x, ni_master = m, ni_peers = peers\<rparr>"
  have "f_nodes (s x) = Some ?ns" "x \<noteq> m" using followers rs(3) x by auto
  then show "\<exists>s1 s2. receiveProposal e p1 (s x) = Inr s1 \<and> receiveProposal e p2 s1 = Inr s2 \<and>
      f_effects s2 = f_effects (s x) @ [SendTo (acc_Url m) (raw1 x), SendTo (acc_Url m) (raw2 x)]"
    using follower_answers_twice [of "s x" ?ns p1 p2 e "sg1 x" "sg2 x" "raw1 x" "raw2 x"] x followers sigs(2) proposals raw
    by (simp add: response_message_of) (simp add: proposal_of_def)
qed (use signatures_certify [OF rs(2,1) quorum sigs(1)] sigs(2) in auto)

theorem equivocation_certified_witness:
  "certificate sample_env (set (map sample_node [1, 2, 3, 4])) 4 7 [[2, 7], [3, 7], [4, 7]] \<and>
   certificate sample_env (set (map sample_node [1, 2, 3, 4])) 4 8 [[2, 8], [3, 8], [4, 8]]"
proof -
  let ?peers = "map sample_node [1, 2, 3, 4]" and ?rs = "map sample_node [2, 3, 4]"
  let ?s = "\<lambda>x. p_core (sample_policy x (sample_node 1) ?peers)" and ?sg = "\<lambda>k x. [ucast (acc_Address x), k]"
  let ?raw = "\<lambda>k x. encodeMessageHeader (buildMessageHeader \<lparr>msg_Type = ResponseMessageType,
      msg_PayLoad = ResponseMessage (Some (response_of x 0 (sample_block k 1) (?sg k x)))\<rparr> 1) @ [0]"
  have address: "acc_Address (sample_node k) = ucast k" for k by (simp add: sample_node_def)
  have four: "Suc (Suc (Suc (Suc 0))) = 4" by simp
  have "accepts_block sample_env (sample_block k 1) (?s x)" "f_nodes (?s x) = Some \<lparr>ni_local = x, ni_master = sample_node 1, ni_peers = ?peers\<rparr>" for k x
    by (simp_all add: accepts_block_def sample_policy_def NewFBFTPolicy_def NewFBFTCore_def sample_block_def
        VerifyPayload_def VerifyPayloadUseExistedRepository_def)
  moreover have "distinct ?rs" "sample_node 1 \<notin> set ?rs" by (simp_all add: sample_node_def)
  moreover have "SignPayload sample_env x 7 = Inr (?sg 7 x)" "SignPayload sample_env x 8 = Inr (?sg 8 x)" if "x \<in> set ?rs" for x
    using that by (auto simp: SignPayload_def sample_sign_def sample_node_def)
  moreover have "SignatureVerify sample_env (sample_node 1) [1, 7] 7" "SignatureVerify sample_env (sample_node 1) [1, 8] 8"
    by (simp_all add: SignatureVerify_def sample_node_def)
  ultimately show ?thesis
    using equivocation_certified [of ?rs ?peers "sample_node 1" ?s sample_env "sample_block 7 1" "sample_block 8 1" "?sg 7" "?sg 8"
        "proposal_of (sample_node 1) 0 (sample_block 7 1) [1, 7]" 0 "[1, 7]"
        "proposal_of (sample_node 1) 0 (sample_block 8 1) [1, 8]" "[1, 8]" "?raw 7" "?raw 8"]
    by (simp add: block_digest sample_encode) (simp add: address four)
qed

end
