(* ===== verification/Sample_Duo.thy ===== *)
theory Sample_Duo
  imports Fbft_Round
begin

text \<open>
  A run of a network of two FBFT nodes over two rounds under different masters, step by step. The
  first node proposes the block with digest 7 and collects both signatures; then both nodes are
  initialised with the second node as master and the chain has moved on, and the second node
  proposes the block with digest 8 of the next height and collects both signatures. At the end a
  result waits at either node.
\<close>

section \<open>The messages\<close>

abbreviation duo_one :: Account where "duo_one \<equiv> sample_node 1"
abbreviation duo_two :: Account where "duo_two \<equiv> sample_node 2"
abbreviation duo_peers :: "Account list" where "duo_peers \<equiv> [sample_node 1, sample_node 2]"

definition duo_payload :: "nat \<Rightarrow> payload" where
  "duo_payload i =
     (if i = 0 then ProposalMessage (Some (proposal_of duo_one 0 (sample_block 7 1) [1, 7]))
      else if i = 1 then ResponseMessage (Some (response_of duo_two 0 (sample_block 7 1) [2, 7]))
      else if i = 2 then ProposalMessage (Some (proposal_of duo_two 0 (sample_block 8 2) [2, 8]))
      else ResponseMessage (Some (response_of duo_one 0 (sample_block 8 2) [1, 8])))"

definition duo_env :: "u64 env" where
  "duo_env = sample_env
     \<lparr>json_Marshal := \<lambda>p. if p = duo_payload 0 then Inr [0] else if p = duo_payload 1 then Inr [1]
        else if p = duo_payload 2 then Inr [2] else if p = duo_payload 3 then Inr [3] else Inl (ErrExternal ''unsupported''),
      json_Unmarshal := \<lambda>raw blank. if raw = [0] then Inr (duo_payload 0) else if raw = [1] then Inr (duo_payload 1)
        else if raw = [2] then Inr (duo_payload 2) else if raw = [3] then Inr (duo_payload 3)
        else Inl (ErrExternal ''unsupported'')\<rparr>"

definition duo_message :: "nat \<Rightarrow> Message" where
  "duo_message i = \<lparr>msg_Type = type_of (duo_payload i), msg_PayLoad = duo_payload i\<rparr>"

definition duo_raw :: "nat \<Rightarrow> bytes" where
  "duo_raw i = (case encode duo_env (duo_message i) of Inl err \<Rightarrow> [] | Inr raw \<Rightarrow> raw)"

lemma nodes_differ [simp]: "sample_node 1 \<noteq> sample_node 2" "sample_node 2 \<noteq> sample_node 1"
  by (simp_all add: sample_node_def)

lemma duo_payloads_differ [simp]:
  "duo_payload (Suc 0) \<noteq> duo_payload 0" "duo_payload 2 \<noteq> duo_payload 0" "duo_payload 3 \<noteq> duo_payload 0"
  "duo_payload 2 \<noteq> duo_payload (Suc 0)" "duo_payload 3 \<noteq> duo_payload (Suc 0)" "duo_payload 3 \<noteq> duo_payload 2"
  by (simp_all add: duo_payload_def proposal_of_def response_of_def)

lemma duo_transmitted: "i < 4 \<Longrightarrow> transmits duo_env (duo_payload i)"
proof -
  assume "i < 4"
  then consider "i = 0" | "i = Suc 0" | "i = 2" | "i = 3" by linarith
  then show ?thesis
    by cases (simp_all add: transmits_def duo_env_def)
qed

lemma duo_codec:
  assumes "i < 4"
  shows "encode duo_env (duo_message i) = Inr (duo_raw i)"
    and "ReadMessage (json_Unmarshal duo_env) (duo_raw i) = Inr (duo_message i, [])"
  using transmits_raw [OF duo_transmitted [OF assms]] by (auto simp: duo_raw_def duo_message_def)

lemma duo_env_sel [simp]:
  "signature_Sign duo_env = sample_sign" "signature_Verify duo_env = sample_verify"
  "NewLatestStateRepository duo_env w = None" "GetCurrentBlockHeight duo_env w = w" "time_Now duo_env = 0"
  "NewRepositoryByBlockHash duo_env w hh = None" "worker_VerifyBlock duo_env w r b v = Inr []"
  "duo_env\<lparr>time_Now := 0\<rparr> = duo_env"
  by (simp_all add: duo_env_def sample_env_def)

lemma duo_signs [simp]: "signs_correctly duo_env"
  using sample_signs_correctly by (simp add: signs_correctly_def)

section \<open>The states\<close>

definition duo_content :: "u8 \<Rightarrow> u64 \<Rightarrow> contentState \<Rightarrow> u8 list \<Rightarrow> Content" where
  "duo_content d h st signers =
     \<lparr>c_digest = ucast d, c_state = st, c_signMap = map_of (map (\<lambda>k. (sample_node k, [k, d])) (rev signers)),
      c_signatures = map (\<lambda>k. [k, d]) signers, c_payload = sample_block d h\<rparr>"

definition duo_proposal :: "u8 \<Rightarrow> u64 \<Rightarrow> Proposal" where
  "duo_proposal d h = \<lparr>prop_Block = sample_block d h, prop_Timestamp = 0\<rparr>"

definition duo_result :: "u8 \<Rightarrow> u8 list \<Rightarrow> ConsensusResult" where
  "duo_result d signers = \<lparr>cr_Signatures = map (\<lambda>k. [k, d]) signers, cr_Result = None\<rparr>"

definition duo_plugin :: "u64 \<Rightarrow> (hash \<rightharpoonup> content_ref) \<Rightarrow> Content list \<Rightarrow> ConsensusPlugin" where
  "duo_plugin h m heap = \<lparr>cp_latestBlockHeight = h, cp_content = m, cp_heap = heap\<rparr>"

definition one0 :: "u64 FBFTPolicy" where
  "one0 = sample_policy duo_one duo_one duo_peers"

definition one1 :: "u64 FBFTPolicy" where
  "one1 = one0\<lparr>p_isProcessing := 1, p_pending := Some (duo_proposal 7 1), p_shared := Some 0,
     p_core := (p_core one0)\<lparr>f_consensusPlugin := duo_plugin 0 [7 \<mapsto> 0] [duo_content 7 1 InConsensus [1]],
       f_waiters := [\<lparr>wt_digest = 7, wt_content = 0\<rparr>], f_effects := [SendTo ''node'' (duo_raw 0)]\<rparr>\<rparr>"

definition one2 :: "u64 FBFTPolicy" where
  "one2 = one1\<lparr>p_core := (p_core one1)\<lparr>f_consensusPlugin := duo_plugin 0 [7 \<mapsto> 0] [duo_content 7 1 InConsensus [1, 2]],
     f_signal := 1\<rparr>\<rparr>"

definition one3 :: "u64 FBFTPolicy" where
  "one3 = one2\<lparr>p_core := (p_core one2)\<lparr>f_consensusPlugin := duo_plugin 1 [7 \<mapsto> 0] [duo_content 7 1 ToConsensus [1, 2]],
     f_signal := 0, f_waiters := [], f_result := [duo_result 7 [1, 2]]\<rparr>\<rparr>"

definition one4 :: "u64 FBFTPolicy" where
  "one4 = one3\<lparr>p_core := (p_core one3)
     \<lparr>f_nodes := Some \<lparr>ni_local = duo_one, ni_master = duo_two, ni_peers = duo_peers\<rparr>\<rparr>\<rparr>"

definition one5 :: "u64 FBFTPolicy" where
  "one5 = one4\<lparr>p_core := (p_core one4)\<lparr>f_chain := 1\<rparr>\<rparr>"

definition one6 :: "u64 FBFTPolicy" where
  "one6 = one5\<lparr>p_core := (p_core one5)
     \<lparr>f_consensusPlugin := duo_plugin 1 [8 \<mapsto> 1] [duo_content 7 1 ToConsensus [1, 2], duo_content 8 2 Initial []],
      f_coreTimer := (f_coreTimer (p_core one5))\<lparr>ct_isRunning := 1\<rparr>, f_masterWait := f_nodes (p_core one5),
      f_effects := [SendTo ''node'' (duo_raw 0), SendTo ''node'' (duo_raw 3)]\<rparr>\<rparr>"

definition two0 :: "u64 FBFTPolicy" where
  "two0 = sample_policy duo_two duo_one duo_peers"

definition two1 :: "u64 FBFTPolicy" where
  "two1 = two0\<lparr>p_core := (p_core two0)
     \<lparr>f_consensusPlugin := duo_plugin 0 [7 \<mapsto> 0] [duo_content 7 1 Initial []],
      f_coreTimer := (f_coreTimer (p_core two0))\<lparr>ct_isRunning := 1\<rparr>, f_masterWait := f_nodes (p_core two0),
      f_effects := [SendTo ''node'' (duo_raw 1)]\<rparr>\<rparr>"

definition two2 :: "u64 FBFTPolicy" where
  "two2 = two1\<lparr>p_core := (p_core two1)
     \<lparr>f_nodes := Some \<lparr>ni_local = duo_two, ni_master = duo_two, ni_peers = duo_peers\<rparr>\<rparr>\<rparr>"

definition two3 :: "u64 FBFTPolicy" where
  "two3 = two2\<lparr>p_isProcessing := 1, p_pending := Some (duo_proposal 8 2), p_shared := Some 1,
     p_core := (p_core two2)
       \<lparr>f_consensusPlugin := duo_plugin 0 [8 \<mapsto> 1] [duo_content 7 1 Initial [], duo_content 8 2 InConsensus [2]],
        f_coreTimer := (f_coreTimer (p_core two2))\<lparr>ct_isRunning := 0\<rparr>, f_masterWait := None,
        f_waiters := [\<lparr>wt_digest = 8, wt_content = 1\<rparr>],
        f_effects := [SendTo ''node'' (duo_raw 1), SendTo ''node'' (duo_raw 2)]\<rparr>\<rparr>"

definition two4 :: "u64 FBFTPolicy" where
  "two4 = two3\<lparr>p_core := (p_core two3)
     \<lparr>f_consensusPlugin := duo_plugin 0 [8 \<mapsto> 1] [duo_content 7 1 Initial [], duo_content 8 2 InConsensus [2, 1]],
      f_signal := 1\<rparr>\<rparr>"

definition two5 :: "u64 FBFTPolicy" where
  "two5 = two4\<lparr>p_core := (p_core two4)
     \<lparr>f_consensusPlugin := duo_plugin 2 [8 \<mapsto> 1] [duo_content 7 1 Initial [], duo_content 8 2 ToConsensus [2, 1]],
      f_signal := 0, f_waiters := [], f_result := [duo_result 8 [2, 1]]\<rparr>\<rparr>"

section \<open>The steps\<close>

lemmas duo_states =
  one0_def one1_def one2_def one3_def one4_def one5_def one6_def two0_def two1_def two2_def two3_def two4_def two5_def
  sample_policy_def NewFBFTPolicy_def NewFBFTCore_def NewConsensusPlugin_def duo_plugin_def duo_content_def duo_result_def
  duo_proposal_def contentState_defs

lemma duo_block [simp]:
  "b_MixDigest (sample_block d h) = ucast d" "b_Height (sample_block d h) = h" "b_SigData (sample_block d h) = [[0]]"
  "b_Transactions (sample_block d h) = [[1]]"
  by (simp_all add: sample_block_def)

lemma duo_sign [simp]:
  "SignPayload duo_env duo_one d = Inr [1, ucast d]" "SignPayload duo_env duo_two d = Inr [2, ucast d]"
  "SignatureVerify duo_env duo_one [1, k] d = (k = ucast d)" "SignatureVerify duo_env duo_two [2, k] d = (k = ucast d)"
  by (simp_all add: SignPayload_def SignatureVerify_def sample_sign_def sample_node_def)

lemma duo_verified [simp]: "VerifyPayload duo_env w b v = Inr []"
  by (simp add: VerifyPayload_def VerifyPayloadUseExistedRepository_def)

lemma duo_encoded [simp]:
  "encode duo_env \<lparr>msg_Type = ProposalMessageType, msg_PayLoad = ProposalMessage (Some
     \<lparr>pro_Account = duo_one, pro_Timestamp = 0, pro_Payload = sample_block 7 1, pro_Signature = [1, 7]\<rparr>)\<rparr> = Inr (duo_raw 0)"
  "encode duo_env \<lparr>msg_Type = ResponseMessageType, msg_PayLoad = ResponseMessage (Some
     \<lparr>res_Account = duo_two, res_Timestamp = 0, res_Digest = 7, res_Signature = [2, 7], res_BlockHeight = 1\<rparr>)\<rparr> = Inr (duo_raw 1)"
  "encode duo_env \<lparr>msg_Type = ProposalMessageType, msg_PayLoad = ProposalMessage (Some
     \<lparr>pro_Account = duo_two, pro_Timestamp = 0, pro_Payload = sample_block 8 2, pro_Signature = [2, 8]\<rparr>)\<rparr> = Inr (duo_raw 2)"
  "encode duo_env \<lparr>msg_Type = ResponseMessageType, msg_PayLoad = ResponseMessage (Some
     \<lparr>res_Account = duo_one, res_Timestamp = 0, res_Digest = 8, res_Signature = [1, 8], res_BlockHeight = 2\<rparr>)\<rparr> = Inr (duo_raw 3)"
  using duo_codec(1) [of 0] duo_codec(1) [of 1] duo_codec(1) [of 2] duo_codec(1) [of 3]
  by (simp_all add: duo_message_def) (simp_all add: duo_payload_def proposal_of_def response_of_def)

text \<open>\<open>Add\<close> computes the lowest height it keeps as 2 - 10 in 64 bits, and so drops the first block.\<close>

lemma duo_heights [simp]: "(1 :: u64) < - 8" "\<not> (2 :: u64) \<le> 1"
  by (simp_all add: word_less_nat_alt word_le_nat_alt)

lemma duo_url [simp]: "acc_Url (sample_node k) = ''node''"
  by (simp add: sample_node_def)

lemmas duo_ops =
  with_nodes_def receiveRequest_def receiveProposal_def receiveResponse_def stopChangeViewTimer_def waitMasterTimeout_def
  Add_def newContent_def AddSignature_def set_plugin_def store_def SetState_def State_def emit_def sending
  waitResponse_def GetContentByHash_def maybeCommit_def Signatures_def tolerance_of_def DefaultBlockHeight_def
  send_result_def reached_consensus_def GetContentPayload_def SetLatestBlockHeight_def GetLatestBlockHeight_def
  maxPayloadCacheNum_def delete_if_def added_content_def proposal_of_def response_of_def

lemma duo_step1: "ToConsensus_begin duo_env (duo_proposal 7 1) one0 = Inr (None, one1)"
  by (simp add: ToConsensus_begin_def SendEvent_request duo_states duo_ops)

lemma duo_step2: "receiveProposal duo_env (proposal_of duo_one 0 (sample_block 7 1) [1, 7]) (p_core two0) = Inr (p_core two1)"
  by (simp add: duo_states duo_ops)

lemma duo_step3: "receiveResponse duo_env (response_of duo_two 0 (sample_block 7 1) [2, 7]) (p_core one1) = Inr (p_core one2)"
  by (simp add: duo_states duo_ops)

lemma duo_step4: "waitResponse_signal \<lparr>wt_digest = 7, wt_content = 0\<rparr> (p_core one2) = Inr (p_core one3)"
  by (simp add: waitResponse_signal_def duo_states duo_ops)

lemma duo_step5: "Initialization duo_one duo_two duo_peers True one3 = Inr one4"
  by (simp add: Initialization_def duo_states tolerance_of_def)

lemma duo_step6: "Initialization duo_two duo_two duo_peers True two1 = Inr two2"
  by (simp add: Initialization_def duo_states tolerance_of_def)

lemma duo_step7: "ToConsensus_begin duo_env (duo_proposal 8 2) two2 = Inr (None, two3)"
  by (simp add: ToConsensus_begin_def SendEvent_request duo_states duo_ops fun_eq_iff Let_def)

lemma duo_step8: "receiveProposal duo_env (proposal_of duo_two 0 (sample_block 8 2) [2, 8]) (p_core one5) = Inr (p_core one6)"
  by (simp add: duo_states duo_ops fun_eq_iff Let_def)

lemma duo_step9: "receiveResponse duo_env (response_of duo_one 0 (sample_block 8 2) [1, 8]) (p_core two3) = Inr (p_core two4)"
  by (simp add: duo_states duo_ops fun_eq_iff Let_def)

lemma duo_step10: "waitResponse_signal \<lparr>wt_digest = 8, wt_content = 1\<rparr> (p_core two4) = Inr (p_core two5)"
  by (simp add: waitResponse_signal_def duo_states duo_ops fun_eq_iff Let_def)

section \<open>The run\<close>

definition duo_net :: "u64 FBFTPolicy \<Rightarrow> hash set \<Rightarrow> u64 FBFTPolicy \<Rightarrow> hash set \<Rightarrow> u64 network" where
  "duo_net p D q E = [duo_one \<mapsto> (p, D), duo_two \<mapsto> (q, E)]"

lemma duo_net_sel [simp]:
  "duo_net p D q E duo_one = Some (p, D)" "duo_net p D q E duo_two = Some (q, E)" "dom (duo_net p D q E) = {duo_one, duo_two}"
  by (auto simp: duo_net_def)

lemma duo_net_upd [simp]:
  "(duo_net p D q E)(duo_one \<mapsto> (p', D')) = duo_net p' D' q E" "(duo_net p D q E)(duo_two \<mapsto> (q', E')) = duo_net p D q' E'"
  by (auto simp: duo_net_def fun_eq_iff)

abbreviation duo_reach :: "u64 network \<Rightarrow> bool" where
  "duo_reach \<equiv> net_reachable duo_env (set duo_peers) duo_peers"

lemma duo_alone:
  assumes "duo_reach (duo_net p D q E)"
  shows "local_step duo_env p l p' \<Longrightarrow> duo_reach (duo_net p' (label_digests l \<union> D) q E)"
    and "local_step duo_env q l q' \<Longrightarrow> duo_reach (duo_net p D q' (label_digests l \<union> E))"
  using net_next [OF assms net_alone [where N = "duo_net p D q E", OF duo_net_sel(1)]]
    net_next [OF assms net_alone [where N = "duo_net p D q E", OF duo_net_sel(2)]] by simp_all

text \<open>Message \<open>i\<close> is delivered to one node after the other has sent it.\<close>

lemma duo_deliver:
  assumes net: "duo_reach (duo_net p D q E)" and i: "i < 4" and x: "duo_net p D q E x = Some (r, F)" "duo_net p D q E y = Some (r', F')"
    and sent: "SendTo url (duo_raw i) \<in> set (f_effects (p_core r'))" "claims (duo_payload i) = {(y, sg, d)}"
    and run: "handleClient duo_env (duo_raw i) (p_core r) = Some (Inr c)"
  shows "duo_reach ((duo_net p D q E)(x \<mapsto> (r\<lparr>p_core := c\<rparr>, F)))"
proof -
  have y: "y \<in> set duo_peers" using x(2) by (auto simp: duo_net_def split: if_splits)
  have read: "ReadMessage (json_Unmarshal duo_env) (duo_raw i) = Inr (duo_message i, [])" using duo_codec(2) [OF i] .
  have res: "res_Account m \<in> set duo_peers" if "duo_payload i = ResponseMessage (Some m)" for m
    using sent(2) that y by auto
  have "responses_from duo_env (set duo_peers) (duo_raw i)" "unforged duo_env (duo_net p D q E) (duo_raw i)"
    using admissible_sent [where N = "duo_net p D q E" and A = "set duo_peers", OF read _ x(2) sent(1) duo_codec(1) [OF i]] sent(2) res
    by (simp_all add: duo_message_def)
  moreover have "requested duo_env (duo_raw i) = {}"
    using read by (simp add: requested_def duo_message_def) (simp add: duo_payload_def)
  ultimately show ?thesis
    using net_next [OF net net_deliver [where N = "duo_net p D q E" and t = 0 and conn = "duo_raw i" and c = c, OF x(1)]] run by simp
qed

lemma duo_handles:
  assumes "f_nodes s = Some ns"
  shows "handleClient duo_env (duo_raw 0) s = Some (receiveProposal duo_env (proposal_of duo_one 0 (sample_block 7 1) [1, 7]) s)"
    and "handleClient duo_env (duo_raw 2) s = Some (receiveProposal duo_env (proposal_of duo_two 0 (sample_block 8 2) [2, 8]) s)"
    and "ni_master ns = duo_one \<Longrightarrow> handleClient duo_env (duo_raw 1) s = Some (receiveResponse duo_env (response_of duo_two 0 (sample_block 7 1) [2, 7]) s)"
    and "ni_master ns = duo_two \<Longrightarrow> handleClient duo_env (duo_raw 3) s = Some (receiveResponse duo_env (response_of duo_one 0 (sample_block 8 2) [1, 8]) s)"
  using handleClient_message [OF duo_codec(2) [of 0, unfolded duo_message_def] assms] handleClient_message [OF duo_codec(2) [of 1, unfolded duo_message_def] assms]
    handleClient_message [OF duo_codec(2) [of 2, unfolded duo_message_def] assms] handleClient_message [OF duo_codec(2) [of 3, unfolded duo_message_def] assms]
  by (simp_all add: duo_payload_def SendEvent_handler [OF assms]) (simp_all add: sample_node_def)

lemma duo_sent:
  "SendTo ''node'' (duo_raw 0) \<in> set (f_effects (p_core one1))" "SendTo ''node'' (duo_raw 1) \<in> set (f_effects (p_core two1))"
  "SendTo ''node'' (duo_raw 2) \<in> set (f_effects (p_core two3))" "SendTo ''node'' (duo_raw 3) \<in> set (f_effects (p_core one6))"
  by (simp_all add: one1_def two1_def two3_def one6_def)

lemma duo_claims:
  "claims (duo_payload 0) = {(duo_one, [1, 7], 7)}" "claims (duo_payload 1) = {(duo_two, [2, 7], 7)}"
  "claims (duo_payload 2) = {(duo_two, [2, 8], 8)}" "claims (duo_payload 3) = {(duo_one, [1, 8], 8)}"
  by (simp_all add: duo_payload_def proposal_of_def)

lemma duo_started: "duo_reach (duo_net one0 {} two0 {})"
proof (rule net_init)
  show "net_started (set duo_peers) duo_peers (duo_net one0 {} two0 {})"
    using sample_started [of duo_one "set duo_peers" duo_peers duo_one] sample_started [of duo_two "set duo_peers" duo_peers duo_one]
    by (auto simp: net_started_def duo_net_def runs_as_def one0_def two0_def split: if_splits) (simp_all add: sample_policy_def Let_def)
qed

lemma duo_first_round: "duo_reach (duo_net one3 {7} two1 {})"
proof -
  have "local_step duo_env one0 (RequestFor (b_MixDigest (prop_Block (duo_proposal 7 1)))) one1"
    using duo_step1 by (intro local_step.begin_round [where t = 0]) (simp_all, simp add: duo_states)
  from duo_alone(1) [OF duo_started this] have r1: "duo_reach (duo_net one1 {7} two0 {})" by (simp add: duo_proposal_def)
  have "handleClient duo_env (duo_raw 0) (p_core two0) = Some (Inr (p_core two1))"
    using duo_handles(1) [of "p_core two0"] duo_step2 by (simp add: duo_states)
  from duo_deliver [OF r1 _ duo_net_sel(2,1) duo_sent(1) duo_claims(1) this] have "duo_reach (duo_net one1 {7} (two0\<lparr>p_core := p_core two1\<rparr>) {})" by simp
  moreover have "two0\<lparr>p_core := p_core two1\<rparr> = two1" by (simp add: two1_def)
  ultimately have r2: "duo_reach (duo_net one1 {7} two1 {})" by simp
  have "handleClient duo_env (duo_raw 1) (p_core one1) = Some (Inr (p_core one2))"
    using duo_handles(3) [of "p_core one1"] duo_step3 by (simp add: duo_states)
  from duo_deliver [OF r2 _ duo_net_sel(1,2) duo_sent(2) duo_claims(2) this] have "duo_reach (duo_net (one1\<lparr>p_core := p_core one2\<rparr>) {7} two1 {})" by simp
  moreover have "one1\<lparr>p_core := p_core one2\<rparr> = one2" by (simp add: one2_def)
  ultimately have r3: "duo_reach (duo_net one2 {7} two1 {})" by simp
  have "local_step duo_env one2 Internal (one2\<lparr>p_core := p_core one3\<rparr>)"
    by (rule local_step.responses_signal [OF _ _ duo_step4]) (simp_all add: one2_def one1_def)
  moreover have "one2\<lparr>p_core := p_core one3\<rparr> = one3" by (simp add: one3_def)
  ultimately show ?thesis using duo_alone(1) [OF r3] by fastforce
qed

lemma duo_master_changed: "duo_reach (duo_net one5 {7} two2 {})"
proof -
  have "local_step duo_env one3 Internal one4"
    by (rule local_step.initialise [where master = duo_two and onLine = True
          and ns = "\<lparr>ni_local = duo_one, ni_master = duo_one, ni_peers = duo_peers\<rparr>"])
      (use duo_step5 in simp_all, simp add: duo_states)
  from duo_alone(1) [OF duo_first_round this] have r1: "duo_reach (duo_net one4 {7} two1 {})" by simp
  have "local_step duo_env one4 Internal one5" unfolding one5_def by (rule local_step.chain_moves)
  from duo_alone(1) [OF r1 this] have r2: "duo_reach (duo_net one5 {7} two1 {})" by simp
  have "local_step duo_env two1 Internal two2"
    by (rule local_step.initialise [where master = duo_two and onLine = True
          and ns = "\<lparr>ni_local = duo_two, ni_master = duo_one, ni_peers = duo_peers\<rparr>"])
      (use duo_step6 in simp_all, simp add: duo_states)
  from duo_alone(2) [OF r2 this] show ?thesis by simp
qed

lemma duo_second_round: "duo_reach (duo_net one6 {7} two5 {8})"
proof -
  have "local_step duo_env two2 (RequestFor (b_MixDigest (prop_Block (duo_proposal 8 2)))) two3"
    using duo_step7 by (intro local_step.begin_round [where t = 0]) (simp_all, simp add: duo_states)
  from duo_alone(2) [OF duo_master_changed this] have r1: "duo_reach (duo_net one5 {7} two3 {8})" by (simp add: duo_proposal_def)
  have "handleClient duo_env (duo_raw 2) (p_core one5) = Some (Inr (p_core one6))"
    using duo_handles(2) [of "p_core one5"] duo_step8 by (simp add: duo_states)
  from duo_deliver [OF r1 _ duo_net_sel(1,2) duo_sent(3) duo_claims(3) this] have "duo_reach (duo_net (one5\<lparr>p_core := p_core one6\<rparr>) {7} two3 {8})" by simp
  moreover have "one5\<lparr>p_core := p_core one6\<rparr> = one6" by (simp add: one6_def)
  ultimately have r2: "duo_reach (duo_net one6 {7} two3 {8})" by simp
  have "handleClient duo_env (duo_raw 3) (p_core two3) = Some (Inr (p_core two4))"
    using duo_handles(4) [of "p_core two3"] duo_step9 by (simp add: duo_states)
  from duo_deliver [OF r2 _ duo_net_sel(2,1) duo_sent(4) duo_claims(4) this] have "duo_reach (duo_net one6 {7} (two3\<lparr>p_core := p_core two4\<rparr>) {8})" by simp
  moreover have "two3\<lparr>p_core := p_core two4\<rparr> = two4" by (simp add: two4_def)
  ultimately have r3: "duo_reach (duo_net one6 {7} two4 {8})" by simp
  have "local_step duo_env two4 Internal (two4\<lparr>p_core := p_core two5\<rparr>)"
    by (rule local_step.responses_signal [OF _ _ duo_step10]) (simp_all add: two4_def two3_def)
  moreover have "two4\<lparr>p_core := p_core two5\<rparr> = two5" by (simp add: two5_def)
  ultimately show ?thesis using duo_alone(2) [OF r3] by fastforce
qed

lemma duo_results:
  "f_result (p_core one6) = [duo_result 7 [1, 2]]" "f_result (p_core two5) = [duo_result 8 [2, 1]]"
  "cr_Result (duo_result d ks) = None" "cr_Signatures (duo_result d ks) = map (\<lambda>k. [k, d]) ks"
  by (simp_all add: one6_def one5_def one4_def one3_def two5_def duo_result_def)

end
