(* ===== verification/Fbft_Agreement.thy ===== *)
theory Fbft_Agreement
  imports Sample_Duo
begin

text \<open>
  What the results in a network of correct and faulty FBFT nodes mean: who signed for a result, and
  what two results have in common.
\<close>

section \<open>Who signed for a result\<close>

text \<open>
  C2: in every reachable state of a network of correct and faulty FBFT nodes, a successful result
  that waits at a correct node is for a digest that was requested there and is made of verified
  signatures of distinct accounts, as many as the threshold. Each of them is the node's own; or of a
  correct node, which has sent its signature of this digest in a proposal or a response; or of
  another account, whose address is not that of a correct node unless a correct node with this
  address has sent its signature of the digest. \<open>A\<close> is any set of accounts in whose name responses
  arrive; \<open>UNIV\<close> is the case of the program, which accepts responses of accounts that are no peers
  and counts accounts that share an address separately. Unforgeability of signatures is the one
  assumption on the bytes that arrive.
\<close>

theorem network_results_vouched:
  assumes "net_reachable e A peers N" and "signs_correctly e"
    and "N x = Some (p, D)" and "res \<in> set (f_result (p_core p))" and "cr_Result res = None"
  shows "\<exists>d \<in> D. certificate e {a \<in> A. vouched e N x a d} (length peers) d (cr_Signatures res)"
  using result_certificate [OF assms] .

lemma net_reachable_mono:
  assumes "net_reachable e A peers N" and "A \<subseteq> B"
  shows "net_reachable e B peers N"
  using assms(1)
proof (induction rule: net_reachable.induct)
  case (net_init N)
  then have "net_started B peers N" using assms(2) unfolding net_started_def fbft_started_def by blast
  then show ?case by (rule net_reachable.net_init)
next
  case (net_next N N')
  from net_next.hyps(2) have "net_step e B N N'"
  proof cases
    case (net_alone x p D l p')
    then show ?thesis using net_step.net_alone [of N x p D e l p' B] by simp
  next
    case (net_deliver x p D conn t c)
    moreover have "responses_from e B conn" using net_deliver(3) assms(2) by (auto simp: responses_from_def)
    ultimately show ?thesis using net_step.net_deliver [of N x p D e B conn t c] by simp
  qed
  with net_next.IH show ?case by (rule net_reachable.net_next)
qed

theorem network_results_vouched_witness:
  "certificate duo_env {a \<in> UNIV. vouched duo_env (duo_net one6 {7} two5 {8}) duo_one a 7} 2 7 [[1, 7], [2, 7]] \<and>
   certificate duo_env {a \<in> UNIV. vouched duo_env (duo_net one6 {7} two5 {8}) duo_two a 8} 2 8 [[2, 8], [1, 8]]"
proof -
  have net: "net_reachable duo_env UNIV duo_peers (duo_net one6 {7} two5 {8})"
    using net_reachable_mono [OF duo_second_round] by simp
  show ?thesis
    using network_results_vouched [OF net duo_signs duo_net_sel(1), of "duo_result 7 [1, 2]"]
      network_results_vouched [OF net duo_signs duo_net_sel(2), of "duo_result 8 [2, 1]"]
    by (simp add: duo_results numeral_2_eq_2)
qed

section \<open>Two results\<close>



end
