(* ===== verification/Roles.thy ===== *)
theory Roles
  imports Environment
begin

text \<open>
  \<^verbatim>\<open>role\<close>: which account is the master of the next block. The two policies (\<open>solo\<close>,
  \<open>dpos\<close>) have the same fields and differ in \<open>RoleAssignments\<close> and \<open>AppointRole\<close>. A
  nil map is the empty map. \<open>RoleAssignments\<close> returns the map it stores; callers that change the
  returned map are not part of the repository, so the map is a value. What both policies promise is
  the locale \<open>role_policy\<close>.
\<close>

section \<open>Roles and policies\<close>

datatype Roler = Master | Slave | Normal | UnKnown

type_synonym assignments = "Account \<rightharpoonup> Roler"

record RolePolicy =
  rp_name :: string
  rp_participates :: "Account list"
  rp_assignments :: assignments

definition RoleSoloPolicyName :: string where "RoleSoloPolicyName = ''solo''"
definition RoleDposPolicyName :: string where "RoleDposPolicyName = ''dpos''"

definition AssignmentNotBeExecute :: error where
  "AssignmentNotBeExecute = ErrMessage ''assignments role has not be executed''"

section \<open>\<^verbatim>\<open>role/policy/solo/solo.go\<close>\<close>

text \<open>The struct of the solo policy has the same fields as that of the dpos policy.\<close>

type_synonym SoloRolePolicy = RolePolicy

definition NewSoloRole :: SoloRolePolicy where
  "NewSoloRole = \<lparr>rp_name = RoleSoloPolicyName, rp_participates = [], rp_assignments = Map.empty\<rparr>"

definition SoloRoleAssignments ::
  "Account list \<Rightarrow> RolePolicy \<Rightarrow> ((error + (assignments \<times> Account)) \<times> RolePolicy) outcome" where
  "SoloRoleAssignments accounts p =
     (case accounts of
        [only] \<Rightarrow>
          (let p' = p\<lparr>rp_participates := accounts, rp_assignments := [only \<mapsto> Master]\<rparr>
           in Inr (Inr (rp_assignments p', only), p'))
      | _ \<Rightarrow> Inr (Inl (ErrMessage ''more than one participate''), p))"

definition SoloGetRoles :: "Account \<Rightarrow> RolePolicy \<Rightarrow> Roler \<times> error option" where
  "SoloGetRoles address p =
     (if rp_assignments p = Map.empty then (UnKnown, Some AssignmentNotBeExecute)
      else case rp_assignments p address of
             None \<Rightarrow> (UnKnown, Some (ErrMessage ''wrong address''))
           | Some role \<Rightarrow> (role, None))"

text \<open>The loop over the map writes the entry it visits and no other, so its order does not matter.\<close>

definition reassign :: "u64 \<Rightarrow> assignments \<Rightarrow> assignments" where
  "reassign master m = (\<lambda>a. map_option (\<lambda>_. if acc_Id a = master then Master else Slave) (m a))"

definition SoloChangeRoleAssignment :: "assignments \<Rightarrow> u64 \<Rightarrow> RolePolicy \<Rightarrow> RolePolicy" where
  "SoloChangeRoleAssignment m master p = p\<lparr>rp_assignments := reassign master m\<rparr>"

section \<open>\<^verbatim>\<open>role/policy/dpos/dpos.go\<close>\<close>

definition NewDposRole :: RolePolicy where
  "NewDposRole = \<lparr>rp_name = RoleDposPolicyName, rp_participates = [], rp_assignments = Map.empty\<rparr>"

fun assign_loop :: "u64 \<Rightarrow> Account list \<Rightarrow> assignments \<times> Account \<Rightarrow> assignments \<times> Account" where
  "assign_loop masterId [] (m, master) = (m, master)"
| "assign_loop masterId (delegate # delegates) (m, master) =
     assign_loop masterId delegates
       (if acc_Id delegate = masterId then (m(delegate \<mapsto> Master), delegate)
        else (m(delegate \<mapsto> Slave), master))"

definition DposRoleAssignments ::
  "'w env \<Rightarrow> 'w \<Rightarrow> Account list \<Rightarrow> RolePolicy \<Rightarrow> ((error + (assignments \<times> Account)) \<times> RolePolicy) outcome" where
  "DposRoleAssignments e chain participates p =
     (if NewLatestStateRepository e chain \<noteq> None
      then Inr (Inl (ErrMessage ''get NewLatestStateRepository failed''), p)
      else
        (case GetCurrentBlock e chain of
           None \<Rightarrow> Inl NilDereference
         | Some block \<Rightarrow>
             if participates = [] then Inl IntegerDivideByZero
             else
               (let masterId = (b_Height block + 1) mod of_nat (length participates);
                    (m, master) = assign_loop masterId participates (Map.empty, zero_account);
                    p' = p\<lparr>rp_participates := participates, rp_assignments := m\<rparr>
                in Inr (Inr (m, master), p'))))"

definition DposGetRoles :: "Account \<Rightarrow> RolePolicy \<Rightarrow> Roler \<times> error option" where
  "DposGetRoles account p =
     (if rp_assignments p = Map.empty then (UnKnown, Some AssignmentNotBeExecute)
      else case rp_assignments p account of
             None \<Rightarrow> (UnKnown, Some (ErrMessage ''accont not a delegate''))
           | Some role \<Rightarrow> (role, None))"

text \<open>
  \<open>order\<close> is the order in which Go visits the entries of the map: the first master it meets is
  taken for the previous one.
\<close>

definition DposAppointRole :: "Account list \<Rightarrow> Account \<Rightarrow> RolePolicy \<Rightarrow> error option \<times> RolePolicy" where
  "DposAppointRole order master p =
     (if rp_assignments p master = None then (Some (ErrMessage ''appoint account is not a delegate''), p)
      else
        (case filter (\<lambda>a. rp_assignments p a = Some Master) order of
           [] \<Rightarrow> (Some (ErrMessage ''no master exist in current delegates''), p)
         | preMaster # _ \<Rightarrow>
             (None, p\<lparr>rp_assignments := (rp_assignments p)(master \<mapsto> Master, preMaster \<mapsto> Slave)\<rparr>)))"

definition DposChangeRoleAssignment :: "assignments \<Rightarrow> u64 \<Rightarrow> RolePolicy \<Rightarrow> RolePolicy" where
  "DposChangeRoleAssignment m master p = p\<lparr>rp_assignments := reassign master m\<rparr>"

section \<open>The contract of a role policy\<close>

definition masters :: "assignments \<Rightarrow> Account set" where
  "masters m = {a. m a = Some Master}"

locale role_policy =
  fixes assign :: "Account list \<Rightarrow> 'p \<Rightarrow> ((error + (assignments \<times> Account)) \<times> 'p) outcome"
    and roles :: "Account \<Rightarrow> 'p \<Rightarrow> Roler \<times> error option"
    and change :: "assignments \<Rightarrow> u64 \<Rightarrow> 'p \<Rightarrow> 'p"
    and current :: "'p \<Rightarrow> assignments"
  assumes assign_stores: "assign ps p = Inr (Inr (m, a), p') \<Longrightarrow> current p' = m \<and> dom m = set ps"
    and assign_nonempty: "assign ps p = Inr (Inr (m, a), p') \<Longrightarrow> ps \<noteq> []"
    and assign_fails: "assign ps p = Inr (Inl err, p') \<Longrightarrow> p' = p"
    and roles_read: "snd (roles a p) = None \<longleftrightarrow> (\<exists>r. current p a = Some r)"
    and roles_value: "current p a = Some r \<Longrightarrow> fst (roles a p) = r"
    and roles_unknown: "current p a = None \<Longrightarrow> fst (roles a p) = UnKnown"
    and change_stores: "current (change m v p) = reassign v m"
begin

lemma participants_have_roles:
  assumes "assign ps p = Inr (Inr (m, a), p')"
  shows "snd (roles x p') = None \<longleftrightarrow> x \<in> set ps"
  using assign_stores [OF assms] by (auto simp: roles_read)

lemma roles_after_change:
  assumes "current p = m"
  shows "fst (roles x (change m v p)) = Master \<longleftrightarrow> x \<in> dom m \<and> acc_Id x = v"
proof (cases "m x")
  case None
  then have "current (change m v p) x = None" by (simp add: change_stores reassign_def)
  from roles_unknown [OF this] None show ?thesis by auto
next
  case (Some r)
  then have "current (change m v p) x = Some (if acc_Id x = v then Master else Slave)"
    by (simp add: change_stores reassign_def)
  from roles_value [OF this] Some show ?thesis by auto
qed

text \<open>A change of the master does not change who takes part.\<close>

lemma change_keeps_participants: "current p = m \<Longrightarrow> dom (current (change m v p)) = dom m"
  by (auto simp: change_stores reassign_def)

end

interpretation solo_role: role_policy SoloRoleAssignments SoloGetRoles SoloChangeRoleAssignment rp_assignments
  by unfold_locales
    (auto simp: SoloRoleAssignments_def SoloGetRoles_def SoloChangeRoleAssignment_def Let_def
      split: list.splits option.splits if_splits)

lemma assign_loop_map:
  "fst (assign_loop i ds (m, a)) =
     (\<lambda>x. if x \<in> set ds then Some (if acc_Id x = i then Master else Slave) else m x)"
  by (induction ds arbitrary: m a) (auto simp: fun_eq_iff)

lemma assign_loop_master:
  "snd (assign_loop i ds (m, a)) =
     (if \<exists>d \<in> set ds. acc_Id d = i then last (filter (\<lambda>d. acc_Id d = i) ds) else a)"
  by (induction ds arbitrary: m a) (auto simp: filter_empty_conv)

lemma DposRoleAssignments_Inr:
  "DposRoleAssignments e w ps p = Inr (Inr (m, a), p') \<Longrightarrow>
   ps \<noteq> [] \<and> (\<exists>b. GetCurrentBlock e w = Some b \<and>
     (m, a) = assign_loop ((b_Height b + 1) mod of_nat (length ps)) ps (Map.empty, zero_account)) \<and>
   p' = p\<lparr>rp_participates := ps, rp_assignments := m\<rparr>"
  by (auto simp: DposRoleAssignments_def Let_def split: if_splits option.splits prod.splits)

interpretation dpos_role: role_policy "DposRoleAssignments e w" DposGetRoles DposChangeRoleAssignment rp_assignments
  for e :: "'w env" and w
proof unfold_locales
  fix ps p p' m a x err v and r :: Roler
  show "rp_assignments p' = m \<and> dom m = set ps" if run: "DposRoleAssignments e w ps p = Inr (Inr (m, a), p')"
  proof -
    obtain i where "(m, a) = assign_loop i ps (Map.empty, zero_account)" "p' = p\<lparr>rp_participates := ps, rp_assignments := m\<rparr>"
      using DposRoleAssignments_Inr [OF run] by auto
    then show ?thesis using assign_loop_map [of i ps Map.empty zero_account]
      by (auto simp: prod_eq_iff dom_def split: if_splits)
  qed
  show "ps \<noteq> []" if "DposRoleAssignments e w ps p = Inr (Inr (m, a), p')"
    using DposRoleAssignments_Inr [OF that] by simp
  show "p' = p" if "DposRoleAssignments e w ps p = Inr (Inl err, p')"
    using that by (auto simp: DposRoleAssignments_def Let_def split: if_splits option.splits prod.splits)
qed (auto simp: DposGetRoles_def DposChangeRoleAssignment_def split: option.splits)

end
