(* ===== verification/Participants.thy ===== *)
theory Participants
  imports Environment
begin

text \<open>
  \<^verbatim>\<open>participates\<close>: the accounts that take part in the consensus. The \<open>solo\<close> policy has
  one built-in account, the \<open>dpos\<close> policy asks the voting contract. The contract comes from a
  package outside the repository: it is a record of its two methods on an arbitrary state.
\<close>

record NodeInfo =
  nd_Address :: address
  nd_Id :: u64
  nd_Url :: string

record 'c Voting =
  NodeNumber :: "'c \<Rightarrow> u64"
  GetNodeList :: "'c \<Rightarrow> u64 \<Rightarrow> error + NodeInfo list"

definition ParticipatesSoloPolicyName :: string where "ParticipatesSoloPolicyName = ''solo''"
definition ParticipatesDposPolicyName :: string where "ParticipatesDposPolicyName = ''dpos''"

section \<open>\<^verbatim>\<open>participates/policy/solo/solo.go\<close>\<close>

record SoloParticipates =
  sop_name :: string
  sop_members :: u64
  sop_participates :: "Account list"

definition NewSoloParticipates :: SoloParticipates where
  "NewSoloParticipates = \<lparr>sop_name = ParticipatesSoloPolicyName, sop_members = 0, sop_participates = []\<rparr>"

definition solo_participate :: Account where
  "solo_participate =
     \<lparr>acc_Address = 0x333c3310824b7c685133f2bedb2ca4b8b4df633d,
      acc_Extension = \<lparr>ext_Id = 0, ext_Url = ''127.0.0.1:8080''\<rparr>\<rparr>"

definition SoloGetParticipates :: "SoloParticipates \<Rightarrow> (error + Account list) \<times> SoloParticipates" where
  "SoloGetParticipates p =
     (let p' = p\<lparr>sop_members := 1, sop_participates := [] @ [solo_participate]\<rparr>
      in (Inr (sop_participates p'), p'))"

section \<open>\<^verbatim>\<open>participates/policy/dpos/dpos.go\<close>\<close>

record DposParticipates =
  dp_name :: string
  dp_members :: u64
  dp_participates :: "Account list"

definition NewDposParticipates :: DposParticipates where
  "NewDposParticipates = \<lparr>dp_name = ParticipatesDposPolicyName, dp_members = 0, dp_participates = []\<rparr>"

fun accounts_of :: "Account list \<Rightarrow> NodeInfo list \<Rightarrow> Account list" where
  "accounts_of accounts [] = accounts"
| "accounts_of accounts (node # nodeList) =
     accounts_of
       (accounts @ [\<lparr>acc_Address = nd_Address node,
                    acc_Extension = \<lparr>ext_Id = nd_Id node, ext_Url = nd_Url node\<rparr>\<rparr>]) nodeList"

definition getDelegatesByCount ::
  "'c Voting \<Rightarrow> 'c \<Rightarrow> u64 \<Rightarrow> DposParticipates \<Rightarrow> (error + Account list) \<times> DposParticipates" where
  "getDelegatesByCount contract c count p =
     (case GetNodeList contract c count of
        Inl err \<Rightarrow> (Inl (ErrMessage ''get node list failed''), p)
      | Inr nodeList \<Rightarrow>
          (let p' = p\<lparr>dp_participates := accounts_of [] nodeList\<rparr>
           in (Inr (dp_participates p'), p')))"

definition getDelegates :: "'c Voting \<Rightarrow> 'c \<Rightarrow> DposParticipates \<Rightarrow> (error + Account list) \<times> DposParticipates" where
  "getDelegates contract c p =
     (let p1 = p\<lparr>dp_members := NodeNumber contract c\<rparr>
      in case getDelegatesByCount contract c (dp_members p1) p1 of
           (Inl err, p2) \<Rightarrow> (Inl err, p2)
         | (Inr delegates, p2) \<Rightarrow> (Inr delegates, p2))"

definition DposGetParticipates :: "'c Voting \<Rightarrow> 'c \<Rightarrow> DposParticipates \<Rightarrow> (error + Account list) \<times> DposParticipates" where
  "DposGetParticipates contract c p =
     (case getDelegates contract c p of
        (Inl err, p1) \<Rightarrow> (Inl err, p1)
      | (Inr participates, p1) \<Rightarrow> (Inr participates, p1\<lparr>dp_participates := participates\<rparr>))"

section \<open>The contract of a participates policy\<close>

text \<open>
  What the callers use: the accounts returned are the ones stored, and a failed call leaves the
  accounts of the last successful one.
\<close>

locale participates_policy =
  fixes get :: "'p \<Rightarrow> (error + Account list) \<times> 'p"
    and members :: "'p \<Rightarrow> Account list"
  assumes get_stores: "get p = (Inr as, p') \<Longrightarrow> members p' = as"
    and get_fails: "get p = (Inl err, p') \<Longrightarrow> members p' = members p"
begin

fun get_many :: "nat \<Rightarrow> 'p \<Rightarrow> 'p" where
  "get_many 0 p = p"
| "get_many (Suc n) p = get_many n (snd (get p))"

text \<open>After any number of calls the members are those of some successful answer or the first ones.\<close>

lemma members_get_many:
  "members (get_many n p) = members p \<or> (\<exists>q q' as. get q = (Inr as, q') \<and> members (get_many n p) = as)"
proof (induction n arbitrary: p)
  case (Suc n)
  obtain r p' where g: "get p = (r, p')" by (cases "get p")
  show ?case
  proof (cases r)
    case (Inl err)
    with g Suc [of p'] get_fails [of p err p'] show ?thesis by auto
  next
    case (Inr as)
    with g Suc [of p'] get_stores [of p as p'] show ?thesis by auto
  qed
qed simp

end

interpretation solo_participates: participates_policy SoloGetParticipates sop_participates
  by unfold_locales (auto simp: SoloGetParticipates_def Let_def)

interpretation dpos_participates: participates_policy "DposGetParticipates contract c" dp_participates
  for contract :: "'c Voting" and c
  by unfold_locales
    (auto simp: DposGetParticipates_def getDelegates_def getDelegatesByCount_def Let_def
      split: sum.splits prod.splits)

lemma accounts_of_map:
  "accounts_of as ns = as @ map (\<lambda>n. \<lparr>acc_Address = nd_Address n, acc_Extension = \<lparr>ext_Id = nd_Id n, ext_Url = nd_Url n\<rparr>\<rparr>) ns"
  by (induction ns arbitrary: as) simp_all

end
