(* ===== verification/Solo_Consensus.thy ===== *)
theory Solo_Consensus
  imports Environment "HOL-Library.AList"
begin

text \<open>
  \<^verbatim>\<open>consensus/policy/solo/solo.go\<close>: consensus with one participant. \<open>validate\<close> is
  \<open>ValidateBlock\<close> of the validator for an account; it gets the block by pointer, so it returns an
  error and the block as it left it. \<open>sp_eventCenter\<close> tells whether \<open>Initialization\<close> has set
  the event centre: a notification before panics.
\<close>

section \<open>State\<close>

definition SoloPolicyName :: string where "SoloPolicyName = ''solo''"
definition SoloConsensusNum :: u8 where "SoloConsensusNum = 1"

type_synonym Version = u64
type_synonym validate = "Account \<Rightarrow> Block \<Rightarrow> bool \<Rightarrow> error option \<times> Block"

record SoloPolicy =
  sp_name :: string
  sp_local :: Account
  sp_tolerance :: u8
  sp_version :: Version
  sp_peers :: "Account list"
  sp_master :: Account
  sp_eventCenter :: bool
  sp_enableEmptyBlock :: bool
  sp_enableLocalSignatureVerify :: bool
  sp_effects :: "effect list"

record SoloProposal =
  so_proposal :: Proposal
  so_version :: Version
  so_status :: ConsensusStatus

definition NewSoloPolicy :: "bool \<Rightarrow> SignatureVerifySwitch \<Rightarrow> SoloPolicy" where
  "NewSoloPolicy enable signVerify =
     \<lparr>sp_name = SoloPolicyName, sp_local = zero_account, sp_tolerance = SoloConsensusNum, sp_version = 0,
      sp_peers = [], sp_master = zero_account, sp_eventCenter = False, sp_enableEmptyBlock = enable,
      sp_enableLocalSignatureVerify = LocalVerifySignature signVerify, sp_effects = []\<rparr>"

definition SoloPrepare :: "Account \<Rightarrow> SoloPolicy \<Rightarrow> SoloPolicy" where
  "SoloPrepare account p = p\<lparr>sp_local := account\<rparr>"

definition SoloInitialization :: "Account \<Rightarrow> Account \<Rightarrow> Account list \<Rightarrow> SoloPolicy \<Rightarrow> SoloPolicy outcome" where
  "SoloInitialization local master accounts p =
     (if SoloConsensusNum \<noteq> of_nat (length accounts)
      then Inl (Panicf ''solo policy only support one participate'')
      else Inr (p\<lparr>sp_local := local, sp_master := master, sp_peers := accounts, sp_eventCenter := True\<rparr>))"

definition solo_notify :: "EventType \<Rightarrow> SoloPolicy \<Rightarrow> SoloPolicy outcome" where
  "solo_notify ev p =
     (if sp_eventCenter p then Inr (p\<lparr>sp_effects := sp_effects p @ [Notify ev]\<rparr>) else Inl NilDereference)"

section \<open>A round\<close>

definition toSoloProposal :: "Proposal \<Rightarrow> SoloPolicy \<Rightarrow> SoloProposal \<times> SoloPolicy" where
  "toSoloProposal prop p =
     (let p1 = (if sp_version p = - 1 then p\<lparr>sp_version := 0\<rparr> else p)
      in (\<lparr>so_proposal = prop, so_version = sp_version p1 + 1, so_status = Proposing\<rparr>, p1))"

definition prepareConsensus :: "SoloProposal \<Rightarrow> SoloPolicy \<Rightarrow> error + SoloProposal" where
  "prepareConsensus proposal p =
     (if so_version proposal \<le> sp_version p then Inl (ErrMessage ''proposal version less than confirmed'')
      else if so_status proposal \<noteq> Proposing then Inl (ErrMessage ''proposal status must be in proposal'')
      else Inr (proposal\<lparr>so_status := Propose\<rparr>))"

definition submitConsensus :: "SoloProposal \<Rightarrow> error + SoloProposal" where
  "submitConsensus proposal =
     (if so_status proposal \<noteq> Propose then Inl (ErrMessage ''proposal status must be Propose'')
      else Inr (proposal\<lparr>so_status := Committed\<rparr>))"

definition soloToConsensus :: "validate \<Rightarrow> SoloProposal \<Rightarrow> SoloPolicy \<Rightarrow> bool \<times> Block" where
  "soloToConsensus validate proposal p =
     (let block = prop_Block (so_proposal proposal)
      in if of_nat (length (sp_peers p)) \<noteq> SoloConsensusNum then (False, block)
         else (case validate (hd (sp_peers p)) block (sp_enableLocalSignatureVerify p) of
                 (Some err, block') \<Rightarrow> (False, block')
               | (None, block') \<Rightarrow> (True, block')))"

fun validSigns :: "'w env \<Rightarrow> hash \<Rightarrow> bytes list \<Rightarrow> (address \<times> bytes) list \<Rightarrow> (address \<times> bytes) list" where
  "validSigns e digest [] validSign = validSign"
| "validSigns e digest (value # signData) validSign =
     (case signature_Verify e digest value of
        (signAddress, Some err) \<Rightarrow> validSigns e digest signData validSign
      | (signAddress, None) \<Rightarrow> validSigns e digest signData (AList.update signAddress value validSign))"

definition soloCommitBlock :: "Block \<Rightarrow> SoloPolicy \<Rightarrow> SoloPolicy outcome" where
  "soloCommitBlock block p =
     (if \<not> sp_enableEmptyBlock p \<and> length (b_Transactions block) = 0
      then solo_notify EventBlockWithoutTxs p
      else Inr (p\<lparr>sp_effects := sp_effects p @ [BlockSwitch block]\<rparr>))"

definition solo_fail :: "string \<Rightarrow> SoloPolicy \<Rightarrow> (error option \<times> SoloPolicy) outcome" where
  "solo_fail msg p = bindP (solo_notify EventConsensusFailed p) (\<lambda>p'. Inr (Some (ErrMessage msg), p'))"

definition SoloToConsensus ::
  "'w env \<Rightarrow> validate \<Rightarrow> Proposal \<Rightarrow> SoloPolicy \<Rightarrow> (error option \<times> SoloPolicy) outcome" where
  "SoloToConsensus e validate prop p =
     (let (proposal, p1) = toSoloProposal prop p
      in case prepareConsensus proposal p1 of
           Inl err \<Rightarrow> solo_fail ''prepare proposal failed'' p1
         | Inr proposal1 \<Rightarrow>
             (let (ok, block) = soloToConsensus validate proposal1 p1
              in if \<not> ok then solo_fail ''local verify failed'' p1
                 else
                   (let validSign = validSigns e (b_MixDigest block) (b_SigData block) []
                    in if (of_nat (length validSign) :: u8) < SoloConsensusNum
                       then solo_fail ''not enough valid signature'' p1
                       else if map_of validSign (acc_Address (sp_local p1)) = None
                       then solo_fail ''absence self signature'' p1
                       else
                         (case submitConsensus proposal1 of
                            Inl err \<Rightarrow> solo_fail ''submit proposal failed'' p1
                          | Inr proposal2 \<Rightarrow>
                              if so_status proposal2 \<noteq> Committed
                              then solo_fail ''consensus status fault'' p1
                              else
                                (let p2 = p1\<lparr>sp_version := so_version proposal2\<rparr>;
                                     block' = block\<lparr>b_HeaderHash := HeaderHash e block\<rparr>
                                 in bindP (soloCommitBlock block' p2) (\<lambda>p3. Inr (None, p3)))))))"

definition SoloGetConsensusResult :: "SoloPolicy \<Rightarrow> ConsensusInfo" where
  "SoloGetConsensusResult p = \<lparr>ci_View = 0, ci_Participate = sp_peers p, ci_Master = sp_master p\<rparr>"

definition SoloOnline :: "SoloPolicy \<Rightarrow> SoloPolicy outcome" where
  "SoloOnline p = solo_notify EventOnline p"

section \<open>Facts about a round\<close>

lemma validSigns_spec:
  assumes "distinct (map fst m)"
  shows "distinct (map fst (validSigns e d vs m))"
    and "fst ` set (validSigns e d vs m) = fst ` set m \<union> {a. \<exists>v \<in> set vs. signature_Verify e d v = (a, None)}"
  using assms
proof (induction vs arbitrary: m)
  case (Cons v vs)
  obtain a r where v: "signature_Verify e d v = (a, r)" by (cases "signature_Verify e d v")
  { case 1 with Cons v show ?case by (cases r) (simp_all add: distinct_update) }
  { case 2 with Cons v show ?case
      by (cases r) (auto simp: distinct_update dom_update [unfolded dom_map_of_conv_image_fst]
          dom_map_of_conv_image_fst update_conv') }
qed simp_all

end
