(* ===== verification/Setup_Properties.thy ===== *)
theory Setup_Properties
  imports Roles Participants Solo_Consensus Sample_Network
begin

text \<open>
  Who takes part, who is master, and what consensus with a single participant does: the role
  policies, the participates policies and the solo policy, alone and put together.
\<close>

section \<open>Solo consensus\<close>

lemma version_step: "sp_version (snd (toSoloProposal pr p)) < so_version (fst (toSoloProposal pr p))"
proof (cases "sp_version p = - 1")
  case False
  then show ?thesis by (simp add: toSoloProposal_def word_less_nat_alt unat_succ)
qed (simp add: toSoloProposal_def)

lemma solo_round_result:
  assumes ready: "sp_eventCenter p" "of_nat (length (sp_peers p)) = SoloConsensusNum"
    and block: "validate (hd (sp_peers p)) (prop_Block pr) (sp_enableLocalSignatureVerify p) = (verr, b)"
    and S: "S = {a. \<exists>v \<in> set (b_SigData b). signature_Verify e (b_MixDigest b) v = (a, None)}"
  shows "\<exists>err p'. SoloToConsensus e validate pr p = Inr (err, p') \<and>
    (err = None \<longleftrightarrow> verr = None \<and> acc_Address (sp_local p) \<in> S \<and> card S mod 256 \<noteq> 0) \<and>
    (if err = None
     then sp_version p' = (if sp_version p = - 1 then 1 else sp_version p + 1) \<and>
       sp_effects p' = sp_effects p @
         (if sp_enableEmptyBlock p \<or> b_Transactions b \<noteq> []
          then [BlockSwitch (b\<lparr>b_HeaderHash := HeaderHash e b\<rparr>)] else [Notify EventBlockWithoutTxs])
     else sp_effects p' = sp_effects p @ [Notify EventConsensusFailed])"
proof -
  let ?vs = "validSigns e (b_MixDigest b) (b_SigData b) []"
  let ?p1 = "snd (toSoloProposal pr p)"
  let ?pr = "fst (toSoloProposal pr p)"
  have vs: "distinct (map fst ?vs)" "fst ` set ?vs = S"
    using validSigns_spec [of "[]" e "b_MixDigest b" "b_SigData b"] S by auto
  have len: "length ?vs = card S" using vs distinct_card [of "map fst ?vs"] by simp
  have few: "(of_nat (length ?vs) :: u8) < SoloConsensusNum \<longleftrightarrow> card S mod 256 = 0"
    unfolding len by (simp add: word_less_nat_alt unat_u8_of_nat SoloConsensusNum_def)
  have own: "map_of ?vs (acc_Address (sp_local p)) = None \<longleftrightarrow> acc_Address (sp_local p) \<notin> S"
    by (simp add: map_of_eq_None_iff vs)
  have p1: "sp_local ?p1 = sp_local p" "sp_effects ?p1 = sp_effects p" "sp_eventCenter ?p1"
      "sp_enableEmptyBlock ?p1 = sp_enableEmptyBlock p"
    using ready(1) by (simp_all add: toSoloProposal_def)
  have ver: "so_version ?pr = (if sp_version p = - 1 then 1 else sp_version p + 1)"
    by (simp add: toSoloProposal_def)
  have prep: "prepareConsensus ?pr ?p1 = Inr (?pr\<lparr>so_status := Propose\<rparr>)"
    using version_step [of pr p] by (simp add: prepareConsensus_def not_le [symmetric]) (simp add: toSoloProposal_def)
  have ok: "soloToConsensus validate (?pr\<lparr>so_status := Propose\<rparr>) ?p1 = (verr = None, b)"
    using ready(2) block by (cases verr) (auto simp: soloToConsensus_def toSoloProposal_def)
  show ?thesis
    unfolding SoloToConsensus_def Let_def split_beta prep ok sum.case prod.sel p1(1) few own
    using p1 ver
    by (auto simp: few own solo_fail_def solo_notify_def submitConsensus_def soloCommitBlock_def)
qed

text \<open>
  C32: a round of the solo policy, once it is initialised for its participant, always returns. It
  succeeds exactly when the validator accepts the block and the node's own signature is among the
  valid ones of the block it left (whose signers are counted in eight bits); then the version moves
  to the next one, from the largest number to 1, and the block goes to the block switch or is reported
  empty. Otherwise \<open>EventConsensusFailed\<close> is raised and no block leaves.
\<close>

theorem solo_round:
  assumes ready: "sp_eventCenter p" "of_nat (length (sp_peers p)) = SoloConsensusNum"
    and block: "validate (hd (sp_peers p)) (prop_Block pr) (sp_enableLocalSignatureVerify p) = (verr, b)"
    and S: "S = {a. \<exists>v \<in> set (b_SigData b). signature_Verify e (b_MixDigest b) v = (a, None)}"
  shows "\<exists>err p'. SoloToConsensus e validate pr p = Inr (err, p') \<and>
    (err = None \<longleftrightarrow> verr = None \<and> acc_Address (sp_local p) \<in> S \<and> card S mod 256 \<noteq> 0) \<and>
    (if err = None
     then sp_version p' = (if sp_version p = - 1 then 1 else sp_version p + 1) \<and>
       sp_effects p' = sp_effects p @
         (if sp_enableEmptyBlock p \<or> b_Transactions b \<noteq> []
          then [BlockSwitch (b\<lparr>b_HeaderHash := HeaderHash e b\<rparr>)] else [Notify EventBlockWithoutTxs])
     else sp_effects p' = sp_effects p @ [Notify EventConsensusFailed])"
  using assms by (rule solo_round_result)

definition sample_solo :: SoloPolicy where
  "sample_solo = (NewSoloPolicy False \<lparr>SyncVerifySignature = False, LocalVerifySignature = False\<rparr>)
     \<lparr>sp_local := sample_node 1, sp_peers := [sample_node 1], sp_eventCenter := True, sp_version := - 1\<rparr>"

theorem solo_round_witness:
  "\<exists>p'. SoloToConsensus sample_env (\<lambda>a b f. (None, set_SigData [[1, 7]] b)) \<lparr>prop_Block = sample_block 7 3, prop_Timestamp = 0\<rparr>
      sample_solo = Inr (None, p') \<and> sp_version p' = 1"
proof -
  let ?b = "set_SigData [[1, 7]] (sample_block 7 3)"
  have S: "{1} = {a. \<exists>v \<in> set (b_SigData ?b). signature_Verify sample_env (b_MixDigest ?b) v = (a, None)}"
    by (auto simp: sample_block_def)
  have p: "sp_eventCenter sample_solo" "of_nat (length (sp_peers sample_solo)) = SoloConsensusNum"
      "acc_Address (sp_local sample_solo) = 1" "sp_version sample_solo = - 1"
    by (simp_all add: sample_solo_def SoloConsensusNum_def sample_node_def)
  let ?v = "\<lambda>a b f. (None, set_SigData [[1, 7]] b)"
  let ?pr = "\<lparr>prop_Block = sample_block 7 3, prop_Timestamp = 0\<rparr>"
  have v: "?v (hd (sp_peers sample_solo)) (prop_Block ?pr) (sp_enableLocalSignatureVerify sample_solo) = (None, ?b)"
    by simp
  have own: "acc_Address (sp_local sample_solo) \<in> {1}" "card {1 :: address} mod 256 \<noteq> 0" by (simp_all add: p(3))
  obtain err p' where r: "SoloToConsensus sample_env ?v ?pr sample_solo = Inr (err, p')" "err = None"
      "sp_version p' = (if sp_version sample_solo = - 1 then 1 else sp_version sample_solo + 1)"
    using solo_round [where validate = ?v and p = sample_solo, OF p(1,2) v S] own by metis
  from r(1,3) show ?thesis unfolding r(2) p(4) by auto
qed

section \<open>Roles\<close>

lemma dpos_assigns:
  assumes "NewLatestStateRepository e w = None" and "GetCurrentBlock e w = Some b" and "ps \<noteq> []"
    and i: "i = (b_Height b + 1) mod of_nat (length ps)"
  shows "\<exists>m p'. DposRoleAssignments e w ps p = Inr (Inr (m, snd (assign_loop i ps (Map.empty, zero_account))), p') \<and>
    rp_assignments p' = m \<and> m = (\<lambda>x. if x \<in> set ps then Some (if acc_Id x = i then Master else Slave) else None)"
  using assms assign_loop_map [of i ps Map.empty zero_account]
  by (simp add: DposRoleAssignments_def Let_def split_beta prod_eq_iff)

lemma masters_assigned:
  "masters (\<lambda>x. if x \<in> set ps then Some (if acc_Id x = i then Master else Slave) else None) =
     {x \<in> set ps. acc_Id x = i}"
  by (auto simp: masters_def split: if_splits)

lemma unique_residue:
  fixes c k n :: nat
  assumes "c < n"
  shows "\<exists>!i. i < n \<and> c = (k + i + 1) mod n"
proof -
  let ?i = "(c + n - (k + 1) mod n) mod n"
  have less: "(k + 1) mod n < n" using assms by simp
  have "(k + 1 + ?i) mod n = (k + 1 + (c + n - (k + 1) mod n)) mod n" by (rule mod_add_right_eq)
  also have "\<dots> = ((k + 1) mod n + (c + n - (k + 1) mod n)) mod n" by (rule mod_add_left_eq [symmetric])
  also have "(k + 1) mod n + (c + n - (k + 1) mod n) = c + n" using less by simp
  also have "(c + n) mod n = c" using assms by simp
  finally have ex: "?i < n \<and> c = (k + ?i + 1) mod n" using assms by (simp add: ac_simps)
  show ?thesis
  proof (rule ex1I [of _ ?i])
    fix j assume j: "j < n \<and> c = (k + j + 1) mod n"
    with ex have "(k + 1 + j) mod n = (k + 1 + ?i) mod n" by (metis add.assoc add.commute)
    then have "j mod n = ?i mod n" unfolding nat_mod_eq_iff by (metis add.assoc add_left_cancel)
    with j show "j = ?i" by simp
  qed (rule ex)
qed

text \<open>Participants are numbered when their ids are the numbers below their count, each once.\<close>

definition numbered :: "Account list \<Rightarrow> bool" where
  "numbered ps \<longleftrightarrow> ps \<noteq> [] \<and> length ps < 2 ^ 64 \<and> inj_on acc_Id (set ps) \<and>
     acc_Id ` set ps = of_nat ` {..<length ps}"

lemma numbered_unique:
  assumes "numbered ps" and "unat i < length ps"
  shows "\<exists>a. {x \<in> set ps. acc_Id x = i} = {a}"
proof -
  have "i \<in> of_nat ` {..<length ps}" using assms(2) by (intro image_eqI [where x = "unat i"]) simp_all
  then have "i \<in> acc_Id ` set ps" using assms(1) by (simp add: numbered_def)
  then obtain a where "a \<in> set ps" "acc_Id a = i" by blast
  then have "{x \<in> set ps. acc_Id x = i} = {a}" using assms(1) by (auto simp: numbered_def dest: inj_onD)
  then show ?thesis by blast
qed

lemma unat_mod_length:
  assumes "ps \<noteq> []" and "length ps < 2 ^ 64"
  shows "unat (h mod of_nat (length ps) :: u64) = unat h mod length ps"
    and "unat (h mod of_nat (length ps) :: u64) < length ps"
proof -
  have "unat (of_nat (length ps) :: u64) = length ps" using assms(2) by (simp add: unat_of_nat)
  then show "unat (h mod of_nat (length ps) :: u64) = unat h mod length ps" by (simp add: unat_mod)
  then show "unat (h mod of_nat (length ps) :: u64) < length ps" using assms(1) by simp
qed

lemma dpos_numbered:
  assumes repo: "NewLatestStateRepository e w = None" "GetCurrentBlock e w = Some b" and ps: "numbered ps"
    and i: "i = (b_Height b + 1) mod of_nat (length ps)"
  shows "\<exists>a m p'. DposRoleAssignments e w ps p = Inr (Inr (m, a), p') \<and> a \<in> set ps \<and> acc_Id a = i \<and>
    rp_assignments p' = m \<and> dom m = set ps \<and> masters m = {a}"
proof -
  have ne: "ps \<noteq> []" "length ps < 2 ^ 64" using ps by (simp_all add: numbered_def)
  obtain a where a: "{x \<in> set ps. acc_Id x = i} = {a}"
    using numbered_unique [OF ps] unat_mod_length(2) [OF ne] i by blast
  then have "set (filter (\<lambda>d. acc_Id d = i) ps) = {a}" by simp
  moreover have "filter (\<lambda>d. acc_Id d = i) ps \<noteq> []" using a by (auto simp: filter_empty_conv set_eq_iff)
  ultimately have "last (filter (\<lambda>d. acc_Id d = i) ps) = a" using last_in_set by blast
  moreover have "\<exists>d \<in> set ps. acc_Id d = i" using a by auto
  ultimately have "snd (assign_loop i ps (Map.empty, zero_account)) = a"
    by (simp add: assign_loop_master)
  moreover have "a \<in> {x \<in> set ps. acc_Id x = i}" using a by simp
  then have "a \<in> set ps" "acc_Id a = i" by simp_all
  ultimately show ?thesis
    using dpos_assigns [OF repo ne(1) i, of p] a by (auto simp: masters_assigned dom_def split: if_splits)
qed

text \<open>
  delegated roles. For participants numbered from 0, \<open>RoleAssignments\<close> of the dpos policy makes
  exactly one of them master, the one whose id is the next height modulo their number, and reports it;
  afterwards \<open>GetRoles\<close> answers for exactly the participants, with that one master.
\<close>

theorem dpos_one_master:
  assumes "NewLatestStateRepository e w = None" and "GetCurrentBlock e w = Some b" and "numbered ps"
  shows "\<exists>a m p'. DposRoleAssignments e w ps p = Inr (Inr (m, a), p') \<and> a \<in> set ps \<and>
    unat (acc_Id a) = unat (b_Height b + 1) mod length ps \<and>
    (\<forall>x. (snd (DposGetRoles x p') = None \<longleftrightarrow> x \<in> set ps) \<and> (fst (DposGetRoles x p') = Master \<longleftrightarrow> x = a))"
proof -
  have ne: "ps \<noteq> []" "length ps < 2 ^ 64" using assms(3) by (simp_all add: numbered_def)
  obtain a m p' where run: "DposRoleAssignments e w ps p = Inr (Inr (m, a), p')" and a: "a \<in> set ps"
      "acc_Id a = (b_Height b + 1) mod of_nat (length ps)" "rp_assignments p' = m" "masters m = {a}"
    using dpos_numbered [OF assms refl, of p] by blast
  then have m: "m x = Some Master \<longleftrightarrow> x = a" for x by (simp add: masters_def set_eq_iff)
  have "fst (DposGetRoles x p') = Master \<longleftrightarrow> x = a" for x
  proof (cases "m x")
    case None
    with a(3) m [of x] show ?thesis using dpos_role.roles_unknown [of p' x] by auto
  next
    case (Some r)
    with a(3) m [of x] show ?thesis using dpos_role.roles_value [of p' x r] by auto
  qed
  with run a show ?thesis
    using dpos_role.participants_have_roles [OF run] unat_mod_length(1) [OF ne] by metis
qed

definition sample_peers :: "Account list" where
  "sample_peers = [sample_node 2, sample_node 0, sample_node 1]"

lemma sample_numbered: "numbered sample_peers"
proof -
  have "acc_Id ` set sample_peers = {2, 0, 1}" by (simp add: sample_peers_def sample_node_def)
  moreover have "(of_nat :: nat \<Rightarrow> u64) ` {..<length sample_peers} = {2, 0, 1}"
    by (auto simp: sample_peers_def lessThan_Suc)
  moreover have "inj_on acc_Id (set sample_peers)" by (auto simp: sample_peers_def sample_node_def)
  ultimately show ?thesis by (simp add: numbered_def) (simp add: sample_peers_def)
qed

theorem dpos_one_master_witness:
  "\<exists>a m p'. DposRoleAssignments sample_env 4 sample_peers NewDposRole = Inr (Inr (m, a), p') \<and> unat (acc_Id a) = 2"
  using dpos_one_master [of sample_env 4 "sample_block 0 4" sample_peers NewDposRole] sample_numbered
  by (auto simp: sample_block_def sample_peers_def)

text \<open>
  C33: rotation. Over as many consecutive heights as there are numbered participants, every one of
  them is assigned master exactly once.
\<close>

theorem dpos_rotation:
  assumes repo: "\<And>i. i < length ps \<Longrightarrow> NewLatestStateRepository e (w i) = None"
      "\<And>i. i < length ps \<Longrightarrow> GetCurrentBlock e (w i) = Some (b i)"
    and h: "\<And>i. i < length ps \<Longrightarrow> unat (b_Height (b i)) = k + i"
    and ps: "numbered ps" and bound: "k + length ps < 2 ^ 64" and x: "x \<in> set ps"
  shows "\<exists>!i. i < length ps \<and> (\<exists>m p'. DposRoleAssignments e (w i) ps p = Inr (Inr (m, x), p'))"
proof -
  let ?n = "length ps"
  have n: "ps \<noteq> []" "?n < 2 ^ 64" "0 < ?n" "inj_on acc_Id (set ps)" using ps by (auto simp: numbered_def)
  have "(\<exists>m p'. DposRoleAssignments e (w i) ps p = Inr (Inr (m, x), p')) \<longleftrightarrow> unat (acc_Id x) = (k + i + 1) mod ?n"
    if i: "i < ?n" for i
  proof -
    have "unat (b_Height (b i)) \<noteq> unat (- 1 :: u64)"
      using h [OF i] i bound by (simp add: unsigned_minus_1_eq_mask mask_eq_exp_minus_1)
    then have "b_Height (b i) \<noteq> - 1" by auto
    then have s: "unat (b_Height (b i) + 1) = k + i + 1" using h [OF i] by (simp add: unat_succ)
    obtain a m p' where a: "DposRoleAssignments e (w i) ps p = Inr (Inr (m, a), p')" "a \<in> set ps"
        "acc_Id a = (b_Height (b i) + 1) mod of_nat ?n"
      using dpos_numbered [OF repo(1) [OF i] repo(2) [OF i] ps refl, of p] by blast
    then have id: "unat (acc_Id a) = (k + i + 1) mod ?n" using unat_mod_length(1) [OF n(1,2)] s by simp
    have "(\<exists>m p'. DposRoleAssignments e (w i) ps p = Inr (Inr (m, x), p')) \<longleftrightarrow> x = a" using a(1) by auto
    also have "\<dots> \<longleftrightarrow> acc_Id x = acc_Id a" using n(4) x a(2) by (auto dest: inj_onD)
    also have "\<dots> \<longleftrightarrow> unat (acc_Id x) = (k + i + 1) mod ?n" using id by (simp add: word_unat_eq_iff)
    finally show ?thesis .
  qed
  moreover have "\<exists>!i. i < ?n \<and> unat (acc_Id x) = (k + i + 1) mod ?n"
  proof -
    have "acc_Id x \<in> of_nat ` {..<?n}" using ps x by (simp add: numbered_def) (metis image_eqI)
    then have "unat (acc_Id x) < ?n" using n(2) by (auto simp: unat_of_nat)
    then show ?thesis by (rule unique_residue)
  qed
  ultimately show ?thesis by (metis (no_types, lifting))
qed

theorem dpos_rotation_witness:
  "\<exists>!i. i < 3 \<and> (\<exists>m p'. DposRoleAssignments sample_env (of_nat (4 + i)) sample_peers NewDposRole =
     Inr (Inr (m, sample_node 0), p'))"
proof -
  have n: "length sample_peers = 3" "sample_node 0 \<in> set sample_peers" by (simp_all add: sample_peers_def)
  have "unat (b_Height (sample_block 0 (of_nat (4 + i)))) = 4 + i" if "i < 3" for i
    using that by (simp add: sample_block_def unat_of_nat del: of_nat_add)
  then show ?thesis
    using dpos_rotation [of sample_peers sample_env "\<lambda>i. of_nat (4 + i)" "\<lambda>i. sample_block 0 (of_nat (4 + i))" 4
        "sample_node 0" NewDposRole, OF _ _ _ sample_numbered] n
    by (simp del: of_nat_add)
qed

lemma appoint_needs_master: "masters (rp_assignments p) = {} \<Longrightarrow> fst (DposAppointRole order y p) \<noteq> None"
  by (simp add: DposAppointRole_def masters_def)

text \<open>
  \<open>AppointRole\<close> on an assignment with one master. Appointing another participant moves the role
  to it; appointing the present master again reports success and leaves the participants without any
  master, because the previous master is written back as a slave last. From then on the call fails
  for everyone. An account without a role is refused and nothing changes.
\<close>

theorem AppointRole_effect:
  assumes one: "masters (rp_assignments p) = {a}" and order: "set order = dom (rp_assignments p)"
    and run: "DposAppointRole order x p = (r, p')"
  shows "(r = None \<longleftrightarrow> x \<in> dom (rp_assignments p)) \<and> (r \<noteq> None \<longrightarrow> p' = p) \<and>
    (r = None \<longrightarrow> dom (rp_assignments p') = dom (rp_assignments p) \<and> masters (rp_assignments p') = {x} - {a}) \<and>
    (x = a \<longrightarrow> (\<forall>order' y. fst (DposAppointRole order' y p') \<noteq> None))"
proof -
  have a: "rp_assignments p y = Some Master \<longleftrightarrow> y = a" for y using one by (auto simp: masters_def set_eq_iff)
  then have "set (filter (\<lambda>y. rp_assignments p y = Some Master) order) = {a}" using order by auto
  then obtain ys where "filter (\<lambda>y. rp_assignments p y = Some Master) order = a # ys"
    by (cases "filter (\<lambda>y. rp_assignments p y = Some Master) order") auto
  then have run': "DposAppointRole order x p =
      (if x \<notin> dom (rp_assignments p) then (Some (ErrMessage ''appoint account is not a delegate''), p)
       else (None, p\<lparr>rp_assignments := (rp_assignments p)(x \<mapsto> Master, a \<mapsto> Slave)\<rparr>))"
    by (simp add: DposAppointRole_def domIff)
  show ?thesis
  proof (cases "x \<in> dom (rp_assignments p)")
    case False
    with a [of x] run run' show ?thesis by auto
  next
    case True
    with run run' have p': "r = None" "rp_assignments p' = (rp_assignments p)(x \<mapsto> Master, a \<mapsto> Slave)" by auto
    have "a \<in> dom (rp_assignments p)" using a [of a] by auto
    with True p'(2) have d: "dom (rp_assignments p') = dom (rp_assignments p)" by auto
    have m: "masters (rp_assignments p') = {x} - {a}" using a by (auto simp: p'(2) masters_def split: if_splits)
    have "fst (DposAppointRole order' y p') \<noteq> None" if "x = a" for order' y
      using m that by (intro appoint_needs_master) simp
    with True p'(1) d m show ?thesis by blast
  qed
qed

theorem AppointRole_effect_witness:
  "masters (rp_assignments (snd (DposAppointRole [sample_node 1] (sample_node 1)
     (NewDposRole\<lparr>rp_assignments := [sample_node 1 \<mapsto> Master]\<rparr>)))) = {}"
proof -
  let ?p = "NewDposRole\<lparr>rp_assignments := [sample_node 1 \<mapsto> Master]\<rparr>"
  have "masters (rp_assignments ?p) = {sample_node 1}" "set [sample_node 1] = dom (rp_assignments ?p)"
    by (auto simp: masters_def split: if_splits)
  from AppointRole_effect [OF this prod.collapse [symmetric], of "sample_node 1"] show ?thesis by simp
qed

text \<open>
  \<open>RoleAssignments\<close> of the dpos policy never checks that it found a master. When no participant
  has the id it computes, it reports success with the zero account as master, and every participant
  is a slave; with no participants at all it panics with a division by zero.
\<close>

theorem dpos_masterless:
  assumes repo: "NewLatestStateRepository e w = None" "GetCurrentBlock e w = Some b"
    and ids: "(b_Height b + 1) mod of_nat (length ps) \<notin> acc_Id ` set ps"
  shows "if ps = [] then DposRoleAssignments e w ps p = Inl IntegerDivideByZero
    else \<exists>m p'. DposRoleAssignments e w ps p = Inr (Inr (m, zero_account), p') \<and> masters (rp_assignments p') = {} \<and>
      (\<forall>x \<in> set ps. DposGetRoles x p' = (Slave, None))"
proof (cases "ps = []")
  case True
  with repo show ?thesis by (simp add: DposRoleAssignments_def)
next
  case False
  let ?i = "(b_Height b + 1) mod of_nat (length ps)"
  have no: "acc_Id d \<noteq> ?i" if "d \<in> set ps" for d using ids that by (metis image_eqI)
  then have z: "snd (assign_loop ?i ps (Map.empty, zero_account)) = zero_account"
    by (auto simp: assign_loop_master)
  obtain m p' where run: "DposRoleAssignments e w ps p = Inr (Inr (m, zero_account), p')" "rp_assignments p' = m"
      and m: "m = (\<lambda>x. if x \<in> set ps then Some (if acc_Id x = ?i then Master else Slave) else None)"
    using dpos_assigns [OF repo False refl, of p] unfolding z by blast
  have "masters m = {}" using no by (auto simp: m masters_assigned)
  moreover have "DposGetRoles x p' = (Slave, None)" if "x \<in> set ps" for x
  proof -
    have "m x = Some Slave" using no [OF that] that by (simp add: m)
    with run(2) show ?thesis by (auto simp: DposGetRoles_def)
  qed
  ultimately show ?thesis using False run by auto
qed

theorem dpos_masterless_witness:
  "(\<exists>m p'. DposRoleAssignments sample_env 4 [sample_node 2, sample_node 3] NewDposRole = Inr (Inr (m, zero_account), p')) \<and>
   DposRoleAssignments sample_env 4 [] NewDposRole = Inl IntegerDivideByZero"
  using dpos_masterless [of sample_env 4 "sample_block 0 4" "[sample_node 2, sample_node 3]" NewDposRole]
    dpos_masterless [of sample_env 4 "sample_block 0 4" "[]" NewDposRole]
  by (auto simp: sample_block_def sample_node_def)

section \<open>From the participants to a round\<close>

text \<open>
  the solo policies fit together. The participant of the participates policy is accepted by the
  role policy, which makes it the master, and by the consensus policy; a node initialised this way
  reports that participant as the only one and as master, and a block that the validator returns
  with a signature of the participant, the only valid one, succeeds in the next round.
\<close>

theorem solo_setup:
  assumes accept: "validate solo_participate (prop_Block pr) (sp_enableLocalSignatureVerify p) = (None, b)"
    and signed: "{a. \<exists>v \<in> set (b_SigData b). signature_Verify e (b_MixDigest b) v = (a, None)} =
      {acc_Address solo_participate}"
  shows "\<exists>ps pa' m a r' p' p''. SoloGetParticipates pa = (Inr ps, pa') \<and>
    SoloRoleAssignments ps r = Inr (Inr (m, a), r') \<and> SoloGetRoles a r' = (Master, None) \<and>
    SoloInitialization a a ps p = Inr p' \<and>
    SoloGetConsensusResult p' = \<lparr>ci_View = 0, ci_Participate = [a], ci_Master = a\<rparr> \<and>
    SoloToConsensus e validate pr p' = Inr (None, p'')"
proof -
  let ?a = solo_participate
  let ?p = "p\<lparr>sp_local := ?a, sp_master := ?a, sp_peers := [?a], sp_eventCenter := True\<rparr>"
  have "SoloRoleAssignments [?a] r = Inr (Inr ([?a \<mapsto> Master], ?a), r\<lparr>rp_participates := [?a], rp_assignments := [?a \<mapsto> Master]\<rparr>)"
    by (simp add: SoloRoleAssignments_def)
  moreover have "SoloGetRoles ?a (r\<lparr>rp_participates := [?a], rp_assignments := [?a \<mapsto> Master]\<rparr>) = (Master, None)"
    by (auto simp: SoloGetRoles_def dest: fun_cong)
  moreover have "SoloInitialization ?a ?a [?a] p = Inr ?p" by (simp add: SoloInitialization_def SoloConsensusNum_def)
  moreover have "\<exists>p''. SoloToConsensus e validate pr ?p = Inr (None, p'')"
    using solo_round_result [of ?p validate pr None b _ e] accept signed by (auto simp: SoloConsensusNum_def)
  ultimately show ?thesis
    by (auto simp: SoloGetParticipates_def SoloGetConsensusResult_def Let_def)
qed

theorem solo_setup_witness:
  "\<exists>p''. SoloToConsensus (sample_env\<lparr>signature_Verify := \<lambda>d v. (acc_Address solo_participate, None)\<rparr>)
     (\<lambda>a b f. (None, b)) \<lparr>prop_Block = sample_block 7 3, prop_Timestamp = 0\<rparr>
     (sample_solo\<lparr>sp_local := solo_participate, sp_master := solo_participate, sp_peers := [solo_participate]\<rparr>) =
     Inr (None, p'')"
proof -
  let ?e = "sample_env\<lparr>signature_Verify := \<lambda>d v. (acc_Address solo_participate, None)\<rparr>"
  let ?v = "\<lambda>a b f. (None, b)"
  let ?pr = "\<lparr>prop_Block = sample_block 7 3, prop_Timestamp = 0\<rparr>"
  have v: "?v solo_participate (prop_Block ?pr) (sp_enableLocalSignatureVerify sample_solo) = (None, sample_block 7 3)"
    by simp
  have S: "{a. \<exists>v \<in> set (b_SigData (sample_block 7 3)). signature_Verify ?e (b_MixDigest (sample_block 7 3)) v = (a, None)} =
      {acc_Address solo_participate}"
    by (auto simp: sample_block_def)
  show ?thesis
    using solo_setup [where validate = ?v and p = sample_solo, OF v S, of NewSoloParticipates NewSoloRole]
    by (auto simp: SoloGetParticipates_def SoloRoleAssignments_def SoloInitialization_def SoloConsensusNum_def sample_solo_def NewSoloPolicy_def
        Let_def)
qed

end
