(* ===== verification/Bft_Core.thy ===== *)
theory Bft_Core
  imports Event_Loop "HOL-Library.Signed_Division"
begin

text \<open>
  \<^verbatim>\<open>consensus/policy/bft/bft-core.go\<close>: the state of a node that runs the BFT policy and one
  definition per function. The DBFT core has the same fields and two more, so the operations are
  defined on every extension of the record.

  Blocks are reached through pointers that the code shares: the block a caller proposes, the block in
  the record of a payload and the block that is committed can be one object. So blocks live in
  \<open>bc_heap\<close> and are named by references. The unbuffered channels \<open>tunnel\<close> and \<open>result\<close>
  hold no values: \<open>bc_tunnel\<close> is the number of \<open>receiveResponse\<close> calls blocked on the first,
  each of which holds the read lock of \<open>mutex\<close>; \<open>bc_result\<close> are the values of the senders
  blocked on the second. \<open>bc_waiters\<close> are the \<open>waitResponse\<close> goroutines: one collects until
  its timer fires or all peers have signed, then waits for the write lock with its result. A
  \<open>for account, sign := range signMap\<close> visits the accounts in an order Go does not fix: it is the
  argument \<open>order\<close>, which lists the keys of the map, so its length is the length of the map.
\<close>

section \<open>State\<close>

type_synonym block_ref = nat

record signData =
  sd_signatures :: "bytes list"
  sd_signMap :: "Account \<rightharpoonup> bytes"

record payloadSets =
  ps_block :: block_ref
  ps_receipts :: receipts

datatype waitState = Collecting | Committing ConsensusResult

record 'w bftCore =
  bc_local :: Account
  bc_master :: Account
  bc_peers :: "Account list"
  bc_signature :: signData
  bc_tolerance :: u8
  bc_commit :: bool
  bc_digest :: hash
  bc_result :: "ConsensusResult list"
  bc_tunnel :: nat
  bc_validator :: "hash \<rightharpoonup> payloadSets"
  bc_payloads :: "hash \<rightharpoonup> block_ref"
  bc_eventCenter :: bool
  bc_waiters :: "waitState list"
  bc_heap :: "Block list"
  bc_chain :: 'w
  bc_effects :: "effect list"

definition new_signData :: signData where
  "new_signData = \<lparr>sd_signatures = [], sd_signMap = Map.empty\<rparr>"

definition bft_addSignature :: "Account \<Rightarrow> bytes \<Rightarrow> signData \<Rightarrow> signData" where
  "bft_addSignature account sign s =
     s\<lparr>sd_signMap := (sd_signMap s)(account \<mapsto> sign), sd_signatures := sd_signatures s @ [sign]\<rparr>"

definition NewBFTCore :: "'w \<Rightarrow> 'w bftCore" where
  "NewBFTCore chain =
     \<lparr>bc_local = zero_account, bc_master = zero_account, bc_peers = [], bc_signature = new_signData,
      bc_tolerance = 0, bc_commit = False, bc_digest = 0, bc_result = [], bc_tunnel = 0,
      bc_validator = Map.empty, bc_payloads = Map.empty, bc_eventCenter = False, bc_waiters = [],
      bc_heap = [], bc_chain = chain, bc_effects = []\<rparr>"

section \<open>Events\<close>

text \<open>The message structs that hold a pointer to a block, and the values \<open>ProcessEvent\<close> is given.\<close>

record requestRef =
  rq_Timestamp :: i64
  rq_Payload :: block_ref

record proposalRef =
  pr_Account :: Account
  pr_Timestamp :: i64
  pr_Payload :: block_ref
  pr_Signature :: bytes

datatype core_event =
    CoreRequest "requestRef option"
  | CoreProposal "proposalRef option"
  | CoreResponse "Response option"
  | CoreCommit "Commit option"
  | CoreSyncBlockReq "SyncBlockReq option"
  | CoreSyncBlockResp "SyncBlockResp option"
  | CoreViewChangeReq "ViewChangeReq option"
  | CoreError error
  | CoreOther string

section \<open>The heap, effects\<close>

definition load_block :: "block_ref \<Rightarrow> ('w, 'z) bftCore_scheme \<Rightarrow> Block" where
  "load_block r s = bc_heap s ! r"

definition store_block :: "block_ref \<Rightarrow> Block \<Rightarrow> ('w, 'z) bftCore_scheme \<Rightarrow> ('w, 'z) bftCore_scheme" where
  "store_block r b s = s\<lparr>bc_heap := (bc_heap s)[r := b]\<rparr>"

definition alloc_block :: "Block \<Rightarrow> ('w, 'z) bftCore_scheme \<Rightarrow> block_ref \<times> ('w, 'z) bftCore_scheme" where
  "alloc_block b s = (length (bc_heap s), s\<lparr>bc_heap := bc_heap s @ [b]\<rparr>)"

definition clear_SigData :: "block_ref \<Rightarrow> ('w, 'z) bftCore_scheme \<Rightarrow> ('w, 'z) bftCore_scheme" where
  "clear_SigData r s = store_block r (set_SigData [] (load_block r s)) s"

definition bc_emit ::
  "(effect list \<Rightarrow> effect list) \<Rightarrow> ('w, 'z) bftCore_scheme \<Rightarrow> ('w, 'z) bftCore_scheme" where
  "bc_emit g s = s\<lparr>bc_effects := g (bc_effects s)\<rparr>"

text \<open>The event centre is nil until \<open>Initialization\<close>.\<close>

definition bc_notify :: "EventType \<Rightarrow> ('w, 'z) bftCore_scheme \<Rightarrow> ('w, 'z) bftCore_scheme outcome" where
  "bc_notify ev s =
     (if bc_eventCenter s then Inr (bc_emit (\<lambda>eff. eff @ [Notify ev]) s) else Inl NilDereference)"

section \<open>Sending\<close>

fun bft_broadcastByOrder :: "bytes \<Rightarrow> Account list \<Rightarrow> effect list \<Rightarrow> effect list" where
  "bft_broadcastByOrder msgPayload [] eff = eff"
| "bft_broadcastByOrder msgPayload (peer # peers) eff =
     bft_broadcastByOrder msgPayload peers (sendMsgByUrl (acc_Url peer) msgPayload eff)"

definition bft_broadcast :: "bytes \<Rightarrow> ('w, 'z) bftCore_scheme \<Rightarrow> ('w, 'z) bftCore_scheme" where
  "bft_broadcast msgPayload s = bc_emit (bft_broadcastByOrder msgPayload (bc_peers s)) s"

definition bft_unicast :: "Account \<Rightarrow> bytes \<Rightarrow> ('w, 'z) bftCore_scheme \<Rightarrow> ('w, 'z) bftCore_scheme" where
  "bft_unicast account msgPayload s = bc_emit (sendMsgByUrl (acc_Url account) msgPayload) s"

section \<open>Verification and signatures\<close>

definition bft_verifyPayload :: "'w env \<Rightarrow> Block \<Rightarrow> ('w, 'z) bftCore_scheme \<Rightarrow> error + receipts" where
  "bft_verifyPayload e payload s =
     (case NewRepositoryByBlockHash e (bc_chain s) (b_PrevBlockHash payload) of
        Some err \<Rightarrow> Inl err
      | None \<Rightarrow>
          (case worker_VerifyBlock e (bc_chain s) (RepositoryByBlockHash (b_PrevBlockHash payload)) payload True of
             Inl err \<Rightarrow> Inl err
           | Inr receipts \<Rightarrow> Inr receipts))"

definition bft_signPayload :: "'w env \<Rightarrow> hash \<Rightarrow> ('w, 'z) bftCore_scheme \<Rightarrow> error + bytes" where
  "bft_signPayload e digest s =
     (case signature_Sign e (bc_local s) digest of Inl err \<Rightarrow> Inl err | Inr sign \<Rightarrow> Inr sign)"

text \<open>The error of \<open>signature.Verify\<close> is only logged.\<close>

definition bft_signDataVerify :: "'w env \<Rightarrow> Account \<Rightarrow> bytes \<Rightarrow> hash \<Rightarrow> bool" where
  "bft_signDataVerify e account sign digest =
     (case signature_Verify e digest sign of (address, err) \<Rightarrow> acc_Address account = address)"

fun bft_reallySignature ::
  "'w env \<Rightarrow> hash \<Rightarrow> (Account \<rightharpoonup> bytes) \<Rightarrow> Account list \<Rightarrow> bytes list \<Rightarrow> bytes list" where
  "bft_reallySignature e digest signMap [] really = really"
| "bft_reallySignature e digest signMap (account # order) really =
     bft_reallySignature e digest signMap order
       (case signMap account of
          None \<Rightarrow> really
        | Some sign \<Rightarrow> if bft_signDataVerify e account sign digest then really @ [sign] else really)"

definition bft_maybeCommit ::
  "'w env \<Rightarrow> Account list \<Rightarrow> ('w, 'z) bftCore_scheme \<Rightarrow> bytes list \<times> error option" where
  "bft_maybeCommit e order s =
     (let signatures = sd_signatures (bc_signature s);
          signMap = sd_signMap (bc_signature s)
      in if length signatures \<noteq> length order then ([], Some ErrSignMapMismatch)
         else
           (let really = bft_reallySignature e (bc_digest s) signMap order []
            in if (of_nat (length really) :: u8) < of_nat (length (bc_peers s)) - bc_tolerance s
               then (really, Some ErrSignatureNotSatisfy)
               else (really, None)))"

section \<open>Requests, proposals and responses\<close>

text \<open>The record of a verified payload: an entry that exists keeps its block.\<close>

definition bft_record :: "hash \<Rightarrow> block_ref \<Rightarrow> receipts \<Rightarrow> ('w, 'z) bftCore_scheme \<Rightarrow> ('w, 'z) bftCore_scheme" where
  "bft_record digest r receipts s =
     s\<lparr>bc_validator := (bc_validator s)(digest \<mapsto>
         (case bc_validator s digest of
            None \<Rightarrow> \<lparr>ps_block = r, ps_receipts = receipts\<rparr>
          | Some values \<Rightarrow> values\<lparr>ps_receipts := receipts\<rparr>))\<rparr>"

definition proposal_message :: "Account \<Rightarrow> i64 \<Rightarrow> Block \<Rightarrow> bytes \<Rightarrow> Message" where
  "proposal_message local timestamp block sign =
     \<lparr>msg_Type = ProposalMessageType,
      msg_PayLoad = ProposalMessage (Some
        \<lparr>pro_Account = local, pro_Timestamp = timestamp, pro_Payload = block, pro_Signature = sign\<rparr>)\<rparr>"

text \<open>
  \<open>receiveRequest\<close> looks at the request only on the master, so a nil request panics there alone.
\<close>

definition bft_receiveRequest ::
  "'w env \<Rightarrow> requestRef option \<Rightarrow> ('w, 'z) bftCore_scheme \<Rightarrow> ('w, 'z) bftCore_scheme outcome" where
  "bft_receiveRequest e req s =
     (if bc_local s \<noteq> bc_master s then Inr s
      else
        (case req of
           None \<Rightarrow> Inl NilDereference
         | Some request \<Rightarrow>
             (let r = rq_Payload request; payload = load_block r s; digest = b_MixDigest payload
              in if length (b_SigData payload) \<noteq> 1 then Inr s
                 else
                   (case bft_verifyPayload e payload s of
                      Inl err \<Rightarrow> Inr s
                    | Inr receipts \<Rightarrow>
                        (case bft_signPayload e digest s of
                           Inl err \<Rightarrow> Inr s
                         | Inr sign \<Rightarrow>
                             (let s1 = bft_record digest r receipts s
                              in case encode e (proposal_message (bc_local s) (rq_Timestamp request) payload sign) of
                                   Inl err \<Rightarrow> Inr s1
                                 | Inr msgRaw \<Rightarrow>
                                     (let s2 = s1\<lparr>bc_digest := digest,
                                                  bc_signature := bft_addSignature (bc_local s) sign (bc_signature s1)\<rparr>;
                                          s3 = bft_broadcast msgRaw s2
                                      in Inr (s3\<lparr>bc_waiters := bc_waiters s3 @ [Collecting]\<rparr>))))))))"

definition bft_response_message :: "Account \<Rightarrow> i64 \<Rightarrow> hash \<Rightarrow> bytes \<Rightarrow> Message" where
  "bft_response_message local timestamp digest sign =
     \<lparr>msg_Type = ResponseMessageType,
      msg_PayLoad = ResponseMessage (Some
        \<lparr>res_Account = local, res_Timestamp = timestamp, res_Digest = digest, res_Signature = sign,
         res_BlockHeight = 0\<rparr>)\<rparr>"

text \<open>From the verification on, \<open>receiveProposal\<close> of both cores runs the same statements.\<close>

definition bft_answer ::
  "'w env \<Rightarrow> proposalRef \<Rightarrow> ('w, 'z) bftCore_scheme \<Rightarrow> ('w, 'z) bftCore_scheme outcome" where
  "bft_answer e proposal s =
     (let r = pr_Payload proposal; payload = load_block r s; digest = b_MixDigest payload
      in case bft_verifyPayload e payload s of
           Inl err \<Rightarrow> Inr s
         | Inr receipts \<Rightarrow>
             (case bft_signPayload e digest s of
                Inl err \<Rightarrow> Inr s
              | Inr sign \<Rightarrow>
                  (let s1 = bft_record digest r receipts s
                   in case encode e (bft_response_message (bc_local s) (pr_Timestamp proposal) digest sign) of
                        Inl err \<Rightarrow> Inr s1
                      | Inr msgRaw \<Rightarrow> Inr (bft_unicast (bc_master s) msgRaw s1))))"

definition bft_receiveProposal ::
  "'w env \<Rightarrow> proposalRef \<Rightarrow> ('w, 'z) bftCore_scheme \<Rightarrow> ('w, 'z) bftCore_scheme outcome" where
  "bft_receiveProposal e proposal s =
     (if bc_local s = bc_master s then Inr s
      else if bc_master s \<noteq> pr_Account proposal then Inr s
      else if \<not> bft_signDataVerify e (bc_master s) (pr_Signature proposal) (b_MixDigest (load_block (pr_Payload proposal) s))
      then Inr s
      else bft_answer e proposal s)"

text \<open>
  \<open>receiveResponse\<close> up to \<^verbatim>\<open>instance.tunnel <- 1\<close>: a call that adds a signature is blocked
  there, with the read lock, until a \<open>waitResponse\<close> goroutine receives.
\<close>

definition bft_receiveResponse ::
  "'w env \<Rightarrow> Response \<Rightarrow> ('w, 'z) bftCore_scheme \<Rightarrow> ('w, 'z) bftCore_scheme outcome" where
  "bft_receiveResponse e response s =
     (if bc_commit s then Inr s
      else if bc_local s \<noteq> bc_master s then Inr s
      else if bc_digest s \<noteq> res_Digest response then Inr s
      else
        (let peer = GetAccountById (bc_peers s) (acc_Id (res_Account response))
         in if \<not> bft_signDataVerify e peer (res_Signature response) (bc_digest s) then Inr s
            else
              (case sd_signMap (bc_signature s) peer of
                 None \<Rightarrow>
                   Inr (s\<lparr>bc_signature := bft_addSignature peer (res_Signature response) (bc_signature s),
                          bc_tunnel := bc_tunnel s + 1\<rparr>)
               | Some sign \<Rightarrow> Inr s)))"

section \<open>Waiting for responses\<close>

text \<open>
  One \<open>waitResponse\<close> goroutine, the \<open>i\<close>-th of the list: its turn when the timer fires, its turn
  when it receives from the tunnel, and the moment it gets the write lock, which it can only get
  when no call holds the read lock. Then it sets \<open>commit\<close> and is blocked sending its result.
\<close>

definition bft_waitResponse_timeout ::
  "'w env \<Rightarrow> Account list \<Rightarrow> nat \<Rightarrow> ('w, 'z) bftCore_scheme \<Rightarrow> ('w, 'z) bftCore_scheme" where
  "bft_waitResponse_timeout e order i s =
     (let (signatures, err) = bft_maybeCommit e order s
      in s\<lparr>bc_waiters := (bc_waiters s)[i := Committing \<lparr>cr_Signatures = signatures, cr_Result = err\<rparr>]\<rparr>)"

definition bft_waitResponse_tunnel ::
  "'w env \<Rightarrow> Account list \<Rightarrow> nat \<Rightarrow> ('w, 'z) bftCore_scheme \<Rightarrow> ('w, 'z) bftCore_scheme" where
  "bft_waitResponse_tunnel e order i s =
     (let s1 = s\<lparr>bc_tunnel := bc_tunnel s - 1\<rparr>;
          (signatures, err) = bft_maybeCommit e order s1
      in if length signatures = length (bc_peers s1)
         then s1\<lparr>bc_waiters := (bc_waiters s1)[i := Committing \<lparr>cr_Signatures = signatures, cr_Result = err\<rparr>]\<rparr>
         else s1)"

definition bft_waitResponse_commit ::
  "nat \<Rightarrow> ConsensusResult \<Rightarrow> ('w, 'z) bftCore_scheme \<Rightarrow> ('w, 'z) bftCore_scheme" where
  "bft_waitResponse_commit i res s =
     s\<lparr>bc_commit := True, bc_waiters := take i (bc_waiters s) @ drop (Suc i) (bc_waiters s),
       bc_result := bc_result s @ [res]\<rparr>"

section \<open>Commit\<close>

text \<open>
  \<^verbatim>\<open>for index, accounts := range instance.peers\<close> with a condition on the index, from a first index on.
\<close>

fun filter_index :: "(int \<Rightarrow> bool) \<Rightarrow> int \<Rightarrow> Account list \<Rightarrow> Account list \<Rightarrow> Account list" where
  "filter_index keep index [] peers = peers"
| "filter_index keep index (account # accounts) peers =
     filter_index keep (index + 1) accounts (if keep index then peers @ [account] else peers)"

definition index_peers :: "Account list \<Rightarrow> int \<Rightarrow> Account outcome" where
  "index_peers peers i = (if 0 \<le> i \<and> i < int (length peers) then Inr (peers ! nat i) else Inl IndexOutOfRange)"

definition bft_getCommitOrder ::
  "error option \<Rightarrow> int \<Rightarrow> ('w, 'z) bftCore_scheme \<Rightarrow> Account list outcome" where
  "bft_getCommitOrder result currentMaster s =
     bindP
       (if result = None
        then bindP (index_peers (bc_peers s) currentMaster) (\<lambda>a.
               Inr ([a], (1 + currentMaster) smod int (length (bc_peers s))))
        else Inr ([], - 1))
       (\<lambda>(peers, nextMaster).
          let peers1 = filter_index (\<lambda>index. index \<noteq> currentMaster \<and> index \<noteq> nextMaster) 0 (bc_peers s) peers
          in bindP (index_peers (bc_peers s) (if nextMaster \<noteq> - 1 then nextMaster else currentMaster))
               (\<lambda>a. Inr (peers1 @ [a])))"

definition bft_commitFilter :: "Account \<Rightarrow> ('w, 'z) bftCore_scheme \<Rightarrow> Account list" where
  "bft_commitFilter blacklist s =
     filter_index (\<lambda>index. index \<noteq> sint (acc_Id blacklist)) 0 (bc_peers s) []"

definition bft_commitBlock ::
  "'w env \<Rightarrow> block_ref \<Rightarrow> ('w, 'z) bftCore_scheme \<Rightarrow> ('w, 'z) bftCore_scheme outcome" where
  "bft_commitBlock e r s =
     (let block = load_block r s; repo = RepositoryByBlockHash (b_PrevBlockHash block)
      in if NewRepositoryByBlockHash e (bc_chain s) (b_PrevBlockHash block) \<noteq> None
         then Inr (clear_SigData r s)
         else
           (let block1 = block\<lparr>b_HeaderHash := HeaderHash e block\<rparr>;
                s1 = store_block r block1 s
            in case bc_validator s1 (b_MixDigest block1) of
                 None \<Rightarrow> Inl NilDereference
               | Some payload \<Rightarrow>
                   (case WriteBlockWithReceipts e (bc_chain s1) repo block1 (ps_receipts payload) of
                      (err, chain) \<Rightarrow>
                        (let s2 = s1\<lparr>bc_chain := chain\<rparr>
                         in Inr (if err \<noteq> None then clear_SigData r s2 else s2)))))"

definition commit_message_of :: "Commit \<Rightarrow> Message" where
  "commit_message_of commit = \<lparr>msg_Type = CommitMessageType, msg_PayLoad = CommitMessage (Some commit)\<rparr>"

definition bft_SendCommit ::
  "'w env \<Rightarrow> Commit \<Rightarrow> block_ref \<Rightarrow> ('w, 'z) bftCore_scheme \<Rightarrow> ('w, 'z) bftCore_scheme outcome" where
  "bft_SendCommit e commit r s =
     (case encode e (commit_message_of commit) of
        Inl err \<Rightarrow> Inr s
      | Inr msgRaw \<Rightarrow>
          if \<not> com_Result commit
          then bc_notify EventConsensusFailed (bc_emit (bft_broadcastByOrder msgRaw (bft_commitFilter (bc_local s) s)) s)
          else if bc_peers s = [] then Inl IntegerDivideByZero
          else
            (let nextMaster = sint (acc_Id (bc_local s) + 1) smod int (length (bc_peers s));
                 peers = filter_index (\<lambda>index. index \<noteq> nextMaster \<and> index \<noteq> sint (acc_Id (bc_local s))) 0
                           (bc_peers s) []
             in bindP (index_peers (bc_peers s) nextMaster) (\<lambda>next.
                  bindP (bft_commitBlock e r s) (\<lambda>s1.
                    Inr (bc_emit (bft_broadcastByOrder msgRaw (peers @ [next])) s1)))))"

definition bft_receiveCommit ::
  "'w env \<Rightarrow> Commit \<Rightarrow> ('w, 'z) bftCore_scheme \<Rightarrow> ('w, 'z) bftCore_scheme outcome" where
  "bft_receiveCommit e commit s =
     (if \<not> com_Result commit then bc_notify EventConsensusFailed s
      else
        (case bc_validator s (com_Digest commit) of
           None \<Rightarrow> Inr s
         | Some payload \<Rightarrow>
             (let r = ps_block payload;
                  block = set_SigData (com_Signatures commit) (load_block r s);
                  s1 = store_block r block s;
                  blockHash = HeaderHash e block
              in if blockHash \<noteq> com_BlockHash commit then Inr (clear_SigData r s1)
                 else if NewRepositoryByBlockHash e (bc_chain s1) (b_PrevBlockHash block) \<noteq> None
                 then Inr (clear_SigData r s1)
                 else
                   (let block1 = block\<lparr>b_HeaderHash := HeaderHash e block\<rparr>;
                        s2 = store_block r block1 s1
                    in case WriteBlockWithReceipts e (bc_chain s2) (RepositoryByBlockHash (b_PrevBlockHash block1))
                              block1 (ps_receipts payload) of
                         (err, chain) \<Rightarrow>
                           (let s3 = s2\<lparr>bc_chain := chain\<rparr>
                            in Inr (if err \<noteq> None then clear_SigData r s3 else s3))))))"

section \<open>Dispatch\<close>

definition core_handle ::
  "'m option \<Rightarrow> ('m \<Rightarrow> 's \<Rightarrow> 's outcome) \<Rightarrow> 's \<Rightarrow> ('s \<times> core_event option) outcome" where
  "core_handle m handler s =
     (case m of
        None \<Rightarrow> Inl NilDereference
      | Some et \<Rightarrow> bindP (handler et s) (\<lambda>s'. Inr (s', None)))"

definition bft_ProcessEvent :: "'w env \<Rightarrow> 'w bftCore \<Rightarrow> core_event \<Rightarrow> ('w bftCore \<times> core_event option) outcome" where
  "bft_ProcessEvent e s ev =
     (case ev of
        CoreRequest et \<Rightarrow> bindP (bft_receiveRequest e et s) (\<lambda>s'. Inr (s', None))
      | CoreProposal et \<Rightarrow> core_handle et (bft_receiveProposal e) s
      | CoreResponse et \<Rightarrow> core_handle et (bft_receiveResponse e) s
      | CoreCommit et \<Rightarrow> core_handle et (bft_receiveCommit e) s
      | _ \<Rightarrow> Inr (s, Some (CoreError ErrUnsupportedEvent)))"

fun bft_known :: "core_event \<Rightarrow> bool" where
  "bft_known (CoreRequest _) = True"
| "bft_known (CoreProposal _) = True"
| "bft_known (CoreResponse _) = True"
| "bft_known (CoreCommit _) = True"
| "bft_known _ = False"

text \<open>A decoded message brings its block with it.\<close>

definition request_event :: "Request option \<Rightarrow> ('w, 'z) bftCore_scheme \<Rightarrow> core_event \<times> ('w, 'z) bftCore_scheme" where
  "request_event m s =
     (case m of
        None \<Rightarrow> (CoreRequest None, s)
      | Some request \<Rightarrow>
          (case alloc_block (req_Payload request) s of
             (r, s') \<Rightarrow> (CoreRequest (Some \<lparr>rq_Timestamp = req_Timestamp request, rq_Payload = r\<rparr>), s')))"

definition proposal_event :: "ProposalMsg \<Rightarrow> ('w, 'z) bftCore_scheme \<Rightarrow> core_event \<times> ('w, 'z) bftCore_scheme" where
  "proposal_event proposal s =
     (case alloc_block (pro_Payload proposal) s of
        (r, s') \<Rightarrow>
          (CoreProposal (Some \<lparr>pr_Account = pro_Account proposal, pr_Timestamp = pro_Timestamp proposal,
                               pr_Payload = r, pr_Signature = pro_Signature proposal\<rparr>), s'))"

text \<open>
  One turn of the loop of \<open>handleConnection\<close>, on the bytes of one connection: the outcome tells
  whether the loop goes on (\<open>True\<close>) or the function returns, which ends the server.
\<close>

definition sent :: "'s outcome option \<Rightarrow> (bool \<times> 's) outcome option" where
  "sent r = (case r of None \<Rightarrow> None | Some out \<Rightarrow> Some (bindP out (\<lambda>s. Inr (True, s))))"

definition bft_handleConnection_turn ::
  "'w env \<Rightarrow> bytes \<Rightarrow> 'w bftCore \<Rightarrow> (bool \<times> 'w bftCore) outcome option" where
  "bft_handleConnection_turn e conn s =
     (case ReadMessage (json_Unmarshal e) conn of
        Inl err \<Rightarrow> Some (Inr (False, s))
      | Inr (msg, rest) \<Rightarrow>
          (let t = msg_Type msg
           in if t = RequestMessageType
              then (case msg_PayLoad msg of
                      RequestMessage m \<Rightarrow>
                        (case request_event m s of (ev, s') \<Rightarrow> sent (SendEvent (bft_ProcessEvent e) s' ev))
                    | _ \<Rightarrow> Some (Inl InterfaceConversion))
              else if t = ProposalMessageType
              then (case msg_PayLoad msg of
                      ProposalMessage m \<Rightarrow>
                        (case m of
                           None \<Rightarrow> Some (Inl NilDereference)
                         | Some proposal \<Rightarrow>
                             if pro_Account proposal \<noteq> bc_master s then Some (Inr (True, s))
                             else (case proposal_event proposal s of
                                     (ev, s') \<Rightarrow> sent (SendEvent (bft_ProcessEvent e) s' ev)))
                    | _ \<Rightarrow> Some (Inl InterfaceConversion))
              else if t = ResponseMessageType
              then (case msg_PayLoad msg of
                      ResponseMessage m \<Rightarrow>
                        (case m of
                           None \<Rightarrow> Some (Inl NilDereference)
                         | Some response \<Rightarrow>
                             if acc_Id (res_Account response) = acc_Id (bc_master s) then Some (Inr (True, s))
                             else sent (SendEvent (bft_ProcessEvent e) s (CoreResponse m)))
                    | _ \<Rightarrow> Some (Inl InterfaceConversion))
              else if t = CommitMessageType
              then (case msg_PayLoad msg of
                      CommitMessage m \<Rightarrow> sent (SendEvent (bft_ProcessEvent e) s (CoreCommit m))
                    | _ \<Rightarrow> Some (Inl InterfaceConversion))
              else Some (Inr (False, s))))"

text \<open>
  The loop of \<open>handleConnection\<close> on what \<open>AcceptTCP\<close> returns, call by call. The error of \<open>AcceptTCP\<close> is discarded, so
  that after a failed call the buffered reader reads from a nil \<open>*net.TCPConn\<close>: its \<open>Read\<close> is promoted
  from an embedded struct, and selecting that of a nil pointer is the nil dereference of the language.
\<close>

fun bft_handleConnection :: "'w env \<Rightarrow> accepted list \<Rightarrow> 'w bftCore \<Rightarrow> 'w bftCore service outcome option" where
  "bft_handleConnection e [] s = Some (Inr (Serving s []))"
| "bft_handleConnection e (AcceptError # conns) s = Some (Inl NilDereference)"
| "bft_handleConnection e (Accepted conn # conns) s =
     (case bft_handleConnection_turn e conn s of
        None \<Rightarrow> None
      | Some (Inl p) \<Rightarrow> Some (Inl p)
      | Some (Inr (continue, s')) \<Rightarrow>
          if continue then bft_handleConnection e conns s' else Some (Inr (Returned s' conns)))"

interpretation bft_receiver: event_receiver "bft_ProcessEvent e" "\<lambda>s. True" bft_known for e :: "'w env"
proof unfold_locales
  fix ev :: core_event and s s' :: "'w bftCore" and result
  show "result = None" if "bft_known ev" "bft_ProcessEvent e s ev = Inr (s', result)"
    using that by (cases ev) (auto simp: bft_ProcessEvent_def core_handle_def bindP_Inr_iff split: option.splits)
  show "\<exists>ev'. bft_ProcessEvent e s ev = Inr (s, Some ev') \<and> \<not> bft_known ev'" if "True" "\<not> bft_known ev"
    using that by (cases ev) (auto simp: bft_ProcessEvent_def)
qed

end
