(* ===== verification/Bft_Policy.thy ===== *)
theory Bft_Policy
  imports Bft_Core
begin

text \<open>
  \<^verbatim>\<open>consensus/policy/bft/bft.go\<close> and the steps of a running BFT node. \<open>ToConsensus\<close> starts
  goroutines (\<^verbatim>\<open>go utils.SendEvent\<close>, \<^verbatim>\<open>go instance.commit\<close>), which are tasks of the policy,
  and blocks in a \<open>select\<close>; calls do not exclude each other, so \<open>bp_pending\<close> lists the blocks
  of the calls that are blocked.
\<close>

section \<open>\<open>BFTPolicy\<close>\<close>

datatype task = RequestTask requestRef | CommitTask block_ref bool

record 'w BFTPolicy =
  bp_name :: string
  bp_account :: Account
  bp_core :: "'w bftCore"
  bp_timeout :: i64
  bp_pending :: "block_ref list"
  bp_tasks :: "task list"

definition BftPolicyName :: string where "BftPolicyName = ''bft''"

definition NewBFTPolicy :: "ConsensusTimeout \<Rightarrow> 'w \<Rightarrow> 'w BFTPolicy" where
  "NewBFTPolicy timeout chain =
     \<lparr>bp_name = BftPolicyName, bp_account = zero_account, bp_core = NewBFTCore chain,
      bp_timeout = TimeoutToChangeView timeout, bp_pending = [], bp_tasks = []\<rparr>"

text \<open>\<^verbatim>\<open>uint8((len(peers) - 1) / 3)\<close>, with Go's division.\<close>

definition bft_tolerance :: "nat \<Rightarrow> u8" where
  "bft_tolerance n = of_int ((int n - 1) sdiv 3)"

definition bft_Initialization :: "Account \<Rightarrow> Account \<Rightarrow> Account list \<Rightarrow> bool \<Rightarrow> 'w BFTPolicy \<Rightarrow> 'w BFTPolicy" where
  "bft_Initialization local master peers onLine p =
     p\<lparr>bp_account := local,
       bp_core := (bp_core p)
         \<lparr>bc_local := local, bc_master := master, bc_commit := False, bc_peers := peers, bc_eventCenter := True,
          bc_tolerance := bft_tolerance (length peers), bc_signature := new_signData\<rparr>\<rparr>"

definition bft_Prepare :: "Account \<Rightarrow> 'w BFTPolicy \<Rightarrow> 'w BFTPolicy" where
  "bft_Prepare account p = p\<lparr>bp_account := account\<rparr>"

definition bft_commit :: "'w env \<Rightarrow> block_ref \<Rightarrow> bool \<Rightarrow> 'w BFTPolicy \<Rightarrow> 'w BFTPolicy outcome" where
  "bft_commit e r result p =
     (let block = load_block r (bp_core p)
      in bindP (bft_SendCommit e
           \<lparr>com_Account = bp_account p, com_Timestamp = time_Now e, com_BlockHash = b_HeaderHash block,
            com_Digest = b_MixDigest block, com_Signatures = b_SigData block, com_Result = result\<rparr> r (bp_core p))
           (\<lambda>core. Inr (p\<lparr>bp_core := core\<rparr>)))"

text \<open>\<open>ToConsensus\<close> up to its \<open>select\<close>, the branch of a result and the branch of the timer.\<close>

definition bft_ToConsensus_begin :: "Proposal \<Rightarrow> 'w BFTPolicy \<Rightarrow> 'w BFTPolicy" where
  "bft_ToConsensus_begin proposal p =
     (case alloc_block (prop_Block proposal) (bp_core p) of
        (r, core) \<Rightarrow>
          p\<lparr>bp_core := core, bp_pending := bp_pending p @ [r],
            bp_tasks := bp_tasks p @ [RequestTask \<lparr>rq_Timestamp = prop_Timestamp proposal, rq_Payload = r\<rparr>]\<rparr>)"

definition bft_ToConsensus_result ::
  "'w env \<Rightarrow> block_ref \<Rightarrow> ConsensusResult \<Rightarrow> 'w BFTPolicy \<Rightarrow> error option \<times> 'w BFTPolicy" where
  "bft_ToConsensus_result e r consensusResult p =
     (let core = (bp_core p)\<lparr>bc_result := tl (bc_result (bp_core p))\<rparr>;
          p1 = p\<lparr>bp_core := core, bp_pending := remove1 r (bp_pending p)\<rparr>
      in case cr_Result consensusResult of
           Some err \<Rightarrow> (Some err, p1\<lparr>bp_tasks := bp_tasks p1 @ [CommitTask r False]\<rparr>)
         | None \<Rightarrow>
             (let signed = set_SigData (cr_Signatures consensusResult) (load_block r core);
                  block = signed\<lparr>b_HeaderHash := HeaderHash e signed\<rparr>
              in (None, p1\<lparr>bp_core := store_block r block core, bp_tasks := bp_tasks p1 @ [CommitTask r True]\<rparr>)))"

definition bft_ToConsensus_timeout :: "block_ref \<Rightarrow> 'w BFTPolicy \<Rightarrow> error option \<times> 'w BFTPolicy" where
  "bft_ToConsensus_timeout r p =
     (Some ErrConsensusTimeout,
      p\<lparr>bp_pending := remove1 r (bp_pending p), bp_tasks := bp_tasks p @ [CommitTask r False]\<rparr>)"

definition bft_run_task :: "'w env \<Rightarrow> task \<Rightarrow> 'w BFTPolicy \<Rightarrow> 'w BFTPolicy outcome" where
  "bft_run_task e t p =
     (let p1 = p\<lparr>bp_tasks := remove1 t (bp_tasks p)\<rparr>
      in case t of
           RequestTask request \<Rightarrow>
             (case SendEvent (bft_ProcessEvent e) (bp_core p1) (CoreRequest (Some request)) of
                None \<Rightarrow> Inl NeverReturns
              | Some out \<Rightarrow> bindP out (\<lambda>core. Inr (p1\<lparr>bp_core := core\<rparr>)))
         | CommitTask r result \<Rightarrow> bft_commit e r result p1)"

definition bft_GetConsensusResult :: "'w BFTPolicy \<Rightarrow> ConsensusInfo" where
  "bft_GetConsensusResult p =
     \<lparr>ci_View = 0, ci_Participate = bc_peers (bp_core p), ci_Master = bc_master (bp_core p)\<rparr>"

section \<open>A running node\<close>

text \<open>
  The server is one goroutine: while a \<open>receiveResponse\<close> of it is blocked on the tunnel, no
  connection is served. A response needs the read lock, which Go refuses while a goroutine waits for
  the write lock; the rule for a connection therefore asks that none does when the message is a
  response. \<open>serving\<close> is whether the server is still in its loop.
\<close>

definition waits_for_lock :: "('w, 'z) bftCore_scheme \<Rightarrow> bool" where
  "waits_for_lock s \<longleftrightarrow> (\<exists>res. Committing res \<in> set (bc_waiters s))"

definition lists_keys :: "Account list \<Rightarrow> ('w, 'z) bftCore_scheme \<Rightarrow> bool" where
  "lists_keys order s \<longleftrightarrow> distinct order \<and> set order = dom (sd_signMap (bc_signature s))"

definition is_response :: "'w env \<Rightarrow> bytes \<Rightarrow> bool" where
  "is_response e conn \<longleftrightarrow>
     (\<exists>msg rest. ReadMessage (json_Unmarshal e) conn = Inr (msg, rest) \<and> msg_Type msg = ResponseMessageType)"

datatype bft_label = BftInternal | BftStartRound block_ref

inductive bft_step ::
  "'w env \<Rightarrow> Account \<Rightarrow> Account list \<Rightarrow> bool \<times> 'w BFTPolicy \<Rightarrow> bft_label \<Rightarrow> bool \<times> 'w BFTPolicy \<Rightarrow> bool"
  for e me peers where
  serve:
    "bc_tunnel (bp_core p) = 0 \<Longrightarrow> is_response e conn \<longrightarrow> \<not> waits_for_lock (bp_core p) \<Longrightarrow>
     bft_handleConnection_turn (e\<lparr>time_Now := t\<rparr>) conn (bp_core p) = Some (Inr (continue, core)) \<Longrightarrow>
     bft_step e me peers (True, p) BftInternal (continue, p\<lparr>bp_core := core\<rparr>)"
| initialise:
    "bft_step e me peers (serving, p) BftInternal (serving, bft_Initialization me master peers onLine p)"
| begin_round:
    "bft_step e me peers (serving, p) BftInternal (serving, bft_ToConsensus_begin proposal p)"
| round_result:
    "r \<in> set (bp_pending p) \<Longrightarrow> bc_result (bp_core p) = res # rest \<Longrightarrow>
     bft_ToConsensus_result e r res p = (err, p') \<Longrightarrow> bft_step e me peers (serving, p) BftInternal (serving, p')"
| round_timeout:
    "r \<in> set (bp_pending p) \<Longrightarrow> bft_ToConsensus_timeout r p = (err, p') \<Longrightarrow>
     bft_step e me peers (serving, p) BftInternal (serving, p')"
| run_request:
    "RequestTask request \<in> set (bp_tasks p) \<Longrightarrow>
     bft_run_task (e\<lparr>time_Now := t\<rparr>) (RequestTask request) p = Inr p' \<Longrightarrow>
     bft_step e me peers (serving, p) (BftStartRound (rq_Payload request)) (serving, p')"
| run_commit:
    "CommitTask r result \<in> set (bp_tasks p) \<Longrightarrow>
     bft_run_task (e\<lparr>time_Now := t\<rparr>) (CommitTask r result) p = Inr p' \<Longrightarrow>
     bft_step e me peers (serving, p) BftInternal (serving, p')"
| responses_timeout:
    "i < length (bc_waiters (bp_core p)) \<Longrightarrow> bc_waiters (bp_core p) ! i = Collecting \<Longrightarrow>
     lists_keys order (bp_core p) \<Longrightarrow>
     bft_step e me peers (serving, p) BftInternal (serving, p\<lparr>bp_core := bft_waitResponse_timeout e order i (bp_core p)\<rparr>)"
| responses_tunnel:
    "i < length (bc_waiters (bp_core p)) \<Longrightarrow> bc_waiters (bp_core p) ! i = Collecting \<Longrightarrow>
     0 < bc_tunnel (bp_core p) \<Longrightarrow> lists_keys order (bp_core p) \<Longrightarrow>
     bft_step e me peers (serving, p) BftInternal (serving, p\<lparr>bp_core := bft_waitResponse_tunnel e order i (bp_core p)\<rparr>)"
| responses_commit:
    "i < length (bc_waiters (bp_core p)) \<Longrightarrow> bc_waiters (bp_core p) ! i = Committing res \<Longrightarrow>
     bc_tunnel (bp_core p) = 0 \<Longrightarrow>
     bft_step e me peers (serving, p) BftInternal (serving, p\<lparr>bp_core := bft_waitResponse_commit i res (bp_core p)\<rparr>)"
| chain_moves:
    "bft_step e me peers (serving, p) BftInternal (serving, p\<lparr>bp_core := (bp_core p)\<lparr>bc_chain := w\<rparr>\<rparr>)"

end
