(* ===== verification/Bft_Invariants.thy ===== *)
theory Bft_Invariants
  imports Bft_Policy Fbft_Invariants "HOL-Library.Sublist"
begin

text \<open>
  The invariant of a BFT node. It is stated on every extension of the core's record, because the DBFT
  core keeps it too: the recorded payloads point to blocks of their digest and carry the receipts of
  a block of that digest which the worker verified, the signatures are filed
  under the node itself, its peers or the zero account, a goroutine that waits for responses has a
  recorded digest, and a successful result is backed by a certificate for a recorded digest.
\<close>

section \<open>Certificates\<close>

lemma bft_tolerance_eq: "bft_tolerance n = tolerance_of n"
proof (cases n)
  case (Suc k)
  then have "(int n - 1) sdiv 3 = int (k div 3)" by (cases k) (simp_all add: signed_divide_int_def zdiv_int)
  with Suc show ?thesis by (simp add: bft_tolerance_def tolerance_of_def)
qed (simp add: bft_tolerance_def tolerance_of_def signed_divide_int_def)

lemma bft_signDataVerify_eq: "bft_signDataVerify e = SignatureVerify e"
  by (simp add: fun_eq_iff bft_signDataVerify_def SignatureVerify_def)

lemma bft_reallySignature_spec:
  "set order \<subseteq> dom m \<Longrightarrow>
   bft_reallySignature e d m order acc =
     acc @ map (\<lambda>a. the (m a)) (filter (\<lambda>a. SignatureVerify e a (the (m a)) d) order)"
proof (induction order arbitrary: acc)
  case (Cons a order)
  then obtain s where "m a = Some s" by auto
  with Cons show ?case by (simp add: bft_signDataVerify_eq)
qed simp

text \<open>The signatures \<open>maybeCommit\<close> returns without an error are a certificate.\<close>

lemma really_certificate:
  assumes "distinct order" "set order = dom m" "dom m \<subseteq> A" "finite (dom m)"
    and "\<not> (of_nat (length (bft_reallySignature e d m order [])) :: u8) < commit_threshold n"
  shows "certificate e A n d (bft_reallySignature e d m order [])"
proof -
  let ?ok = "\<lambda>a. SignatureVerify e a (the (m a)) d"
  let ?sigs = "bft_reallySignature e d m order []"
  let ?m = "\<lambda>a. if a \<in> dom m \<and> ?ok a then m a else None"
  have sigs: "?sigs = map (\<lambda>a. the (m a)) (filter ?ok order)"
    using assms(2) by (simp add: bft_reallySignature_spec)
  have dom: "dom ?m = set (filter ?ok order)" using assms(2) by (auto split: if_splits)
  have "set ?sigs = ran ?m" using assms(2) by (force simp: sigs ran_def split: if_splits)
  moreover have "length ?sigs = card (dom ?m)"
    using distinct_card [of "filter ?ok order"] assms(1) unfolding dom by (simp add: sigs)
  moreover have "finite (dom ?m)" unfolding dom by simp
  moreover have "dom ?m \<subseteq> A" using assms(3) by (auto split: if_splits)
  moreover have "\<forall>a s. ?m a = Some s \<longrightarrow> SignatureVerify e a s d" by (auto split: if_splits)
  ultimately show ?thesis using assms(5) unfolding certificate_def not_less by blast
qed

section \<open>The invariant of the core\<close>

definition signers :: "Account \<Rightarrow> Account list \<Rightarrow> Account set" where
  "signers me peers = insert me (insert zero_account (set peers))"

definition result_ok :: "'w env \<Rightarrow> Account \<Rightarrow> Account list \<Rightarrow> hash set \<Rightarrow> ConsensusResult \<Rightarrow> bool" where
  "result_ok e me peers D res \<longleftrightarrow>
     (cr_Result res = None \<longrightarrow> (\<exists>d \<in> D. certificate e (signers me peers) (length peers) d (cr_Signatures res)))"

text \<open>The receipts of a block with the digest that the worker verified on some state of the chain.\<close>

definition verified :: "'w env \<Rightarrow> hash \<Rightarrow> receipts \<Rightarrow> bool" where
  "verified e d receipts \<longleftrightarrow>
     (\<exists>w b. b_MixDigest b = d \<and> NewRepositoryByBlockHash e w (b_PrevBlockHash b) = None \<and>
        worker_VerifyBlock e w (RepositoryByBlockHash (b_PrevBlockHash b)) b True = Inr receipts)"

lemma bft_verifyPayload_verified: "bft_verifyPayload e b s = Inr receipts \<Longrightarrow> verified e (b_MixDigest b) receipts"
  by (auto simp: bft_verifyPayload_def verified_def split: option.splits sum.splits)

lemma verified_time [simp]: "verified (e\<lparr>time_Now := t\<rparr>) = verified e"
  by (simp add: fun_eq_iff verified_def)

definition validator_ok :: "'w env \<Rightarrow> ('w, 'z) bftCore_scheme \<Rightarrow> bool" where
  "validator_ok e s \<longleftrightarrow>
     (\<forall>d ps. bc_validator s d = Some ps \<longrightarrow>
        ps_block ps < length (bc_heap s) \<and> b_MixDigest (bc_heap s ! ps_block ps) = d \<and> verified e d (ps_receipts ps))"

definition bft_core_inv :: "'w env \<Rightarrow> Account \<Rightarrow> Account list \<Rightarrow> ('w, 'z) bftCore_scheme \<Rightarrow> bool" where
  "bft_core_inv e me peers s \<longleftrightarrow>
     bc_local s = me \<and> bc_peers s = peers \<and> bc_tolerance s = tolerance_of (length peers) \<and>
     finite (dom (sd_signMap (bc_signature s))) \<and> dom (sd_signMap (bc_signature s)) \<subseteq> signers me peers \<and>
     validator_ok e s \<and>
     (Collecting \<in> set (bc_waiters s) \<longrightarrow> bc_digest s \<in> dom (bc_validator s)) \<and>
     (\<forall>res. res \<in> set (bc_result s) \<or> Committing res \<in> set (bc_waiters s) \<longrightarrow>
        result_ok e me peers (dom (bc_validator s)) res)"

definition grows :: "('w, 'z) bftCore_scheme \<Rightarrow> ('w, 'z) bftCore_scheme \<Rightarrow> bool" where
  "grows s s' \<longleftrightarrow> length (bc_heap s) \<le> length (bc_heap s')"

lemma grows_refl [simp]: "grows s s" by (simp add: grows_def)

lemma grows_trans: "grows s t \<Longrightarrow> grows t u \<Longrightarrow> grows s u" by (simp add: grows_def)

lemma result_ok_mono: "result_ok e me peers D res \<Longrightarrow> D \<subseteq> D' \<Longrightarrow> result_ok e me peers D' res"
  by (auto simp: result_ok_def)

lemma result_ok_time [simp]: "result_ok (e\<lparr>time_Now := t\<rparr>) me peers D res = result_ok e me peers D res"
  by (simp add: result_ok_def certificate_def)

lemma bft_core_inv_time [simp]: "bft_core_inv (e\<lparr>time_Now := t\<rparr>) me peers s = bft_core_inv e me peers s"
  by (simp add: bft_core_inv_def validator_ok_def)

lemma bft_inv_simps [simp]:
  "bft_core_inv e me peers (bc_emit g s) = bft_core_inv e me peers s"
  "bft_core_inv e me peers (s\<lparr>bc_chain := w\<rparr>) = bft_core_inv e me peers s"
  "bft_core_inv e me peers (bft_unicast a raw s) = bft_core_inv e me peers s"
  "bft_core_inv e me peers (bft_broadcast raw s) = bft_core_inv e me peers s"
  "grows (bc_emit g s) s' = grows s s'" "grows s (bc_emit g s') = grows s s'"
  "grows s (s'\<lparr>bc_chain := w\<rparr>) = grows s s'" "grows s (bft_unicast a raw s') = grows s s'"
  "grows s (bft_broadcast raw s') = grows s s'" "grows s (store_block r b s') = grows s s'"
  "grows s (clear_SigData r s') = grows s s'" "grows s (bft_record d r rs s') = grows s s'"
  by (simp_all add: bft_core_inv_def validator_ok_def grows_def bc_emit_def bft_unicast_def bft_broadcast_def
      store_block_def clear_SigData_def bft_record_def)

lemma bft_core_inv_notify:
  "bc_notify ev s = Inr s' \<Longrightarrow> bft_core_inv e me peers s \<Longrightarrow> bft_core_inv e me peers s' \<and> grows s s'"
  by (auto simp: bc_notify_def split: if_splits)

lemma store_same_digest:
  assumes "bft_core_inv e me peers s" and "b_MixDigest b = b_MixDigest (bc_heap s ! r)"
  shows "bft_core_inv e me peers (store_block r b s)"
proof -
  have "b_MixDigest ((bc_heap s)[r := b] ! i) = b_MixDigest (bc_heap s ! i)" if "i < length (bc_heap s)" for i
    using assms(2) that by (cases "i = r") simp_all
  with assms(1) show ?thesis by (auto simp: bft_core_inv_def validator_ok_def store_block_def)
qed

lemma store_block_simps [simp]:
  "store_block r b (store_block r b' s) = store_block r b s" "bc_chain (store_block r b s) = bc_chain s"
  "bc_validator (store_block r b s) = bc_validator s" "bc_effects (store_block r b s) = bc_effects s"
  "length (bc_heap (store_block r b s)) = length (bc_heap s)"
  by (simp_all add: store_block_def)

lemma clear_SigData_inv [simp]: "bft_core_inv e me peers s \<Longrightarrow> bft_core_inv e me peers (clear_SigData r s)"
  by (simp add: clear_SigData_def store_same_digest load_block_def)

lemma alloc_block_inv:
  assumes "alloc_block b s = (r, s')" and "bft_core_inv e me peers s"
  shows "bft_core_inv e me peers s' \<and> grows s s' \<and> r < length (bc_heap s') \<and> bc_heap s' ! r = b"
  using assms by (auto simp: alloc_block_def bft_core_inv_def validator_ok_def grows_def nth_append less_Suc_eq)

lemma bft_record_inv:
  assumes "bft_core_inv e me peers s" and "r < length (bc_heap s)" and "d = b_MixDigest (bc_heap s ! r)"
    and "verified e d receipts"
  shows "bft_core_inv e me peers (bft_record d r receipts s)" and "d \<in> dom (bc_validator (bft_record d r receipts s))"
proof -
  have "dom (bc_validator s) \<subseteq> dom (bc_validator (bft_record d r receipts s))" by (auto simp: bft_record_def)
  moreover have "validator_ok e (bft_record d r receipts s)"
    using assms by (auto simp: bft_core_inv_def validator_ok_def bft_record_def split: option.splits if_splits)
  ultimately show "bft_core_inv e me peers (bft_record d r receipts s)"
    using assms(1) by (auto simp: bft_core_inv_def bft_record_def intro: result_ok_mono)
qed (simp add: bft_record_def)

lemma GetAccountById_signers: "GetAccountById peers i \<in> signers me peers"
  using GetAccountById_member [of peers i] GetAccountById_missing [of peers i]
  by (cases "\<exists>a \<in> set peers. acc_Id a = i") (auto simp: signers_def)

section \<open>Every operation of the core keeps it\<close>

lemma bft_frames [frame_simps]:
  "bc_local (bft_record d r rs s) = bc_local s" "bc_peers (bft_record d r rs s) = bc_peers s"
  "bc_signature (bft_record d r rs s) = bc_signature s" "bc_waiters (bft_record d r rs s) = bc_waiters s"
  "bc_waiters (bft_broadcast raw s) = bc_waiters s" "bc_tunnel (bft_record d r rs s) = bc_tunnel s"
  "bc_tunnel (bft_broadcast raw s) = bc_tunnel s" "bc_heap (bft_record d r rs s) = bc_heap s"
  "bc_heap (bft_broadcast raw s) = bc_heap s" "bc_signature (bft_broadcast raw s) = bc_signature s"
  by (simp_all add: bft_record_def bft_broadcast_def bc_emit_def)

lemma bft_receiveRequest_cases:
  assumes "bft_receiveRequest e req s = Inr s'"
  obtains "s' = s"
  | request receipts where "req = Some request" "bc_local s = bc_master s"
      "verified e (b_MixDigest (bc_heap s ! rq_Payload request)) receipts"
      "s' = bft_record (b_MixDigest (bc_heap s ! rq_Payload request)) (rq_Payload request) receipts s"
  | request receipts sg raw d where "req = Some request" "bc_local s = bc_master s"
      "d = b_MixDigest (bc_heap s ! rq_Payload request)" "verified e d receipts"
      "s' = (bft_broadcast raw ((bft_record d (rq_Payload request) receipts s)
         \<lparr>bc_digest := d, bc_signature := bft_addSignature (bc_local s) sg (bc_signature s)\<rparr>))
         \<lparr>bc_waiters := bc_waiters s @ [Collecting]\<rparr>"
proof (cases "s' = s")
  case False
  then obtain request where req: "req = Some request" "bc_local s = bc_master s"
    using assms by (auto simp: bft_receiveRequest_def split: if_splits option.splits)
  let ?b = "bc_heap s ! rq_Payload request"
  obtain receipts sg where v: "length (b_SigData ?b) = 1" "bft_verifyPayload e ?b s = Inr receipts"
      "bft_signPayload e (b_MixDigest ?b) s = Inr sg"
    using assms False req by (auto simp: bft_receiveRequest_def Let_def load_block_def split: if_splits sum.splits)
  show ?thesis
  proof (cases "encode e (proposal_message (bc_local s) (rq_Timestamp request) ?b sg)")
    case (Inl err)
    with assms req v bft_verifyPayload_verified [OF v(2)] show ?thesis
      by (intro that(2) [of request receipts]) (simp_all add: bft_receiveRequest_def Let_def load_block_def)
  next
    case (Inr raw)
    with assms req v show ?thesis
      by (intro that(3) [OF req refl bft_verifyPayload_verified [OF v(2)], of raw sg])
        (simp add: bft_receiveRequest_def Let_def load_block_def frame_simps)
  qed
qed (rule that(1))

lemma bft_receiveRequest_inv:
  assumes "bft_receiveRequest e req s = Inr s'" and inv: "bft_core_inv e me peers s"
    and r: "\<And>request. req = Some request \<Longrightarrow> rq_Payload request < length (bc_heap s)"
  shows "bft_core_inv e me peers s' \<and> grows s s'"
  using assms(1)
proof (cases rule: bft_receiveRequest_cases)
  case (2 request receipts)
  with r inv show ?thesis by (simp add: bft_record_inv)
next
  case (3 request receipts sg raw d)
  let ?t = "bft_record d (rq_Payload request) receipts s"
  have "bft_core_inv e me peers ?t" "d \<in> dom (bc_validator ?t)" using bft_record_inv [OF inv] r 3 by auto
  then have "bft_core_inv e me peers s'"
    unfolding 3(5) by (auto simp: bft_core_inv_def validator_ok_def bft_addSignature_def signers_def bft_broadcast_def
        bc_emit_def frame_simps)
  then show ?thesis unfolding 3(5) by (simp add: grows_def frame_simps)
qed (use inv in simp)

lemma bft_answer_inv:
  assumes "bft_answer e proposal s = Inr s'" "bft_core_inv e me peers s" "pr_Payload proposal < length (bc_heap s)"
  shows "bft_core_inv e me peers s' \<and> grows s s'"
  using assms
  by (auto simp: bft_answer_def Let_def load_block_def bft_record_inv dest!: bft_verifyPayload_verified split: sum.splits)

lemma bft_receiveProposal_inv:
  assumes "bft_receiveProposal e proposal s = Inr s'" "bft_core_inv e me peers s"
    "pr_Payload proposal < length (bc_heap s)"
  shows "bft_core_inv e me peers s' \<and> grows s s'"
  using assms bft_answer_inv [of e proposal s s' me peers] by (auto simp: bft_receiveProposal_def split: if_splits)

lemma add_signature_inv:
  assumes "bft_core_inv e me peers s" "a \<in> signers me peers"
  shows "bft_core_inv e me peers (s\<lparr>bc_signature := bft_addSignature a sg (bc_signature s), bc_tunnel := n\<rparr>)"
proof -
  have "dom (sd_signMap (bft_addSignature a sg (bc_signature s))) = insert a (dom (sd_signMap (bc_signature s)))"
    by (simp add: bft_addSignature_def)
  with assms show ?thesis by (simp add: bft_core_inv_def validator_ok_def)
qed

lemma bft_receiveResponse_inv:
  assumes "bft_receiveResponse e response s = Inr s'" and inv: "bft_core_inv e me peers s"
  shows "bft_core_inv e me peers s' \<and> grows s s'"
proof -
  have "bc_peers s = peers" using inv by (simp add: bft_core_inv_def)
  then show ?thesis
    using assms GetAccountById_signers [of peers "acc_Id (res_Account response)" me]
    by (auto simp: bft_receiveResponse_def Let_def grows_def add_signature_inv split: if_splits option.splits)
qed

lemma bft_commitBlock_inv:
  assumes "bft_commitBlock e r s = Inr s'" "bft_core_inv e me peers s"
  shows "bft_core_inv e me peers s' \<and> grows s s'"
  using assms
  by (auto simp: bft_commitBlock_def Let_def load_block_def store_same_digest split: if_splits option.splits prod.splits)

lemma bft_SendCommit_inv:
  assumes "bft_SendCommit e commit r s = Inr s'" "bft_core_inv e me peers s"
  shows "bft_core_inv e me peers s' \<and> grows s s'"
  using assms
  by (auto simp: bft_SendCommit_def Let_def bindP_Inr_iff dest: bft_commitBlock_inv bft_core_inv_notify
      split: if_splits sum.splits)

lemma bft_receiveCommit_inv:
  assumes "bft_receiveCommit e commit s = Inr s'" "bft_core_inv e me peers s"
  shows "bft_core_inv e me peers s' \<and> grows s s'"
  using assms
  by (auto simp: bft_receiveCommit_def Let_def load_block_def store_same_digest dest: bft_core_inv_notify
      split: if_splits option.splits prod.splits)

lemma bft_maybeCommit_ok:
  assumes "bft_core_inv e me peers s" "lists_keys order s" "Collecting \<in> set (bc_waiters s)"
    and "bft_maybeCommit e order s = (sigs, err)"
  shows "result_ok e me peers (dom (bc_validator s)) \<lparr>cr_Signatures = sigs, cr_Result = err\<rparr>"
proof -
  let ?m = "sd_signMap (bc_signature s)"
  have inv: "bc_peers s = peers" "bc_tolerance s = tolerance_of (length peers)" "finite (dom ?m)"
      "dom ?m \<subseteq> signers me peers" "bc_digest s \<in> dom (bc_validator s)"
    using assms(1,3) by (simp_all add: bft_core_inv_def)
  have "certificate e (signers me peers) (length peers) (bc_digest s) sigs" if "err = None"
    using assms(2,4) inv that really_certificate [of order ?m "signers me peers" e "bc_digest s" "length peers"]
    by (auto simp: bft_maybeCommit_def Let_def lists_keys_def commit_threshold_def split: if_splits)
  then show ?thesis using inv(5) by (auto simp: result_ok_def)
qed

lemma set_list_update_cases: "x \<in> set (xs[i := y]) \<Longrightarrow> x = y \<or> x \<in> set xs"
  using set_update_subset_insert by fastforce

lemma committing_inv:
  assumes "bft_core_inv e me peers s" "result_ok e me peers (dom (bc_validator s)) res"
  shows "bft_core_inv e me peers (s\<lparr>bc_waiters := (bc_waiters s)[i := Committing res]\<rparr>)"
  using assms by (auto simp: bft_core_inv_def validator_ok_def dest: set_list_update_cases)

lemma bft_waitResponse_timeout_inv:
  assumes "bft_core_inv e me peers s" "lists_keys order s" "i < length (bc_waiters s)" "bc_waiters s ! i = Collecting"
  shows "bft_core_inv e me peers (bft_waitResponse_timeout e order i s) \<and> grows s (bft_waitResponse_timeout e order i s)"
proof -
  have "Collecting \<in> set (bc_waiters s)" using assms(3,4) by (metis nth_mem)
  then show ?thesis
    using bft_maybeCommit_ok [OF assms(1,2)] assms(1)
    by (auto simp: bft_waitResponse_timeout_def grows_def intro: committing_inv split: prod.splits)
qed

lemma bft_waitResponse_tunnel_inv:
  assumes "bft_core_inv e me peers s" "lists_keys order s" "i < length (bc_waiters s)" "bc_waiters s ! i = Collecting"
  shows "bft_core_inv e me peers (bft_waitResponse_tunnel e order i s) \<and> grows s (bft_waitResponse_tunnel e order i s)"
proof -
  let ?t = "s\<lparr>bc_tunnel := bc_tunnel s - 1\<rparr>"
  have "Collecting \<in> set (bc_waiters ?t)" using assms(3,4) nth_mem [OF assms(3)] by simp
  moreover have "bft_core_inv e me peers ?t" "lists_keys order ?t"
    using assms(1,2) by (simp_all add: bft_core_inv_def validator_ok_def lists_keys_def)
  ultimately show ?thesis
    using bft_maybeCommit_ok [of e me peers ?t order] committing_inv [of e me peers ?t]
    by (auto simp: bft_waitResponse_tunnel_def Let_def grows_def split: prod.splits)
qed

lemma bft_waitResponse_commit_inv:
  assumes "bft_core_inv e me peers s" "i < length (bc_waiters s)" "bc_waiters s ! i = Committing res"
  shows "bft_core_inv e me peers (bft_waitResponse_commit i res s) \<and> grows s (bft_waitResponse_commit i res s)"
proof -
  have "Committing res \<in> set (bc_waiters s)" using assms(2,3) by (metis nth_mem)
  then show ?thesis
    using assms(1) by (auto simp: bft_core_inv_def validator_ok_def bft_waitResponse_commit_def grows_def
        dest: in_set_takeD in_set_dropD)
qed

lemma bft_ProcessEvent_inv:
  assumes "bft_ProcessEvent e s ev = Inr (s', res)" "bft_core_inv e me peers s"
    and "\<And>request. ev = CoreRequest (Some request) \<Longrightarrow> rq_Payload request < length (bc_heap s)"
    and "\<And>proposal. ev = CoreProposal (Some proposal) \<Longrightarrow> pr_Payload proposal < length (bc_heap s)"
  shows "bft_core_inv e me peers s' \<and> grows s s'"
  using assms
  by (cases ev) (auto simp: bft_ProcessEvent_def core_handle_def bindP_Inr_iff split: option.splits
      dest: bft_receiveRequest_inv bft_receiveProposal_inv bft_receiveResponse_inv bft_receiveCommit_inv)

lemma bft_SendEvent_inv:
  assumes "SendEvent (bft_ProcessEvent e) s ev = Some (Inr s')" "bft_known ev" "bft_core_inv e me peers s"
    and "\<And>request. ev = CoreRequest (Some request) \<Longrightarrow> rq_Payload request < length (bc_heap s)"
    and "\<And>proposal. ev = CoreProposal (Some proposal) \<Longrightarrow> pr_Payload proposal < length (bc_heap s)"
  shows "bft_core_inv e me peers s' \<and> grows s s'"
proof -
  obtain res where "bft_ProcessEvent e s ev = Inr (s', res)"
    using assms(1) bft_receiver.SendEvent_known [OF assms(2), of e s] by (auto split: sum.splits prod.splits)
  from bft_ProcessEvent_inv [OF this assms(3-5)] show ?thesis by blast
qed

lemma sent_Some: "sent r = Some (Inr (c, s)) \<longleftrightarrow> r = Some (Inr s) \<and> c"
  by (auto simp: sent_def bindP_Inr_iff split: option.splits)

lemma request_event_inv:
  assumes "request_event m s = (ev, t)" "bft_core_inv e me peers s"
  shows "bft_core_inv e me peers t \<and> grows s t \<and> bft_known ev \<and> (\<forall>proposal. ev \<noteq> CoreProposal proposal) \<and>
    (\<forall>request. ev = CoreRequest (Some request) \<longrightarrow> rq_Payload request < length (bc_heap t))"
  using assms alloc_block_inv [OF _ assms(2)] by (auto simp: request_event_def split: option.splits prod.splits)

lemma proposal_event_inv:
  assumes "proposal_event m s = (ev, t)" "bft_core_inv e me peers s"
  shows "bft_core_inv e me peers t \<and> grows s t \<and> bft_known ev \<and> (\<forall>request. ev \<noteq> CoreRequest request) \<and>
    (\<forall>proposal. ev = CoreProposal (Some proposal) \<longrightarrow> pr_Payload proposal < length (bc_heap t))"
  using assms alloc_block_inv [OF _ assms(2)] by (auto simp: proposal_event_def split: prod.splits)

lemma bft_handleConnection_inv:
  assumes "bft_handleConnection_turn e conn s = Some (Inr (continue, s'))" and inv: "bft_core_inv e me peers s"
  shows "bft_core_inv e me peers s' \<and> grows s s'"
proof -
  have req: "bft_core_inv e me peers s' \<and> grows s s'"
    if "request_event m s = (ev, t)" "SendEvent (bft_ProcessEvent e) t ev = Some (Inr s')" for m ev t
    using request_event_inv [OF that(1) inv] bft_SendEvent_inv [OF that(2), of me peers] grows_trans by metis
  have proposed: "bft_core_inv e me peers s' \<and> grows s s'"
    if "proposal_event m s = (ev, t)" "SendEvent (bft_ProcessEvent e) t ev = Some (Inr s')" for m ev t
    using proposal_event_inv [OF that(1) inv] bft_SendEvent_inv [OF that(2), of me peers] grows_trans by metis
  have other: "bft_core_inv e me peers s' \<and> grows s s'"
    if "SendEvent (bft_ProcessEvent e) s ev = Some (Inr s')" "ev = CoreResponse m \<or> ev = CoreCommit m'" for ev m m'
    using bft_SendEvent_inv [OF that(1) _ inv] that(2) by auto
  show ?thesis
    using assms(1) inv
    by (auto simp: bft_handleConnection_turn_def Let_def sent_Some dest: req proposed other
        split: sum.splits prod.splits if_splits payload.splits option.splits)
qed

section \<open>The running node\<close>

fun task_ref :: "task \<Rightarrow> block_ref" where
  "task_ref (RequestTask request) = rq_Payload request"
| "task_ref (CommitTask r result) = r"

definition bft_policy_inv :: "'w env \<Rightarrow> Account \<Rightarrow> Account list \<Rightarrow> 'w BFTPolicy \<Rightarrow> bool" where
  "bft_policy_inv e me peers p \<longleftrightarrow>
     bft_core_inv e me peers (bp_core p) \<and>
     (\<forall>r \<in> set (bp_pending p). r < length (bc_heap (bp_core p))) \<and>
     (\<forall>t \<in> set (bp_tasks p). task_ref t < length (bc_heap (bp_core p)))"

definition bft_started :: "Account \<Rightarrow> Account list \<Rightarrow> bool \<times> 'w BFTPolicy \<Rightarrow> bool" where
  "bft_started me peers q \<longleftrightarrow>
     (\<exists>timeout chain master onLine. q = (True, bft_Initialization me master peers onLine (NewBFTPolicy timeout chain)))"

inductive bft_reachable :: "'w env \<Rightarrow> Account \<Rightarrow> Account list \<Rightarrow> bool \<times> 'w BFTPolicy \<Rightarrow> bool" for e me peers where
  started: "bft_started me peers q \<Longrightarrow> bft_reachable e me peers q"
| step: "bft_reachable e me peers q \<Longrightarrow> bft_step e me peers q l q' \<Longrightarrow> bft_reachable e me peers q'"

lemma in_remove1: "x \<in> set (remove1 y xs) \<Longrightarrow> x \<in> set xs"
  by (meson notin_set_remove1)

lemma bft_policy_core: "bft_policy_inv e me peers p \<Longrightarrow> bft_core_inv e me peers (bp_core p)"
  by (simp add: bft_policy_inv_def)

lemma bft_policy_inv_core:
  assumes "bft_policy_inv e me peers p" "bft_core_inv e me peers c" "grows (bp_core p) c"
  shows "bft_policy_inv e me peers (p\<lparr>bp_core := c\<rparr>)"
  using assms by (auto simp: bft_policy_inv_def grows_def intro: order_less_le_trans)

lemma bft_Initialization_inv:
  "bft_policy_inv e me peers p \<or> (bc_validator (bp_core p) = Map.empty \<and> bc_waiters (bp_core p) = [] \<and>
     bc_result (bp_core p) = [] \<and> bp_pending p = [] \<and> bp_tasks p = []) \<Longrightarrow>
   bft_policy_inv e me peers (bft_Initialization me master peers onLine p)"
  by (auto simp: bft_policy_inv_def bft_core_inv_def validator_ok_def bft_Initialization_def bft_tolerance_eq new_signData_def)

lemma bft_ToConsensus_result_inv:
  assumes "bft_policy_inv e me peers p" "r \<in> set (bp_pending p)" "bft_ToConsensus_result e r res p = (err, p')"
  shows "bft_policy_inv e me peers p'"
proof -
  let ?c = "(bp_core p)\<lparr>bc_result := tl (bc_result (bp_core p))\<rparr>"
  have "bft_core_inv e me peers ?c"
    using assms(1) set_mono_suffix [OF suffix_tl, of "bc_result (bp_core p)"]
    by (auto simp: bft_policy_inv_def bft_core_inv_def validator_ok_def)
  then have "bft_core_inv e me peers ?c" "bft_core_inv e me peers (store_block r b ?c)"
    if "b_MixDigest b = b_MixDigest (bc_heap ?c ! r)" for b
    using that by (auto intro: store_same_digest)
  with assms show ?thesis
    by (auto simp: bft_ToConsensus_result_def Let_def bft_policy_inv_def load_block_def split: option.splits
        dest: in_remove1)
qed

lemma bft_ToConsensus_begin_inv:
  assumes "bft_policy_inv e me peers p"
  shows "bft_policy_inv e me peers (bft_ToConsensus_begin proposal p)"
proof -
  obtain r c where a: "alloc_block (prop_Block proposal) (bp_core p) = (r, c)" by fastforce
  with assms have "bft_core_inv e me peers c \<and> grows (bp_core p) c \<and> r < length (bc_heap c)"
    using alloc_block_inv [OF a] by (auto simp: bft_policy_inv_def)
  with assms a show ?thesis
    by (auto simp: bft_ToConsensus_begin_def bft_policy_inv_def grows_def intro: order_less_le_trans)
qed

lemma bft_run_task_inv:
  assumes "bft_run_task e t p = Inr p'" "bft_policy_inv e me peers p" "t \<in> set (bp_tasks p)"
  shows "bft_policy_inv e me peers p'"
proof -
  let ?p = "p\<lparr>bp_tasks := remove1 t (bp_tasks p)\<rparr>"
  have inv: "bft_policy_inv e me peers ?p" "bft_core_inv e me peers (bp_core p)"
    using assms(2) by (auto simp: bft_policy_inv_def dest: in_remove1)
  have r: "task_ref t < length (bc_heap (bp_core p))" using assms(2,3) by (simp add: bft_policy_inv_def)
  show ?thesis
  proof (cases t)
    case (RequestTask request)
    with assms(1) obtain c where c: "SendEvent (bft_ProcessEvent e) (bp_core p) (CoreRequest (Some request)) = Some (Inr c)"
        "p' = ?p\<lparr>bp_core := c\<rparr>"
      by (auto simp: bft_run_task_def Let_def bindP_Inr_iff split: option.splits)
    with bft_SendEvent_inv [OF c(1) _ inv(2)] r RequestTask inv(1) show ?thesis by (auto intro: bft_policy_inv_core)
  next
    case (CommitTask r result)
    with assms(1) inv show ?thesis
      by (auto simp: bft_run_task_def bft_commit_def Let_def bindP_Inr_iff dest!: bft_SendCommit_inv intro: bft_policy_inv_core)
  qed
qed

lemma bft_step_inv:
  "bft_step e me peers q l q' \<Longrightarrow> bft_policy_inv e me peers (snd q) \<Longrightarrow> bft_policy_inv e me peers (snd q')"
proof (induction rule: bft_step.induct)
  case (serve p conn t continue core)
  from serve(4) have "bft_core_inv (e\<lparr>time_Now := t\<rparr>) me peers (bp_core p)" by (simp add: bft_policy_inv_def)
  from bft_handleConnection_inv [OF serve(3) this] serve(4) show ?case by (simp add: bft_policy_inv_core)
next
  case (run_request request p t p' serving)
  then show ?case using bft_run_task_inv [OF run_request(2), of me peers] by (simp add: bft_policy_inv_def)
next
  case (run_commit r result p t p' serving)
  then show ?case using bft_run_task_inv [OF run_commit(2), of me peers] by (simp add: bft_policy_inv_def)
next
  case (responses_timeout i p order serving)
  then show ?case using bft_waitResponse_timeout_inv [of e me peers "bp_core p" order i]
    by (auto intro: bft_policy_inv_core bft_policy_core)
next
  case (responses_tunnel i p order serving)
  then show ?case using bft_waitResponse_tunnel_inv [of e me peers "bp_core p" order i]
    by (auto intro: bft_policy_inv_core bft_policy_core)
next
  case (responses_commit i p res serving)
  then show ?case using bft_waitResponse_commit_inv [of e me peers "bp_core p" i res]
    by (auto intro: bft_policy_inv_core bft_policy_core)
next
  case (round_timeout r p err p' serving)
  then show ?case by (auto simp: bft_ToConsensus_timeout_def bft_policy_inv_def dest: in_remove1)
next
  case (chain_moves serving p w)
  then show ?case by (auto intro!: bft_policy_inv_core dest: bft_policy_core)
qed (auto simp: bft_Initialization_inv bft_ToConsensus_begin_inv intro: bft_ToConsensus_result_inv)

theorem bft_reachable_inv: "bft_reachable e me peers q \<Longrightarrow> bft_policy_inv e me peers (snd q)"
proof (induction rule: bft_reachable.induct)
  case (started q)
  then show ?case by (auto simp: bft_started_def NewBFTPolicy_def NewBFTCore_def intro!: bft_Initialization_inv)
qed (rule bft_step_inv)

lemma core_results_certified:
  assumes "bft_core_inv e me peers s" and "res \<in> set (bc_result s)" and "cr_Result res = None"
  shows "\<exists>d ps. bc_validator s d = Some ps \<and> b_MixDigest (load_block (ps_block ps) s) = d \<and>
    (\<exists>w b. b_MixDigest b = d \<and> NewRepositoryByBlockHash e w (b_PrevBlockHash b) = None \<and>
       worker_VerifyBlock e w (RepositoryByBlockHash (b_PrevBlockHash b)) b True = Inr (ps_receipts ps)) \<and>
    certificate e (insert me (insert zero_account (set peers))) (length peers) d (cr_Signatures res)"
proof -
  have "result_ok e me peers (dom (bc_validator s)) res" using assms(1,2) by (simp add: bft_core_inv_def)
  then obtain d ps where "bc_validator s d = Some ps" "certificate e (signers me peers) (length peers) d (cr_Signatures res)"
    using assms(3) by (auto simp: result_ok_def)
  moreover from this assms(1) have "b_MixDigest (load_block (ps_block ps) s) = d" "verified e d (ps_receipts ps)"
    by (simp_all add: bft_core_inv_def validator_ok_def load_block_def)
  ultimately show ?thesis unfolding verified_def signers_def by blast
qed

end
