(* ===== verification/Bft_Trace.thy ===== *)
theory Bft_Trace
  imports Bft_Invariants Sample_Network
begin

text \<open>
  A run of a BFT node with one other peer: a round is started, the peer's response arrives, and
  either the goroutine that waits for responses receives it, or its timer fires first.
\<close>

section \<open>The states\<close>

definition bt_response :: Response where
  "bt_response = \<lparr>res_Account = sample_node 2, res_Timestamp = 0, res_Digest = 7, res_Signature = [2, 7], res_BlockHeight = 0\<rparr>"

definition bt_env :: "u64 env" where
  "bt_env = sample_env\<lparr>json_Unmarshal := \<lambda>raw blank.
     Inr (if blank = ResponseMessage None then ResponseMessage (Some bt_response) else blank)\<rparr>"

definition bt_conn :: bytes where
  "bt_conn = encodeMessageHeader \<lparr>mh_Magic = 0, mh_MessageType = ResponseMessageType, mh_Length = 0\<rparr>"

definition bt_peers :: "Account list" where "bt_peers = [sample_node 1, sample_node 2]"

definition bt_raw :: bytes where
  "bt_raw = encodeMessageHeader \<lparr>mh_Magic = 0, mh_MessageType = ProposalMessageType, mh_Length = 1\<rparr> @ [0]"

definition bt0 :: "u64 BFTPolicy" where
  "bt0 = bft_Initialization (sample_node 1) (sample_node 1) bt_peers False
     (NewBFTPolicy \<lparr>TimeoutToCollectResponseMsg = 1, TimeoutToWaitCommitMsg = 1, TimeoutToChangeView = 1\<rparr> 0)"

definition bt_request :: requestRef where "bt_request = \<lparr>rq_Timestamp = 0, rq_Payload = 0\<rparr>"

definition bt1 :: "u64 BFTPolicy" where
  "bt1 = bt0\<lparr>bp_core := (bp_core bt0)\<lparr>bc_heap := [sample_block 7 20]\<rparr>, bp_pending := [0], bp_tasks := [RequestTask bt_request]\<rparr>"

definition bt2 :: "u64 BFTPolicy" where
  "bt2 = bt1\<lparr>bp_tasks := [],
     bp_core := (bp_core bt1)
       \<lparr>bc_validator := [7 \<mapsto> \<lparr>ps_block = 0, ps_receipts = []\<rparr>], bc_digest := 7,
        bc_signature := \<lparr>sd_signatures = [[1, 7]], sd_signMap = [sample_node 1 \<mapsto> [1, 7]]\<rparr>,
        bc_effects := [SendTo ''node'' bt_raw, SendTo ''node'' bt_raw], bc_waiters := [Collecting]\<rparr>\<rparr>"

definition bt3 :: "u64 BFTPolicy" where
  "bt3 = bt2\<lparr>bp_core := (bp_core bt2)
     \<lparr>bc_signature := \<lparr>sd_signatures = [[1, 7], [2, 7]], sd_signMap = [sample_node 1 \<mapsto> [1, 7], sample_node 2 \<mapsto> [2, 7]]\<rparr>,
      bc_tunnel := 1\<rparr>\<rparr>"

definition bt_result :: ConsensusResult where
  "bt_result = \<lparr>cr_Signatures = [[1, 7], [2, 7]], cr_Result = None\<rparr>"

text \<open>The goroutine receives the response and sends its result.\<close>

definition bt4 :: "u64 BFTPolicy" where
  "bt4 = bt3\<lparr>bp_core := (bp_core bt3)\<lparr>bc_tunnel := 0, bc_waiters := [Committing bt_result]\<rparr>\<rparr>"

definition bt5 :: "u64 BFTPolicy" where
  "bt5 = bt4\<lparr>bp_core := (bp_core bt4)\<lparr>bc_commit := True, bc_waiters := [], bc_result := [bt_result]\<rparr>\<rparr>"

text \<open>Or its timer fires while the response is still blocked.\<close>

definition bt_stuck :: "u64 BFTPolicy" where
  "bt_stuck = bt3\<lparr>bp_core := (bp_core bt3)\<lparr>bc_waiters := [Committing bt_result]\<rparr>\<rparr>"

section \<open>The steps\<close>

lemmas bt_defs = bt0_def bt1_def bt2_def bt3_def bt4_def bt5_def bt_stuck_def bt_request_def bt_result_def bt_raw_def
  bt_peers_def bft_Initialization_def NewBFTPolicy_def NewBFTCore_def new_signData_def bft_tolerance_def
  sample_block_def sample_node_def signed_divide_int_def

lemmas bt_ops = bft_receiveRequest_def bft_ProcessEvent_def bft_verifyPayload_def bft_signPayload_def bft_record_def
  bft_addSignature_def bft_broadcast_def bc_emit_def load_block_def sample_sign_def EncodeMessage_def
  buildMessageHeader_def proposal_message_def sendMsgByUrl_def core_handle_def

lemma bt_env_sel [simp]:
  "json_Marshal bt_env p = Inr [0]" "signature_Sign bt_env = sample_sign" "signature_Verify bt_env = sample_verify"
  "NewRepositoryByBlockHash bt_env w hh = None" "worker_VerifyBlock bt_env w r b v = Inr []"
  "bt_env\<lparr>time_Now := 0\<rparr> = bt_env"
  by (simp_all add: bt_env_def sample_env_def)

lemma bft_SendEvent_run:
  assumes "bft_known ev" "bft_ProcessEvent e s ev = Inr (s', None)"
  shows "SendEvent (bft_ProcessEvent e) s ev = Some (Inr s')"
  using bft_receiver.SendEvent_known [OF assms(1), of e s] assms(2) by simp

lemma bt_step1: "bft_ToConsensus_begin \<lparr>prop_Block = sample_block 7 20, prop_Timestamp = 0\<rparr> bt0 = bt1"
  by (simp add: bft_ToConsensus_begin_def alloc_block_def bt_defs)

lemma bt_step2: "bft_run_task bt_env (RequestTask bt_request) bt1 = Inr bt2"
proof -
  have "bft_ProcessEvent bt_env (bp_core bt1) (CoreRequest (Some bt_request)) = Inr (bp_core bt2, None)"
    by (simp add: bt_ops bt_defs)
  from bft_SendEvent_run [OF _ this] show ?thesis by (simp add: bft_run_task_def) (simp add: bt_defs)
qed

lemma bt_read: "ReadMessage (json_Unmarshal bt_env) bt_conn =
    Inr (\<lparr>msg_Type = ResponseMessageType, msg_PayLoad = ResponseMessage (Some bt_response)\<rparr>, [])"
  using readMessageHeader_encode [of "\<lparr>mh_Magic = 0, mh_MessageType = ResponseMessageType, mh_Length = 0\<rparr>" "[]"]
  by (simp add: ReadMessage_def bt_conn_def ReadFull_def DecodeMessage_def makeEmptyMessage_def message_type_defs bt_env_def)

lemma bt_step3: "bft_handleConnection_turn bt_env bt_conn (bp_core bt2) = Some (Inr (True, bp_core bt3))"
proof -
  have "bft_ProcessEvent bt_env (bp_core bt2) (CoreResponse (Some bt_response)) = Inr (bp_core bt3, None)"
    by (simp add: bt_ops bt_defs bft_receiveResponse_def bt_response_def GetAccountById_def bft_signDataVerify_def Let_def)
  from bft_SendEvent_run [OF _ this] show ?thesis
    by (simp add: bft_handleConnection_turn_def bt_read message_type_defs sent_def)
      (simp add: bt_response_def bt_defs)
qed

lemma bt_keys: "lists_keys [sample_node 1, sample_node 2] (bp_core bt3)"
  by (auto simp: lists_keys_def bt3_def sample_node_def)

lemma bt_maybeCommit:
  "bft_maybeCommit bt_env [sample_node 1, sample_node 2] (bp_core bt3) = ([[1, 7], [2, 7]], None)"
  by (simp add: bft_maybeCommit_def bt_defs bft_signDataVerify_def)

lemma bt_step4: "bft_waitResponse_tunnel bt_env [sample_node 1, sample_node 2] 0 (bp_core bt3) = bp_core bt4"
  by (simp add: bft_waitResponse_tunnel_def bft_maybeCommit_def bt_defs bft_signDataVerify_def)

lemma bt_step5: "bft_waitResponse_commit 0 bt_result (bp_core bt4) = bp_core bt5"
  by (simp add: bft_waitResponse_commit_def bt_defs)

lemma bt_step_stuck: "bft_waitResponse_timeout bt_env [sample_node 1, sample_node 2] 0 (bp_core bt3) = bp_core bt_stuck"
  by (simp add: bft_waitResponse_timeout_def bt_maybeCommit) (simp add: bt_defs)

section \<open>The run\<close>

lemma bt_policies:
  "bt3 = bt2\<lparr>bp_core := bp_core bt3\<rparr>" "bt4 = bt3\<lparr>bp_core := bp_core bt4\<rparr>" "bt5 = bt4\<lparr>bp_core := bp_core bt5\<rparr>"
  "bt_stuck = bt3\<lparr>bp_core := bp_core bt_stuck\<rparr>"
  by (simp_all add: bt3_def bt4_def bt5_def bt_stuck_def)

lemma bt_facts:
  "bc_tunnel (bp_core bt2) = 0" "bc_waiters (bp_core bt2) = [Collecting]" "bc_waiters (bp_core bt3) = [Collecting]"
  "bc_tunnel (bp_core bt3) = 1" "bc_waiters (bp_core bt4) = [Committing bt_result]" "bc_tunnel (bp_core bt4) = 0"
  "bc_waiters (bp_core bt_stuck) = [Committing bt_result]" "bc_tunnel (bp_core bt_stuck) = 1"
  "bc_result (bp_core bt5) = [bt_result]" "bc_result (bp_core bt_stuck) = []" "bp_tasks bt1 = [RequestTask bt_request]"
  by (simp_all add: bt2_def bt3_def bt4_def bt5_def bt_stuck_def)
    (simp_all add: bt_defs)

lemma bt_reachable3: "bft_reachable bt_env (sample_node 1) bt_peers (True, bt3)"
proof -
  have "bft_reachable bt_env (sample_node 1) bt_peers (True, bt0)"
    by (rule bft_reachable.started) (auto simp: bft_started_def bt0_def)
  from bft_reachable.step [OF this bft_step.begin_round [of bt_env _ _ True bt0 "\<lparr>prop_Block = sample_block 7 20, prop_Timestamp = 0\<rparr>"]]
  have "bft_reachable bt_env (sample_node 1) bt_peers (True, bt1)" by (simp add: bt_step1)
  moreover have "bft_step bt_env (sample_node 1) bt_peers (True, bt1) (BftStartRound (rq_Payload bt_request)) (True, bt2)"
    by (rule bft_step.run_request [where t = 0]) (simp_all add: bt_step2 bt_facts)
  ultimately have r2: "bft_reachable bt_env (sample_node 1) bt_peers (True, bt2)" by (rule bft_reachable.step)
  have "bft_step bt_env (sample_node 1) bt_peers (True, bt2) BftInternal (True, bt2\<lparr>bp_core := bp_core bt3\<rparr>)"
    by (rule bft_step.serve [where t = 0 and conn = bt_conn])
      (simp_all add: bt_step3 bt_facts waits_for_lock_def)
  from bft_reachable.step [OF r2 this] show ?thesis unfolding bt_policies(1) [symmetric] .
qed

lemma bt_reachable5: "bft_reachable bt_env (sample_node 1) bt_peers (True, bt5)"
proof -
  have "bft_step bt_env (sample_node 1) bt_peers (True, bt3) BftInternal
      (True, bt3\<lparr>bp_core := bft_waitResponse_tunnel bt_env [sample_node 1, sample_node 2] 0 (bp_core bt3)\<rparr>)"
    by (rule bft_step.responses_tunnel) (simp_all add: bt_facts bt_keys)
  from bft_reachable.step [OF bt_reachable3 this]
  have r4: "bft_reachable bt_env (sample_node 1) bt_peers (True, bt4)" unfolding bt_step4 bt_policies(2) [symmetric] .
  have "bft_step bt_env (sample_node 1) bt_peers (True, bt4) BftInternal
      (True, bt4\<lparr>bp_core := bft_waitResponse_commit 0 bt_result (bp_core bt4)\<rparr>)"
    by (rule bft_step.responses_commit) (simp_all add: bt_facts)
  from bft_reachable.step [OF r4 this] show ?thesis unfolding bt_step5 bt_policies(3) [symmetric] .
qed

lemma bt_reachable_stuck: "bft_reachable bt_env (sample_node 1) bt_peers (True, bt_stuck)"
proof -
  have "bft_step bt_env (sample_node 1) bt_peers (True, bt3) BftInternal
      (True, bt3\<lparr>bp_core := bft_waitResponse_timeout bt_env [sample_node 1, sample_node 2] 0 (bp_core bt3)\<rparr>)"
    by (rule bft_step.responses_timeout) (simp_all add: bt_facts bt_keys)
  from bft_reachable.step [OF bt_reachable3 this] show ?thesis unfolding bt_step_stuck bt_policies(4) [symmetric] .
qed

end
