(* ===== verification/Bft_Properties.thy ===== *)
theory Bft_Properties
  imports Bft_Trace "HOL-Library.Multiset"
begin

text \<open>
  What the BFT policy guarantees and where it fails: results are certified, a response that meets the
  timer stops the node, commits are not verified, a foreign message ends the server, a second round
  cannot succeed, and unknown senders are counted as the zero account.
\<close>

section \<open>Results\<close>

text \<open>
  C16: in every reachable state of a BFT node, a successful result that waits for \<open>ToConsensus\<close> holds
  the signatures of at least \<open>n - (n - 1) div 3\<close> (in eight bits) distinct accounts, which are the
  node itself, its peers or the zero account (under which the code files responses of unknown
  senders); each signature verifies for one digest; the node has recorded a block of that digest,
  with the receipts the worker returned when it verified a block of that digest.
\<close>

theorem bft_results_certified:
  assumes "bft_reachable e me peers (serving, p)" and "res \<in> set (bc_result (bp_core p))" and "cr_Result res = None"
  shows "\<exists>d ps. bc_validator (bp_core p) d = Some ps \<and> b_MixDigest (load_block (ps_block ps) (bp_core p)) = d \<and>
    (\<exists>w b. b_MixDigest b = d \<and> NewRepositoryByBlockHash e w (b_PrevBlockHash b) = None \<and>
       worker_VerifyBlock e w (RepositoryByBlockHash (b_PrevBlockHash b)) b True = Inr (ps_receipts ps)) \<and>
    certificate e (insert me (insert zero_account (set peers))) (length peers) d (cr_Signatures res)"
proof -
  have "bft_core_inv e me peers (bp_core p)" using bft_reachable_inv [OF assms(1)] by (simp add: bft_policy_inv_def)
  from core_results_certified [OF this assms(2,3)] show ?thesis .
qed

theorem bft_results_certified_witness:
  "\<exists>d. certificate bt_env (insert (sample_node 1) (insert zero_account (set bt_peers))) (length bt_peers) d [[1, 7], [2, 7]]"
  using bft_results_certified [OF bt_reachable5, of bt_result] by (auto simp: bt_facts bt_result_def)

section \<open>A response that meets the timer\<close>

definition stuck :: "('w, 'z) bftCore_scheme \<Rightarrow> bool" where
  "stuck s \<longleftrightarrow> 0 < bc_tunnel s \<and> bc_waiters s \<noteq> [] \<and> Collecting \<notin> set (bc_waiters s)"

lemma waiting_unchanged [simp]:
  "bc_tunnel (store_block r b s) = bc_tunnel s" "bc_waiters (store_block r b s) = bc_waiters s"
  "bc_result (store_block r b s) = bc_result s" "bc_digest (store_block r b s) = bc_digest s"
  "bc_tunnel (clear_SigData r s) = bc_tunnel s" "bc_waiters (clear_SigData r s) = bc_waiters s"
  "bc_result (clear_SigData r s) = bc_result s" "bc_digest (clear_SigData r s) = bc_digest s"
  "bc_validator (clear_SigData r s) = bc_validator s"
  "bc_tunnel (bc_emit g s) = bc_tunnel s" "bc_waiters (bc_emit g s) = bc_waiters s"
  "bc_result (bc_emit g s) = bc_result s" "bc_digest (bc_emit g s) = bc_digest s"
  "bc_validator (bc_emit g s) = bc_validator s"
  by (simp_all add: store_block_def clear_SigData_def bc_emit_def)

definition same_waiting :: "('w, 'z) bftCore_scheme \<Rightarrow> ('w, 'z) bftCore_scheme \<Rightarrow> bool" where
  "same_waiting s s' \<longleftrightarrow> bc_tunnel s' = bc_tunnel s \<and> bc_waiters s' = bc_waiters s \<and> bc_digest s' = bc_digest s \<and>
     bc_validator s' = bc_validator s \<and> set (bc_result s') \<subseteq> set (bc_result s)"

lemma same_waiting_trans: "same_waiting s t \<Longrightarrow> same_waiting t u \<Longrightarrow> same_waiting s u"
  by (auto simp: same_waiting_def)

lemma bft_commitBlock_waiting: "bft_commitBlock e r s = Inr s' \<Longrightarrow> same_waiting s s'"
  by (auto simp: bft_commitBlock_def Let_def same_waiting_def split: if_splits option.splits prod.splits)

lemma bft_SendCommit_waiting: "bft_SendCommit e commit r s = Inr s' \<Longrightarrow> same_waiting s s'"
  by (auto simp: bft_SendCommit_def Let_def bindP_Inr_iff bc_notify_def split: if_splits sum.splits
      dest!: bft_commitBlock_waiting) (auto simp: same_waiting_def)

lemma bft_step_stuck:
  assumes "bft_step e me peers q l q'" "l = BftInternal" "stuck (bp_core (snd q))"
  shows "fst q' = fst q \<and> same_waiting (bp_core (snd q)) (bp_core (snd q'))"
  using assms
proof (induction rule: bft_step.induct)
  case (round_result r p res rest err p' serving)
  then show ?case
    by (auto simp: bft_ToConsensus_result_def Let_def same_waiting_def split: option.splits)
next
  case (run_commit r result p t p' serving)
  then show ?case
    by (auto simp: bft_run_task_def bft_commit_def Let_def bindP_Inr_iff dest!: bft_SendCommit_waiting)
qed (auto simp: stuck_def same_waiting_def bft_Initialization_def bft_ToConsensus_begin_def alloc_block_def
    bft_ToConsensus_timeout_def dest: nth_mem)

text \<open>
  C28: a deadlock. When the timer of the only goroutine that waits for responses fires while a response
  is blocked on the tunnel, the goroutine waits for the write lock, the response holds the read lock
  and waits for the goroutine. Whatever happens then, as long as no new request reaches the core, the
  goroutine produces no result, the response stays blocked, and the server, which is the goroutine
  that handles the response, takes in no further message. A new request takes no lock and starts
  another goroutine, which reads the tunnel and so releases them: the steps considered are those
  that handle no request.
\<close>

theorem bft_timer_deadlock:
  assumes "0 < bc_tunnel (bp_core p)" and "bc_waiters (bp_core p) = [Committing res]"
    and "(\<lambda>q q'. bft_step e me peers q BftInternal q')\<^sup>*\<^sup>* (serving, p) (serving', p')"
  shows "serving' = serving \<and> bc_tunnel (bp_core p') = bc_tunnel (bp_core p) \<and>
    bc_waiters (bp_core p') = [Committing res] \<and> set (bc_result (bp_core p')) \<subseteq> set (bc_result (bp_core p)) \<and>
    bc_digest (bp_core p') = bc_digest (bp_core p) \<and> bc_validator (bp_core p') = bc_validator (bp_core p)"
proof -
  have "fst q' = fst q \<and> same_waiting (bp_core (snd q)) (bp_core (snd q'))"
    if "(\<lambda>q q'. bft_step e me peers q BftInternal q')\<^sup>*\<^sup>* q q'" "stuck (bp_core (snd q))" for q q'
    using that
  proof (induction rule: rtranclp_induct)
    case (step y z)
    then have "stuck (bp_core (snd y))" by (auto simp: stuck_def same_waiting_def)
    with step bft_step_stuck [OF step(2)] show ?case using same_waiting_trans by metis
  qed (simp add: same_waiting_def)
  from this [OF assms(3)] assms(1,2) show ?thesis by (auto simp: stuck_def same_waiting_def)
qed

theorem bft_timer_deadlock_witness:
  "bft_reachable bt_env (sample_node 1) bt_peers (True, bt_stuck) \<and>
   bc_tunnel (bp_core (snd (bft_ToConsensus_timeout 0 bt_stuck))) = 1 \<and>
   bc_result (bp_core (snd (bft_ToConsensus_timeout 0 bt_stuck))) = []"
proof -
  let ?p' = "snd (bft_ToConsensus_timeout 0 bt_stuck)"
  have "bft_step bt_env (sample_node 1) bt_peers (True, bt_stuck) BftInternal (True, ?p')"
    by (rule bft_step.round_timeout [where r = 0 and err = "fst (bft_ToConsensus_timeout 0 bt_stuck)"])
      (simp_all add: bt_stuck_def bt3_def bt2_def bt1_def)
  then have "(\<lambda>q q'. bft_step bt_env (sample_node 1) bt_peers q BftInternal q')\<^sup>*\<^sup>* (True, bt_stuck) (True, ?p')" by blast
  from bft_timer_deadlock [OF _ _ this, of bt_result] bt_reachable_stuck show ?thesis by (simp add: bt_facts)
qed

section \<open>Commits\<close>

lemma clear_stored [simp]:
  "clear_SigData r (store_block r b s) = store_block r (set_SigData [] b) s"
  "clear_SigData r ((store_block r b s)\<lparr>bc_chain := w\<rparr>) = (store_block r (set_SigData [] b) s)\<lparr>bc_chain := w\<rparr>"
  by (cases "r < length (bc_heap s)"; simp add: clear_SigData_def store_block_def load_block_def list_update_beyond)+

text \<open>
  neither the signatures nor the sender of a commit message are checked: for a recorded block whose
  parent the repository knows, and for any list of signatures, a message of any account that carries
  them and the header hash they give makes the node write the block with these signatures.
\<close>

theorem bft_forged_commit_written:
  assumes "bc_validator s d = Some ps" and "b = set_SigData sigs (load_block (ps_block ps) s)"
    and "NewRepositoryByBlockHash e (bc_chain s) (b_PrevBlockHash b) = None"
  shows "\<exists>s'. bft_receiveCommit e \<lparr>com_Account = a, com_Timestamp = t, com_BlockHash = HeaderHash e b, com_Digest = d,
        com_Signatures = sigs, com_Result = True\<rparr> s = Inr s' \<and>
    bc_chain s' = snd (WriteBlockWithReceipts e (bc_chain s) (RepositoryByBlockHash (b_PrevBlockHash b))
      (b\<lparr>b_HeaderHash := HeaderHash e b\<rparr>) (ps_receipts ps))"
  using assms by (auto simp: bft_receiveCommit_def Let_def split: prod.splits)

definition bt_commit :: "hash \<Rightarrow> Commit" where
  "bt_commit h = \<lparr>com_Account = sample_node 9, com_Timestamp = 0, com_BlockHash = h, com_Digest = 7,
     com_Signatures = [[99]], com_Result = True\<rparr>"

lemma bt_committing:
  "bc_validator (bp_core bt2) 7 = Some \<lparr>ps_block = 0, ps_receipts = []\<rparr>" "load_block 0 (bp_core bt2) = sample_block 7 20"
  "length (bc_heap (bp_core bt2)) = 1"
  "HeaderHash bt_env (set_SigData [[99]] (sample_block 7 20)) = 2"
  "WriteBlockWithReceipts bt_env w r b rs = (None, b_Height b)"
  by (simp_all add: bt2_def bt1_def load_block_def HeaderHash_def bt_env_def sample_block_def)

theorem bft_forged_commit_written_witness:
  "\<exists>s'. bft_receiveCommit bt_env (bt_commit 2) (bp_core bt2) = Inr s' \<and> bc_chain s' = 20"
  using bft_forged_commit_written [OF bt_committing(1) refl, where e = bt_env and sigs = "[[99]]" and a = "sample_node 9" and t = 0]
  by (auto simp: bt_committing bt_commit_def) (auto simp: bt_env_def sample_block_def)

text \<open>
  unlike in the FBFT core, a commit message with a wrong hash does no lasting harm: the answer to
  any later commit message for the same digest is the one the node would have given without it.
\<close>

theorem bft_bogus_commit_forgotten:
  assumes "com_Result bogus" "com_Result commit" "com_Digest bogus = com_Digest commit"
    and "bc_validator s (com_Digest commit) = Some ps"
    and "HeaderHash e (set_SigData (com_Signatures bogus) (load_block (ps_block ps) s)) \<noteq> com_BlockHash bogus"
    and "ps_block ps < length (bc_heap s)" and run: "bft_receiveCommit e bogus s = Inr s1"
  shows "bft_receiveCommit e commit s1 = bft_receiveCommit e commit s"
proof -
  have s1: "s1 = store_block (ps_block ps) (set_SigData [] (load_block (ps_block ps) s)) s"
    using assms by (simp add: bft_receiveCommit_def Let_def)
  have "load_block (ps_block ps) s1 = set_SigData [] (load_block (ps_block ps) s)"
    using assms(6) by (simp add: s1 load_block_def store_block_def)
  then have "set_SigData (com_Signatures commit) (load_block (ps_block ps) s1) =
      set_SigData (com_Signatures commit) (load_block (ps_block ps) s)"
    by (simp add: set_SigData_def)
  with assms show ?thesis by (simp add: bft_receiveCommit_def Let_def s1)
qed

theorem bft_bogus_commit_forgotten_witness:
  "\<exists>s1. bft_receiveCommit bt_env (bt_commit 5) (bp_core bt2) = Inr s1 \<and>
     bft_receiveCommit bt_env (bt_commit 2) s1 = bft_receiveCommit bt_env (bt_commit 2) (bp_core bt2)"
proof -
  have "\<exists>s1. bft_receiveCommit bt_env (bt_commit 5) (bp_core bt2) = Inr s1"
    by (simp add: bft_receiveCommit_def bt_commit_def bt_committing Let_def)
  then show ?thesis
    using bft_bogus_commit_forgotten [of "bt_commit 5" "bt_commit 2" "bp_core bt2" "\<lparr>ps_block = 0, ps_receipts = []\<rparr>" bt_env]
    by (auto simp: bt_commit_def bt_committing)
qed

section \<open>The server\<close>

lemma bft_step_server_ended:
  "bft_step e me peers q l q' \<Longrightarrow> \<not> fst q \<Longrightarrow> \<not> fst q'"
  by (induction rule: bft_step.induct) auto

text \<open>
  C40: the server of the BFT policy handles its connections one after another and returns, for good, at
  the first one that it cannot read or that carries a message of a kind it does not know (the
  synchronisation, view change and online messages of the other policies): the connections after it
  are not served, and in no later state is the server running again.
\<close>

theorem bft_foreign_message_ends_server:
  assumes "case ReadMessage (json_Unmarshal e) conn of Inl err \<Rightarrow> True
    | Inr (msg, rest) \<Rightarrow> msg_Type msg \<notin> {RequestMessageType, ProposalMessageType, ResponseMessageType, CommitMessageType}"
  shows "bft_handleConnection e (Accepted conn # conns) s = Some (Inr (Returned s conns)) \<and>
    (\<forall>serving p'. (\<lambda>q q'. \<exists>l. bft_step e me peers q l q')\<^sup>*\<^sup>* (False, p) (serving, p') \<longrightarrow> \<not> serving)"
proof -
  have turn: "bft_handleConnection_turn e conn s = Some (Inr (False, s))"
    using assms by (auto simp: bft_handleConnection_turn_def Let_def split: sum.splits prod.splits)
  have ended: "\<not> fst q'" if "(\<lambda>q q'. \<exists>l. bft_step e me peers q l q')\<^sup>*\<^sup>* q q'" "\<not> fst q" for q q'
    using that by (induction rule: rtranclp_induct) (auto dest: bft_step_server_ended)
  have "\<not> serving" if "(\<lambda>q q'. \<exists>l. bft_step e me peers q l q')\<^sup>*\<^sup>* (False, p) (serving, p')" for serving p'
    using ended [OF that] by simp
  then show ?thesis using turn by (simp only: bft_handleConnection.simps option.case sum.case prod.case if_False) blast
qed

theorem bft_foreign_message_ends_server_witness:
  "bft_handleConnection bt_env [Accepted [], Accepted bt_conn] (bp_core bt2) = Some (Inr (Returned (bp_core bt2) [Accepted bt_conn]))"
proof -
  have "ReadMessage (json_Unmarshal bt_env) [] = Inl ErrEOF" by (simp add: ReadMessage_def readMessageHeader_def ReadFull_def)
  then show ?thesis using bft_foreign_message_ends_server [of bt_env "[]" "[Accepted bt_conn]" "bp_core bt2"] by simp
qed

section \<open>Rounds\<close>

fun bft_receiveResponses :: "'w env \<Rightarrow> Response list \<Rightarrow> ('w, 'z) bftCore_scheme \<Rightarrow> ('w, 'z) bftCore_scheme outcome" where
  "bft_receiveResponses e [] s = Inr s"
| "bft_receiveResponses e (r # rs) s = bindP (bft_receiveResponse e r s) (bft_receiveResponses e rs)"

text \<open>A request that opens a round starts a goroutine that waits for responses.\<close>

definition opens_round :: "'w env \<Rightarrow> requestRef \<Rightarrow> ('w, 'z) bftCore_scheme \<Rightarrow> ('w, 'z) bftCore_scheme \<Rightarrow> bool" where
  "opens_round e request s s' \<longleftrightarrow>
     bft_receiveRequest e (Some request) s = Inr s' \<and> length (bc_waiters s') = Suc (length (bc_waiters s))"

definition signatures_counted :: "('w, 'z) bftCore_scheme \<Rightarrow> bool" where
  "signatures_counted s \<longleftrightarrow> finite (dom (sd_signMap (bc_signature s))) \<and>
     card (dom (sd_signMap (bc_signature s))) \<le> length (sd_signatures (bc_signature s))"

lemma opens_round_signature:
  assumes "opens_round e request s s'"
  shows "\<exists>sg. bc_signature s' = bft_addSignature (bc_local s) sg (bc_signature s) \<and> bc_local s' = bc_local s \<and>
    bc_local s = bc_master s"
proof -
  have "bft_receiveRequest e (Some request) s = Inr s'" using assms by (simp add: opens_round_def)
  then show ?thesis
  proof (cases rule: bft_receiveRequest_cases)
    case (3 request' receipts sg raw d)
    then show ?thesis by (auto simp: bft_broadcast_def bc_emit_def bft_record_def)
  qed (use assms in \<open>auto simp: opens_round_def frame_simps\<close>)
qed

lemma addSignature_counted:
  "signatures_counted s \<Longrightarrow> bc_signature s' = bft_addSignature a sg (bc_signature s) \<Longrightarrow> signatures_counted s'"
  by (auto simp: signatures_counted_def bft_addSignature_def card_insert_if)

lemma receiveResponse_signature:
  assumes "bft_receiveResponse e r s = Inr s'"
  shows "bc_local s' = bc_local s \<and> (bc_signature s' = bc_signature s \<or>
    (\<exists>a sg. bc_signature s' = bft_addSignature a sg (bc_signature s)))"
  using assms by (auto simp: bft_receiveResponse_def Let_def split: if_splits option.splits) metis

lemma receiveResponses_counted:
  "bft_receiveResponses e rs s = Inr s' \<Longrightarrow> signatures_counted s \<Longrightarrow>
   signatures_counted s' \<and> bc_local s' = bc_local s \<and> dom (sd_signMap (bc_signature s)) \<subseteq> dom (sd_signMap (bc_signature s'))"
proof (induction rs arbitrary: s)
  case (Cons r rs)
  then obtain t where t: "bft_receiveResponse e r s = Inr t" "bft_receiveResponses e rs t = Inr s'"
    by (auto simp: bindP_Inr_iff)
  have "signatures_counted t" "bc_local t = bc_local s" "dom (sd_signMap (bc_signature s)) \<subseteq> dom (sd_signMap (bc_signature t))"
    using receiveResponse_signature [OF t(1)] addSignature_counted [OF Cons(3), of t] Cons(3)
    by (auto simp: signatures_counted_def bft_addSignature_def)
  with Cons.IH [OF t(2)] show ?case by auto
qed simp

text \<open>
  only the first round after \<open>Initialization\<close> can succeed. If the master opens a round, handles
  any responses, and opens another round before it is initialised again, it has added its own
  signature twice to the list and once to the map, and from then on \<open>maybeCommit\<close> fails with
  the error that the two do not match, whatever responses it still handles.
\<close>

theorem bft_second_round_fails:
  assumes "signatures_counted s" and "opens_round e1 request1 s s1" and "bft_receiveResponses e2 rs s1 = Inr s2"
    and "opens_round e3 request2 s2 s3" and "bft_receiveResponses e4 rs' s3 = Inr s4" and "lists_keys order s4"
  shows "bft_maybeCommit e5 order s4 = ([], Some ErrSignMapMismatch)"
proof -
  obtain sg1 where 1: "bc_signature s1 = bft_addSignature (bc_local s) sg1 (bc_signature s)" "bc_local s1 = bc_local s"
    using opens_round_signature [OF assms(2)] by blast
  have s2: "signatures_counted s2" "bc_local s2 = bc_local s" "bc_local s \<in> dom (sd_signMap (bc_signature s2))"
    using receiveResponses_counted [OF assms(3)] addSignature_counted [OF assms(1) 1(1)] 1
    by (auto simp: bft_addSignature_def)
  obtain sg2 where 3: "bc_signature s3 = bft_addSignature (bc_local s) sg2 (bc_signature s2)"
    using opens_round_signature [OF assms(4)] s2(2) by auto
  have step: "card (dom (sd_signMap (bc_signature t))) < length (sd_signatures (bc_signature t)) \<and>
      finite (dom (sd_signMap (bc_signature t)))"
    if "bft_receiveResponses e4 rs' u = Inr t" "card (dom (sd_signMap (bc_signature u))) < length (sd_signatures (bc_signature u))"
      "finite (dom (sd_signMap (bc_signature u)))" for u t
    using that
  proof (induction rs' arbitrary: u)
    case (Cons r rs)
    then obtain v where v: "bft_receiveResponse e4 r u = Inr v" "bft_receiveResponses e4 rs v = Inr t"
      by (auto simp: bindP_Inr_iff)
    have "card (dom (sd_signMap (bc_signature v))) < length (sd_signatures (bc_signature v)) \<and>
        finite (dom (sd_signMap (bc_signature v)))"
      using receiveResponse_signature [OF v(1)] Cons(3,4) by (auto simp: bft_addSignature_def card_insert_if)
    with Cons.IH [OF v(2)] show ?case by blast
  qed simp
  have "card (dom (sd_signMap (bc_signature s3))) < length (sd_signatures (bc_signature s3))"
    "finite (dom (sd_signMap (bc_signature s3)))"
    using s2 unfolding 3 by (auto simp: bft_addSignature_def insert_absorb signatures_counted_def)
  from step [OF assms(5) this] have "card (dom (sd_signMap (bc_signature s4))) < length (sd_signatures (bc_signature s4))"
    by blast
  then have "length order \<noteq> length (sd_signatures (bc_signature s4))"
    using assms(6) distinct_card [of order] by (auto simp: lists_keys_def)
  then show ?thesis by (simp add: bft_maybeCommit_def Let_def)
qed

definition bt_second :: "u64 bftCore" where
  "bt_second = (case bft_receiveRequest bt_env (Some bt_request) (bp_core bt2) of Inr s \<Rightarrow> s)"

lemma bt_rounds:
  "signatures_counted (bp_core bt1)" "opens_round bt_env bt_request (bp_core bt1) (bp_core bt2)"
  "opens_round bt_env bt_request (bp_core bt2) bt_second" "lists_keys [sample_node 1] bt_second"
  by (auto simp: signatures_counted_def opens_round_def bt_second_def bt_ops bt_defs lists_keys_def)

theorem bft_second_round_fails_witness: "bft_maybeCommit bt_env [sample_node 1] bt_second = ([], Some ErrSignMapMismatch)"
  by (rule bft_second_round_fails [OF bt_rounds(1,2) _ bt_rounds(3) _ bt_rounds(4), of bt_env "[]" bt_env "[]"]) simp_all

text \<open>
  \<open>receiveResponse\<close> looks the sender up by its id and gets the zero account when no peer has the
  id. A response with such an id whose signature makes \<open>signature.Verify\<close> return the zero address
  (its error is only logged) is accepted, and \<open>maybeCommit\<close> counts it among the valid signatures, so
  one signature of the quorum can be worthless.
\<close>

theorem bft_unknown_sender_counts:
  assumes "\<not> bc_commit s" "bc_local s = bc_master s" "res_Digest response = bc_digest s"
    and "acc_Id (res_Account response) \<notin> acc_Id ` set (bc_peers s)"
    and "fst (signature_Verify e (bc_digest s) (res_Signature response)) = 0"
    and "sd_signMap (bc_signature s) zero_account = None"
    and "finite (dom (sd_signMap (bc_signature s)))"
      "length (sd_signatures (bc_signature s)) = card (dom (sd_signMap (bc_signature s)))"
  shows "\<exists>s'. bft_receiveResponse e response s = Inr s' \<and>
    (\<forall>order. lists_keys order s' \<longrightarrow> res_Signature response \<in> set (fst (bft_maybeCommit e order s')) \<and>
       length (fst (bft_maybeCommit e order s')) =
         Suc (card {a \<in> dom (sd_signMap (bc_signature s)). SignatureVerify e a (the (sd_signMap (bc_signature s) a)) (bc_digest s)}))"
proof -
  let ?m = "sd_signMap (bc_signature s)" and ?d = "bc_digest s" and ?sg = "res_Signature response"
  let ?s = "s\<lparr>bc_signature := bft_addSignature zero_account ?sg (bc_signature s), bc_tunnel := bc_tunnel s + 1\<rparr>"
  let ?ok = "\<lambda>m a. SignatureVerify e a (the (m a)) ?d"
  have z: "GetAccountById (bc_peers s) (acc_Id (res_Account response)) = zero_account"
    using assms(4) by (intro GetAccountById_missing) (metis image_eqI)
  have v: "SignatureVerify e zero_account ?sg ?d"
    using assms(5) by (simp add: SignatureVerify_def split_beta zero_account_def)
  have run: "bft_receiveResponse e response s = Inr ?s"
    using assms(1-3,6) v by (simp add: bft_receiveResponse_def Let_def z bft_signDataVerify_eq)
  have "?sg \<in> set (fst (bft_maybeCommit e order ?s)) \<and>
      length (fst (bft_maybeCommit e order ?s)) = Suc (card {a \<in> dom ?m. ?ok ?m a})" if keys: "lists_keys order ?s" for order
  proof -
    let ?m' = "?m(zero_account \<mapsto> ?sg)"
    have o: "distinct order" "set order = insert zero_account (dom ?m)"
      using keys by (auto simp: lists_keys_def bft_addSignature_def)
    have "length order = length (sd_signatures (bc_signature s)) + 1"
      using assms(6-8) distinct_card [OF o(1)] unfolding o(2) by (simp add: domIff)
    then have c: "fst (bft_maybeCommit e order ?s) = map (\<lambda>a. the (?m' a)) (filter (?ok ?m') order)"
      using o(2) by (simp add: bft_maybeCommit_def Let_def bft_addSignature_def bft_reallySignature_spec)
    have F: "set (filter (?ok ?m') order) = insert zero_account {a \<in> dom ?m. ?ok ?m a}"
      using o(2) v assms(6) by auto
    have "zero_account \<notin> {a \<in> dom ?m. ?ok ?m a}" "finite {a \<in> dom ?m. ?ok ?m a}" using assms(6,7) by auto
    from card_insert_disjoint [OF this(2,1)] have "card (set (filter (?ok ?m') order)) = Suc (card {a \<in> dom ?m. ?ok ?m a})"
      unfolding F .
    then have "length (filter (?ok ?m') order) = Suc (card {a \<in> dom ?m. ?ok ?m a})"
      using distinct_card [OF distinct_filter [OF o(1)], of "?ok ?m'"] by (simp only:)
    moreover have "?sg \<in> set (map (\<lambda>a. the (?m' a)) (filter (?ok ?m') order))"
      using o(2) v by (auto intro!: image_eqI [of _ _ zero_account])
    ultimately show ?thesis unfolding c by simp
  qed
  with run show ?thesis by blast
qed

definition bt_unknown :: Response where
  "bt_unknown = \<lparr>res_Account = sample_node 9, res_Timestamp = 0, res_Digest = 7, res_Signature = [0, 7], res_BlockHeight = 0\<rparr>"

theorem bft_unknown_sender_counts_witness:
  "\<exists>s'. bft_receiveResponse bt_env bt_unknown (bp_core bt2) = Inr s' \<and>
     (\<forall>order. lists_keys order s' \<longrightarrow> [0, 7] \<in> set (fst (bft_maybeCommit bt_env order s')))"
proof -
  have "\<not> bc_commit (bp_core bt2)" "bc_local (bp_core bt2) = bc_master (bp_core bt2)" "bc_digest (bp_core bt2) = 7"
      "bc_peers (bp_core bt2) = bt_peers" "sd_signMap (bc_signature (bp_core bt2)) = [sample_node 1 \<mapsto> [1, 7]]"
      "sd_signatures (bc_signature (bp_core bt2)) = [[1, 7]]"
    by (simp_all add: bt_defs)
  then show ?thesis
    using bft_unknown_sender_counts [of "bp_core bt2" bt_unknown bt_env]
    by (auto simp: bt_unknown_def bt_peers_def sample_node_def zero_account_def)
qed

section \<open>The order of commit messages\<close>

lemma filter_index_eq:
  "filter_index keep i xs acc = acc @ map (nth xs) (filter (\<lambda>k. keep (i + int k)) [0..<length xs])"
proof (induction xs arbitrary: i acc)
  case (Cons x xs)
  have "[0..<Suc (length xs)] = 0 # map Suc [0..<length xs]" by (simp add: upt_conv_Cons map_Suc_upt del: upt_Suc)
  then show ?case using Cons.IH [of "i + 1"] by (simp add: filter_map o_def ac_simps del: upt_Suc)
qed simp

text \<open>A list of all indices, each once, reads a list off in another order.\<close>

lemma mset_map_nth:
  assumes "distinct ks" "set ks = {..<length xs}"
  shows "mset (map (nth xs) ks) = mset xs"
proof -
  have "mset ks = mset [0..<length xs]"
    using assms(2) set_eq_iff_mset_eq_distinct [OF assms(1) distinct_upt, of 0 "length xs"]
    by (simp only: set_upt atLeast0LessThan simp_thms)
  then have "mset (map (nth xs) ks) = mset (map (nth xs) [0..<length xs])" by simp
  then show ?thesis by (simp only: map_nth)
qed

lemma commit_order_indices:
  assumes "2 \<le> length xs" "i < length xs"
  defines "j \<equiv> (i + 1) mod length xs"
  shows "i \<noteq> j" "j < length xs"
    and "mset (xs ! i # map (nth xs) (filter (\<lambda>k. k \<noteq> i \<and> k \<noteq> j) [0..<length xs]) @ [xs ! j]) = mset xs"
    and "mset (map (nth xs) (filter (\<lambda>k. k \<noteq> i) [0..<length xs]) @ [xs ! i]) = mset xs"
proof -
  have "0 < length xs" using assms(2) by auto
  then show j: "j < length xs" by (simp add: j_def)
  show ij: "i \<noteq> j"
    using assms(1,2) unfolding j_def by (cases "i + 1 < length xs") (auto simp: le_Suc_eq not_less)
  show "mset (xs ! i # map (nth xs) (filter (\<lambda>k. k \<noteq> i \<and> k \<noteq> j) [0..<length xs]) @ [xs ! j]) = mset xs"
    using mset_map_nth [of "i # filter (\<lambda>k. k \<noteq> i \<and> k \<noteq> j) [0..<length xs] @ [j]" xs] ij j assms(2) by (auto simp: set_eq_iff)
  show "mset (map (nth xs) (filter (\<lambda>k. k \<noteq> i) [0..<length xs]) @ [xs ! i]) = mset xs"
    using mset_map_nth [of "filter (\<lambda>k. k \<noteq> i) [0..<length xs] @ [i]" xs] assms(2) by (auto simp: set_eq_iff)
qed

text \<open>
  \<open>getCommitOrder\<close> for a master that is one of at least two peers. After a successful round the
  master comes first, the next master last and every other peer once in between, in their order;
  after a failed one the master comes last. For an index outside the peers it panics.
\<close>

theorem bft_getCommitOrder_permutes:
  assumes "2 \<le> length (bc_peers s)"
  shows "if 0 \<le> i \<and> i < int (length (bc_peers s))
    then \<exists>ps. bft_getCommitOrder result i s = Inr ps \<and> mset ps = mset (bc_peers s) \<and>
      (if result = None
       then hd ps = bc_peers s ! nat i \<and> last ps = bc_peers s ! ((nat i + 1) mod length (bc_peers s))
       else last ps = bc_peers s ! nat i)
    else bft_getCommitOrder result i s = Inl IndexOutOfRange"
proof (cases "0 \<le> i \<and> i < int (length (bc_peers s))")
  case True
  let ?xs = "bc_peers s"
  define k where "k = nat i"
  have k: "i = int k" "k < length ?xs" using True by (simp_all add: k_def nat_less_iff)
  note order = commit_order_indices [OF assms k(2)]
  have "(1 + i) smod int (length ?xs) = int ((k + 1) mod length ?xs)"
    unfolding k(1) by (simp add: signed_modulo_int_def zmod_int ac_simps)
  with True k order show ?thesis
    by (cases result) (auto simp: bft_getCommitOrder_def index_peers_def filter_index_eq Let_def)
next
  case False
  then have "index_peers (bc_peers s) i = Inl IndexOutOfRange" by (auto simp: index_peers_def)
  then show ?thesis unfolding if_not_P [OF False] by (cases result) (simp_all add: bft_getCommitOrder_def Let_def)
qed

theorem bft_getCommitOrder_permutes_witness:
  "\<exists>ps. bft_getCommitOrder None 1 (bp_core bt2) = Inr ps \<and> mset ps = mset bt_peers \<and> hd ps = sample_node 2"
proof -
  have "bc_peers (bp_core bt2) = bt_peers" by (simp add: bt_defs)
  then show ?thesis using bft_getCommitOrder_permutes [of "bp_core bt2" 1 None] by (auto simp: bt_peers_def)
qed

end
