(* ===== verification/Dbft_Core.thy ===== *)
theory Dbft_Core
  imports Bft_Core
begin

text \<open>
  \<^verbatim>\<open>consensus/policy/dbft/dbft-core.go\<close>: the BFT core with view changes, block synchronisation and
  a timer for the master. The struct has the fields of the BFT core and two more; the record extends
  it. The functions that both files have are written out again here from this file. That they agree
  with the ones of the BFT core is proved where it is so.

  \<open>dc_masterTimeout\<close> is the pointer to the timer made last (nil before the first), \<open>dc_timers\<close> are
  the timers that can still fire, each with its \<open>waitMasterTimeOut\<close> goroutine.
\<close>

section \<open>State\<close>

text \<open>\<open>vs_mu\<close> counts the read locks on \<open>mu\<close> that are never released.\<close>

record viewNumStatus =
  vs_mu :: nat
  vs_status :: ViewRequestState
  vs_notify :: bool
  vs_requestNodes :: "Account list"

record dbftViews =
  dv_status :: ViewStatus
  dv_viewNum :: u64
  dv_viewSets :: "u64 \<rightharpoonup> viewNumStatus"

text \<open>The structs of signatures and of verified payloads are those of \<^verbatim>\<open>bft-core.go\<close>.\<close>

type_synonym dbft_signData = signData
type_synonym dbft_payloadSets = payloadSets

record 'w dbftCore = "'w bftCore" +
  dc_views :: dbftViews
  dc_masterTimeout :: "nat option"
  dc_timers :: "nat list"
  dc_timerCount :: nat

definition dbft_addSignature :: "Account \<Rightarrow> bytes \<Rightarrow> dbft_signData \<Rightarrow> dbft_signData" where
  "dbft_addSignature account sign s =
     s\<lparr>sd_signMap := (sd_signMap s)(account \<mapsto> sign), sd_signatures := sd_signatures s @ [sign]\<rparr>"

definition NewDBFTCore :: "'w \<Rightarrow> 'w dbftCore" where
  "NewDBFTCore chain =
     \<lparr>bc_local = zero_account, bc_master = zero_account, bc_peers = [],
      bc_signature = \<lparr>sd_signatures = [], sd_signMap = Map.empty\<rparr>, bc_tolerance = 0, bc_commit = False, bc_digest = 0,
      bc_result = [], bc_tunnel = 0, bc_validator = Map.empty, bc_payloads = Map.empty, bc_eventCenter = False,
      bc_waiters = [], bc_heap = [], bc_chain = chain, bc_effects = [],
      dc_views = \<lparr>dv_status = ViewNormal, dv_viewNum = 0, dv_viewSets = Map.empty\<rparr>,
      dc_masterTimeout = None, dc_timers = [], dc_timerCount = 0\<rparr>"

text \<open>\<^verbatim>\<open>instance.masterTimeout.Stop()\<close> panics on the nil pointer.\<close>

definition stop_masterTimeout :: "'w dbftCore \<Rightarrow> 'w dbftCore outcome" where
  "stop_masterTimeout s =
     (case dc_masterTimeout s of
        None \<Rightarrow> Inl NilDereference
      | Some timer \<Rightarrow> Inr (s\<lparr>dc_timers := filter (\<lambda>t. t \<noteq> timer) (dc_timers s)\<rparr>))"

section \<open>Sending\<close>

fun dbft_broadcastByOrder :: "bytes \<Rightarrow> Account list \<Rightarrow> effect list \<Rightarrow> effect list" where
  "dbft_broadcastByOrder msgPayload [] eff = eff"
| "dbft_broadcastByOrder msgPayload (peer # peers) eff =
     dbft_broadcastByOrder msgPayload peers (sendMsgByUrl (acc_Url peer) msgPayload eff)"

definition dbft_broadcast :: "bytes \<Rightarrow> 'w dbftCore \<Rightarrow> 'w dbftCore" where
  "dbft_broadcast msgPayload s = bc_emit (dbft_broadcastByOrder msgPayload (bc_peers s)) s"

definition dbft_unicast :: "Account \<Rightarrow> bytes \<Rightarrow> 'w dbftCore \<Rightarrow> 'w dbftCore" where
  "dbft_unicast account msgPayload s = bc_emit (sendMsgByUrl (acc_Url account) msgPayload) s"

section \<open>Verification and signatures\<close>

definition dbft_verifyPayload :: "'w env \<Rightarrow> Block \<Rightarrow> 'w dbftCore \<Rightarrow> error + receipts" where
  "dbft_verifyPayload e payload s =
     (case NewRepositoryByBlockHash e (bc_chain s) (b_PrevBlockHash payload) of
        Some err \<Rightarrow> Inl err
      | None \<Rightarrow>
          (case worker_VerifyBlock e (bc_chain s) (RepositoryByBlockHash (b_PrevBlockHash payload)) payload True of
             Inl err \<Rightarrow> Inl err
           | Inr receipts \<Rightarrow> Inr receipts))"

definition dbft_signPayload :: "'w env \<Rightarrow> hash \<Rightarrow> 'w dbftCore \<Rightarrow> error + bytes" where
  "dbft_signPayload e digest s =
     (case signature_Sign e (bc_local s) digest of Inl err \<Rightarrow> Inl err | Inr sign \<Rightarrow> Inr sign)"

definition dbft_signDataVerify :: "'w env \<Rightarrow> Account \<Rightarrow> bytes \<Rightarrow> hash \<Rightarrow> bool" where
  "dbft_signDataVerify e account sign digest =
     (case signature_Verify e digest sign of (address, err) \<Rightarrow> acc_Address account = address)"

fun dbft_reallySignature ::
  "'w env \<Rightarrow> hash \<Rightarrow> (Account \<rightharpoonup> bytes) \<Rightarrow> Account list \<Rightarrow> bytes list \<Rightarrow> bytes list" where
  "dbft_reallySignature e digest signMap [] really = really"
| "dbft_reallySignature e digest signMap (account # order) really =
     dbft_reallySignature e digest signMap order
       (case signMap account of
          None \<Rightarrow> really
        | Some sign \<Rightarrow> if dbft_signDataVerify e account sign digest then really @ [sign] else really)"

definition dbft_maybeCommit :: "'w env \<Rightarrow> Account list \<Rightarrow> 'w dbftCore \<Rightarrow> bytes list \<times> error option" where
  "dbft_maybeCommit e order s =
     (let signatures = sd_signatures (bc_signature s);
          signMap = sd_signMap (bc_signature s)
      in if length signatures \<noteq> length order then ([], Some ErrSignMapMismatch)
         else
           (let really = dbft_reallySignature e (bc_digest s) signMap order []
            in if (of_nat (length really) :: u8) < of_nat (length (bc_peers s)) - bc_tolerance s
               then (really, Some ErrSignatureNotSatisfy)
               else (really, None)))"

section \<open>Requests, proposals and responses\<close>

definition dbft_record :: "hash \<Rightarrow> block_ref \<Rightarrow> receipts \<Rightarrow> 'w dbftCore \<Rightarrow> 'w dbftCore" where
  "dbft_record digest r receipts s =
     s\<lparr>bc_validator := (bc_validator s)(digest \<mapsto>
         (case bc_validator s digest of
            None \<Rightarrow> \<lparr>ps_block = r, ps_receipts = receipts\<rparr>
          | Some values \<Rightarrow> values\<lparr>ps_receipts := receipts\<rparr>))\<rparr>"

text \<open>
  The proposal is sent twice: \<open>broadcast\<close> writes it to every peer, the node itself included, and
  \<open>BroadcastPeers\<close> to every other peer again.
\<close>

definition dbft_receiveRequest :: "'w env \<Rightarrow> requestRef option \<Rightarrow> 'w dbftCore \<Rightarrow> 'w dbftCore outcome" where
  "dbft_receiveRequest e req s0 =
     bindP (stop_masterTimeout s0) (\<lambda>s.
       if bc_local s \<noteq> bc_master s then Inr s
       else
         (case req of
            None \<Rightarrow> Inl NilDereference
          | Some request \<Rightarrow>
              (let r = rq_Payload request; payload = load_block r s; digest = b_MixDigest payload
               in if length (b_SigData payload) \<noteq> 1 then Inr s
                  else
                    (case dbft_verifyPayload e payload s of
                       Inl err \<Rightarrow> Inr s
                     | Inr receipts \<Rightarrow>
                         (case dbft_signPayload e digest s of
                            Inl err \<Rightarrow> Inr s
                          | Inr sign \<Rightarrow>
                              (let s1 = dbft_record digest r receipts s
                               in case encode e (proposal_message (bc_local s) (rq_Timestamp request) payload sign) of
                                    Inl err \<Rightarrow> Inr s1
                                  | Inr msgRaw \<Rightarrow>
                                      (let s2 = s1\<lparr>bc_digest := digest,
                                                   bc_signature := dbft_addSignature (bc_local s) sign (bc_signature s1)\<rparr>;
                                           s3 = dbft_broadcast msgRaw s2;
                                           peers = AccountFilter [bc_local s3] (bc_peers s3);
                                           s4 = bc_emit (BroadcastPeers msgRaw peers) s3
                                       in Inr (s4\<lparr>bc_waiters := bc_waiters s4 @ [Collecting]\<rparr>))))))))"

text \<open>
  \<open>receiveProposal\<close> asks the master for the blocks in between when the proposal is more than one
  block ahead, and ignores a proposal that is not ahead.
\<close>

definition dbft_receiveProposal :: "'w env \<Rightarrow> proposalRef \<Rightarrow> 'w dbftCore \<Rightarrow> 'w dbftCore outcome" where
  "dbft_receiveProposal e proposal s0 =
     bindP (stop_masterTimeout s0) (\<lambda>s.
       let r = pr_Payload proposal; payload = load_block r s; digest = b_MixDigest payload
       in if bc_local s = bc_master s then Inr s
          else if bc_master s \<noteq> pr_Account proposal then Inr s
          else if \<not> dbft_signDataVerify e (bc_master s) (pr_Signature proposal) digest then Inr s
          else if NewLatestStateRepository e (bc_chain s) \<noteq> None then Inr s
          else
            (let currentHeight = GetCurrentBlockHeight e (bc_chain s)
             in if currentHeight + 1 < b_Height payload
                then
                  (case encode e
                     \<lparr>msg_Type = SyncBlockReqMessageType,
                      msg_PayLoad = SyncBlockReqMessage (Some
                        \<lparr>sbq_Account = bc_local s, sbq_Timestamp = time_Now e, sbq_BlockStart = currentHeight + 1,
                         sbq_BlockEnd = b_Height payload - 1\<rparr>)\<rparr> of
                     Inl err \<Rightarrow> Inr s
                   | Inr msgRaw \<Rightarrow> Inr (bc_emit (Unicast (bc_master s) msgRaw) s))
                else if b_Height payload \<le> currentHeight then Inr s
                else
                  (case dbft_verifyPayload e payload s of
                     Inl err \<Rightarrow> Inr s
                   | Inr receipts \<Rightarrow>
                       (case dbft_signPayload e digest s of
                          Inl err \<Rightarrow> Inr s
                        | Inr sign \<Rightarrow>
                            (let s1 = dbft_record digest r receipts s
                             in case encode e (bft_response_message (bc_local s) (pr_Timestamp proposal) digest sign) of
                                  Inl err \<Rightarrow> Inr s1
                                | Inr msgRaw \<Rightarrow> Inr (dbft_unicast (bc_master s) msgRaw s1))))))"

definition dbft_receiveResponse :: "'w env \<Rightarrow> Response \<Rightarrow> 'w dbftCore \<Rightarrow> 'w dbftCore outcome" where
  "dbft_receiveResponse e response s =
     (if \<not> bc_commit s
      then
        if bc_local s \<noteq> bc_master s then Inr s
        else if bc_digest s \<noteq> res_Digest response then Inr s
        else
          (let peer = GetAccountById (bc_peers s) (acc_Id (res_Account response))
           in if \<not> dbft_signDataVerify e peer (res_Signature response) (bc_digest s) then Inr s
              else
                (case sd_signMap (bc_signature s) peer of
                   None \<Rightarrow>
                     Inr (s\<lparr>bc_signature := dbft_addSignature peer (res_Signature response) (bc_signature s),
                            bc_tunnel := bc_tunnel s + 1\<rparr>)
                 | Some sign \<Rightarrow> Inr s))
      else Inr s)"

section \<open>Waiting for responses\<close>

definition dbft_waitResponse_timeout :: "'w env \<Rightarrow> Account list \<Rightarrow> nat \<Rightarrow> 'w dbftCore \<Rightarrow> 'w dbftCore" where
  "dbft_waitResponse_timeout e order i s =
     (let (signatures, err) = dbft_maybeCommit e order s
      in s\<lparr>bc_waiters := (bc_waiters s)[i := Committing \<lparr>cr_Signatures = signatures, cr_Result = err\<rparr>]\<rparr>)"

definition dbft_waitResponse_tunnel :: "'w env \<Rightarrow> Account list \<Rightarrow> nat \<Rightarrow> 'w dbftCore \<Rightarrow> 'w dbftCore" where
  "dbft_waitResponse_tunnel e order i s =
     (let s1 = s\<lparr>bc_tunnel := bc_tunnel s - 1\<rparr>;
          (signatures, err) = dbft_maybeCommit e order s1
      in if length signatures = length (bc_peers s1)
         then s1\<lparr>bc_waiters := (bc_waiters s1)[i := Committing \<lparr>cr_Signatures = signatures, cr_Result = err\<rparr>]\<rparr>
         else s1)"

definition dbft_waitResponse_commit :: "nat \<Rightarrow> ConsensusResult \<Rightarrow> 'w dbftCore \<Rightarrow> 'w dbftCore" where
  "dbft_waitResponse_commit i res s =
     s\<lparr>bc_commit := True, bc_waiters := take i (bc_waiters s) @ drop (Suc i) (bc_waiters s),
       bc_result := bc_result s @ [res]\<rparr>"

section \<open>Commit\<close>

definition dbft_getCommitOrder :: "error option \<Rightarrow> int \<Rightarrow> 'w dbftCore \<Rightarrow> Account list outcome" where
  "dbft_getCommitOrder result currentMaster s =
     bindP
       (if result = None
        then bindP (index_peers (bc_peers s) currentMaster) (\<lambda>a.
               Inr ([a], (1 + currentMaster) smod int (length (bc_peers s))))
        else Inr ([], - 1))
       (\<lambda>(peers, nextMaster).
          let peers1 = filter_index (\<lambda>index. index \<noteq> currentMaster \<and> index \<noteq> nextMaster) 0 (bc_peers s) peers
          in bindP (index_peers (bc_peers s) (if nextMaster \<noteq> - 1 then nextMaster else currentMaster))
               (\<lambda>a. Inr (peers1 @ [a])))"

definition dbft_commitFilter :: "Account \<Rightarrow> 'w dbftCore \<Rightarrow> Account list" where
  "dbft_commitFilter blacklist s =
     filter_index (\<lambda>index. index \<noteq> sint (acc_Id blacklist)) 0 (bc_peers s) []"

definition dbft_commitBlock :: "'w env \<Rightarrow> block_ref \<Rightarrow> 'w dbftCore \<Rightarrow> 'w dbftCore outcome" where
  "dbft_commitBlock e r s =
     (let block = load_block r s; repo = RepositoryByBlockHash (b_PrevBlockHash block)
      in if NewRepositoryByBlockHash e (bc_chain s) (b_PrevBlockHash block) \<noteq> None
         then Inr (clear_SigData r s)
         else
           (let block1 = block\<lparr>b_HeaderHash := HeaderHash e block\<rparr>;
                s1 = store_block r block1 s
            in case bc_validator s1 (b_MixDigest block1) of
                 None \<Rightarrow> Inl NilDereference
               | Some payload \<Rightarrow>
                   (case WriteBlockWithReceipts e (bc_chain s1) repo block1 (ps_receipts payload) of
                      (err, chain) \<Rightarrow>
                        (let s2 = s1\<lparr>bc_chain := chain\<rparr>
                         in Inr (if err \<noteq> None then clear_SigData r s2 else s2)))))"

definition dbft_SendCommit :: "'w env \<Rightarrow> Commit \<Rightarrow> block_ref \<Rightarrow> 'w dbftCore \<Rightarrow> 'w dbftCore outcome" where
  "dbft_SendCommit e commit r s =
     (case encode e (commit_message_of commit) of
        Inl err \<Rightarrow> Inr s
      | Inr msgRaw \<Rightarrow>
          if \<not> com_Result commit
          then bc_notify EventConsensusFailed (bc_emit (dbft_broadcastByOrder msgRaw (dbft_commitFilter (bc_local s) s)) s)
          else if bc_peers s = [] then Inl IntegerDivideByZero
          else
            (let nextMaster = sint (acc_Id (bc_local s) + 1) smod int (length (bc_peers s));
                 peers = filter_index (\<lambda>index. index \<noteq> nextMaster \<and> index \<noteq> sint (acc_Id (bc_local s))) 0
                           (bc_peers s) []
             in bindP (index_peers (bc_peers s) nextMaster) (\<lambda>next.
                  bindP (dbft_commitBlock e r s) (\<lambda>s1.
                    Inr (bc_emit (dbft_broadcastByOrder msgRaw (peers @ [next])) s1)))))"

definition dbft_receiveCommit :: "'w env \<Rightarrow> Commit \<Rightarrow> 'w dbftCore \<Rightarrow> 'w dbftCore outcome" where
  "dbft_receiveCommit e commit s =
     (if \<not> com_Result commit then bc_notify EventConsensusFailed s
      else
        (case bc_validator s (com_Digest commit) of
           None \<Rightarrow> Inr s
         | Some payload \<Rightarrow>
             (let r = ps_block payload;
                  block = set_SigData (com_Signatures commit) (load_block r s);
                  s1 = store_block r block s;
                  blockHash = HeaderHash e block
              in if blockHash \<noteq> com_BlockHash commit then Inr (clear_SigData r s1)
                 else if NewRepositoryByBlockHash e (bc_chain s1) (b_PrevBlockHash block) \<noteq> None
                 then Inr (clear_SigData r s1)
                 else
                   (let block1 = block\<lparr>b_HeaderHash := HeaderHash e block\<rparr>;
                        s2 = store_block r block1 s1
                    in case WriteBlockWithReceipts e (bc_chain s2) (RepositoryByBlockHash (b_PrevBlockHash block1))
                              block1 (ps_receipts payload) of
                         (err, chain) \<Rightarrow>
                           (let s3 = s2\<lparr>bc_chain := chain\<rparr>
                            in Inr (if err \<noteq> None then clear_SigData r s3 else s3))))))"

section \<open>Block synchronisation\<close>

partial_function (option) dbft_collectBlocks ::
  "'w env \<Rightarrow> 'w \<Rightarrow> u64 \<Rightarrow> u64 \<Rightarrow> Block list \<Rightarrow> Block list outcome option" where
  "dbft_collectBlocks e chain index end' syncBlocks =
     (if index \<le> end'
      then
        (case GetBlockByHeight e chain index of
           Inl err \<Rightarrow> Some (Inl (Panicf ''get block by height''))
         | Inr block \<Rightarrow> dbft_collectBlocks e chain (index + 1) end' (syncBlocks @ [block]))
      else Some (Inr syncBlocks))"

text \<open>The response is marshalled without the struct the receiver decodes into.\<close>

definition dbft_receiveSyncBlockReq :: "'w env \<Rightarrow> SyncBlockReq \<Rightarrow> 'w dbftCore \<Rightarrow> 'w dbftCore outcome" where
  "dbft_receiveSyncBlockReq e syncBlockReq s =
     (if NewLatestStateRepository e (bc_chain s) \<noteq> None
      then Inl (Panicf ''new latest state block chain failed.'')
      else
        (case dbft_collectBlocks e (bc_chain s) (sbq_BlockStart syncBlockReq) (sbq_BlockEnd syncBlockReq) [] of
           None \<Rightarrow> Inl NeverReturns
         | Some out \<Rightarrow>
             bindP out (\<lambda>syncBlocks.
               case encode e
                 \<lparr>msg_Type = SyncBlockRespMessageType, msg_PayLoad = BareSyncBlockResp \<lparr>sbr_Blocks = syncBlocks\<rparr>\<rparr> of
                 Inl err \<Rightarrow> Inl (Panicf ''marshal syncBlockResMsg msg failed'')
               | Inr msgRaw \<Rightarrow> Inr (bc_emit (Unicast (sbq_Account syncBlockReq) msgRaw) s))))"

fun dbft_syncBlocks :: "'w env \<Rightarrow> Block list \<Rightarrow> 'w \<Rightarrow> 'w" where
  "dbft_syncBlocks e [] chain = chain"
| "dbft_syncBlocks e (block # blocks) chain =
     (let repo = RepositoryByBlockHash (b_PrevBlockHash block)
      in if NewRepositoryByBlockHash e chain (b_PrevBlockHash block) \<noteq> None then chain
         else
           (case worker_VerifyBlock e chain repo block True of
              Inl err \<Rightarrow> chain
            | Inr receipts \<Rightarrow>
                (case EventWriteBlockWithReceipts e chain repo block receipts False of
                   (Some err, chain') \<Rightarrow> chain'
                 | (None, chain') \<Rightarrow> dbft_syncBlocks e blocks chain')))"

definition dbft_receiveSyncBlockResp :: "'w env \<Rightarrow> SyncBlockResp \<Rightarrow> 'w dbftCore \<Rightarrow> 'w dbftCore outcome" where
  "dbft_receiveSyncBlockResp e syncBlockResp s =
     Inr (s\<lparr>bc_chain := dbft_syncBlocks e (sbr_Blocks syncBlockResp) (bc_chain s)\<rparr>)"

section \<open>View changes\<close>

definition dbft_sendChangeViewReq :: "'w env \<Rightarrow> Account list \<Rightarrow> u64 \<Rightarrow> 'w dbftCore \<Rightarrow> 'w dbftCore outcome" where
  "dbft_sendChangeViewReq e nodes newView s =
     (case encode e
        \<lparr>msg_Type = ViewChangeMessageReqType,
         msg_PayLoad = ViewChangeReqMessage (Some
           \<lparr>vcr_Account = bc_local s, vcr_Nodes = nodes, vcr_Timestamp = time_Now e, vcr_ViewNum = newView\<rparr>)\<rparr> of
        Inl err \<Rightarrow> Inl (Panicf ''marshal syncBlockResMsg msg failed'')
      | Inr msgRaw \<Rightarrow> Inr (bc_emit (BroadcastPeers msgRaw (AccountFilter [bc_local s] (bc_peers s))) s))"

text \<open>\<open>sort.Ints\<close> on the ids read as signed numbers.\<close>

definition dbft_minNode :: "Account list \<Rightarrow> u64 outcome" where
  "dbft_minNode nodes =
     (case sort (map (\<lambda>node. sint (acc_Id node)) nodes) of
        [] \<Rightarrow> Inl IndexOutOfRange
      | first # _ \<Rightarrow> Inr (of_int first))"

fun account_exists :: "Account \<Rightarrow> Account list \<Rightarrow> bool \<Rightarrow> bool" where
  "account_exists account2 [] exist = exist"
| "account_exists account2 (account # accounts) exist =
     account_exists account2 accounts (if account = account2 then True else exist)"

definition dbft_addChangeViewAccounts :: "Account list \<Rightarrow> Account \<Rightarrow> Account list" where
  "dbft_addChangeViewAccounts accounts account2 =
     (if \<not> account_exists account2 accounts False then accounts @ [account2] else accounts)"

fun dbft_addNodes :: "Account list \<Rightarrow> Account list \<Rightarrow> Account list" where
  "dbft_addNodes requestNodes [] = requestNodes"
| "dbft_addNodes requestNodes (node # nodes) = dbft_addNodes (dbft_addChangeViewAccounts requestNodes node) nodes"

definition put_viewSet :: "u64 \<Rightarrow> viewNumStatus \<Rightarrow> 'w dbftCore \<Rightarrow> 'w dbftCore" where
  "put_viewSet num vs s = s\<lparr>dc_views := (dc_views s)\<lparr>dv_viewSets := (dv_viewSets (dc_views s))(num \<mapsto> vs)\<rparr>\<rparr>"

text \<open>The end of \<open>receiveChangeViewReq\<close>: the notification, once for a view number.\<close>

definition dbft_notifyViewEnd :: "u64 \<Rightarrow> viewNumStatus \<Rightarrow> 'w dbftCore \<Rightarrow> 'w dbftCore outcome" where
  "dbft_notifyViewEnd num vs s =
     (if vs_status vs = ViewEnd \<and> \<not> vs_notify vs
      then bindP (bc_notify EventMasterChange s) (\<lambda>s1.
             stop_masterTimeout (put_viewSet num (vs\<lparr>vs_notify := True\<rparr>) s1))
      else Inr s)"

definition dbft_receiveChangeViewReq :: "'w env \<Rightarrow> ViewChangeReq \<Rightarrow> 'w dbftCore \<Rightarrow> 'w dbftCore outcome" where
  "dbft_receiveChangeViewReq e viewChangeReq s0 =
     bindP (stop_masterTimeout s0) (\<lambda>s1.
       let num = vcr_ViewNum viewChangeReq;
           s2 = (if dv_status (dc_views s1) \<noteq> ViewChanging \<and> dv_viewNum (dc_views s1) < num
                 then s1\<lparr>dc_views := (dc_views s1)\<lparr>dv_status := ViewChanging\<rparr>\<rparr> else s1)
       in if dv_status (dc_views s2) \<noteq> ViewChanging then Inr s2
          else
            (let vs = (case dv_viewSets (dc_views s2) num of
                         None \<Rightarrow> \<lparr>vs_mu = 0, vs_status = Viewing, vs_notify = False, vs_requestNodes = []\<rparr>
                       | Some vs \<Rightarrow> vs)
             in if vs_status vs = ViewEnd then Inr (put_viewSet num (vs\<lparr>vs_mu := vs_mu vs + 1\<rparr>) s2)
                else
                  (let nodes = dbft_addNodes (dbft_addChangeViewAccounts (vs_requestNodes vs) (bc_local s2))
                                 (vcr_Nodes viewChangeReq);
                       vs1 = vs\<lparr>vs_requestNodes := nodes\<rparr>
                   in bindP
                        (if int (length nodes) \<ge> int (length (bc_peers s2)) - int (unat (bc_tolerance s2))
                         then bindP (GetAccountWithMinId nodes) (\<lambda>master.
                                if 0 < vs_mu vs1 then Inl NeverReturns
                                else Inr (vs1\<lparr>vs_status := ViewEnd\<rparr>,
                                          s2\<lparr>bc_master := master, dc_views := (dc_views s2)\<lparr>dv_viewNum := num\<rparr>\<rparr>))
                         else Inr (vs1, s2))
                        (\<lambda>(vs2, s3).
                          let s4 = put_viewSet num vs2 s3
                          in bindP (if length nodes > 1 then dbft_sendChangeViewReq e nodes num s4 else Inr s4)
                               (dbft_notifyViewEnd num vs2)))))"

text \<open>
  The timer of the master fires: the request names only the sender as a node, and its \<open>Account\<close> is
  left at the zero value.
\<close>

definition dbft_waitMasterTimeOut_fires :: "'w env \<Rightarrow> nat \<Rightarrow> 'w dbftCore \<Rightarrow> 'w dbftCore" where
  "dbft_waitMasterTimeOut_fires e timer s =
     (let s1 = s\<lparr>dc_timers := filter (\<lambda>t. t \<noteq> timer) (dc_timers s)\<rparr>
      in case encode e
           \<lparr>msg_Type = ViewChangeMessageReqType,
            msg_PayLoad = ViewChangeReqMessage (Some
              \<lparr>vcr_Account = zero_account, vcr_Nodes = [bc_local s], vcr_Timestamp = time_Now e,
               vcr_ViewNum = dv_viewNum (dc_views s) + 1\<rparr>)\<rparr> of
           Inl err \<Rightarrow> s1
         | Inr msgRaw \<Rightarrow> bc_emit (BroadcastPeers msgRaw (bc_peers s1)) s1)"

section \<open>Dispatch\<close>

definition dbft_ProcessEvent :: "'w env \<Rightarrow> 'w dbftCore \<Rightarrow> core_event \<Rightarrow> ('w dbftCore \<times> core_event option) outcome" where
  "dbft_ProcessEvent e s ev =
     (case ev of
        CoreRequest et \<Rightarrow> bindP (dbft_receiveRequest e et s) (\<lambda>s'. Inr (s', None))
      | CoreProposal et \<Rightarrow> core_handle et (dbft_receiveProposal e) s
      | CoreResponse et \<Rightarrow> core_handle et (dbft_receiveResponse e) s
      | CoreCommit et \<Rightarrow> core_handle et (dbft_receiveCommit e) s
      | CoreSyncBlockReq et \<Rightarrow> core_handle et (dbft_receiveSyncBlockReq e) s
      | CoreSyncBlockResp et \<Rightarrow> core_handle et (dbft_receiveSyncBlockResp e) s
      | CoreViewChangeReq et \<Rightarrow> core_handle et (dbft_receiveChangeViewReq e) s
      | CoreError err \<Rightarrow> Inr (s, Some (CoreError ErrUnsupportedEvent))
      | CoreOther x \<Rightarrow> Inr (s, Some (CoreError ErrUnsupportedEvent)))"

fun dbft_known :: "core_event \<Rightarrow> bool" where
  "dbft_known (CoreError _) = False"
| "dbft_known (CoreOther _) = False"
| "dbft_known _ = True"

text \<open>
  \<open>handleClient\<close> has two parts: it reads the message and makes its checks on the state of the core,
  and then it hands the message to the core. It runs in a goroutine of its own for every connection,
  so other handlers may run between the two.
\<close>

definition dbft_handleClient_accept ::
  "'w env \<Rightarrow> bytes \<Rightarrow> 'w dbftCore \<Rightarrow> (core_event option \<times> 'w dbftCore) outcome" where
  "dbft_handleClient_accept e conn s =
     (case ReadMessage (json_Unmarshal e) conn of
        Inl err \<Rightarrow> Inr (None, s)
      | Inr (msg, rest) \<Rightarrow>
          (let t = msg_Type msg
           in if t = RequestMessageType
              then (case msg_PayLoad msg of
                      RequestMessage m \<Rightarrow> (case request_event m s of (ev, s') \<Rightarrow> Inr (Some ev, s'))
                    | _ \<Rightarrow> Inl InterfaceConversion)
              else if t = ProposalMessageType
              then (case msg_PayLoad msg of
                      ProposalMessage m \<Rightarrow>
                        (case m of
                           None \<Rightarrow> Inl NilDereference
                         | Some proposal \<Rightarrow>
                             if pro_Account proposal \<noteq> bc_master s then Inr (None, s)
                             else (case proposal_event proposal s of (ev, s') \<Rightarrow> Inr (Some ev, s')))
                    | _ \<Rightarrow> Inl InterfaceConversion)
              else if t = ResponseMessageType
              then (case msg_PayLoad msg of
                      ResponseMessage m \<Rightarrow>
                        (case m of
                           None \<Rightarrow> Inl NilDereference
                         | Some response \<Rightarrow>
                             if acc_Id (res_Account response) = acc_Id (bc_master s) then Inr (None, s)
                             else Inr (Some (CoreResponse m), s))
                    | _ \<Rightarrow> Inl InterfaceConversion)
              else if t = SyncBlockReqMessageType
              then (case msg_PayLoad msg of
                      SyncBlockReqMessage m \<Rightarrow>
                        (case m of None \<Rightarrow> Inl NilDereference | Some _ \<Rightarrow> Inr (Some (CoreSyncBlockReq m), s))
                    | _ \<Rightarrow> Inl InterfaceConversion)
              else if t = SyncBlockRespMessageType
              then (case msg_PayLoad msg of
                      SyncBlockRespMessage m \<Rightarrow> Inr (Some (CoreSyncBlockResp m), s)
                    | _ \<Rightarrow> Inl InterfaceConversion)
              else if t = CommitMessageType
              then (case msg_PayLoad msg of
                      CommitMessage m \<Rightarrow> Inr (Some (CoreCommit m), s)
                    | _ \<Rightarrow> Inl InterfaceConversion)
              else if t = ViewChangeMessageReqType
              then (case msg_PayLoad msg of
                      ViewChangeReqMessage m \<Rightarrow>
                        (case m of
                           None \<Rightarrow> Inl NilDereference
                         | Some viewChange \<Rightarrow>
                             if dv_viewNum (dc_views s) \<ge> vcr_ViewNum viewChange then Inr (None, s)
                             else Inr (Some (CoreViewChangeReq m), s))
                    | _ \<Rightarrow> Inl InterfaceConversion)
              else Inr (None, s)))"

definition dbft_handleClient :: "'w env \<Rightarrow> bytes \<Rightarrow> 'w dbftCore \<Rightarrow> 'w dbftCore outcome option" where
  "dbft_handleClient e conn s =
     (case dbft_handleClient_accept e conn s of
        Inl panic \<Rightarrow> Some (Inl panic)
      | Inr (None, s') \<Rightarrow> Some (Inr s')
      | Inr (Some ev, s') \<Rightarrow> SendEvent (dbft_ProcessEvent e) s' ev)"

interpretation dbft_receiver: event_receiver "dbft_ProcessEvent e" "\<lambda>s. True" dbft_known for e :: "'w env"
proof unfold_locales
  fix ev :: core_event and s s' :: "'w dbftCore" and result
  show "result = None" if "dbft_known ev" "dbft_ProcessEvent e s ev = Inr (s', result)"
    using that by (cases ev) (auto simp: dbft_ProcessEvent_def core_handle_def bindP_Inr_iff split: option.splits)
  show "\<exists>ev'. dbft_ProcessEvent e s ev = Inr (s, Some ev') \<and> \<not> dbft_known ev'" if "True" "\<not> dbft_known ev"
    using that by (cases ev) (auto simp: dbft_ProcessEvent_def)
qed

end
