(* ===== verification/Dbft_Policy.thy ===== *)
theory Dbft_Policy
  imports Dbft_Core Bft_Policy
begin

text \<open>
  \<^verbatim>\<open>consensus/policy/dbft/dbft.go\<close> and the steps of a running DBFT node. Connections are handled
  by a goroutine each, so a blocked \<open>receiveResponse\<close> does not keep the node from handling others, and
  the checks \<open>handleClient\<close> makes may be out of date when its message reaches the core:
  \<open>dbp_clients\<close> are the messages of the goroutines between the two.
\<close>

section \<open>\<open>DBFTPolicy\<close>\<close>

record 'w DBFTPolicy =
  dbp_name :: string
  dbp_account :: Account
  dbp_core :: "'w dbftCore"
  dbp_timeout :: i64
  dbp_pending :: "block_ref list"
  dbp_tasks :: "task list"
  dbp_clients :: "core_event list"

definition DbftPolicyName :: string where "DbftPolicyName = ''dbft''"

definition NewDBFTPolicy :: "ConsensusTimeout \<Rightarrow> 'w \<Rightarrow> 'w DBFTPolicy" where
  "NewDBFTPolicy timeout chain =
     \<lparr>dbp_name = DbftPolicyName, dbp_account = zero_account, dbp_core = NewDBFTCore chain,
      dbp_timeout = TimeoutToChangeView timeout, dbp_pending = [], dbp_tasks = [], dbp_clients = []\<rparr>"

definition dbft_tolerance :: "nat \<Rightarrow> u8" where
  "dbft_tolerance n = of_int ((int n - 1) sdiv 3)"

text \<open>A node that is not coming online gets a new timer; a timer it had before keeps running.\<close>

definition dbft_Initialization :: "Account \<Rightarrow> Account \<Rightarrow> Account list \<Rightarrow> bool \<Rightarrow> 'w DBFTPolicy \<Rightarrow> 'w DBFTPolicy" where
  "dbft_Initialization local master peers onLine p =
     (let core = (dbp_core p)
            \<lparr>bc_local := local, bc_master := master, bc_commit := False, bc_peers := peers, bc_eventCenter := True,
             bc_tolerance := dbft_tolerance (length peers),
             bc_signature := \<lparr>sd_signatures = [], sd_signMap = Map.empty\<rparr>\<rparr>;
          timer = dc_timerCount core;
          core' = (if \<not> onLine
                   then core\<lparr>dc_masterTimeout := Some timer, dc_timers := dc_timers core @ [timer],
                             dc_timerCount := timer + 1\<rparr>
                   else core)
      in p\<lparr>dbp_account := local, dbp_core := core'\<rparr>)"

text \<open>The policy has its own copy of \<open>waitMasterTimeOut\<close>.\<close>

definition dbft_policy_waitMasterTimeOut_fires :: "'w env \<Rightarrow> nat \<Rightarrow> 'w DBFTPolicy \<Rightarrow> 'w DBFTPolicy" where
  "dbft_policy_waitMasterTimeOut_fires e timer p =
     (let core = dbp_core p;
          core1 = core\<lparr>dc_timers := filter (\<lambda>t. t \<noteq> timer) (dc_timers core)\<rparr>
      in case encode e
           \<lparr>msg_Type = ViewChangeMessageReqType,
            msg_PayLoad = ViewChangeReqMessage (Some
              \<lparr>vcr_Account = zero_account, vcr_Nodes = [bc_local core], vcr_Timestamp = time_Now e,
               vcr_ViewNum = dv_viewNum (dc_views core) + 1\<rparr>)\<rparr> of
           Inl err \<Rightarrow> p\<lparr>dbp_core := core1\<rparr>
         | Inr msgRaw \<Rightarrow> p\<lparr>dbp_core := bc_emit (BroadcastPeers msgRaw (bc_peers core1)) core1\<rparr>)"

definition dbft_Prepare :: "Account \<Rightarrow> 'w DBFTPolicy \<Rightarrow> 'w DBFTPolicy" where
  "dbft_Prepare account p = p\<lparr>dbp_account := account\<rparr>"

definition dbft_commit :: "'w env \<Rightarrow> block_ref \<Rightarrow> bool \<Rightarrow> 'w DBFTPolicy \<Rightarrow> 'w DBFTPolicy outcome" where
  "dbft_commit e r result p =
     (let block = load_block r (dbp_core p)
      in bindP (dbft_SendCommit e
           \<lparr>com_Account = dbp_account p, com_Timestamp = time_Now e, com_BlockHash = b_HeaderHash block,
            com_Digest = b_MixDigest block, com_Signatures = b_SigData block, com_Result = result\<rparr> r (dbp_core p))
           (\<lambda>core. Inr (p\<lparr>dbp_core := core\<rparr>)))"

definition dbft_ToConsensus_begin :: "Proposal \<Rightarrow> 'w DBFTPolicy \<Rightarrow> 'w DBFTPolicy" where
  "dbft_ToConsensus_begin proposal p =
     (case alloc_block (prop_Block proposal) (dbp_core p) of
        (r, core) \<Rightarrow>
          p\<lparr>dbp_core := core, dbp_pending := dbp_pending p @ [r],
            dbp_tasks := dbp_tasks p @ [RequestTask \<lparr>rq_Timestamp = prop_Timestamp proposal, rq_Payload = r\<rparr>]\<rparr>)"

definition dbft_ToConsensus_result ::
  "'w env \<Rightarrow> block_ref \<Rightarrow> ConsensusResult \<Rightarrow> 'w DBFTPolicy \<Rightarrow> error option \<times> 'w DBFTPolicy" where
  "dbft_ToConsensus_result e r consensusResult p =
     (let core = (dbp_core p)\<lparr>bc_result := tl (bc_result (dbp_core p))\<rparr>;
          p1 = p\<lparr>dbp_core := core, dbp_pending := remove1 r (dbp_pending p)\<rparr>
      in case cr_Result consensusResult of
           Some err \<Rightarrow> (Some err, p1\<lparr>dbp_tasks := dbp_tasks p1 @ [CommitTask r False]\<rparr>)
         | None \<Rightarrow>
             (let signed = set_SigData (cr_Signatures consensusResult) (load_block r core);
                  block = signed\<lparr>b_HeaderHash := HeaderHash e signed\<rparr>
              in (None, p1\<lparr>dbp_core := store_block r block core, dbp_tasks := dbp_tasks p1 @ [CommitTask r True]\<rparr>)))"

definition dbft_ToConsensus_timeout :: "block_ref \<Rightarrow> 'w DBFTPolicy \<Rightarrow> error option \<times> 'w DBFTPolicy" where
  "dbft_ToConsensus_timeout r p =
     (Some ErrConsensusTimeout,
      p\<lparr>dbp_pending := remove1 r (dbp_pending p), dbp_tasks := dbp_tasks p @ [CommitTask r False]\<rparr>)"

definition dbft_run_task :: "'w env \<Rightarrow> task \<Rightarrow> 'w DBFTPolicy \<Rightarrow> 'w DBFTPolicy outcome" where
  "dbft_run_task e t p =
     (let p1 = p\<lparr>dbp_tasks := remove1 t (dbp_tasks p)\<rparr>
      in case t of
           RequestTask request \<Rightarrow>
             (case SendEvent (dbft_ProcessEvent e) (dbp_core p1) (CoreRequest (Some request)) of
                None \<Rightarrow> Inl NeverReturns
              | Some out \<Rightarrow> bindP out (\<lambda>core. Inr (p1\<lparr>dbp_core := core\<rparr>)))
         | CommitTask r result \<Rightarrow> dbft_commit e r result p1)"

definition dbft_GetConsensusResult :: "'w DBFTPolicy \<Rightarrow> ConsensusInfo" where
  "dbft_GetConsensusResult p =
     \<lparr>ci_View = dv_viewNum (dc_views (dbp_core p)), ci_Participate = bc_peers (dbp_core p),
      ci_Master = bc_master (dbp_core p)\<rparr>"

section \<open>A running node\<close>

text \<open>
  A delivery is two steps, \<open>accept\<close> and \<open>process\<close>, with any steps between them. A connection whose
  message is refused, or cannot be read, changes nothing. A response waits for the lock of the core.
\<close>

fun response_event :: "core_event \<Rightarrow> bool" where
  "response_event (CoreResponse m) = True"
| "response_event _ = False"

inductive dbft_step :: "'w env \<Rightarrow> Account \<Rightarrow> Account list \<Rightarrow> 'w DBFTPolicy \<Rightarrow> 'w DBFTPolicy \<Rightarrow> bool" for e me peers where
  accept:
    "dbft_handleClient_accept (e\<lparr>time_Now := t\<rparr>) conn (dbp_core p) = Inr (Some ev, core) \<Longrightarrow>
     dbft_step e me peers p (p\<lparr>dbp_core := core, dbp_clients := dbp_clients p @ [ev]\<rparr>)"
| process:
    "ev \<in> set (dbp_clients p) \<Longrightarrow> response_event ev \<longrightarrow> \<not> waits_for_lock (dbp_core p) \<Longrightarrow>
     SendEvent (dbft_ProcessEvent (e\<lparr>time_Now := t\<rparr>)) (dbp_core p) ev = Some (Inr core) \<Longrightarrow>
     dbft_step e me peers p (p\<lparr>dbp_core := core, dbp_clients := remove1 ev (dbp_clients p)\<rparr>)"
| initialise: "dbft_step e me peers p (dbft_Initialization me master peers onLine p)"
| begin_round: "dbft_step e me peers p (dbft_ToConsensus_begin proposal p)"
| round_result:
    "r \<in> set (dbp_pending p) \<Longrightarrow> bc_result (dbp_core p) = res # rest \<Longrightarrow>
     dbft_ToConsensus_result e r res p = (err, p') \<Longrightarrow> dbft_step e me peers p p'"
| round_timeout:
    "r \<in> set (dbp_pending p) \<Longrightarrow> dbft_ToConsensus_timeout r p = (err, p') \<Longrightarrow> dbft_step e me peers p p'"
| run_task:
    "task \<in> set (dbp_tasks p) \<Longrightarrow> dbft_run_task (e\<lparr>time_Now := t\<rparr>) task p = Inr p' \<Longrightarrow> dbft_step e me peers p p'"
| responses_timeout:
    "i < length (bc_waiters (dbp_core p)) \<Longrightarrow> bc_waiters (dbp_core p) ! i = Collecting \<Longrightarrow>
     lists_keys order (dbp_core p) \<Longrightarrow>
     dbft_step e me peers p (p\<lparr>dbp_core := dbft_waitResponse_timeout e order i (dbp_core p)\<rparr>)"
| responses_tunnel:
    "i < length (bc_waiters (dbp_core p)) \<Longrightarrow> bc_waiters (dbp_core p) ! i = Collecting \<Longrightarrow>
     0 < bc_tunnel (dbp_core p) \<Longrightarrow> lists_keys order (dbp_core p) \<Longrightarrow>
     dbft_step e me peers p (p\<lparr>dbp_core := dbft_waitResponse_tunnel e order i (dbp_core p)\<rparr>)"
| responses_commit:
    "i < length (bc_waiters (dbp_core p)) \<Longrightarrow> bc_waiters (dbp_core p) ! i = Committing res \<Longrightarrow>
     bc_tunnel (dbp_core p) = 0 \<Longrightarrow>
     dbft_step e me peers p (p\<lparr>dbp_core := dbft_waitResponse_commit i res (dbp_core p)\<rparr>)"
| master_timeout:
    "timer \<in> set (dc_timers (dbp_core p)) \<Longrightarrow>
     dbft_step e me peers p (p\<lparr>dbp_core := dbft_waitMasterTimeOut_fires (e\<lparr>time_Now := t\<rparr>) timer (dbp_core p)\<rparr>)"
| chain_moves: "dbft_step e me peers p (p\<lparr>dbp_core := (dbp_core p)\<lparr>bc_chain := w\<rparr>\<rparr>)"

end
