(* ===== verification/Dbft_Invariants.thy ===== *)
theory Dbft_Invariants
  imports Dbft_Policy Bft_Invariants
begin

text \<open>
  What the DBFT core has in common with the BFT core, and the invariant of a DBFT node: the part of the
  BFT core, by way of the agreement, and the state of view changes and timers.
\<close>

section \<open>Agreement with the BFT core\<close>

lemma dbft_broadcastByOrder_eq: "dbft_broadcastByOrder = bft_broadcastByOrder"
proof (intro ext)
  fix raw peers eff
  show "dbft_broadcastByOrder raw peers eff = bft_broadcastByOrder raw peers eff"
    by (induction peers arbitrary: eff) simp_all
qed

lemma dbft_signDataVerify_eq: "dbft_signDataVerify = bft_signDataVerify"
  by (simp add: fun_eq_iff dbft_signDataVerify_def bft_signDataVerify_def)

lemma dbft_reallySignature_eq: "dbft_reallySignature e d m order acc = bft_reallySignature e d m order acc"
  by (induction order arbitrary: acc) (simp_all add: dbft_signDataVerify_eq cong: option.case_cong)

lemma dbft_addSignature_eq: "dbft_addSignature = bft_addSignature"
  by (simp add: fun_eq_iff dbft_addSignature_def bft_addSignature_def)

lemma dbft_is_bft:
  "dbft_broadcast raw s = bft_broadcast raw s" "dbft_unicast a raw s = bft_unicast a raw s"
  "dbft_verifyPayload e b s = bft_verifyPayload e b s" "dbft_signPayload e d s = bft_signPayload e d s"
  "dbft_maybeCommit e order s = bft_maybeCommit e order s" "dbft_record d r rs s = bft_record d r rs s"
  "dbft_commitFilter a s = bft_commitFilter a s" "dbft_getCommitOrder result m s = bft_getCommitOrder result m s"
  "dbft_commitBlock e r s = bft_commitBlock e r s" "dbft_waitResponse_commit i res s = bft_waitResponse_commit i res s"
  by (simp_all add: dbft_broadcast_def bft_broadcast_def dbft_broadcastByOrder_eq dbft_unicast_def bft_unicast_def
      dbft_verifyPayload_def bft_verifyPayload_def dbft_signPayload_def bft_signPayload_def dbft_maybeCommit_def
      bft_maybeCommit_def dbft_reallySignature_eq dbft_record_def bft_record_def dbft_commitFilter_def
      bft_commitFilter_def dbft_getCommitOrder_def bft_getCommitOrder_def dbft_commitBlock_def bft_commitBlock_def
      dbft_waitResponse_commit_def bft_waitResponse_commit_def)

lemma dbft_handlers_eq:
  "dbft_receiveResponse e response s = bft_receiveResponse e response s"
  "dbft_receiveCommit e commit s = bft_receiveCommit e commit s"
  "dbft_SendCommit e commit r s = bft_SendCommit e commit r s"
  "dbft_waitResponse_timeout e order i s = bft_waitResponse_timeout e order i s"
  "dbft_waitResponse_tunnel e order i s = bft_waitResponse_tunnel e order i s"
  unfolding dbft_receiveResponse_def bft_receiveResponse_def dbft_receiveCommit_def bft_receiveCommit_def
    dbft_SendCommit_def bft_SendCommit_def dbft_waitResponse_timeout_def bft_waitResponse_timeout_def
    dbft_waitResponse_tunnel_def bft_waitResponse_tunnel_def dbft_signDataVerify_eq dbft_addSignature_eq
    dbft_broadcastByOrder_eq dbft_is_bft
  by simp_all

definition stopped :: "nat \<Rightarrow> 'w dbftCore \<Rightarrow> 'w dbftCore" where
  "stopped timer s = s\<lparr>dc_timers := filter (\<lambda>t. t \<noteq> timer) (dc_timers s)\<rparr>"

lemma stop_masterTimeout_eq:
  "stop_masterTimeout s = (case dc_masterTimeout s of None \<Rightarrow> Inl NilDereference | Some timer \<Rightarrow> Inr (stopped timer s))"
  by (simp add: stop_masterTimeout_def stopped_def split: option.split)

lemma stopped_simps [simp]:
  "bc_local (stopped timer s) = bc_local s" "bc_master (stopped timer s) = bc_master s"
  "bc_peers (stopped timer s) = bc_peers s" "bc_chain (stopped timer s) = bc_chain s"
  "bc_heap (stopped timer s) = bc_heap s" "bc_waiters (stopped timer s) = bc_waiters s"
  "bc_effects (stopped timer s) = bc_effects s" "bc_tolerance (stopped timer s) = bc_tolerance s"
  "bc_signature (stopped timer s) = bc_signature s" "bc_eventCenter (stopped timer s) = bc_eventCenter s"
  "load_block r (stopped timer s) = load_block r s" "dc_views (stopped timer s) = dc_views s"
  "dc_masterTimeout (stopped timer s) = dc_masterTimeout s" "dc_timerCount (stopped timer s) = dc_timerCount s"
  "dc_timers (stopped timer s) = filter (\<lambda>t. t \<noteq> timer) (dc_timers s)"
  by (simp_all add: stopped_def load_block_def)

lemma bft_broadcastByOrder_sends: "bft_broadcastByOrder raw peers eff = eff @ sends raw peers"
  by (induction peers arbitrary: eff) (simp_all add: sendMsgByUrl_def)

text \<open>A request is handled as by the BFT core once the timer is stopped, and the proposal is sent again.\<close>

lemma dbft_receiveRequest_eq:
  assumes "dc_masterTimeout s = Some timer"
  shows "case bft_receiveRequest e req (stopped timer s) of
      Inl p \<Rightarrow> dbft_receiveRequest e req s = Inl p
    | Inr t \<Rightarrow> dbft_receiveRequest e req s = Inr t \<and> bc_effects t = bc_effects s \<and> bc_waiters t = bc_waiters s \<or>
        (\<exists>raw. bc_effects t = bc_effects s @ sends raw (bc_peers s) \<and> bc_waiters t = bc_waiters s @ [Collecting] \<and>
           dbft_receiveRequest e req s =
             Inr (t\<lparr>bc_effects := bc_effects t @ sends raw (filter (\<lambda>p. p \<noteq> bc_local s) (bc_peers s))\<rparr>))"
  using assms
  by (auto simp: dbft_receiveRequest_def bft_receiveRequest_def stop_masterTimeout_eq Let_def dbft_is_bft
      dbft_addSignature_eq bft_broadcast_def bft_broadcastByOrder_sends bc_emit_def bft_record_def sending
      AccountFilter_single split: sum.splits option.splits)

lemma dbft_receiveProposal_unfold:
  assumes "dc_masterTimeout s = Some timer"
  shows "dbft_receiveProposal e proposal s =
    (let t = stopped timer s; payload = load_block (pr_Payload proposal) s; current = GetCurrentBlockHeight e (bc_chain s)
     in if bc_local s = bc_master s \<or> bc_master s \<noteq> pr_Account proposal \<or>
           \<not> bft_signDataVerify e (bc_master s) (pr_Signature proposal) (b_MixDigest payload) \<or>
           NewLatestStateRepository e (bc_chain s) \<noteq> None
        then Inr t
        else if current + 1 < b_Height payload
        then (case encode e \<lparr>msg_Type = SyncBlockReqMessageType, msg_PayLoad = SyncBlockReqMessage (Some
                \<lparr>sbq_Account = bc_local s, sbq_Timestamp = time_Now e, sbq_BlockStart = current + 1,
                 sbq_BlockEnd = b_Height payload - 1\<rparr>)\<rparr> of
                Inl err \<Rightarrow> Inr t | Inr raw \<Rightarrow> Inr (bc_emit (Unicast (bc_master s) raw) t))
        else if b_Height payload \<le> current then Inr t else bft_answer e proposal t)"
  unfolding dbft_receiveProposal_def stop_masterTimeout_eq dbft_is_bft dbft_signDataVerify_eq bft_answer_def
  using assms by (simp add: Let_def split: sum.split)

lemma dbft_receiveProposal_eq:
  assumes "dc_masterTimeout s = Some timer" and "NewLatestStateRepository e (bc_chain s) = None"
    and "b_Height (load_block (pr_Payload proposal) s) = GetCurrentBlockHeight e (bc_chain s) + 1"
    and "GetCurrentBlockHeight e (bc_chain s) < b_Height (load_block (pr_Payload proposal) s)"
  shows "dbft_receiveProposal e proposal s = bft_receiveProposal e proposal (stopped timer s)"
  using assms by (simp add: dbft_receiveProposal_unfold bft_receiveProposal_def Let_def not_le)

lemma dbft_receiveProposal_cases:
  assumes "dbft_receiveProposal e proposal s = Inr s'"
  obtains timer where "dc_masterTimeout s = Some timer" "s' = stopped timer s"
  | timer raw where "dc_masterTimeout s = Some timer" "s' = bc_emit (Unicast (bc_master s) raw) (stopped timer s)"
  | timer where "dc_masterTimeout s = Some timer" "bft_answer e proposal (stopped timer s) = Inr s'"
proof (cases "dc_masterTimeout s")
  case None
  with assms show ?thesis by (simp add: dbft_receiveProposal_def stop_masterTimeout_eq)
next
  case (Some timer)
  with assms have "s' = stopped timer s \<or> (\<exists>raw. s' = bc_emit (Unicast (bc_master s) raw) (stopped timer s)) \<or>
      bft_answer e proposal (stopped timer s) = Inr s'"
    by (simp add: dbft_receiveProposal_unfold [OF Some] Let_def split: if_splits sum.splits) blast+
  with Some that show ?thesis by blast
qed

section \<open>The invariant\<close>

text \<open>
  The views: a view number has each request node once, the node itself among them; a finished one has
  been notified and has enough nodes; a lock is left behind only on a finished one. A timer
  that can fire is one of the timers made, and the pointer is to one of them.
\<close>

definition view_set_ok :: "Account \<Rightarrow> Account list \<Rightarrow> viewNumStatus \<Rightarrow> bool" where
  "view_set_ok me peers vs \<longleftrightarrow>
     distinct (vs_requestNodes vs) \<and> me \<in> set (vs_requestNodes vs) \<and>
     vs_notify vs = (vs_status vs = ViewEnd) \<and>
     vs_notify vs = (length peers - unat (tolerance_of (length peers)) \<le> length (vs_requestNodes vs)) \<and>
     (0 < vs_mu vs \<longrightarrow> vs_status vs = ViewEnd)"

definition dbft_views_inv :: "Account \<Rightarrow> Account list \<Rightarrow> 'w dbftCore \<Rightarrow> bool" where
  "dbft_views_inv me peers s \<longleftrightarrow>
     (\<forall>num vs. dv_viewSets (dc_views s) num = Some vs \<longrightarrow>
        0 < num \<and> dv_status (dc_views s) = ViewChanging \<and> view_set_ok me peers vs) \<and>
     (0 < dv_viewNum (dc_views s) \<longrightarrow>
        (\<exists>vs. dv_viewSets (dc_views s) (dv_viewNum (dc_views s)) = Some vs \<and> vs_status vs = ViewEnd))"

definition dbft_timers_inv :: "'w dbftCore \<Rightarrow> bool" where
  "dbft_timers_inv s \<longleftrightarrow>
     distinct (dc_timers s) \<and> (\<forall>t \<in> set (dc_timers s). t < dc_timerCount s) \<and>
     (\<forall>t. dc_masterTimeout s = Some t \<longrightarrow> t < dc_timerCount s) \<and> (dc_masterTimeout s = None \<longleftrightarrow> dc_timerCount s = 0)"

definition dbft_core_inv :: "'w env \<Rightarrow> Account \<Rightarrow> Account list \<Rightarrow> 'w dbftCore \<Rightarrow> bool" where
  "dbft_core_inv e me peers s \<longleftrightarrow>
     bft_core_inv e me peers s \<and> dbft_views_inv me peers s \<and> dbft_timers_inv s \<and> bc_eventCenter s"

text \<open>The operations of the BFT core leave views and timers alone.\<close>

definition same_views :: "'w dbftCore \<Rightarrow> 'w dbftCore \<Rightarrow> bool" where
  "same_views s s' \<longleftrightarrow> dc_views s' = dc_views s \<and> dc_masterTimeout s' = dc_masterTimeout s \<and>
     dc_timers s' = dc_timers s \<and> dc_timerCount s' = dc_timerCount s \<and> bc_eventCenter s' = bc_eventCenter s"

lemma same_views_inv:
  assumes "same_views s s'" "dbft_core_inv e me peers s" "bft_core_inv e me peers s'"
  shows "dbft_core_inv e me peers s'"
  using assms by (simp add: dbft_core_inv_def dbft_views_inv_def dbft_timers_inv_def same_views_def)

lemma same_views_simps [simp]:
  "same_views s s" "same_views s (bc_emit g t) = same_views s t" "same_views s (clear_SigData r t) = same_views s t"
  "same_views s (store_block r b t) = same_views s t" "same_views s (bft_record d r rs t) = same_views s t"
  "same_views s (t\<lparr>bc_chain := w\<rparr>) = same_views s t" "same_views s (t\<lparr>bc_signature := sg\<rparr>) = same_views s t"
  "same_views s (t\<lparr>bc_digest := d\<rparr>) = same_views s t" "same_views s (t\<lparr>bc_waiters := ws\<rparr>) = same_views s t"
  "same_views s (t\<lparr>bc_tunnel := n\<rparr>) = same_views s t" "same_views s (t\<lparr>bc_effects := eff\<rparr>) = same_views s t"
  "same_views s (bft_broadcast raw t) = same_views s t" "same_views s (bft_unicast a raw t) = same_views s t"
  "same_views s (t\<lparr>bc_commit := c\<rparr>) = same_views s t" "same_views s (t\<lparr>bc_result := rs'\<rparr>) = same_views s t"
  by (simp_all add: same_views_def bc_emit_def clear_SigData_def store_block_def bft_record_def bft_broadcast_def
      bft_unicast_def)

lemma same_views_notify: "bc_notify ev s = Inr s' \<Longrightarrow> same_views t s' = same_views t s"
  by (auto simp: bc_notify_def split: if_splits)

lemma same_views_commitBlock: "bft_commitBlock e r s = Inr s' \<Longrightarrow> same_views s s'"
  by (auto simp: bft_commitBlock_def Let_def split: if_splits option.splits prod.splits)

lemma same_views_receiveRequest: "bft_receiveRequest e req s = Inr s' \<Longrightarrow> same_views s s'"
  by (erule bft_receiveRequest_cases) simp_all

lemma same_views_answer: "bft_answer e proposal s = Inr s' \<Longrightarrow> same_views s s'"
  by (auto simp: bft_answer_def Let_def split: sum.splits)

lemma same_views_receiveResponse: "bft_receiveResponse e response s = Inr s' \<Longrightarrow> same_views s s'"
  by (auto simp: bft_receiveResponse_def Let_def split: if_splits option.splits)

lemma same_views_SendCommit: "bft_SendCommit e commit r s = Inr s' \<Longrightarrow> same_views s s'"
  by (auto simp: bft_SendCommit_def Let_def bindP_Inr_iff same_views_notify dest: same_views_commitBlock
      split: if_splits sum.splits)

lemma same_views_receiveCommit: "bft_receiveCommit e commit s = Inr s' \<Longrightarrow> same_views s s'"
  by (auto simp: bft_receiveCommit_def Let_def same_views_notify split: if_splits option.splits prod.splits)

lemma same_views_waits:
  "same_views s (bft_waitResponse_timeout e order i s)" "same_views s (bft_waitResponse_tunnel e order i s)"
  "same_views s (bft_waitResponse_commit i res s)"
  by (simp_all add: bft_waitResponse_timeout_def bft_waitResponse_tunnel_def bft_waitResponse_commit_def Let_def
      split: prod.split)

lemmas same_views_ops = same_views_receiveRequest same_views_answer same_views_receiveResponse same_views_SendCommit
  same_views_receiveCommit same_views_waits

section \<open>View changes\<close>

lemma account_exists_iff: "account_exists a accounts exist \<longleftrightarrow> exist \<or> a \<in> set accounts"
  by (induction accounts arbitrary: exist) auto

lemma dbft_addChangeViewAccounts_eq:
  "dbft_addChangeViewAccounts accounts a = (if a \<in> set accounts then accounts else accounts @ [a])"
  by (simp add: dbft_addChangeViewAccounts_def account_exists_iff)

lemma dbft_addNodes_set [simp]: "set (dbft_addNodes requestNodes nodes) = set requestNodes \<union> set nodes"
  by (induction nodes arbitrary: requestNodes) (auto simp: dbft_addChangeViewAccounts_eq)

lemma dbft_addNodes_distinct: "distinct requestNodes \<Longrightarrow> distinct (dbft_addNodes requestNodes nodes)"
  by (induction nodes arbitrary: requestNodes) (simp_all add: dbft_addChangeViewAccounts_eq)

text \<open>The nodes that ask for a view, after a request for it with \<open>nodes\<close>.\<close>

definition view_nodes :: "u64 \<Rightarrow> Account list \<Rightarrow> 'w dbftCore \<Rightarrow> Account list" where
  "view_nodes num nodes s =
     dbft_addNodes (dbft_addChangeViewAccounts
       (case dv_viewSets (dc_views s) num of None \<Rightarrow> [] | Some vs \<Rightarrow> vs_requestNodes vs) (bc_local s)) nodes"

definition view_quorum :: "Account list \<Rightarrow> Account list \<Rightarrow> bool" where
  "view_quorum peers nodes \<longleftrightarrow> length peers - unat (tolerance_of (length peers)) \<le> length nodes"

text \<open>The state after a request for a view that is not finished.\<close>

definition view_changed :: "u64 \<Rightarrow> Account list \<Rightarrow> nat \<Rightarrow> Account \<Rightarrow> effect list \<Rightarrow> 'w dbftCore \<Rightarrow> 'w dbftCore" where
  "view_changed num nodes timer master eff s =
     (let done = view_quorum (bc_peers s) nodes
      in (stopped timer s)
           \<lparr>bc_master := (if done then master else bc_master s),
            bc_effects := bc_effects s @ eff @ (if done then [Notify EventMasterChange] else []),
            dc_views := \<lparr>dv_status = ViewChanging, dv_viewNum = (if done then num else dv_viewNum (dc_views s)),
              dv_viewSets = (dv_viewSets (dc_views s))(num \<mapsto>
                \<lparr>vs_mu = 0, vs_status = (if done then ViewEnd else Viewing), vs_notify = done,
                 vs_requestNodes = nodes\<rparr>)\<rparr>\<rparr>)"

definition view_request_message :: "Account \<Rightarrow> Account list \<Rightarrow> i64 \<Rightarrow> u64 \<Rightarrow> Message" where
  "view_request_message sender nodes timestamp num =
     \<lparr>msg_Type = ViewChangeMessageReqType,
      msg_PayLoad = ViewChangeReqMessage (Some
        \<lparr>vcr_Account = sender, vcr_Nodes = nodes, vcr_Timestamp = timestamp, vcr_ViewNum = num\<rparr>)\<rparr>"

lemma view_nodes_facts:
  assumes "dbft_core_inv e me peers s"
  shows "distinct (view_nodes num nodes s)" "me \<in> set (view_nodes num nodes s)" "view_nodes num nodes s \<noteq> []"
proof -
  have "bc_local s = me" "\<And>vs. dv_viewSets (dc_views s) num = Some vs \<Longrightarrow> distinct (vs_requestNodes vs)"
    using assms by (auto simp: dbft_core_inv_def bft_core_inv_def dbft_views_inv_def view_set_ok_def)
  then show d: "distinct (view_nodes num nodes s)" "me \<in> set (view_nodes num nodes s)"
    by (auto simp: view_nodes_def dbft_addChangeViewAccounts_eq intro!: dbft_addNodes_distinct split: option.split)
  from d(2) show "view_nodes num nodes s \<noteq> []" by auto
qed

text \<open>A view set that is not finished is unlocked.\<close>

definition view_ended :: "u64 \<Rightarrow> 'w dbftCore \<Rightarrow> bool" where
  "view_ended num s \<longleftrightarrow> (\<exists>vs. dv_viewSets (dc_views s) num = Some vs \<and> vs_status vs = ViewEnd)"

lemma view_set_open:
  assumes "dbft_core_inv e me peers s" "\<not> view_ended num s" "dv_viewSets (dc_views s) num = Some vs"
  shows "vs = \<lparr>vs_mu = 0, vs_status = Viewing, vs_notify = False, vs_requestNodes = vs_requestNodes vs\<rparr>"
proof -
  have "view_set_ok me peers vs" using assms(1,3) by (simp add: dbft_core_inv_def dbft_views_inv_def)
  with assms(2,3) show ?thesis by (cases vs; cases "vs_status vs") (auto simp: view_set_ok_def view_ended_def)
qed

text \<open>A request for a positive view number finds the status changing or changes it.\<close>

lemma view_changing:
  assumes "dbft_core_inv e me peers s" "0 < num"
  shows "dv_viewNum (dc_views s) < num \<or> dv_status (dc_views s) = ViewChanging"
proof (cases "dv_viewNum (dc_views s) < num")
  case False
  with assms(2) have "0 < dv_viewNum (dc_views s)" by (meson not_less order_less_le_trans)
  with assms(1) show ?thesis by (auto simp: dbft_core_inv_def dbft_views_inv_def)
qed simp

text \<open>The state after a request for a finished view: it keeps the read lock.\<close>

definition view_locked :: "u64 \<Rightarrow> nat \<Rightarrow> 'w dbftCore \<Rightarrow> 'w dbftCore" where
  "view_locked num timer s =
     (stopped timer s)\<lparr>dc_views := \<lparr>dv_status = ViewChanging, dv_viewNum = dv_viewNum (dc_views s),
       dv_viewSets = (dv_viewSets (dc_views s))(num := map_option (\<lambda>vs. vs\<lparr>vs_mu := vs_mu vs + 1\<rparr>) (dv_viewSets (dc_views s) num))\<rparr>\<rparr>"

lemma dbft_receiveChangeViewReq_ended:
  assumes inv: "dbft_core_inv e me peers s" and "dc_masterTimeout s = Some timer" and num: "0 < num" "num = vcr_ViewNum req"
    and ended: "view_ended num s"
  shows "dbft_receiveChangeViewReq e req s = Inr (view_locked num timer s)"
proof -
  obtain vs where vs: "dv_viewSets (dc_views s) num = Some vs" "vs_status vs = ViewEnd" using ended by (auto simp: view_ended_def)
  have "dv_status (dc_views s) = ViewChanging" using inv vs(1) by (auto simp: dbft_core_inv_def dbft_views_inv_def)
  with vs assms(2) num show ?thesis
    by (cases "dc_views s") (simp add: dbft_receiveChangeViewReq_def stop_masterTimeout_eq Let_def put_viewSet_def view_locked_def)
qed

lemma int_quorum:
  "int (length peers) - uint (tolerance_of (length peers)) \<le> int (length nodes) \<longleftrightarrow> view_quorum peers nodes"
  unfolding view_quorum_def uint_nat by linarith

lemma dbft_receiveChangeViewReq_eq:
  assumes inv: "dbft_core_inv e me peers s" and "dc_masterTimeout s = Some timer"
    and num: "0 < num" "num = vcr_ViewNum req" and opened: "\<not> view_ended num s"
    and nodes: "nodes = view_nodes num (vcr_Nodes req) s" and m: "GetAccountWithMinId nodes = Inr master"
  shows "dbft_receiveChangeViewReq e req s =
    (if 1 < length nodes
     then (case encode e (view_request_message me nodes (time_Now e) num) of
             Inl err \<Rightarrow> Inl (Panicf ''marshal syncBlockResMsg msg failed'')
           | Inr raw \<Rightarrow> Inr (view_changed num nodes timer master (sends raw (filter (\<lambda>p. p \<noteq> me) peers)) s))
     else Inr (view_changed num nodes timer master [] s))"
proof -
  let ?vs0 = "case dv_viewSets (dc_views s) num of
      None \<Rightarrow> \<lparr>vs_mu = 0, vs_status = Viewing, vs_notify = False, vs_requestNodes = []\<rparr> | Some vs \<Rightarrow> vs"
  obtain olds where vs0: "?vs0 = \<lparr>vs_mu = 0, vs_status = Viewing, vs_notify = False, vs_requestNodes = olds\<rparr>"
    and olds: "nodes = dbft_addNodes (dbft_addChangeViewAccounts olds me) (vcr_Nodes req)"
    using view_set_open [OF inv opened] inv
    by (cases "dv_viewSets (dc_views s) num") (auto simp: nodes view_nodes_def dbft_core_inv_def bft_core_inv_def)
  have s: "bc_local s = me" "bc_peers s = peers" "bc_tolerance s = tolerance_of (length peers)" "bc_eventCenter s"
    using inv by (simp_all add: dbft_core_inv_def bft_core_inv_def)
  obtain st view sets where v: "dc_views s = \<lparr>dv_status = st, dv_viewNum = view, dv_viewSets = sets\<rparr>"
    by (cases "dc_views s")
  have changing: "view < num \<or> st = ViewChanging" using view_changing [OF inv num(1)] v by simp
  show ?thesis
    using assms(2) changing vs0 s m v
    by (cases "view_quorum peers nodes"; cases s; cases "st = ViewChanging")
      (simp_all add: dbft_receiveChangeViewReq_def stop_masterTimeout_eq Let_def num(2) [symmetric] vs0 olds [symmetric]
        int_quorum dbft_sendChangeViewReq_def view_request_message_def sending AccountFilter_single
        dbft_notifyViewEnd_def bc_notify_def bc_emit_def put_viewSet_def view_changed_def stopped_def
        split: sum.split)
qed

section \<open>Every operation keeps the invariant\<close>

lemma stopped_inv [simp]:
  "dbft_core_inv e me peers s \<Longrightarrow> dbft_core_inv e me peers (stopped timer s)"
  "bft_core_inv e me peers (stopped timer s) = bft_core_inv e me peers s" "grows t (stopped timer s) = grows t s"
  "grows (stopped timer s) t = grows s t"
  by (auto simp: dbft_core_inv_def bft_core_inv_def validator_ok_def dbft_views_inv_def dbft_timers_inv_def grows_def stopped_def)

lemma dbft_core_inv_simps [simp]:
  "dbft_core_inv (e\<lparr>time_Now := now\<rparr>) me peers s = dbft_core_inv e me peers s"
  "dbft_core_inv e me peers (bc_emit g s) = dbft_core_inv e me peers s"
  "dbft_core_inv e me peers (s\<lparr>bc_chain := w\<rparr>) = dbft_core_inv e me peers s"
  "dbft_core_inv e me peers (s\<lparr>bc_effects := eff\<rparr>) = dbft_core_inv e me peers s"
  "grows s (t\<lparr>bc_effects := eff\<rparr>) = grows s t"
  by (simp_all add: dbft_core_inv_def bft_core_inv_def validator_ok_def dbft_views_inv_def dbft_timers_inv_def grows_def bc_emit_def)

lemma dbft_core_bft: "dbft_core_inv e me peers s \<Longrightarrow> bft_core_inv e me peers s"
  by (simp add: dbft_core_inv_def)

lemma dbft_receiveRequest_inv:
  assumes "dbft_receiveRequest e req s = Inr s'" and inv: "dbft_core_inv e me peers s"
    and r: "\<And>request. req = Some request \<Longrightarrow> rq_Payload request < length (bc_heap s)"
  shows "dbft_core_inv e me peers s' \<and> grows s s'"
proof -
  obtain timer where timer: "dc_masterTimeout s = Some timer"
    using assms(1) by (cases "dc_masterTimeout s") (simp_all add: dbft_receiveRequest_def stop_masterTimeout_eq)
  obtain t eff where t: "bft_receiveRequest e req (stopped timer s) = Inr t" "s' = t \<or> s' = t\<lparr>bc_effects := eff\<rparr>"
    using dbft_receiveRequest_eq [OF timer, of e req] assms(1) by (auto split: sum.splits)
  from bft_receiveRequest_inv [OF t(1), of me peers] r inv have "bft_core_inv e me peers t \<and> grows s t"
    by (simp add: dbft_core_bft)
  with same_views_inv [OF same_views_receiveRequest [OF t(1)]] inv t(2) show ?thesis by auto
qed

lemma dbft_receiveProposal_inv:
  assumes "dbft_receiveProposal e proposal s = Inr s'" and inv: "dbft_core_inv e me peers s"
    and r: "pr_Payload proposal < length (bc_heap s)"
  shows "dbft_core_inv e me peers s' \<and> grows s s'"
  using assms(1)
proof (cases rule: dbft_receiveProposal_cases)
  case (3 timer)
  then have "bft_core_inv e me peers s' \<and> grows s s'"
    using bft_answer_inv [OF 3(2), of me peers] inv r by (simp add: dbft_core_bft)
  with same_views_inv [OF same_views_answer [OF 3(2)]] inv show ?thesis by auto
qed (use inv in simp_all)

lemma dbft_handlers_inv:
  assumes "dbft_core_inv e me peers s"
  shows "dbft_receiveResponse e response s = Inr s' \<Longrightarrow> dbft_core_inv e me peers s' \<and> grows s s'"
    and "dbft_receiveCommit e commit s = Inr s' \<Longrightarrow> dbft_core_inv e me peers s' \<and> grows s s'"
    and "dbft_SendCommit e commit r s = Inr s' \<Longrightarrow> dbft_core_inv e me peers s' \<and> grows s s'"
    and "dbft_receiveSyncBlockReq e syncReq s = Inr s' \<Longrightarrow> dbft_core_inv e me peers s' \<and> grows s s'"
    and "dbft_receiveSyncBlockResp e syncResp s = Inr s' \<Longrightarrow> dbft_core_inv e me peers s' \<and> grows s s'"
proof -
  note bft = dbft_core_bft [OF assms]
  show "dbft_core_inv e me peers s' \<and> grows s s'" if "dbft_receiveResponse e response s = Inr s'"
    using that bft_receiveResponse_inv [OF _ bft] same_views_inv [OF same_views_receiveResponse assms]
    unfolding dbft_handlers_eq by blast
  show "dbft_core_inv e me peers s' \<and> grows s s'" if "dbft_receiveCommit e commit s = Inr s'"
    using that bft_receiveCommit_inv [OF _ bft] same_views_inv [OF same_views_receiveCommit assms]
    unfolding dbft_handlers_eq by blast
  show "dbft_core_inv e me peers s' \<and> grows s s'" if "dbft_SendCommit e commit r s = Inr s'"
    using that bft_SendCommit_inv [OF _ bft] same_views_inv [OF same_views_SendCommit assms]
    unfolding dbft_handlers_eq by blast
  show "dbft_core_inv e me peers s' \<and> grows s s'" if "dbft_receiveSyncBlockReq e syncReq s = Inr s'"
    using that assms
    by (clarsimp simp: dbft_receiveSyncBlockReq_def bindP_Inr_iff split: if_splits option.splits) (auto split: sum.splits)
  show "dbft_core_inv e me peers s' \<and> grows s s'" if "dbft_receiveSyncBlockResp e syncResp s = Inr s'"
    using that assms by (auto simp: dbft_receiveSyncBlockResp_def)
qed

lemma view_changed_inv:
  assumes inv: "dbft_core_inv e me peers s" and num: "0 < num" "\<not> view_ended num s"
    and nodes: "distinct nodes" "me \<in> set nodes"
  shows "dbft_core_inv e me peers (view_changed num nodes timer master eff s) \<and>
    grows s (view_changed num nodes timer master eff s)"
proof -
  let ?t = "view_changed num nodes timer master eff s"
  have peers: "bc_peers s = peers" "bc_eventCenter s" using inv by (simp_all add: dbft_core_inv_def bft_core_inv_def)
  have t: "bft_core_inv e me peers ?t" "grows s ?t" "dbft_timers_inv ?t" "bc_eventCenter ?t"
    using stopped_inv(1) [OF inv, of timer] peers(2)
    by (simp_all add: dbft_core_inv_def bft_core_inv_def validator_ok_def dbft_timers_inv_def view_changed_def Let_def grows_def)
  have new: "view_set_ok me peers \<lparr>vs_mu = 0, vs_status = (if view_quorum peers nodes then ViewEnd else Viewing),
      vs_notify = view_quorum peers nodes, vs_requestNodes = nodes\<rparr>"
    using nodes by (simp add: view_set_ok_def view_quorum_def)
  have "dv_viewNum (dc_views s) \<noteq> num" if "0 < dv_viewNum (dc_views s)"
    using inv num(2) that by (auto simp: dbft_core_inv_def dbft_views_inv_def view_ended_def)
  then have "dbft_views_inv me peers ?t"
    using inv new num(1)
    by (auto simp: dbft_views_inv_def dbft_core_inv_def view_changed_def Let_def peers split: if_splits)
  with t show ?thesis by (simp add: dbft_core_inv_def)
qed

lemma view_locked_inv:
  assumes inv: "dbft_core_inv e me peers s" and ended: "view_ended num s"
  shows "dbft_core_inv e me peers (view_locked num timer s) \<and> grows s (view_locked num timer s)"
proof -
  let ?t = "view_locked num timer s"
  have t: "bft_core_inv e me peers ?t" "grows s ?t" "dbft_timers_inv ?t" "bc_eventCenter ?t"
    using stopped_inv(1) [OF inv, of timer]
    by (simp_all add: dbft_core_inv_def bft_core_inv_def validator_ok_def dbft_timers_inv_def view_locked_def grows_def)
  obtain vs where vs: "dv_viewSets (dc_views s) num = Some vs" "vs_status vs = ViewEnd" using ended by (auto simp: view_ended_def)
  with inv have "view_set_ok me peers vs" by (simp add: dbft_core_inv_def dbft_views_inv_def)
  with vs(2) have "view_set_ok me peers (vs\<lparr>vs_mu := vs_mu vs + 1\<rparr>)" by (auto simp: view_set_ok_def)
  then have "dbft_views_inv me peers ?t"
    using inv vs by (auto simp: dbft_views_inv_def dbft_core_inv_def view_locked_def split: if_splits)
  with t show ?thesis by (simp add: dbft_core_inv_def)
qed

lemma dbft_receiveChangeViewReq_cases:
  assumes "dbft_receiveChangeViewReq e req s = Inr s'" and inv: "dbft_core_inv e me peers s"
    and num: "0 < vcr_ViewNum req"
  obtains timer where "dc_masterTimeout s = Some timer" "view_ended (vcr_ViewNum req) s"
      "s' = view_locked (vcr_ViewNum req) timer s"
  | timer master eff where "dc_masterTimeout s = Some timer" "\<not> view_ended (vcr_ViewNum req) s"
      "s' = view_changed (vcr_ViewNum req) (view_nodes (vcr_ViewNum req) (vcr_Nodes req) s) timer master eff s"
proof -
  obtain timer where timer: "dc_masterTimeout s = Some timer"
    using assms(1) by (cases "dc_masterTimeout s") (simp_all add: dbft_receiveChangeViewReq_def stop_masterTimeout_eq)
  show thesis
  proof (cases "view_ended (vcr_ViewNum req) s")
    case True
    with dbft_receiveChangeViewReq_ended [OF inv timer num refl] assms(1) timer that(1) show thesis by simp
  next
    case False
    obtain master where "GetAccountWithMinId (view_nodes (vcr_ViewNum req) (vcr_Nodes req) s) = Inr master"
      using GetAccountWithMinId_total [OF view_nodes_facts(3) [OF inv]] by blast
    from dbft_receiveChangeViewReq_eq [OF inv timer num refl False refl this] assms(1) timer False that(2) show thesis
      by (auto split: if_splits sum.splits)
  qed
qed

lemma dbft_receiveChangeViewReq_inv:
  assumes "dbft_receiveChangeViewReq e req s = Inr s'" and inv: "dbft_core_inv e me peers s"
    and num: "0 < vcr_ViewNum req"
  shows "dbft_core_inv e me peers s' \<and> grows s s'"
  using assms
proof (cases rule: dbft_receiveChangeViewReq_cases)
  case (1 timer)
  then show ?thesis using view_locked_inv [OF inv] by simp
next
  case (2 timer master eff)
  then show ?thesis using view_changed_inv [OF inv num] view_nodes_facts(1,2) [OF inv] by simp
qed

lemma dbft_waitMasterTimeOut_inv:
  "dbft_core_inv e me peers s \<Longrightarrow>
   dbft_core_inv e me peers (dbft_waitMasterTimeOut_fires e' timer s) \<and> grows s (dbft_waitMasterTimeOut_fires e' timer s)"
  by (simp add: dbft_waitMasterTimeOut_fires_def Let_def stopped_def [symmetric] split: sum.split)

lemma dbft_waits_inv:
  assumes "dbft_core_inv e me peers s" "i < length (bc_waiters s)"
  shows "bc_waiters s ! i = Collecting \<Longrightarrow> lists_keys order s \<Longrightarrow> s' = dbft_waitResponse_timeout e order i s \<Longrightarrow>
      dbft_core_inv e me peers s' \<and> grows s s'"
    and "bc_waiters s ! i = Collecting \<Longrightarrow> lists_keys order s \<Longrightarrow> s' = dbft_waitResponse_tunnel e order i s \<Longrightarrow>
      dbft_core_inv e me peers s' \<and> grows s s'"
    and "bc_waiters s ! i = Committing res \<Longrightarrow> s' = dbft_waitResponse_commit i res s \<Longrightarrow>
      dbft_core_inv e me peers s' \<and> grows s s'"
  using bft_waitResponse_timeout_inv [OF dbft_core_bft [OF assms(1)] _ assms(2)]
    bft_waitResponse_tunnel_inv [OF dbft_core_bft [OF assms(1)] _ assms(2)]
    bft_waitResponse_commit_inv [OF dbft_core_bft [OF assms(1)] assms(2)]
    same_views_inv [OF same_views_waits(1) assms(1)] same_views_inv [OF same_views_waits(2) assms(1)]
    same_views_inv [OF same_views_waits(3) assms(1)]
  by (simp_all add: dbft_handlers_eq dbft_is_bft)

section \<open>The running node\<close>

lemma dbft_ProcessEvent_inv:
  assumes "dbft_ProcessEvent e s ev = Inr (s', res)" "dbft_core_inv e me peers s"
    and "\<And>request. ev = CoreRequest (Some request) \<Longrightarrow> rq_Payload request < length (bc_heap s)"
    and "\<And>proposal. ev = CoreProposal (Some proposal) \<Longrightarrow> pr_Payload proposal < length (bc_heap s)"
    and "\<And>req. ev = CoreViewChangeReq (Some req) \<Longrightarrow> 0 < vcr_ViewNum req"
  shows "dbft_core_inv e me peers s' \<and> grows s s'"
proof (cases ev)
  case (CoreRequest et)
  with assms(1) dbft_receiveRequest_inv [OF _ assms(2), of et] assms(3) show ?thesis
    by (simp add: dbft_ProcessEvent_def bindP_Inr_iff)
next
  case (CoreProposal et)
  with assms(1) dbft_receiveProposal_inv [OF _ assms(2)] assms(4) show ?thesis
    by (auto simp: dbft_ProcessEvent_def core_handle_def bindP_Inr_iff split: option.splits)
next
  case (CoreViewChangeReq et)
  with assms(1) dbft_receiveChangeViewReq_inv [OF _ assms(2)] assms(5) show ?thesis
    by (auto simp: dbft_ProcessEvent_def core_handle_def bindP_Inr_iff split: option.splits)
qed (use assms(1,2) dbft_handlers_inv [OF assms(2)] in
    \<open>auto simp: dbft_ProcessEvent_def core_handle_def bindP_Inr_iff split: option.splits\<close>)

lemma dbft_SendEvent_inv:
  assumes "SendEvent (dbft_ProcessEvent e) s ev = Some (Inr s')" "dbft_known ev" "dbft_core_inv e me peers s"
    and "\<And>request. ev = CoreRequest (Some request) \<Longrightarrow> rq_Payload request < length (bc_heap s)"
    and "\<And>proposal. ev = CoreProposal (Some proposal) \<Longrightarrow> pr_Payload proposal < length (bc_heap s)"
    and "\<And>req. ev = CoreViewChangeReq (Some req) \<Longrightarrow> 0 < vcr_ViewNum req"
  shows "dbft_core_inv e me peers s' \<and> grows s s'"
proof -
  obtain res where "dbft_ProcessEvent e s ev = Inr (s', res)"
    using assms(1) dbft_receiver.SendEvent_known [OF assms(2), of e s] by (auto split: sum.splits prod.splits)
  from dbft_ProcessEvent_inv [OF this assms(3-6)] show ?thesis by blast
qed

lemma alloc_block_dbft:
  assumes "alloc_block b s = (r, t)" "dbft_core_inv e me peers s"
  shows "dbft_core_inv e me peers t \<and> grows s t \<and> r < length (bc_heap t) \<and> same_views s t"
proof -
  have "same_views s t" using assms(1) by (auto simp: alloc_block_def same_views_def)
  with alloc_block_inv [OF assms(1) dbft_core_bft [OF assms(2)]] same_views_inv [OF _ assms(2)] show ?thesis by blast
qed

text \<open>A message between the checks of \<open>handleClient\<close> and the core.\<close>

definition client_ok :: "'w dbftCore \<Rightarrow> core_event \<Rightarrow> bool" where
  "client_ok s ev \<longleftrightarrow> dbft_known ev \<and>
     (\<forall>request. ev = CoreRequest (Some request) \<longrightarrow> rq_Payload request < length (bc_heap s)) \<and>
     (\<forall>proposal. ev = CoreProposal (Some proposal) \<longrightarrow> pr_Payload proposal < length (bc_heap s)) \<and>
     (\<forall>req. ev = CoreViewChangeReq (Some req) \<longrightarrow> 0 < vcr_ViewNum req)"

lemma client_ok_grows: "client_ok s ev \<Longrightarrow> grows s t \<Longrightarrow> client_ok t ev"
  by (auto simp: client_ok_def grows_def)

lemma dbft_accept_inv:
  assumes "dbft_handleClient_accept e conn s = Inr (out, t)" and inv: "dbft_core_inv e me peers s"
  shows "dbft_core_inv e me peers t \<and> grows s t \<and> same_views s t \<and> (\<forall>ev. out = Some ev \<longrightarrow> client_ok t ev)"
proof -
  have positive: "0 < vcr_ViewNum v" if "\<not> vcr_ViewNum v \<le> dv_viewNum (dc_views s)" for v
    using that by (metis not_le order_le_less_trans word_zero_le)
  have req: "dbft_core_inv e me peers t \<and> grows s t \<and> same_views s t \<and> client_ok t ev" if "request_event m s = (ev, t)" for m ev
    using that inv alloc_block_dbft [OF _ inv]
    by (auto simp: request_event_def client_ok_def split: option.splits prod.splits)
  have proposed: "dbft_core_inv e me peers t \<and> grows s t \<and> same_views s t \<and> client_ok t ev" if "proposal_event m s = (ev, t)" for m ev
    using that alloc_block_dbft [OF _ inv] by (auto simp: proposal_event_def client_ok_def split: prod.splits)
  show ?thesis
    using assms(1) inv req proposed positive
    by (auto simp: dbft_handleClient_accept_def Let_def client_ok_def
        split: sum.splits prod.splits if_splits payload.splits option.splits)
qed

lemma dbft_client_inv:
  assumes "SendEvent (dbft_ProcessEvent e) s ev = Some (Inr s')" "dbft_core_inv e me peers s" "client_ok s ev"
  shows "dbft_core_inv e me peers s' \<and> grows s s'"
  using dbft_SendEvent_inv [OF assms(1) _ assms(2)] assms(3) by (simp add: client_ok_def)

lemma dbft_handleClient_inv:
  assumes "dbft_handleClient e conn s = Some (Inr s')" and inv: "dbft_core_inv e me peers s"
  shows "dbft_core_inv e me peers s' \<and> grows s s'"
proof -
  obtain out t where t: "dbft_handleClient_accept e conn s = Inr (out, t)"
    using assms(1) by (auto simp: dbft_handleClient_def split: sum.splits)
  from dbft_accept_inv [OF t inv] dbft_client_inv [of e t _ s' me peers] grows_trans [of s t s'] assms(1) t show ?thesis
    by (auto simp: dbft_handleClient_def split: option.splits)
qed

definition dbft_policy_inv :: "'w env \<Rightarrow> Account \<Rightarrow> Account list \<Rightarrow> 'w DBFTPolicy \<Rightarrow> bool" where
  "dbft_policy_inv e me peers p \<longleftrightarrow>
     dbft_core_inv e me peers (dbp_core p) \<and>
     (\<forall>r \<in> set (dbp_pending p). r < length (bc_heap (dbp_core p))) \<and>
     (\<forall>t \<in> set (dbp_tasks p). task_ref t < length (bc_heap (dbp_core p))) \<and>
     (\<forall>ev \<in> set (dbp_clients p). client_ok (dbp_core p) ev)"

definition dbft_started :: "Account \<Rightarrow> Account list \<Rightarrow> 'w DBFTPolicy \<Rightarrow> bool" where
  "dbft_started me peers p \<longleftrightarrow>
     (\<exists>timeout chain master onLine. p = dbft_Initialization me master peers onLine (NewDBFTPolicy timeout chain))"

inductive dbft_reachable :: "'w env \<Rightarrow> Account \<Rightarrow> Account list \<Rightarrow> 'w DBFTPolicy \<Rightarrow> bool" for e me peers where
  started: "dbft_started me peers p \<Longrightarrow> dbft_reachable e me peers p"
| step: "dbft_reachable e me peers p \<Longrightarrow> dbft_step e me peers p p' \<Longrightarrow> dbft_reachable e me peers p'"

lemma dbft_policy_core: "dbft_policy_inv e me peers p \<Longrightarrow> dbft_core_inv e me peers (dbp_core p)"
  by (simp add: dbft_policy_inv_def)

lemma dbft_policy_inv_core:
  assumes "dbft_policy_inv e me peers p" "dbft_core_inv e me peers c \<and> grows (dbp_core p) c"
  shows "dbft_policy_inv e me peers (p\<lparr>dbp_core := c\<rparr>)"
  using assms by (auto simp: dbft_policy_inv_def intro: client_ok_grows) (auto simp: grows_def intro: order_less_le_trans)

lemma dbft_tolerance_eq: "dbft_tolerance n = tolerance_of n"
  using bft_tolerance_eq [of n] by (simp add: dbft_tolerance_def bft_tolerance_def)

lemma dbft_Initialization_started:
  "dbft_policy_inv e me peers (dbft_Initialization me master peers onLine (NewDBFTPolicy timeout chain))"
  by (simp add: dbft_Initialization_def NewDBFTPolicy_def NewDBFTCore_def dbft_policy_inv_def dbft_core_inv_def
      bft_core_inv_def validator_ok_def dbft_views_inv_def dbft_timers_inv_def dbft_tolerance_eq Let_def)

lemma dbft_Initialization_inv:
  assumes "dbft_policy_inv e me peers p"
  shows "dbft_policy_inv e me peers (dbft_Initialization me master peers onLine p)"
  using assms
  by (auto simp: dbft_Initialization_def dbft_policy_inv_def dbft_core_inv_def bft_core_inv_def validator_ok_def
      dbft_views_inv_def dbft_timers_inv_def dbft_tolerance_eq Let_def less_Suc_eq client_ok_def)

lemma dbft_ToConsensus_begin_inv:
  assumes "dbft_policy_inv e me peers p"
  shows "dbft_policy_inv e me peers (dbft_ToConsensus_begin proposal p)"
proof -
  obtain r c where a: "alloc_block (prop_Block proposal) (dbp_core p) = (r, c)" by fastforce
  with assms have "dbft_core_inv e me peers c \<and> grows (dbp_core p) c \<and> r < length (bc_heap c)"
    using alloc_block_dbft [OF a] by (auto simp: dbft_policy_inv_def)
  with assms a show ?thesis
    by (auto simp: dbft_ToConsensus_begin_def dbft_policy_inv_def intro: client_ok_grows)
      (auto simp: grows_def intro: order_less_le_trans)
qed

lemma dbft_ToConsensus_result_inv:
  assumes "dbft_policy_inv e me peers p" "r \<in> set (dbp_pending p)" "dbft_ToConsensus_result e r res p = (err, p')"
  shows "dbft_policy_inv e me peers p'"
proof -
  let ?c = "(dbp_core p)\<lparr>bc_result := tl (bc_result (dbp_core p))\<rparr>"
  have c: "dbft_core_inv e me peers ?c"
    using assms(1) set_mono_suffix [OF suffix_tl, of "bc_result (dbp_core p)"]
    by (auto simp: dbft_policy_inv_def dbft_core_inv_def bft_core_inv_def validator_ok_def dbft_views_inv_def dbft_timers_inv_def)
  have "dbft_core_inv e me peers (store_block r b ?c)" if "b_MixDigest b = b_MixDigest (bc_heap ?c ! r)" for b
    using same_views_inv [OF _ c] store_same_digest [OF dbft_core_bft [OF c] that] by simp
  with assms c show ?thesis
    by (auto simp: dbft_ToConsensus_result_def Let_def dbft_policy_inv_def load_block_def client_ok_def split: option.splits
        dest: in_remove1)
qed

lemma dbft_run_task_inv:
  assumes "dbft_run_task e t p = Inr p'" "dbft_policy_inv e me peers p" "t \<in> set (dbp_tasks p)"
  shows "dbft_policy_inv e me peers p'"
proof -
  let ?p = "p\<lparr>dbp_tasks := remove1 t (dbp_tasks p)\<rparr>"
  have inv: "dbft_policy_inv e me peers ?p" "dbft_core_inv e me peers (dbp_core p)"
    using assms(2) by (auto simp: dbft_policy_inv_def dest: in_remove1)
  have r: "task_ref t < length (bc_heap (dbp_core p))" using assms(2,3) by (simp add: dbft_policy_inv_def)
  show ?thesis
  proof (cases t)
    case (RequestTask request)
    with assms(1) obtain c where c: "SendEvent (dbft_ProcessEvent e) (dbp_core p) (CoreRequest (Some request)) = Some (Inr c)"
        "p' = ?p\<lparr>dbp_core := c\<rparr>"
      by (auto simp: dbft_run_task_def Let_def bindP_Inr_iff split: option.splits)
    with dbft_SendEvent_inv [OF c(1) _ inv(2)] r RequestTask dbft_policy_inv_core [OF inv(1)] show ?thesis by simp
  next
    case (CommitTask r result)
    with assms(1) inv show ?thesis
      by (auto simp: dbft_run_task_def dbft_commit_def Let_def bindP_Inr_iff dest!: dbft_handlers_inv(3) [OF inv(2)]
          intro: dbft_policy_inv_core)
  qed
qed

lemma dbft_step_inv:
  "dbft_step e me peers p p' \<Longrightarrow> dbft_policy_inv e me peers p \<Longrightarrow> dbft_policy_inv e me peers p'"
proof (induction rule: dbft_step.induct)
  case (accept t conn p ev core)
  have "dbft_core_inv (e\<lparr>time_Now := t\<rparr>) me peers (dbp_core p)" using accept(2) by (simp add: dbft_policy_core)
  from dbft_accept_inv [OF accept(1) this] have c: "dbft_core_inv e me peers core" "grows (dbp_core p) core" "client_ok core ev"
    by simp_all
  from dbft_policy_inv_core [OF accept(2)] c(1,2) have "dbft_policy_inv e me peers (p\<lparr>dbp_core := core\<rparr>)" by simp
  with c(3) show ?case by (simp add: dbft_policy_inv_def)
next
  case (process ev p t core)
  have "dbft_core_inv (e\<lparr>time_Now := t\<rparr>) me peers (dbp_core p)" "client_ok (dbp_core p) ev"
    using process(1,4) by (simp_all add: dbft_policy_inv_def)
  from dbft_client_inv [OF process(3) this] dbft_policy_inv_core [OF process(4)]
  have "dbft_policy_inv e me peers (p\<lparr>dbp_core := core\<rparr>)" by simp
  then show ?case by (auto simp: dbft_policy_inv_def dest: in_remove1)
next
  case (round_timeout r p err p')
  then show ?case by (auto simp: dbft_ToConsensus_timeout_def dbft_policy_inv_def dest: in_remove1)
next
  case (run_task task p t p')
  then show ?case using dbft_run_task_inv [OF run_task(2), of me peers] by (simp add: dbft_policy_inv_def)
next
  case (responses_timeout i p order)
  then show ?case using dbft_waits_inv(1) [OF dbft_policy_core [OF responses_timeout(4)], of i order]
    by (intro dbft_policy_inv_core) simp_all
next
  case (responses_tunnel i p order)
  then show ?case using dbft_waits_inv(2) [OF dbft_policy_core [OF responses_tunnel(5)], of i order]
    by (intro dbft_policy_inv_core) simp_all
next
  case (responses_commit i p res)
  then show ?case using dbft_waits_inv(3) [OF dbft_policy_core [OF responses_commit(4)], of i res]
    by (intro dbft_policy_inv_core) simp_all
next
  case (master_timeout timer p t)
  then show ?case using dbft_waitMasterTimeOut_inv [of e me peers "dbp_core p" "e\<lparr>time_Now := t\<rparr>" timer]
    by (intro dbft_policy_inv_core) (simp_all add: dbft_policy_core)
next
  case (chain_moves p w)
  then show ?case by (intro dbft_policy_inv_core) (simp_all add: dbft_policy_core)
qed (simp_all add: dbft_Initialization_inv dbft_ToConsensus_begin_inv dbft_ToConsensus_result_inv)

theorem dbft_reachable_inv: "dbft_reachable e me peers p \<Longrightarrow> dbft_policy_inv e me peers p"
proof (induction rule: dbft_reachable.induct)
  case (started p)
  then show ?case by (auto simp: dbft_started_def dbft_Initialization_started)
qed (rule dbft_step_inv)

end
