(* ===== verification/Dbft_Properties.thy ===== *)
theory Dbft_Properties
  imports Dbft_Invariants Bft_Trace
begin

text \<open>
  What the DBFT policy guarantees and where it fails: what it shares with the BFT policy, certified
  results, the view change, block synchronisation, and the timer of the master.
\<close>

section \<open>A node that has just been initialised\<close>

definition dt_timeout :: ConsensusTimeout where
  "dt_timeout = \<lparr>TimeoutToCollectResponseMsg = 1, TimeoutToWaitCommitMsg = 1, TimeoutToChangeView = 1\<rparr>"

definition dt_node :: "u8 \<Rightarrow> bool \<Rightarrow> u64 DBFTPolicy" where
  "dt_node k onLine = dbft_Initialization (sample_node k) (sample_node 1) bt_peers onLine (NewDBFTPolicy dt_timeout 19)"

lemma dt_reachable: "dbft_reachable e (sample_node k) bt_peers (dt_node k onLine)"
  by (rule dbft_reachable.started) (auto simp: dbft_started_def dt_node_def)

lemmas dt_defs = dt_node_def dbft_Initialization_def NewDBFTPolicy_def NewDBFTCore_def dbft_tolerance_eq

lemma dt_facts [simp]:
  "dc_masterTimeout (dbp_core (dt_node k False)) = Some 0" "dc_timers (dbp_core (dt_node k False)) = [0]"
  "dc_masterTimeout (dbp_core (dt_node k True)) = None" "bc_chain (dbp_core (dt_node k b)) = 19"
  "bc_local (dbp_core (dt_node k b)) = sample_node k" "bc_master (dbp_core (dt_node k b)) = sample_node 1"
  "bc_peers (dbp_core (dt_node k b)) = bt_peers" "bc_effects (dbp_core (dt_node k b)) = []"
  "dc_views (dbp_core (dt_node k b)) = \<lparr>dv_status = ViewNormal, dv_viewNum = 0, dv_viewSets = Map.empty\<rparr>"
  by (simp_all add: dt_defs Let_def)

section \<open>What is shared with the BFT core\<close>

text \<open>
  C18: the DBFT core is the BFT core for responses, commits, the commit of the master and the goroutine
  that waits for responses. Once the timer of the master is stopped, a request is handled as by the
  BFT core, except that the proposal is sent a second time to every other peer, and a proposal for the
  next height is handled as by the BFT core.
\<close>

theorem dbft_extends_bft:
  fixes s :: "'w dbftCore"
  shows "dbft_receiveResponse e response s = bft_receiveResponse e response s \<and>
    dbft_receiveCommit e commit s = bft_receiveCommit e commit s \<and>
    dbft_SendCommit e commit r s = bft_SendCommit e commit r s \<and>
    dbft_waitResponse_timeout e order i s = bft_waitResponse_timeout e order i s \<and>
    dbft_waitResponse_tunnel e order i s = bft_waitResponse_tunnel e order i s \<and>
    dbft_waitResponse_commit i res s = bft_waitResponse_commit i res s \<and>
    (dc_masterTimeout s = Some timer \<longrightarrow>
      (case bft_receiveRequest e req (stopped timer s) of
         Inl p \<Rightarrow> dbft_receiveRequest e req s = Inl p
       | Inr t \<Rightarrow> dbft_receiveRequest e req s = Inr t \<and> bc_effects t = bc_effects s \<and> bc_waiters t = bc_waiters s \<or>
           (\<exists>raw. bc_effects t = bc_effects s @ sends raw (bc_peers s) \<and> bc_waiters t = bc_waiters s @ [Collecting] \<and>
              dbft_receiveRequest e req s =
                Inr (t\<lparr>bc_effects := bc_effects t @ sends raw (filter (\<lambda>p. p \<noteq> bc_local s) (bc_peers s))\<rparr>))) \<and>
      (NewLatestStateRepository e (bc_chain s) = None \<and>
       GetCurrentBlockHeight e (bc_chain s) < b_Height (load_block (pr_Payload proposal) s) \<and>
       b_Height (load_block (pr_Payload proposal) s) = GetCurrentBlockHeight e (bc_chain s) + 1 \<longrightarrow>
       dbft_receiveProposal e proposal s = bft_receiveProposal e proposal (stopped timer s)))"
  using dbft_receiveRequest_eq [of s timer e req] dbft_receiveProposal_eq [of s timer e proposal]
  unfolding dbft_handlers_eq dbft_is_bft by blast

theorem dbft_extends_bft_witness:
  "dbft_receiveProposal sample_env \<lparr>pr_Account = sample_node 1, pr_Timestamp = 0, pr_Payload = 0, pr_Signature = [1, 7]\<rparr>
     ((dbp_core (dt_node 2 False))\<lparr>bc_heap := [sample_block 7 20]\<rparr>) =
   bft_receiveProposal sample_env \<lparr>pr_Account = sample_node 1, pr_Timestamp = 0, pr_Payload = 0, pr_Signature = [1, 7]\<rparr>
     (stopped 0 ((dbp_core (dt_node 2 False))\<lparr>bc_heap := [sample_block 7 20]\<rparr>))"
  using dbft_extends_bft [of sample_env undefined "(dbp_core (dt_node 2 False))\<lparr>bc_heap := [sample_block 7 20]\<rparr>"
      undefined undefined "[]" 0 undefined 0 None
      "\<lparr>pr_Account = sample_node 1, pr_Timestamp = 0, pr_Payload = 0, pr_Signature = [1, 7]\<rparr>"]
  by (simp add: load_block_def sample_block_def)

section \<open>The timer of the master\<close>

text \<open>
  a node that is initialised as coming online has no timer, and then the first request, the first
  proposal and the first view change request each make it panic on the nil pointer.
\<close>

theorem dbft_online_panics:
  "let s = dbp_core (dbft_Initialization local master peers True (NewDBFTPolicy timeout chain))
   in SendEvent (dbft_ProcessEvent e) s (CoreRequest request) = Some (Inl NilDereference) \<and>
      SendEvent (dbft_ProcessEvent e) s (CoreProposal proposal) = Some (Inl NilDereference) \<and>
      SendEvent (dbft_ProcessEvent e) s (CoreViewChangeReq viewChange) = Some (Inl NilDereference)"
proof -
  let ?s = "dbp_core (dbft_Initialization local master peers True (NewDBFTPolicy timeout chain))"
  have "dc_masterTimeout ?s = None" by (simp add: dbft_Initialization_def NewDBFTPolicy_def NewDBFTCore_def Let_def)
  then have "stop_masterTimeout ?s = Inl NilDereference" by (simp add: stop_masterTimeout_eq)
  then show ?thesis
    by (simp add: SendEvent.simps dbft_ProcessEvent_def core_handle_def dbft_receiveRequest_def
        dbft_receiveProposal_def dbft_receiveChangeViewReq_def Let_def split: option.split)
qed

section \<open>Block synchronisation\<close>

lemma unat_64: "unat (x :: u64) < 2 ^ 64"
  using unsigned_less [where 'a = nat, of x] by simp

text \<open>The loop over the heights, as far as the chain has the blocks.\<close>

lemma dbft_collectBlocks_prefix:
  assumes "\<forall>i < n. GetBlockByHeight e chain (start + of_nat i) = Inr (block (start + of_nat i))"
    and "unat start + n \<le> unat end' + 1" and "unat end' + 1 < 2 ^ 64"
  shows "dbft_collectBlocks e chain start end' acc =
    dbft_collectBlocks e chain (start + of_nat n) end' (acc @ map (\<lambda>i. block (start + of_nat i)) [0..<n])"
  using assms(1,2)
proof (induction n)
  case (Suc n)
  have "unat (start + of_nat n) = unat start + n"
    using Suc(3) assms(3) by (simp add: unat_word_ariths unat_of_nat)
  then have "start + of_nat n \<le> end'" using Suc(3) by (simp add: word_le_nat_alt)
  with Suc show ?case
    by (simp add: dbft_collectBlocks.simps [of e chain "start + of_nat n"] algebra_simps)
qed simp

text \<open>
  C30: a request for the blocks from \<open>start\<close> to \<open>end\<close>, of which the chain has those below \<open>k\<close>: when it
  has all of them the loop ends and the node answers the sender with exactly these blocks in order;
  when the block at \<open>k\<close> is missing the node panics. The largest height is excluded: there the loop
  counter wraps around.
\<close>

theorem dbft_sync_request_branches:
  assumes "NewLatestStateRepository e (bc_chain s) = None"
    and "start = sbq_BlockStart req" and "start \<le> k" and "k \<le> sbq_BlockEnd req + 1" and "sbq_BlockEnd req \<noteq> - 1"
    and "\<forall>h. start \<le> h \<and> h < k \<longrightarrow> GetBlockByHeight e (bc_chain s) h = Inr (block h)"
  shows "if k = sbq_BlockEnd req + 1
    then dbft_receiveSyncBlockReq e req s =
      (case encode e \<lparr>msg_Type = SyncBlockRespMessageType, msg_PayLoad = BareSyncBlockResp
              \<lparr>sbr_Blocks = map (\<lambda>i. block (start + of_nat i)) [0..<unat (k - start)]\<rparr>\<rparr> of
         Inl err \<Rightarrow> Inl (Panicf ''marshal syncBlockResMsg msg failed'')
       | Inr raw \<Rightarrow> Inr (s\<lparr>bc_effects := bc_effects s @ [SendTo (acc_Url (sbq_Account req)) raw]\<rparr>))
    else \<forall>err. GetBlockByHeight e (bc_chain s) k = Inl err \<longrightarrow>
      dbft_receiveSyncBlockReq e req s = Inl (Panicf ''get block by height'')"
proof -
  let ?n = "unat (k - start)" and ?last = "sbq_BlockEnd req"
  have n: "unat start + ?n = unat k" using assms(3) by (simp add: unat_sub word_le_nat_alt)
  have e1: "unat (?last + 1) = unat ?last + 1"
    using unat_succ [OF assms(5)] by simp
  have k: "start + of_nat ?n = k" by simp
  have "unat k \<le> unat ?last + 1" using assms(4) e1 by (simp add: word_le_nat_alt)
  moreover have "unat ?last + 1 < 2 ^ 64" using e1 unat_64 [of "?last + 1"] by simp
  moreover have "GetBlockByHeight e (bc_chain s) (start + of_nat i) = Inr (block (start + of_nat i))" if "i < ?n" for i
  proof -
    have "unat (start + of_nat i) = unat start + i"
      using n that unat_64 [of k] by (simp add: unat_word_ariths unat_of_nat)
    then have "start \<le> start + of_nat i \<and> start + of_nat i < k" using n that by (simp add: word_le_nat_alt word_less_nat_alt)
    with assms(6) show ?thesis by blast
  qed
  ultimately have loop: "dbft_collectBlocks e (bc_chain s) start ?last [] =
      dbft_collectBlocks e (bc_chain s) k ?last (map (\<lambda>i. block (start + of_nat i)) [0..<?n])"
    using dbft_collectBlocks_prefix [of ?n e "bc_chain s" start block ?last "[]"] n k by simp
  show ?thesis
  proof (cases "k = ?last + 1")
    case True
    then have "\<not> k \<le> ?last" using e1 by (simp add: word_le_nat_alt)
    then have "dbft_collectBlocks e (bc_chain s) start ?last [] = Some (Inr (map (\<lambda>i. block (start + of_nat i)) [0..<?n]))"
      using loop by (simp add: dbft_collectBlocks.simps [of e _ k])
    with assms(1,2) True show ?thesis
      by (simp add: dbft_receiveSyncBlockReq_def Unicast_sends bc_emit_def split: sum.split)
  next
    case False
    with \<open>unat k \<le> unat ?last + 1\<close> e1 have "k \<le> ?last" by (metis Suc_eq_plus1 le_Suc_eq word_unat_eq_iff word_le_nat_alt)
    with loop assms(1,2) False show ?thesis
      by (simp add: dbft_receiveSyncBlockReq_def dbft_collectBlocks.simps [of e _ k])
  qed
qed

theorem dbft_sync_request_branches_witness:
  "dbft_receiveSyncBlockReq sample_env
     \<lparr>sbq_Account = sample_node 2, sbq_Timestamp = 0, sbq_BlockStart = 18, sbq_BlockEnd = 20\<rparr> (dbp_core (dt_node 1 False)) =
   Inl (Panicf ''get block by height'')"
  using dbft_sync_request_branches [where e = sample_env and s = "dbp_core (dt_node 1 False)" and start = 18 and k = 20
      and req = "\<lparr>sbq_Account = sample_node 2, sbq_Timestamp = 0, sbq_BlockStart = 18, sbq_BlockEnd = 20\<rparr>"
      and block = "sample_block 0"]
  by (simp add: sample_env_def word_less_nat_alt word_le_nat_alt)

lemma dbft_receiveSyncBlockReq_sends:
  assumes "dbft_receiveSyncBlockReq e req s = Inr s'"
  obtains blocks raw where
    "encode e \<lparr>msg_Type = SyncBlockRespMessageType, msg_PayLoad = BareSyncBlockResp \<lparr>sbr_Blocks = blocks\<rparr>\<rparr> = Inr raw"
    "s' = bc_emit (Unicast (sbq_Account req) raw) s"
  using assms
  by (clarsimp simp: dbft_receiveSyncBlockReq_def bindP_Inr_iff split: if_splits option.splits) (auto split: sum.splits)

text \<open>
  \<^verbatim>\<open>encoding/json\<close> ignores the keys of an object that the target struct has no field for: the object
  of a bare \<open>SyncBlockResp\<close> has the key \<open>Blocks\<close> only, and leaves a \<open>SyncBlockRespMessage\<close> as it was.
\<close>

definition json_ignores_unknown_keys :: "'w env \<Rightarrow> bool" where
  "json_ignores_unknown_keys e \<longleftrightarrow>
     (\<forall>resp body. json_Marshal e (BareSyncBlockResp resp) = Inr body \<longrightarrow>
        json_Unmarshal e body (SyncBlockRespMessage None) = Inr (SyncBlockRespMessage None))"

text \<open>
  C38: every answer to a block synchronisation request makes the node that receives it panic. The answer
  is marshalled as a \<open>SyncBlockResp\<close>, read as a \<open>SyncBlockRespMessage\<close>, and its blocks are then read
  through the nil pointer.
\<close>

theorem dbft_sync_reply_panics:
  assumes "json_ignores_unknown_keys e" and "dbft_receiveSyncBlockReq e req s = Inr s'"
  shows "\<exists>raw. bc_effects s' = bc_effects s @ [SendTo (acc_Url (sbq_Account req)) raw] \<and>
    (length raw < 2 ^ 32 \<longrightarrow> dbft_handleClient e (raw @ rest) t = Some (Inl NilDereference))"
proof -
  let ?msg = "\<lambda>bs. \<lparr>msg_Type = SyncBlockRespMessageType, msg_PayLoad = BareSyncBlockResp \<lparr>sbr_Blocks = bs\<rparr>\<rparr>"
  obtain blocks raw where raw: "encode e (?msg blocks) = Inr raw" "s' = bc_emit (Unicast (sbq_Account req) raw) s"
    using dbft_receiveSyncBlockReq_sends [OF assms(2)] .
  then obtain body where body: "json_Marshal e (BareSyncBlockResp \<lparr>sbr_Blocks = blocks\<rparr>) = Inr body"
      "length body \<le> length raw"
    by (auto simp: EncodeMessage_def split: sum.splits)
  have "dbft_handleClient e (raw @ rest) t = Some (Inl NilDereference)" if "length raw < 2 ^ 32"
  proof -
    have "ReadMessage (json_Unmarshal e) (raw @ rest) =
        Inr (\<lparr>msg_Type = SyncBlockRespMessageType, msg_PayLoad = SyncBlockRespMessage None\<rparr>, rest)"
      using ReadMessage_Encode [of "json_Marshal e" "?msg blocks" body raw "json_Unmarshal e" rest] body raw(1) that assms(1)
      by (simp add: DecodeMessage_def makeEmptyMessage_def message_type_defs json_ignores_unknown_keys_def)
    then show ?thesis
      by (simp add: dbft_handleClient_def dbft_handleClient_accept_def message_type_defs SendEvent.simps
          dbft_ProcessEvent_def core_handle_def)
  qed
  with raw(2) show ?thesis by (auto simp: Unicast_sends bc_emit_def)
qed

theorem dbft_sync_reply_panics_witness:
  "\<exists>s' raw. dbft_receiveSyncBlockReq sample_env
       \<lparr>sbq_Account = sample_node 2, sbq_Timestamp = 0, sbq_BlockStart = 1, sbq_BlockEnd = 0\<rparr> (dbp_core (dt_node 1 False)) = Inr s' \<and>
     bc_effects s' = [SendTo ''node'' raw] \<and>
     dbft_handleClient sample_env (raw @ []) (dbp_core (dt_node 2 False)) = Some (Inl NilDereference)"
proof -
  let ?req = "\<lparr>sbq_Account = sample_node 2, sbq_Timestamp = 0, sbq_BlockStart = 1, sbq_BlockEnd = 0\<rparr>"
  let ?raw = "encodeMessageHeader \<lparr>mh_Magic = 0, mh_MessageType = SyncBlockRespMessageType, mh_Length = 1\<rparr> @ [0]"
  obtain s' where s': "dbft_receiveSyncBlockReq sample_env ?req (dbp_core (dt_node 1 False)) = Inr s'"
      "bc_effects s' = [SendTo ''node'' ?raw]"
    by (simp add: dbft_receiveSyncBlockReq_def dbft_collectBlocks.simps EncodeMessage_def buildMessageHeader_def
        Unicast_sends bc_emit_def sample_node_def)
  have "json_ignores_unknown_keys sample_env" by (simp add: json_ignores_unknown_keys_def)
  from dbft_sync_reply_panics [OF this s'(1), of "[]" "dbp_core (dt_node 2 False)"] s' show ?thesis
    by (auto simp: sample_node_def)
qed

section \<open>View changes\<close>

lemma dbft_SendEvent_run:
  assumes "dbft_known ev" "dbft_ProcessEvent e s ev = Inr (s', None)"
  shows "SendEvent (dbft_ProcessEvent e) s ev = Some (Inr s')"
  using dbft_receiver.SendEvent_known [OF assms(1), of e s] assms(2) by simp

text \<open>A message that is accepted and at once processed.\<close>

lemma dbft_deliver_reachable:
  assumes "dbft_reachable e me peers p" "dbp_clients p = []"
    and "dbft_handleClient_accept (e\<lparr>time_Now := t\<rparr>) conn (dbp_core p) = Inr (Some ev, core)"
    and "response_event ev \<longrightarrow> \<not> waits_for_lock core"
    and "SendEvent (dbft_ProcessEvent (e\<lparr>time_Now := t\<rparr>)) core ev = Some (Inr core')"
  shows "dbft_reachable e me peers (p\<lparr>dbp_core := core'\<rparr>)"
proof -
  let ?q = "p\<lparr>dbp_core := core, dbp_clients := dbp_clients p @ [ev]\<rparr>"
  have "dbft_reachable e me peers ?q" by (rule dbft_reachable.step [OF assms(1) dbft_step.accept [OF assms(3)]])
  moreover have "dbft_step e me peers ?q (?q\<lparr>dbp_core := core', dbp_clients := remove1 ev (dbp_clients ?q)\<rparr>)"
    by (rule dbft_step.process) (use assms in simp_all)
  ultimately show ?thesis using dbft_reachable.step assms(2) by (cases p) fastforce
qed

lemma dbft_accept_view:
  assumes "ReadMessage (json_Unmarshal e) conn =
      Inr (\<lparr>msg_Type = ViewChangeMessageReqType, msg_PayLoad = ViewChangeReqMessage (Some req)\<rparr>, rest)"
    and "dv_viewNum (dc_views s) < vcr_ViewNum req"
  shows "dbft_handleClient_accept e conn s = Inr (Some (CoreViewChangeReq (Some req)), s)"
  using assms by (simp add: dbft_handleClient_accept_def message_type_defs not_le)

text \<open>The core handles a request for a positive view number: the view is finished or not.\<close>

lemma dbft_process_view:
  assumes inv: "dbft_core_inv e me peers s" and timer: "dc_masterTimeout s = Some timer" and num: "0 < vcr_ViewNum req"
    and nodes: "nodes = view_nodes (vcr_ViewNum req) (vcr_Nodes req) s" "GetAccountWithMinId nodes = Inr master"
    and raw: "encode e (view_request_message me nodes (time_Now e) (vcr_ViewNum req)) = Inr raw"
  shows "SendEvent (dbft_ProcessEvent e) s (CoreViewChangeReq (Some req)) = Some (Inr
    (if view_ended (vcr_ViewNum req) s then view_locked (vcr_ViewNum req) timer s
     else view_changed (vcr_ViewNum req) nodes timer master
       (if 1 < length nodes then sends raw (filter (\<lambda>p. p \<noteq> me) peers) else []) s))"
  using dbft_receiveChangeViewReq_ended [OF inv timer num refl] dbft_receiveChangeViewReq_eq [OF inv timer num refl _ nodes] raw
  by (intro dbft_SendEvent_run) (auto simp: dbft_ProcessEvent_def core_handle_def)

lemma view_changed_sel:
  assumes "bc_peers s = peers"
  shows "bc_master (view_changed num nodes timer master eff s) = (if view_quorum peers nodes then master else bc_master s)"
    "bc_effects (view_changed num nodes timer master eff s) =
       bc_effects s @ eff @ (if view_quorum peers nodes then [Notify EventMasterChange] else [])"
    "dc_timers (view_changed num nodes timer master eff s) = filter (\<lambda>t. t \<noteq> timer) (dc_timers s)"
    "dc_masterTimeout (view_changed num nodes timer master eff s) = dc_masterTimeout s"
    "bc_local (view_changed num nodes timer master eff s) = bc_local s"
    "dc_views (view_changed num nodes timer master eff s) =
       \<lparr>dv_status = ViewChanging, dv_viewNum = (if view_quorum peers nodes then num else dv_viewNum (dc_views s)),
        dv_viewSets = (dv_viewSets (dc_views s))(num \<mapsto>
          \<lparr>vs_mu = 0, vs_status = (if view_quorum peers nodes then ViewEnd else Viewing),
           vs_notify = view_quorum peers nodes, vs_requestNodes = nodes\<rparr>)\<rparr>"
  using assms by (simp_all add: view_changed_def Let_def)

lemma view_locked_sel:
  "bc_master (view_locked num timer s) = bc_master s" "bc_effects (view_locked num timer s) = bc_effects s"
  "dc_timers (view_locked num timer s) = filter (\<lambda>t. t \<noteq> timer) (dc_timers s)"
  "dc_masterTimeout (view_locked num timer s) = dc_masterTimeout s"
  "dc_views (view_locked num timer s) = \<lparr>dv_status = ViewChanging, dv_viewNum = dv_viewNum (dc_views s),
     dv_viewSets = (dv_viewSets (dc_views s))
       (num := map_option (\<lambda>vs. vs\<lparr>vs_mu := vs_mu vs + 1\<rparr>) (dv_viewSets (dc_views s) num))\<rparr>"
  by (simp_all add: view_locked_def)

lemma view_nodes_set:
  assumes "bc_local s = me"
  shows "set (view_nodes num nodes s) =
    insert me (set nodes \<union> (case dv_viewSets (dc_views s) num of None \<Rightarrow> {} | Some vs \<Rightarrow> set (vs_requestNodes vs)))"
  using assms by (auto simp: view_nodes_def dbft_addChangeViewAccounts_eq split: option.split)

text \<open>
  C14: a view change request for a view beyond the current one, at a node whose timer exists, is always
  handled, and the timer is stopped. The request nodes of that view are the node itself, those it had
  and those the message lists, each once. Unless the view is already finished, they are recorded, and
  the view changes exactly when there are at least \<open>n\<close> less the tolerance of them: then the new master
  is one of them with the smallest id, the view number is the one asked for (it may skip any number of
  views), the view set is closed and the change of master is notified once. The message is passed on
  to the other peers when there is more than one node. A view that is finished although it is beyond
  the current one, which it is after a late request has set the view number back, only gets a read
  lock that nobody releases.
\<close>

theorem dbft_view_change:
  assumes "dbft_reachable e me peers p" and "s = dbp_core p" and "dc_masterTimeout s = Some timer"
    and "ReadMessage (json_Unmarshal e) conn =
      Inr (\<lparr>msg_Type = ViewChangeMessageReqType, msg_PayLoad = ViewChangeReqMessage (Some req)\<rparr>, rest)"
    and "num = vcr_ViewNum req" and "dv_viewNum (dc_views s) < num"
    and "nodes = view_nodes num (vcr_Nodes req) s"
    and "encode e (view_request_message me nodes (time_Now e) num) = Inr raw"
    and "changes = (length peers - unat (tolerance_of (length peers)) \<le> length nodes)"
  shows "distinct nodes \<and>
    set nodes = insert me (set (vcr_Nodes req) \<union>
      (case dv_viewSets (dc_views s) num of None \<Rightarrow> {} | Some vs \<Rightarrow> set (vs_requestNodes vs))) \<and>
    (\<exists>s'. dbft_handleClient e conn s = Some (Inr s') \<and>
      dc_timers s' = filter (\<lambda>t. t \<noteq> timer) (dc_timers s) \<and>
      (if view_ended num s
       then bc_effects s' = bc_effects s \<and> bc_master s' = bc_master s \<and>
         dc_views s' = \<lparr>dv_status = ViewChanging, dv_viewNum = dv_viewNum (dc_views s),
           dv_viewSets = (dv_viewSets (dc_views s))
             (num := map_option (\<lambda>vs. vs\<lparr>vs_mu := vs_mu vs + 1\<rparr>) (dv_viewSets (dc_views s) num))\<rparr>
       else bc_effects s' = bc_effects s @ (if 1 < length nodes then sends raw (filter (\<lambda>p. p \<noteq> me) peers) else []) @
           (if changes then [Notify EventMasterChange] else []) \<and>
         dc_views s' = \<lparr>dv_status = ViewChanging, dv_viewNum = (if changes then num else dv_viewNum (dc_views s)),
           dv_viewSets = (dv_viewSets (dc_views s))(num \<mapsto>
             \<lparr>vs_mu = 0, vs_status = (if changes then ViewEnd else Viewing), vs_notify = changes, vs_requestNodes = nodes\<rparr>)\<rparr> \<and>
         (if changes then bc_master s' \<in> set nodes \<and> (\<forall>a \<in> set nodes. acc_Id (bc_master s') \<le> acc_Id a)
          else bc_master s' = bc_master s)))"
proof -
  have inv: "dbft_core_inv e me peers s" using dbft_reachable_inv [OF assms(1)] assms(2) by (simp add: dbft_policy_inv_def)
  then have local: "bc_local s = me" "bc_peers s = peers" by (simp_all add: dbft_core_inv_def bft_core_inv_def)
  obtain master where m: "GetAccountWithMinId nodes = Inr master"
    using GetAccountWithMinId_total view_nodes_facts(3) [OF inv] assms(7) by blast
  have quorum: "view_quorum peers nodes = changes" using assms(9) by (simp add: view_quorum_def)
  have "0 < num" using assms(6) by (metis order_le_less_trans word_zero_le)
  with dbft_process_view [OF inv assms(3) _ _ m, of req raw] assms(5,7,8)
    dbft_accept_view [OF assms(4)] assms(6)
  have handled: "dbft_handleClient e conn s = Some (Inr
      (if view_ended num s then view_locked num timer s
       else view_changed num nodes timer master (if 1 < length nodes then sends raw (filter (\<lambda>p. p \<noteq> me) peers) else []) s))"
    by (simp add: dbft_handleClient_def)
  have "distinct nodes" "set nodes = insert me (set (vcr_Nodes req) \<union>
      (case dv_viewSets (dc_views s) num of None \<Rightarrow> {} | Some vs \<Rightarrow> set (vs_requestNodes vs)))"
    using assms(7) view_nodes_facts(1) [OF inv] view_nodes_set [OF local(1)] by simp_all
  with handled GetAccountWithMinId_min [OF m] show ?thesis
    by (simp add: view_locked_sel view_changed_sel [OF local(2)] quorum)
qed

text \<open>View change requests that list two accounts which are no peers, for the view of the body.\<close>

definition dv_req :: "u64 \<Rightarrow> ViewChangeReq" where
  "dv_req num = \<lparr>vcr_Account = zero_account, vcr_Nodes = [sample_node 0, sample_node 9], vcr_Timestamp = 0, vcr_ViewNum = num\<rparr>"

definition dv_env :: "u64 env" where
  "dv_env = sample_env\<lparr>json_Unmarshal := \<lambda>raw blank.
     Inr (if blank = ViewChangeReqMessage None then ViewChangeReqMessage (Some (dv_req (ucast (hd raw)))) else blank)\<rparr>"

definition dv_conn :: "u8 \<Rightarrow> bytes" where
  "dv_conn num = encodeMessageHeader \<lparr>mh_Magic = 0, mh_MessageType = ViewChangeMessageReqType, mh_Length = 1\<rparr> @ [num]"

lemma dv_read: "ReadMessage (json_Unmarshal dv_env) (dv_conn num) =
    Inr (\<lparr>msg_Type = ViewChangeMessageReqType, msg_PayLoad = ViewChangeReqMessage (Some (dv_req (ucast num)))\<rparr>, [])"
  using readMessageHeader_encode [of "\<lparr>mh_Magic = 0, mh_MessageType = ViewChangeMessageReqType, mh_Length = 1\<rparr>" "[num]"]
  by (simp add: ReadMessage_def dv_conn_def ReadFull_def DecodeMessage_def makeEmptyMessage_def message_type_defs dv_env_def)

lemma dv_env_sel [simp]: "json_Marshal dv_env p = Inr [0]" "dv_env\<lparr>time_Now := 0\<rparr> = dv_env"
  by (simp_all add: dv_env_def sample_env_def)

definition dv_raw :: bytes where
  "dv_raw = encodeMessageHeader \<lparr>mh_Magic = 0, mh_MessageType = ViewChangeMessageReqType, mh_Length = 1\<rparr> @ [0]"

lemma dv_encode [simp]: "encode dv_env (view_request_message a ns t num) = Inr dv_raw"
  by (simp add: EncodeMessage_def view_request_message_def buildMessageHeader_def dv_raw_def)

lemma dv_nodes:
  assumes "bc_local s = sample_node 1" "dv_viewSets (dc_views s) num = None"
  shows "view_nodes num [sample_node 0, sample_node 9] s = [sample_node 1, sample_node 0, sample_node 9]"
  using assms by (simp add: view_nodes_def dbft_addChangeViewAccounts_eq) (simp add: sample_node_def)

theorem dbft_view_change_witness:
  "\<exists>s'. dbft_handleClient dv_env (dv_conn 5) (dbp_core (dt_node 1 False)) = Some (Inr s') \<and>
     dv_viewNum (dc_views s') = 5 \<and> bc_master s' = sample_node 0"
  using dbft_view_change [OF dt_reachable refl _ dv_read refl _ refl _ refl, of 1 False 0 5 dv_raw]
  by (auto simp: dv_req_def dv_nodes view_ended_def bt_peers_def tolerance_of_def) (auto simp: sample_node_def)

text \<open>Three requests are accepted, one for view three and two for view five; the core has handled one for view five.\<close>

definition dv_event :: "u64 \<Rightarrow> core_event" where
  "dv_event num = CoreViewChangeReq (Some (dv_req num))"

definition dv_waiting :: "u64 DBFTPolicy" where
  "dv_waiting = (dt_node 1 False)\<lparr>dbp_clients := [dv_event 3, dv_event 5, dv_event 5]\<rparr>"

definition dv_five :: "u64 dbftCore" where
  "dv_five = view_changed 5 [sample_node 1, sample_node 0, sample_node 9] 0 (sample_node 0)
     (sends dv_raw (filter (\<lambda>p. p \<noteq> sample_node 1) bt_peers)) (dbp_core (dt_node 1 False))"

definition dv_handled :: "u64 DBFTPolicy" where
  "dv_handled = dv_waiting\<lparr>dbp_core := dv_five, dbp_clients := [dv_event 3, dv_event 5]\<rparr>"

lemma dv_accept:
  fixes num :: u8
  assumes "dbft_reachable dv_env (sample_node 1) bt_peers p" "dv_viewNum (dc_views (dbp_core p)) < ucast num"
  shows "dbft_reachable dv_env (sample_node 1) bt_peers (p\<lparr>dbp_clients := dbp_clients p @ [dv_event (ucast num)]\<rparr>)"
proof -
  have "dbft_handleClient_accept (dv_env\<lparr>time_Now := 0\<rparr>) (dv_conn num) (dbp_core p) =
      Inr (Some (dv_event (ucast num)), dbp_core p)"
    using dbft_accept_view [of dv_env "dv_conn num" "dv_req (ucast num)" "[]" "dbp_core p"] dv_read assms(2)
    by (simp add: dv_event_def) (simp add: dv_req_def)
  from dbft_reachable.step [OF assms(1) dbft_step.accept [OF this]] show ?thesis by (cases p) simp
qed

lemma dv_waiting_reachable: "dbft_reachable dv_env (sample_node 1) bt_peers dv_waiting"
proof -
  have [simp]: "dbp_clients (dt_node 1 False) = []" by (simp add: dt_defs Let_def)
  have "dbft_reachable dv_env (sample_node 1) bt_peers ((dt_node 1 False)\<lparr>dbp_clients := [dv_event 3]\<rparr>)"
    using dv_accept [OF dt_reachable [where k = 1 and onLine = False], where num = 3] by simp
  from dv_accept [OF this, where num = 5]
  have "dbft_reachable dv_env (sample_node 1) bt_peers ((dt_node 1 False)\<lparr>dbp_clients := [dv_event 3, dv_event 5]\<rparr>)" by simp
  from dv_accept [OF this, where num = 5] show ?thesis by (simp add: dv_waiting_def)
qed

lemma dv_min: "GetAccountWithMinId [sample_node 1, sample_node 0, sample_node 9] = Inr (sample_node 0)"
  by (simp add: GetAccountWithMinId_def) (simp add: sample_node_def)

lemma dv_process: "SendEvent (dbft_ProcessEvent dv_env) (dbp_core (dt_node 1 False)) (dv_event 5) = Some (Inr dv_five)"
proof -
  have inv: "dbft_core_inv dv_env (sample_node 1) bt_peers (dbp_core (dt_node 1 False))"
    using dbft_reachable_inv [OF dt_reachable] by (simp add: dbft_policy_inv_def)
  from dbft_process_view [OF inv _ _ refl, of 0 "dv_req 5" "sample_node 0" dv_raw] show ?thesis
    by (simp add: dv_event_def dv_req_def dv_nodes dv_min view_ended_def dv_five_def)
qed

lemma dv_handled_reachable: "dbft_reachable dv_env (sample_node 1) bt_peers dv_handled"
proof -
  have "dv_event 3 \<noteq> dv_event 5" by (simp add: dv_event_def dv_req_def)
  then have "dbft_step dv_env (sample_node 1) bt_peers dv_waiting dv_handled"
    using dbft_step.process [where ev = "dv_event 5" and p = dv_waiting and e = dv_env and t = 0 and core = dv_five] dv_process
    by (simp add: dv_handled_def dv_waiting_def) (simp add: dv_event_def)
  with dv_waiting_reachable show ?thesis by (rule dbft_reachable.step)
qed

lemma dv_five_sel:
  "dc_masterTimeout dv_five = Some 0" "bc_local dv_five = sample_node 1" "dv_viewNum (dc_views dv_five) = 5"
  "dv_viewSets (dc_views dv_five) 3 = None" "view_ended 5 dv_five" "dbp_core dv_handled = dv_five"
  by (simp_all add: dv_five_def dv_handled_def view_ended_def view_changed_sel view_quorum_def bt_peers_def tolerance_of_def)

text \<open>
  C23: in every reachable state of a DBFT node, whose handlers each run without interruption but in any
  order, a view number for which requests came has the node itself and every other request node once;
  it is finished, and notified, exactly when there are at least \<open>n\<close> less the tolerance of them; only
  a finished one can have a read lock that is still held. A current view above zero is one of the
  finished ones.
\<close>

theorem dbft_views_sound:
  assumes "dbft_reachable e me peers p" and "views = dc_views (dbp_core p)"
  shows "(\<forall>num vs. dv_viewSets views num = Some vs \<longrightarrow>
      0 < num \<and> distinct (vs_requestNodes vs) \<and> me \<in> set (vs_requestNodes vs) \<and>
      vs_notify vs = (vs_status vs = ViewEnd) \<and>
      (vs_status vs = ViewEnd) = (length peers - unat (tolerance_of (length peers)) \<le> length (vs_requestNodes vs)) \<and>
      (0 < vs_mu vs \<longrightarrow> vs_status vs = ViewEnd)) \<and>
    (0 < dv_viewNum views \<longrightarrow>
      (\<exists>vs. dv_viewSets views (dv_viewNum views) = Some vs \<and> vs_status vs = ViewEnd))"
proof -
  have "dbft_views_inv me peers (dbp_core p)"
    using dbft_reachable_inv [OF assms(1)] by (simp add: dbft_policy_inv_def dbft_core_inv_def)
  then show ?thesis unfolding assms(2) dbft_views_inv_def view_set_ok_def by blast
qed

theorem dbft_views_sound_witness:
  "dv_viewNum (dc_views (dbp_core dv_handled)) = 5 \<and>
   (\<exists>vs. dv_viewSets (dc_views (dbp_core dv_handled)) 5 = Some vs \<and> vs_status vs = ViewEnd)"
  using dbft_views_sound [OF dv_handled_reachable refl] by (simp add: dv_five_sel)

section \<open>What the steps keep\<close>

text \<open>Timers that were replaced are not stopped, and a finished view stays as it is, with all its read locks.\<close>

definition locked_since :: "'w dbftCore \<Rightarrow> 'w dbftCore \<Rightarrow> bool" where
  "locked_since s s' \<longleftrightarrow> (\<forall>num vs. dv_viewSets (dc_views s) num = Some vs \<and> vs_status vs = ViewEnd \<longrightarrow>
     (\<exists>mu \<ge> vs_mu vs. dv_viewSets (dc_views s') num = Some (vs\<lparr>vs_mu := mu\<rparr>)))"

definition keeps_timers :: "'w dbftCore \<Rightarrow> 'w dbftCore \<Rightarrow> bool" where
  "keeps_timers s s' \<longleftrightarrow> dc_masterTimeout s' = dc_masterTimeout s \<and>
     (\<forall>t \<in> set (dc_timers s). dc_masterTimeout s \<noteq> Some t \<longrightarrow> t \<in> set (dc_timers s'))"

lemma locked_since_views: "dc_views s' = dc_views s \<Longrightarrow> locked_since s s'"
  by (auto simp: locked_since_def intro!: exI [of _ "vs_mu _"])

lemma locked_since_trans: "locked_since s t \<Longrightarrow> locked_since t u \<Longrightarrow> locked_since s u"
  unfolding locked_since_def
proof (intro allI impI, elim conjE)
  fix num vs
  assume st: "\<forall>num vs. dv_viewSets (dc_views s) num = Some vs \<and> vs_status vs = ViewEnd \<longrightarrow>
      (\<exists>mu \<ge> vs_mu vs. dv_viewSets (dc_views t) num = Some (vs\<lparr>vs_mu := mu\<rparr>))"
    and tu: "\<forall>num vs. dv_viewSets (dc_views t) num = Some vs \<and> vs_status vs = ViewEnd \<longrightarrow>
      (\<exists>mu \<ge> vs_mu vs. dv_viewSets (dc_views u) num = Some (vs\<lparr>vs_mu := mu\<rparr>))"
    and vs: "dv_viewSets (dc_views s) num = Some vs" "vs_status vs = ViewEnd"
  from st vs obtain mu where mu: "vs_mu vs \<le> mu" "dv_viewSets (dc_views t) num = Some (vs\<lparr>vs_mu := mu\<rparr>)" by blast
  with tu vs(2) have "\<exists>n \<ge> mu. dv_viewSets (dc_views u) num = Some (vs\<lparr>vs_mu := n\<rparr>)" by fastforce
  with mu(1) show "\<exists>n \<ge> vs_mu vs. dv_viewSets (dc_views u) num = Some (vs\<lparr>vs_mu := n\<rparr>)" by (meson order_trans)
qed

lemma same_views_keeps: "same_views s s' \<Longrightarrow> keeps_timers s s' \<and> locked_since s s'"
  by (simp add: same_views_def keeps_timers_def locked_since_views)

lemma stopped_keeps:
  "dc_masterTimeout s = Some timer \<Longrightarrow> same_views (stopped timer s) s' \<Longrightarrow> keeps_timers s s' \<and> locked_since s s'"
  by (simp add: same_views_def keeps_timers_def locked_since_views)

lemma view_steps_keep:
  assumes "dc_masterTimeout s = Some timer"
  shows "\<not> view_ended num s \<Longrightarrow> keeps_timers s (view_changed num nodes timer master eff s) \<and>
      locked_since s (view_changed num nodes timer master eff s)"
    and "keeps_timers s (view_locked num timer s) \<and> locked_since s (view_locked num timer s)"
proof -
  have same: "\<exists>mu \<ge> vs_mu vs. vs = vs\<lparr>vs_mu := mu\<rparr>" "\<exists>mu \<ge> vs_mu vs. vs\<lparr>vs_mu := Suc (vs_mu vs)\<rparr> = vs\<lparr>vs_mu := mu\<rparr>" for vs
    by (auto intro: exI [of _ "vs_mu vs"] exI [of _ "Suc (vs_mu vs)"])
  show "keeps_timers s (view_changed num nodes timer master eff s) \<and> locked_since s (view_changed num nodes timer master eff s)"
    if "\<not> view_ended num s"
    using assms that same(1) by (auto simp: keeps_timers_def locked_since_def view_changed_sel view_ended_def)
  show "keeps_timers s (view_locked num timer s) \<and> locked_since s (view_locked num timer s)"
    using assms same by (auto simp: keeps_timers_def locked_since_def view_locked_sel)
qed

lemma dbft_ProcessEvent_keeps:
  assumes "dbft_ProcessEvent e s ev = Inr (s', res)" and inv: "dbft_core_inv e me peers s"
    and num: "\<And>req. ev = CoreViewChangeReq (Some req) \<Longrightarrow> 0 < vcr_ViewNum req"
  shows "keeps_timers s s' \<and> locked_since s s'"
proof (cases ev)
  case (CoreRequest req)
  with assms(1) have r: "dbft_receiveRequest e req s = Inr s'" by (simp add: dbft_ProcessEvent_def bindP_Inr_iff)
  then obtain timer where timer: "dc_masterTimeout s = Some timer"
    by (cases "dc_masterTimeout s") (simp_all add: dbft_receiveRequest_def stop_masterTimeout_eq)
  obtain t eff where "bft_receiveRequest e req (stopped timer s) = Inr t" "s' = t \<or> s' = t\<lparr>bc_effects := eff\<rparr>"
    using dbft_receiveRequest_eq [OF timer, of e req] r by (auto split: sum.splits)
  with stopped_keeps [OF timer] show ?thesis by (auto dest!: same_views_receiveRequest)
next
  case (CoreProposal et)
  with assms(1) obtain proposal where "dbft_receiveProposal e proposal s = Inr s'"
    by (auto simp: dbft_ProcessEvent_def core_handle_def bindP_Inr_iff split: option.splits)
  then show ?thesis by (cases rule: dbft_receiveProposal_cases) (simp_all add: stopped_keeps same_views_answer)
next
  case (CoreViewChangeReq et)
  with assms(1) obtain req where r: "et = Some req" "dbft_receiveChangeViewReq e req s = Inr s'"
    by (auto simp: dbft_ProcessEvent_def core_handle_def bindP_Inr_iff split: option.splits)
  with num CoreViewChangeReq have "0 < vcr_ViewNum req" by simp
  with r(2) inv show ?thesis by (cases rule: dbft_receiveChangeViewReq_cases) (auto dest: view_steps_keep)
qed (use assms(1) in
    \<open>auto simp: dbft_ProcessEvent_def core_handle_def bindP_Inr_iff dbft_handlers_eq dbft_receiveSyncBlockResp_def
       split: option.splits intro!: same_views_keeps
       dest: same_views_receiveResponse same_views_receiveCommit elim: dbft_receiveSyncBlockReq_sends\<close>)

lemma dbft_SendEvent_keeps:
  assumes "SendEvent (dbft_ProcessEvent e) s ev = Some (Inr s')" "dbft_core_inv e me peers s" "client_ok s ev"
  shows "keeps_timers s s' \<and> locked_since s s'"
proof -
  obtain res where "dbft_ProcessEvent e s ev = Inr (s', res)"
    using assms dbft_receiver.SendEvent_known [of ev e s] by (auto simp: client_ok_def split: sum.splits prod.splits)
  from dbft_ProcessEvent_keeps [OF this assms(2)] assms(3) show ?thesis by (auto simp: client_ok_def)
qed

lemma dbft_run_task_keeps:
  assumes "dbft_run_task e t p = Inr p'" and inv: "dbft_policy_inv e me peers p" and "t \<in> set (dbp_tasks p)"
  shows "keeps_timers (dbp_core p) (dbp_core p') \<and> locked_since (dbp_core p) (dbp_core p')"
proof (cases t)
  case (RequestTask request)
  with assms(1) obtain c where c: "SendEvent (dbft_ProcessEvent e) (dbp_core p) (CoreRequest (Some request)) = Some (Inr c)"
      "dbp_core p' = c"
    by (auto simp: dbft_run_task_def Let_def bindP_Inr_iff split: option.splits)
  have "client_ok (dbp_core p) (CoreRequest (Some request))"
    using inv assms(3) RequestTask by (auto simp: client_ok_def dbft_policy_inv_def)
  from dbft_SendEvent_keeps [OF c(1) dbft_policy_core [OF inv] this] c(2) show ?thesis by simp
next
  case (CommitTask r result)
  with assms(1) obtain commit where "bft_SendCommit e commit r (dbp_core p) = Inr (dbp_core p')"
    by (auto simp: dbft_run_task_def dbft_commit_def Let_def bindP_Inr_iff dbft_handlers_eq)
  then show ?thesis by (intro same_views_keeps same_views_SendCommit)
qed

lemma dbft_fires_timers:
  "dc_masterTimeout (dbft_waitMasterTimeOut_fires e timer s) = dc_masterTimeout s"
  "dc_timers (dbft_waitMasterTimeOut_fires e timer s) = filter (\<lambda>t. t \<noteq> timer) (dc_timers s)"
  "dc_views (dbft_waitMasterTimeOut_fires e timer s) = dc_views s"
  by (simp_all add: dbft_waitMasterTimeOut_fires_def Let_def bc_emit_def split: sum.split)

lemma dbft_step_keeps:
  assumes "dbft_reachable e me peers p" and "dbft_step e me peers p p'"
  obtains "keeps_timers (dbp_core p) (dbp_core p')" "locked_since (dbp_core p) (dbp_core p')"
  | master onLine where "p' = dbft_Initialization me master peers onLine p"
  | timer t where "p' = p\<lparr>dbp_core := dbft_waitMasterTimeOut_fires (e\<lparr>time_Now := t\<rparr>) timer (dbp_core p)\<rparr>"
proof -
  have inv: "dbft_policy_inv e me peers p" by (rule dbft_reachable_inv [OF assms(1)])
  have timed: "dbft_policy_inv (e\<lparr>time_Now := t\<rparr>) me peers p" for t using inv by (simp add: dbft_policy_inv_def)
  have same: thesis if "same_views (dbp_core p) (dbp_core p')"
    using same_views_keeps [OF that] \<open>keeps_timers (dbp_core p) (dbp_core p') \<Longrightarrow> locked_since (dbp_core p) (dbp_core p') \<Longrightarrow> thesis\<close> by blast
  from assms(2) show thesis
  proof cases
    case (accept t conn ev core)
    with dbft_accept_inv [OF accept(2) dbft_policy_core [OF timed]] same show thesis by simp
  next
    case (process ev t core)
    have "client_ok (dbp_core p) ev" using inv process(2) by (simp add: dbft_policy_inv_def)
    from dbft_SendEvent_keeps [OF process(4) dbft_policy_core [OF timed] this] process(1) that(1) show thesis by simp
  next
    case (run_task task t)
    from dbft_run_task_keeps [OF run_task(2) timed run_task(1)] that(1) show thesis by simp
  qed (use that(2,3) same in \<open>auto simp: same_views_def dbft_ToConsensus_begin_def alloc_block_def dbft_ToConsensus_result_def
        dbft_ToConsensus_timeout_def Let_def store_block_def dbft_waitResponse_timeout_def dbft_waitResponse_tunnel_def
        dbft_waitResponse_commit_def split: option.splits prod.splits\<close>)
qed

lemma dbft_steps_locked:
  assumes "(dbft_step e me peers)\<^sup>*\<^sup>* p q" and "dbft_reachable e me peers p"
  shows "dbft_reachable e me peers q \<and> locked_since (dbp_core p) (dbp_core q)"
  using assms
proof (induction rule: rtranclp_induct)
  case (step q q')
  then have r: "dbft_reachable e me peers q" and l: "locked_since (dbp_core p) (dbp_core q)" by simp_all
  from r step(2) have "locked_since (dbp_core q) (dbp_core q')"
    by (cases rule: dbft_step_keeps) (simp_all add: locked_since_views dbft_fires_timers dbft_Initialization_def Let_def)
  with dbft_reachable.step [OF r step(2)] locked_since_trans [OF l] show ?case by blast
qed (simp add: locked_since_views)

text \<open>
  C37: a view change request that \<open>handleClient\<close> let pass because its view was beyond the current one, and
  that reaches the core when it is not any more, the node having changed view meanwhile. If its view
  is finished, the handler returns with the read lock of the view set, and in every later state of the
  node a read lock of it is held. Otherwise it is handled as any other, and with enough request nodes
  the view number goes back to the smaller one, the master becomes one of them with the smallest id
  and the change of master is notified.
\<close>

theorem dbft_late_view_request:
  assumes "dbft_reachable e me peers p" and "CoreViewChangeReq (Some req) \<in> set (dbp_clients p)" and "s = dbp_core p"
    and "dc_masterTimeout s = Some timer" and "num = vcr_ViewNum req" and "num \<le> dv_viewNum (dc_views s)"
    and "nodes = view_nodes num (vcr_Nodes req) s"
    and "encode e (view_request_message me nodes (time_Now e) num) = Inr raw"
    and "changes = (length peers - unat (tolerance_of (length peers)) \<le> length nodes)"
  shows "\<exists>s' p'. SendEvent (dbft_ProcessEvent e) s (CoreViewChangeReq (Some req)) = Some (Inr s') \<and>
    p' = p\<lparr>dbp_core := s', dbp_clients := remove1 (CoreViewChangeReq (Some req)) (dbp_clients p)\<rparr> \<and>
    dbft_step e me peers p p' \<and>
    (if view_ended num s
     then (\<forall>q. (dbft_step e me peers)\<^sup>*\<^sup>* p' q \<longrightarrow> (\<exists>vs. dv_viewSets (dc_views (dbp_core q)) num = Some vs \<and> 0 < vs_mu vs)) \<and>
       dv_viewNum (dc_views s') = dv_viewNum (dc_views s) \<and> bc_master s' = bc_master s \<and> bc_effects s' = bc_effects s
     else if changes
     then num < dv_viewNum (dc_views s) \<and> dv_viewNum (dc_views s') = num \<and>
       bc_master s' \<in> set nodes \<and> (\<forall>a \<in> set nodes. acc_Id (bc_master s') \<le> acc_Id a) \<and>
       last (bc_effects s') = Notify EventMasterChange
     else dv_viewNum (dc_views s') = dv_viewNum (dc_views s) \<and> bc_master s' = bc_master s)"
proof -
  let ?ev = "CoreViewChangeReq (Some req)"
  have pinv: "dbft_policy_inv e me peers p" by (rule dbft_reachable_inv [OF assms(1)])
  then have inv: "dbft_core_inv e me peers s" and num: "0 < num" using assms(2,3,5) by (auto simp: dbft_policy_inv_def client_ok_def)
  have peers: "bc_peers s = peers" using inv by (simp add: dbft_core_inv_def bft_core_inv_def)
  obtain master where m: "GetAccountWithMinId nodes = Inr master"
    using GetAccountWithMinId_total view_nodes_facts(3) [OF inv] assms(7) by blast
  have quorum: "view_quorum peers nodes = changes" using assms(9) by (simp add: view_quorum_def)
  have beyond: "num < dv_viewNum (dc_views s)" if "\<not> view_ended num s"
  proof -
    have "view_ended (dv_viewNum (dc_views s)) s"
      using inv num assms(6) by (auto simp: dbft_core_inv_def dbft_views_inv_def view_ended_def)
    with that assms(6) show ?thesis by (metis order_le_less)
  qed
  let ?s' = "if view_ended num s then view_locked num timer s
     else view_changed num nodes timer master (if 1 < length nodes then sends raw (filter (\<lambda>p. p \<noteq> me) peers) else []) s"
  let ?p' = "p\<lparr>dbp_core := ?s', dbp_clients := remove1 ?ev (dbp_clients p)\<rparr>"
  have sent: "SendEvent (dbft_ProcessEvent e) s ?ev = Some (Inr ?s')"
    using dbft_process_view [OF inv assms(4) _ _ m, of req raw] num assms(5,7,8) by simp
  then have step: "dbft_step e me peers p ?p'"
    using dbft_step.process [where ev = ?ev and p = p and e = e and t = "time_Now e" and core = ?s'] assms(2,3) by simp
  have locked: "\<exists>vs. dv_viewSets (dc_views (dbp_core q)) num = Some vs \<and> 0 < vs_mu vs"
    if ended: "view_ended num s" and steps: "(dbft_step e me peers)\<^sup>*\<^sup>* ?p' q" for q
  proof -
    have l: "locked_since ?s' (dbp_core q)" using dbft_steps_locked [OF steps dbft_reachable.step [OF assms(1) step]] by simp
    obtain vs where "dv_viewSets (dc_views s) num = Some vs" "vs_status vs = ViewEnd" using ended by (auto simp: view_ended_def)
    with ended have "dv_viewSets (dc_views ?s') num = Some (vs\<lparr>vs_mu := vs_mu vs + 1\<rparr>) \<and>
        vs_status (vs\<lparr>vs_mu := vs_mu vs + 1\<rparr>) = ViewEnd"
      by (simp add: view_locked_sel)
    with l obtain mu where "vs_mu vs + 1 \<le> mu" "dv_viewSets (dc_views (dbp_core q)) num = Some (vs\<lparr>vs_mu := mu\<rparr>)"
      unfolding locked_since_def by fastforce
    then show ?thesis by auto
  qed
  show ?thesis
    using sent step locked beyond GetAccountWithMinId_min [OF m] quorum
    by (intro exI [of _ ?s'] exI [of _ ?p']) (auto simp: view_locked_sel view_changed_sel [OF peers])
qed

theorem dbft_late_view_request_witness:
  "\<exists>three five. SendEvent (dbft_ProcessEvent dv_env) (dbp_core dv_handled) (dv_event 3) = Some (Inr three) \<and>
     SendEvent (dbft_ProcessEvent dv_env) (dbp_core dv_handled) (dv_event 5) = Some (Inr five) \<and>
     dv_viewNum (dc_views (dbp_core dv_handled)) = 5 \<and> dv_viewNum (dc_views three) = 3 \<and>
     (\<exists>vs. dv_viewSets (dc_views five) 5 = Some vs \<and> 0 < vs_mu vs)"
proof -
  have clients: "dbp_clients dv_handled = [dv_event 3, dv_event 5]" by (simp add: dv_handled_def)
  have three: "\<exists>three. SendEvent (dbft_ProcessEvent dv_env) (dbp_core dv_handled) (dv_event 3) = Some (Inr three) \<and>
      dv_viewNum (dc_views three) = 3"
    using dbft_late_view_request [OF dv_handled_reachable _ refl _ refl _ refl _ refl, of "dv_req 3" 0 dv_raw]
    by (auto simp: clients dv_five_sel) (auto simp: dv_event_def dv_req_def dv_nodes dv_five_sel view_ended_def bt_peers_def tolerance_of_def)
  have five: "\<exists>five. SendEvent (dbft_ProcessEvent dv_env) (dbp_core dv_handled) (dv_event 5) = Some (Inr five) \<and>
      (\<exists>vs. dv_viewSets (dc_views five) 5 = Some vs \<and> 0 < vs_mu vs)"
    using dbft_late_view_request [OF dv_handled_reachable _ refl _ refl _ refl _ refl, of "dv_req 5" 0 dv_raw]
    by (auto simp: clients dv_five_sel) (auto simp: dv_event_def dv_req_def dv_five_sel)
  from three five show ?thesis by (auto simp: dv_five_sel)
qed

text \<open>
  a timer that a later \<open>Initialization\<close> has replaced is never stopped. Whatever the node does next,
  the timer stays armed and stays out of reach of \<open>masterTimeout\<close>, until it fires; then the node asks
  every peer for a view change.
\<close>

theorem dbft_replaced_timer_fires:
  assumes "dbft_reachable e me peers p" and "dbft_step e me peers p p'"
    and "timer \<in> set (dc_timers (dbp_core p))" and "dc_masterTimeout (dbp_core p) \<noteq> Some timer"
  shows "dc_masterTimeout (dbp_core p') \<noteq> Some timer \<and>
    (timer \<in> set (dc_timers (dbp_core p')) \<or>
     (\<exists>now. p' = p\<lparr>dbp_core := dbft_waitMasterTimeOut_fires (e\<lparr>time_Now := now\<rparr>) timer (dbp_core p)\<rparr>))"
proof -
  have less: "timer < dc_timerCount (dbp_core p)"
    using dbft_reachable_inv [OF assms(1)] assms(3) by (simp add: dbft_policy_inv_def dbft_core_inv_def dbft_timers_inv_def)
  show ?thesis
    using assms(1,2)
  proof (cases rule: dbft_step_keeps)
    case 1
    with assms(3,4) show ?thesis by (auto simp: keeps_timers_def)
  next
    case (2 master onLine)
    with less assms(3,4) show ?thesis by (auto simp: dbft_Initialization_def Let_def)
  next
    case (3 other t)
    with assms(3,4) show ?thesis by (cases "other = timer") (auto simp: dbft_fires_timers)
  qed
qed

definition dt_twice :: "u64 DBFTPolicy" where
  "dt_twice = dbft_Initialization (sample_node 1) (sample_node 1) bt_peers False (dt_node 1 False)"

theorem dbft_replaced_timer_fires_witness:
  "(0 :: nat) \<in> set (dc_timers (dbp_core (dbft_ToConsensus_begin \<lparr>prop_Block = sample_block 7 20, prop_Timestamp = 0\<rparr> dt_twice)))"
proof -
  have r: "dbft_reachable bt_env (sample_node 1) bt_peers dt_twice"
    unfolding dt_twice_def by (rule dbft_reachable.step [OF dt_reachable dbft_step.initialise])
  have t: "dc_timers (dbp_core dt_twice) = [0, 1]" "dc_masterTimeout (dbp_core dt_twice) = Some 1"
    by (simp_all add: dt_twice_def dt_defs Let_def)
  let ?p' = "dbft_ToConsensus_begin \<lparr>prop_Block = sample_block 7 20, prop_Timestamp = 0\<rparr> dt_twice"
  have "length (dbp_tasks ?p') \<noteq> length (dbp_tasks dt_twice)" by (simp add: dbft_ToConsensus_begin_def alloc_block_def)
  then show ?thesis
    using dbft_replaced_timer_fires [OF r dbft_step.begin_round, of 0 "\<lparr>prop_Block = sample_block 7 20, prop_Timestamp = 0\<rparr>"]
    by (auto simp: t)
qed

section \<open>Results\<close>

text \<open>A round of a DBFT node with one other peer.\<close>

definition dt1 :: "u64 DBFTPolicy" where
  "dt1 = (dt_node 1 False)\<lparr>dbp_core := (dbp_core (dt_node 1 False))\<lparr>bc_heap := [sample_block 7 20]\<rparr>,
     dbp_pending := [0], dbp_tasks := [RequestTask bt_request]\<rparr>"

definition dt2 :: "u64 DBFTPolicy" where
  "dt2 = dt1\<lparr>dbp_tasks := [],
     dbp_core := (dbp_core dt1)
       \<lparr>bc_validator := [7 \<mapsto> \<lparr>ps_block = 0, ps_receipts = []\<rparr>], bc_digest := 7,
        bc_signature := \<lparr>sd_signatures = [[1, 7]], sd_signMap = [sample_node 1 \<mapsto> [1, 7]]\<rparr>,
        bc_effects := [SendTo ''node'' bt_raw, SendTo ''node'' bt_raw, SendTo ''node'' bt_raw],
        bc_waiters := [Collecting], dc_timers := []\<rparr>\<rparr>"

definition dt3 :: "u64 DBFTPolicy" where
  "dt3 = dt2\<lparr>dbp_core := (dbp_core dt2)
     \<lparr>bc_signature := \<lparr>sd_signatures = [[1, 7], [2, 7]], sd_signMap = [sample_node 1 \<mapsto> [1, 7], sample_node 2 \<mapsto> [2, 7]]\<rparr>,
      bc_tunnel := 1\<rparr>\<rparr>"

definition dt4 :: "u64 DBFTPolicy" where
  "dt4 = dt3\<lparr>dbp_core := (dbp_core dt3)\<lparr>bc_tunnel := 0, bc_waiters := [Committing bt_result]\<rparr>\<rparr>"

definition dt5 :: "u64 DBFTPolicy" where
  "dt5 = dt4\<lparr>dbp_core := (dbp_core dt4)\<lparr>bc_commit := True, bc_waiters := [], bc_result := [bt_result]\<rparr>\<rparr>"

lemmas dt_states = dt5_def dt4_def dt3_def dt2_def dt1_def dt_defs bt_peers_def sample_node_def sample_block_def bt_request_def
  bt_raw_def bt_result_def tolerance_of_def

lemma dt_step2: "dbft_run_task bt_env (RequestTask bt_request) dt1 = Inr dt2"
proof -
  have "dbft_ProcessEvent bt_env (dbp_core dt1) (CoreRequest (Some bt_request)) = Inr (dbp_core dt2, None)"
    by (simp add: dbft_ProcessEvent_def dbft_receiveRequest_def stop_masterTimeout_def dbft_is_bft dbft_addSignature_eq
        bt_ops sending AccountFilter_single Let_def dt_states)
  from dbft_SendEvent_run [OF _ this] show ?thesis by (simp add: dbft_run_task_def) (simp add: dt2_def dt1_def)
qed

lemma dt_step3:
  "dbft_handleClient_accept bt_env bt_conn (dbp_core dt2) = Inr (Some (CoreResponse (Some bt_response)), dbp_core dt2) \<and>
   SendEvent (dbft_ProcessEvent bt_env) (dbp_core dt2) (CoreResponse (Some bt_response)) = Some (Inr (dbp_core dt3))"
proof -
  have "dbft_ProcessEvent bt_env (dbp_core dt2) (CoreResponse (Some bt_response)) = Inr (dbp_core dt3, None)"
    by (simp add: dbft_ProcessEvent_def dbft_handlers_eq bft_receiveResponse_def core_handle_def bt_response_def
        GetAccountById_def bft_signDataVerify_def bft_addSignature_def Let_def dt_states)
  from dbft_SendEvent_run [OF _ this] show ?thesis
    by (simp add: dbft_handleClient_accept_def bt_read message_type_defs)
      (simp add: bt_response_def dt_states)
qed

lemma dt_step4: "dbft_waitResponse_tunnel bt_env [sample_node 1, sample_node 2] 0 (dbp_core dt3) = dbp_core dt4"
  by (simp add: dbft_handlers_eq bft_waitResponse_tunnel_def bft_maybeCommit_def bft_signDataVerify_def dt_states)

lemma dt_step5: "dbft_waitResponse_commit 0 bt_result (dbp_core dt4) = dbp_core dt5"
  by (simp add: dbft_waitResponse_commit_def dt_states Let_def)

lemma dt_waiting:
  "\<not> waits_for_lock (dbp_core dt2)" "dbp_clients dt2 = []" "bc_waiters (dbp_core dt3) = [Collecting]" "bc_tunnel (dbp_core dt3) = 1"
  "bc_waiters (dbp_core dt4) = [Committing bt_result]" "bc_tunnel (dbp_core dt4) = 0" "dbp_tasks dt1 = [RequestTask bt_request]"
  "lists_keys [sample_node 1, sample_node 2] (dbp_core dt3)" "bc_result (dbp_core dt5) = [bt_result]"
  by (auto simp: waits_for_lock_def lists_keys_def dt_states)

lemma dt_reachable5: "dbft_reachable bt_env (sample_node 1) bt_peers dt5"
proof -
  have "dbft_ToConsensus_begin \<lparr>prop_Block = sample_block 7 20, prop_Timestamp = 0\<rparr> (dt_node 1 False) = dt1"
    by (simp add: dbft_ToConsensus_begin_def alloc_block_def dt1_def dt_defs bt_request_def Let_def)
  then have "dbft_reachable bt_env (sample_node 1) bt_peers dt1"
    using dbft_reachable.step [OF dt_reachable dbft_step.begin_round] by metis
  then have r2: "dbft_reachable bt_env (sample_node 1) bt_peers dt2"
    by (rule dbft_reachable.step) (rule dbft_step.run_task [where t = 0 and task = "RequestTask bt_request"], simp_all add: dt_waiting dt_step2)
  from dbft_deliver_reachable [OF r2, of 0 bt_conn] dt_step3
  have "dbft_reachable bt_env (sample_node 1) bt_peers (dt2\<lparr>dbp_core := dbp_core dt3\<rparr>)" by (auto simp: dt_waiting)
  then have r3: "dbft_reachable bt_env (sample_node 1) bt_peers dt3" by (simp add: dt3_def)
  have "dbft_step bt_env (sample_node 1) bt_peers dt3
      (dt3\<lparr>dbp_core := dbft_waitResponse_tunnel bt_env [sample_node 1, sample_node 2] 0 (dbp_core dt3)\<rparr>)"
    by (rule dbft_step.responses_tunnel) (simp_all add: dt_waiting)
  from dbft_reachable.step [OF r3 this] have r4: "dbft_reachable bt_env (sample_node 1) bt_peers dt4"
    unfolding dt_step4 by (simp add: dt4_def)
  have "dbft_step bt_env (sample_node 1) bt_peers dt4 (dt4\<lparr>dbp_core := dbft_waitResponse_commit 0 bt_result (dbp_core dt4)\<rparr>)"
    by (rule dbft_step.responses_commit) (simp_all add: dt_waiting)
  from dbft_reachable.step [OF r4 this] show ?thesis unfolding dt_step5 by (simp add: dt5_def)
qed

text \<open>
  C15: in every reachable state of a DBFT node, through any number of view changes, initialisations and
  timeouts, a successful result that waits for \<open>ToConsensus\<close> holds the signatures of at least
  \<open>n - (n - 1) div 3\<close> (in eight bits) distinct accounts, which are the node itself, its peers or the
  zero account (for responses of unknown senders), for the digest of a block the node has recorded,
  with the receipts the worker returned when it verified a block of that digest.
\<close>

theorem dbft_results_certified:
  assumes "dbft_reachable e me peers p" and "res \<in> set (bc_result (dbp_core p))" and "cr_Result res = None"
  shows "\<exists>d ps. bc_validator (dbp_core p) d = Some ps \<and> b_MixDigest (load_block (ps_block ps) (dbp_core p)) = d \<and>
    (\<exists>w b. b_MixDigest b = d \<and> NewRepositoryByBlockHash e w (b_PrevBlockHash b) = None \<and>
       worker_VerifyBlock e w (RepositoryByBlockHash (b_PrevBlockHash b)) b True = Inr (ps_receipts ps)) \<and>
    certificate e (insert me (insert zero_account (set peers))) (length peers) d (cr_Signatures res)"
proof -
  have "bft_core_inv e me peers (dbp_core p)"
    using dbft_reachable_inv [OF assms(1)] by (simp add: dbft_policy_inv_def dbft_core_inv_def)
  from core_results_certified [OF this assms(2,3)] show ?thesis .
qed

theorem dbft_results_certified_witness:
  "\<exists>d. certificate bt_env (insert (sample_node 1) (insert zero_account (set bt_peers))) (length bt_peers) d [[1, 7], [2, 7]]"
  using dbft_results_certified [OF dt_reachable5, of bt_result] by (auto simp: dt_waiting) (auto simp: bt_result_def)

end
