(* ===== verification/Pbft_Tools.thy ===== *)
theory Pbft_Tools
  imports Event_Loop
begin

text \<open>
  \<^verbatim>\<open>consensus/policy/pbft/tools\<close>: the timer and the event manager. The goroutine of the timer is one
  \<open>select\<close> in a loop; each of its cases is a function here, and \<open>timer_step\<close> lets any case whose
  channel is ready go on. A send on \<open>startChan\<close> or \<open>stopChan\<close>, which are unbuffered, is the step in
  which the loop receives. Durations are kept but time is not modelled: a countdown may end at any
  later step. An event is an interface value, \<open>None\<close> is nil.
\<close>

section \<open>The timer\<close>

record 'e timerStart =
  ts_hard :: bool
  ts_event :: "'e option"
  ts_duration :: i64

text \<open>
  \<open>tm_exit\<close>: the channel \<open>exit\<close> is closed; \<open>tm_timerChan\<close>: the countdown, if one runs;
  \<open>tm_eventDestChan\<close> and \<open>tm_event\<close> are the variables of \<open>loop\<close>; \<open>tm_loop\<close>: the goroutine has not
  returned.
\<close>

record 'e timerImpl =
  tm_exit :: bool
  tm_timerChan :: "i64 option"
  tm_eventDestChan :: bool
  tm_event :: "'e option"
  tm_loop :: bool

definition NewTimerImpl :: "'e timerImpl" where
  "NewTimerImpl = \<lparr>tm_exit = False, tm_timerChan = None, tm_eventDestChan = False, tm_event = None, tm_loop = True\<rparr>"

definition newTimerImpl :: "'e timerImpl" where
  "newTimerImpl = \<lparr>tm_exit = False, tm_timerChan = None, tm_eventDestChan = False, tm_event = None, tm_loop = True\<rparr>"

definition CreateTimer :: "'e timerImpl" where "CreateTimer = newTimerImpl"

definition loop_start :: "'e timerStart \<Rightarrow> 'e timerImpl \<Rightarrow> 'e timerImpl" where
  "loop_start start et =
     (if tm_timerChan et \<noteq> None \<and> \<not> ts_hard start then et
      else et\<lparr>tm_timerChan := Some (ts_duration start), tm_event := ts_event start, tm_eventDestChan := False\<rparr>)"

definition loop_stop :: "'e timerImpl \<Rightarrow> 'e timerImpl" where
  "loop_stop et = et\<lparr>tm_timerChan := None, tm_eventDestChan := False, tm_event := None\<rparr>"

definition loop_fire :: "'e timerImpl \<Rightarrow> 'e timerImpl" where
  "loop_fire et = et\<lparr>tm_timerChan := None, tm_eventDestChan := True\<rparr>"

definition loop_deliver :: "'e timerImpl \<Rightarrow> 'e timerImpl" where
  "loop_deliver et = et\<lparr>tm_eventDestChan := False\<rparr>"

definition loop_exit :: "'e timerImpl \<Rightarrow> 'e timerImpl" where
  "loop_exit et = et\<lparr>tm_loop := False\<rparr>"

definition SoftReset :: "i64 \<Rightarrow> 'e option \<Rightarrow> 'e timerStart" where
  "SoftReset timeout event = \<lparr>ts_hard = False, ts_event = event, ts_duration = timeout\<rparr>"

definition Reset :: "i64 \<Rightarrow> 'e option \<Rightarrow> 'e timerStart" where
  "Reset timeout event = \<lparr>ts_hard = True, ts_event = event, ts_duration = timeout\<rparr>"

definition timer_Halt :: "'e timerImpl \<Rightarrow> 'e timerImpl" where
  "timer_Halt et = (if tm_exit et then et else et\<lparr>tm_exit := True\<rparr>)"

datatype 'e timer_label = TStart "'e timerStart" | TStop | TFire | TDeliver "'e option" | TExit | THalt

inductive timer_step :: "'e timerImpl \<Rightarrow> 'e timer_label \<Rightarrow> 'e timerImpl \<Rightarrow> bool" where
  start: "tm_loop et \<Longrightarrow> timer_step et (TStart s) (loop_start s et)"
| stop: "tm_loop et \<Longrightarrow> timer_step et TStop (loop_stop et)"
| fire: "tm_loop et \<Longrightarrow> tm_timerChan et = Some d \<Longrightarrow> timer_step et TFire (loop_fire et)"
| deliver: "tm_loop et \<Longrightarrow> tm_eventDestChan et \<Longrightarrow> timer_step et (TDeliver (tm_event et)) (loop_deliver et)"
| exit: "tm_loop et \<Longrightarrow> tm_exit et \<Longrightarrow> timer_step et TExit (loop_exit et)"
| halt: "timer_step et THalt (timer_Halt et)"

inductive_simps timer_step_simps:
  "timer_step et (TStart s) et'" "timer_step et TStop et'" "timer_step et TFire et'" "timer_step et (TDeliver ev) et'"
  "timer_step et TExit et'" "timer_step et THalt et'"

text \<open>Sequences of labelled steps.\<close>

inductive labelled_run :: "('s \<Rightarrow> 'l \<Rightarrow> 's \<Rightarrow> bool) \<Rightarrow> 's \<Rightarrow> 'l list \<Rightarrow> 's \<Rightarrow> bool" for step s where
  nil: "labelled_run step s [] s"
| snoc: "labelled_run step s ls s' \<Longrightarrow> step s' l s'' \<Longrightarrow> labelled_run step s (ls @ [l]) s''"

inductive_cases labelled_run_snocE: "labelled_run step s (ls @ [l]) s'"

abbreviation timer_run :: "'e timerImpl \<Rightarrow> 'e timer_label list \<Rightarrow> 'e timerImpl \<Rightarrow> bool" where
  "timer_run \<equiv> labelled_run timer_step"

section \<open>The manager\<close>

record 'r managerImpl =
  mg_exit :: bool
  mg_receiver :: "'r option"
  mg_loop :: bool

definition NewManagerImpl :: "'r managerImpl" where
  "NewManagerImpl = \<lparr>mg_exit = False, mg_receiver = None, mg_loop = False\<rparr>"

definition SetReceiver :: "'r \<Rightarrow> 'r managerImpl \<Rightarrow> 'r managerImpl" where
  "SetReceiver receiver em = em\<lparr>mg_receiver := Some receiver\<rparr>"

definition manager_Start :: "'r managerImpl \<Rightarrow> 'r managerImpl" where
  "manager_Start em = em\<lparr>mg_loop := True\<rparr>"

definition manager_Halt :: "'r managerImpl \<Rightarrow> 'r managerImpl" where
  "manager_Halt em = (if mg_exit em then em else em\<lparr>mg_exit := True\<rparr>)"

partial_function (option) tools_SendEvent ::
  "('s \<Rightarrow> 'e \<Rightarrow> ('s \<times> 'e option) outcome) \<Rightarrow> 's \<Rightarrow> 'e \<Rightarrow> 's outcome option" where
  "tools_SendEvent process s next =
     (case process s next of
        Inl p \<Rightarrow> Some (Inl p)
      | Inr (s', result) \<Rightarrow>
          (case result of
             None \<Rightarrow> Some (Inr s')
           | Some next' \<Rightarrow> tools_SendEvent process s' next'))"

definition Inject ::
  "('r \<Rightarrow> 'e \<Rightarrow> ('r \<times> 'e option) outcome) \<Rightarrow> 'e \<Rightarrow> 'r managerImpl \<Rightarrow> 'r managerImpl outcome option" where
  "Inject process event em =
     (case mg_receiver em of
        None \<Rightarrow> Some (Inr em)
      | Some receiver \<Rightarrow>
          (case tools_SendEvent process receiver event of
             None \<Rightarrow> None
           | Some out \<Rightarrow> Some (bindP out (\<lambda>receiver'. Inr (em\<lparr>mg_receiver := Some receiver'\<rparr>)))))"

text \<open>
  The event loop on the events that are sent to the queue, in their order: \<open>None\<close> in the list is the
  case of \<open>select\<close> that leaves the loop, which needs \<open>exit\<close> to be closed. Events after that stay with
  their blocked senders.
\<close>

fun eventLoop ::
  "('r \<Rightarrow> 'e \<Rightarrow> ('r \<times> 'e option) outcome) \<Rightarrow> 'e option list \<Rightarrow> 'r managerImpl \<Rightarrow> 'r managerImpl outcome option" where
  "eventLoop process [] em = Some (Inr em)"
| "eventLoop process (None # rest) em =
     (if mg_exit em then Some (Inr (em\<lparr>mg_loop := False\<rparr>)) else eventLoop process rest em)"
| "eventLoop process (Some next # rest) em =
     (case Inject process next em of
        None \<Rightarrow> None
      | Some (Inl p) \<Rightarrow> Some (Inl p)
      | Some (Inr em') \<Rightarrow> eventLoop process rest em')"

section \<open>The two event loops\<close>

lemma tools_SendEvent_eq: "tools_SendEvent process s ev = SendEvent process s ev"
proof -
  have "SendEvent process s ev = Some out" if "tools_SendEvent process s ev = Some out" for out
    using that
    by (rule tools_SendEvent.raw_induct [where P = "\<lambda>pr s ev out. SendEvent pr s ev = Some out", rotated])
      (subst SendEvent.simps, auto split: sum.splits prod.splits option.splits)
  moreover have "tools_SendEvent process s ev = Some out" if "SendEvent process s ev = Some out" for out
    using that
    by (rule SendEvent.raw_induct [where P = "\<lambda>pr s ev out. tools_SendEvent pr s ev = Some out", rotated])
      (subst tools_SendEvent.simps, auto split: sum.splits prod.splits option.splits)
  ultimately show ?thesis by (metis option.exhaust)
qed

section \<open>The contract of a timer\<close>

text \<open>The run that led to a countdown or to a waiting event.\<close>

definition counts :: "'e timer_label list \<Rightarrow> 'e option \<Rightarrow> bool" where
  "counts ls ev \<longleftrightarrow> (\<exists>xs st ys. ls = xs @ TStart st # ys \<and> ts_event st = ev \<and>
     (\<forall>l \<in> set ys. l = THalt \<or> (\<exists>s. l = TStart s \<and> \<not> ts_hard s)))"

definition waits :: "'e timer_label list \<Rightarrow> 'e option \<Rightarrow> bool" where
  "waits ls ev \<longleftrightarrow> (\<exists>xs zs. ls = xs @ TFire # zs \<and> counts xs ev \<and> set zs \<subseteq> {THalt})"

lemma counts_snoc: "counts ls ev \<Longrightarrow> l = THalt \<or> (\<exists>s. l = TStart s \<and> \<not> ts_hard s) \<Longrightarrow> counts (ls @ [l]) ev"
  unfolding counts_def by fastforce

lemma counts_start: "counts (ls @ [TStart st]) (ts_event st)"
  unfolding counts_def by fastforce

lemma waits_snoc: "waits ls ev \<Longrightarrow> waits (ls @ [THalt]) ev"
  unfolding waits_def by fastforce

lemma waits_fire: "counts ls ev \<Longrightarrow> waits (ls @ [TFire]) ev"
  unfolding waits_def by fastforce

text \<open>
  What the comment on the interface \<open>Timer\<close> promises, for any timer that can be asked which event its
  countdown is for and which event waits to be delivered: starting and stopping discard both, only an
  ended countdown makes an event wait, and only a waiting event is delivered.
\<close>

locale cancelling_timer =
  fixes step :: "'s \<Rightarrow> 'e timer_label \<Rightarrow> 's \<Rightarrow> bool"
    and countdown :: "'s \<Rightarrow> 'e option option"
    and pending :: "'s \<Rightarrow> 'e option option"
    and fresh :: 's
  assumes fresh_idle: "countdown fresh = None" "pending fresh = None"
    and start_law: "step s (TStart st) s' \<Longrightarrow>
      if countdown s \<noteq> None \<and> \<not> ts_hard st then countdown s' = countdown s \<and> pending s' = pending s
      else countdown s' = Some (ts_event st) \<and> pending s' = None"
    and stop_law: "step s TStop s' \<Longrightarrow> countdown s' = None \<and> pending s' = None"
    and fire_law: "step s TFire s' \<Longrightarrow> countdown s \<noteq> None \<and> pending s' = countdown s \<and> countdown s' = None"
    and deliver_law: "step s (TDeliver ev) s' \<Longrightarrow> pending s = Some ev \<and> pending s' = None \<and> countdown s' = countdown s"
    and exit_law: "step s TExit s' \<Longrightarrow> countdown s' = None \<and> pending s' = None"
    and halt_law: "step s THalt s' \<Longrightarrow> countdown s' = countdown s \<and> pending s' = pending s"
begin

lemma not_both: "labelled_run step fresh ls s \<Longrightarrow> countdown s = None \<or> pending s = None"
proof (induction rule: labelled_run.induct)
  case (snoc ls s' l s'')
  then show ?case
    by (cases l) (auto dest: start_law stop_law fire_law deliver_law exit_law halt_law split: if_splits)
qed (simp add: fresh_idle)

lemma armed:
  "labelled_run step fresh ls s \<Longrightarrow>
   (\<forall>ev. countdown s = Some ev \<longrightarrow> counts ls ev) \<and> (\<forall>ev. pending s = Some ev \<longrightarrow> waits ls ev)"
proof (induction rule: labelled_run.induct)
  case (snoc ls s' l s'')
  show ?case
  proof (cases l)
    case (TStart st)
    with start_law [of s' st s''] snoc not_both [OF snoc(1)] show ?thesis
      by (cases "countdown s' \<noteq> None \<and> \<not> ts_hard st") (auto intro: counts_snoc counts_start)
  next
    case TStop
    with stop_law snoc(2) show ?thesis by fastforce
  next
    case TFire
    with fire_law snoc show ?thesis by (fastforce intro: waits_fire)
  next
    case (TDeliver ev)
    with deliver_law [of s' ev s''] snoc not_both [OF snoc(1)] show ?thesis by auto
  next
    case TExit
    with exit_law snoc(2) show ?thesis by fastforce
  next
    case THalt
    with halt_law snoc show ?thesis by (fastforce intro: counts_snoc waits_snoc)
  qed
qed (simp add: fresh_idle)

lemma delivered_was_armed:
  assumes "labelled_run step fresh (ls @ [TDeliver ev]) s"
  shows "waits ls ev"
  using assms by (elim labelled_run_snocE) (auto dest: armed deliver_law)

end

definition tm_countdown :: "'e timerImpl \<Rightarrow> 'e option option" where
  "tm_countdown et = (if tm_loop et \<and> tm_timerChan et \<noteq> None then Some (tm_event et) else None)"

definition tm_pending :: "'e timerImpl \<Rightarrow> 'e option option" where
  "tm_pending et = (if tm_loop et \<and> tm_eventDestChan et then Some (tm_event et) else None)"

lemmas timer_defs = tm_countdown_def tm_pending_def loop_start_def loop_stop_def loop_fire_def loop_deliver_def
  loop_exit_def timer_Halt_def NewTimerImpl_def

interpretation timer: cancelling_timer timer_step tm_countdown tm_pending NewTimerImpl
  by unfold_locales (auto simp: timer_step_simps timer_defs)

section \<open>Properties\<close>

text \<open>
  the contract of \<open>Timer\<close>. Whatever is asked of a timer and however its goroutine is scheduled, an
  event is delivered only if it was given to a \<open>SoftReset\<close> or \<open>Reset\<close> whose countdown ended, and since
  then there was no \<open>Stop\<close>, no \<open>Reset\<close>, no other delivery, and after the end of the countdown no
  \<open>SoftReset\<close> either: an event that was cancelled is not delivered, and none is delivered twice.
\<close>

theorem timer_delivers_only_armed:
  assumes "timer_run NewTimerImpl (ls @ [TDeliver ev]) et"
  shows "\<exists>xs st ys zs. ls = xs @ TStart st # ys @ TFire # zs \<and> ts_event st = ev \<and>
    (\<forall>l \<in> set ys. l = THalt \<or> (\<exists>s. l = TStart s \<and> \<not> ts_hard s)) \<and> set zs \<subseteq> {THalt}"
  using timer.delivered_was_armed [OF assms] unfolding waits_def counts_def by fastforce

lemma timer_run_fired:
  "timer_run NewTimerImpl [TStart (Reset d (Some ev)), TFire] (loop_fire (loop_start (Reset d (Some ev)) NewTimerImpl))"
proof -
  have "timer_step NewTimerImpl (TStart (Reset d (Some ev))) (loop_start (Reset d (Some ev)) NewTimerImpl)"
    by (simp add: timer_step_simps NewTimerImpl_def)
  from labelled_run.snoc [OF labelled_run.nil [of timer_step] this]
  have "timer_run NewTimerImpl [TStart (Reset d (Some ev))] (loop_start (Reset d (Some ev)) NewTimerImpl)" by simp
  from labelled_run.snoc [OF this, of TFire] show ?thesis by (simp add: timer_step_simps timer_defs Reset_def)
qed

lemma timer_fired_delivers:
  "timer_step (loop_fire (loop_start (Reset d (Some ev)) NewTimerImpl)) (TDeliver (Some ev))
     (loop_deliver (loop_fire (loop_start (Reset d (Some ev)) NewTimerImpl)))"
  by (simp add: timer_step_simps timer_defs Reset_def)

theorem timer_delivers_only_armed_witness:
  "\<exists>xs st ys zs. [TStart (Reset 5 (Some (7 :: nat))), TFire] = xs @ TStart st # ys @ TFire # zs \<and> ts_event st = Some 7"
  using timer_delivers_only_armed [OF labelled_run.snoc [OF timer_run_fired [of 5 "7 :: nat"] timer_fired_delivers]] by blast

text \<open>
  \<open>SoftReset\<close> discards an event that waits for its delivery: a countdown for the new event starts,
  and the event that waited can no longer be delivered. The comment on \<open>SoftReset\<close> says that it does
  not clear pending events.
\<close>

theorem timer_SoftReset_clears_pending:
  assumes "timer_run NewTimerImpl ls et" and "timer_step et (TDeliver old) et1"
    and "timer_step et (TStart (SoftReset timeout new)) et'"
  shows "tm_timerChan et' = Some timeout \<and> tm_event et' = new \<and> (\<forall>ev et2. \<not> timer_step et' (TDeliver ev) et2)"
proof -
  have "tm_eventDestChan et" "tm_loop et" using assms(2) by (auto simp: timer_step_simps)
  with timer.not_both [OF assms(1)] have "tm_timerChan et = None" by (auto simp: tm_countdown_def tm_pending_def split: if_splits)
  with assms(3) show ?thesis by (auto simp: timer_step_simps loop_start_def SoftReset_def)
qed

theorem timer_SoftReset_clears_pending_witness:
  "\<exists>et' :: nat timerImpl. tm_event et' = Some 8 \<and> (\<forall>ev et2. \<not> timer_step et' (TDeliver ev) et2)"
proof -
  let ?et = "loop_fire (loop_start (Reset 5 (Some (7 :: nat))) NewTimerImpl)"
  have "timer_step ?et (TStart (SoftReset 5 (Some 8))) (loop_start (SoftReset 5 (Some 8)) ?et)"
    by (simp add: timer_step_simps timer_defs Reset_def)
  from timer_SoftReset_clears_pending [OF timer_run_fired timer_fired_delivers this] show ?thesis by (intro exI) blast
qed

text \<open>The events of the queue, handled one after the other.\<close>

fun handle_all :: "('r \<Rightarrow> 'e \<Rightarrow> ('r \<times> 'e option) outcome) \<Rightarrow> 'e list \<Rightarrow> 'r \<Rightarrow> 'r outcome option" where
  "handle_all process [] r = Some (Inr r)"
| "handle_all process (ev # evs) r =
     (case SendEvent process r ev of
        None \<Rightarrow> None | Some (Inl p) \<Rightarrow> Some (Inl p) | Some (Inr r') \<Rightarrow> handle_all process evs r')"

text \<open>
  the manager hands the events of its queue to the receiver one after the other in their order, each
  until the receiver returns nil, as \<open>utils.SendEvent\<close> does; without a receiver it drops them. The
  loop ends when it takes the exit, which it can after \<open>Halt\<close>, and \<open>Halt\<close> may be called twice.
\<close>

theorem manager_handles_in_order:
  "eventLoop process (map Some evs) em =
     (case mg_receiver em of
        None \<Rightarrow> Some (Inr em)
      | Some r \<Rightarrow>
          (case handle_all process evs r of
             None \<Rightarrow> None
           | Some (Inl p) \<Rightarrow> Some (Inl p)
           | Some (Inr r') \<Rightarrow> Some (Inr (em\<lparr>mg_receiver := Some r'\<rparr>)))) \<and>
   eventLoop process (None # rest) (manager_Halt em) = Some (Inr ((manager_Halt em)\<lparr>mg_loop := False\<rparr>)) \<and>
   manager_Halt (manager_Halt em) = manager_Halt em"
proof -
  have "eventLoop process (map Some evs) em = Some (Inr em)" if "mg_receiver em = None"
    using that by (induction evs) (simp_all add: Inject_def)
  moreover have "eventLoop process (map Some evs) em =
      (case handle_all process evs r of
         None \<Rightarrow> None | Some (Inl p) \<Rightarrow> Some (Inl p) | Some (Inr r') \<Rightarrow> Some (Inr (em\<lparr>mg_receiver := Some r'\<rparr>)))"
    if "mg_receiver em = Some r" for r
    using that
  proof (induction evs arbitrary: em r)
    case (Cons ev evs)
    then show ?case
      by (cases "SendEvent process r ev") (auto simp: Inject_def tools_SendEvent_eq split: sum.splits option.splits)
  qed simp
  ultimately show ?thesis by (auto simp: manager_Halt_def split: option.split)
qed

end
