(* ===== verification/Pbft_Composition.thy ===== *)
theory Pbft_Composition
  imports Pbft_Tools
begin

text \<open>
  The timers of a \<^verbatim>\<open>TimerFactory\<close> together with the manager they deliver to (\<^verbatim>\<open>pbft/tools\<close>): the
  channel that \<^verbatim>\<open>Queue\<close> returns is unbuffered, so that a timer hands over its event in the same step
  in which the event loop of the manager receives it and injects it into the receiver. Timers,
  callers and the loop are goroutines; a run is any interleaving of their steps. An event is an
  interface value, \<open>None\<close> is nil.
\<close>

section \<open>The factory\<close>

record ('e, 'r) timerFactoryImpl =
  tf_manager :: "'r managerImpl"
  tf_timers :: "'e timerImpl list"

definition NewTimerFactoryImpl :: "'r managerImpl \<Rightarrow> ('e, 'r) timerFactoryImpl" where
  "NewTimerFactoryImpl manager = \<lparr>tf_manager = manager, tf_timers = []\<rparr>"

datatype 'e tools_label =
    Created
  | Timer nat "'e timer_label"
  | Queued "'e option"
  | ManagerHalt
  | ManagerExit

section \<open>Steps\<close>

text \<open>
  \<open>Queue\<close>: a send on the queue is the step in which the running event loop receives the event, the
  first case of the \<open>select\<close> in \<open>eventLoop\<close>.
\<close>

definition Queue ::
  "('r \<Rightarrow> 'e option \<Rightarrow> ('r \<times> 'e option option) outcome) \<Rightarrow> 'e option \<Rightarrow> 'r managerImpl \<Rightarrow>
   'r managerImpl outcome option" where
  "Queue process event em = (if mg_loop em then Inject process event em else None)"

inductive tools_step ::
  "('r \<Rightarrow> 'e option \<Rightarrow> ('r \<times> 'e option option) outcome) \<Rightarrow> ('e, 'r) timerFactoryImpl \<Rightarrow> 'e tools_label \<Rightarrow>
   ('e, 'r) timerFactoryImpl \<Rightarrow> bool" for process where
  create: "tools_step process f Created (f\<lparr>tf_timers := tf_timers f @ [CreateTimer]\<rparr>)"
| local: "i < length (tf_timers f) \<Longrightarrow> timer_step (tf_timers f ! i) l et \<Longrightarrow> \<forall>ev. l \<noteq> TDeliver ev \<Longrightarrow>
    tools_step process f (Timer i l) (f\<lparr>tf_timers := (tf_timers f)[i := et]\<rparr>)"
| deliver: "i < length (tf_timers f) \<Longrightarrow> timer_step (tf_timers f ! i) (TDeliver ev) et \<Longrightarrow>
    Queue process ev (tf_manager f) = Some (Inr em) \<Longrightarrow>
    tools_step process f (Timer i (TDeliver ev)) (f\<lparr>tf_timers := (tf_timers f)[i := et], tf_manager := em\<rparr>)"
| submit: "Queue process ev (tf_manager f) = Some (Inr em) \<Longrightarrow> tools_step process f (Queued ev) (f\<lparr>tf_manager := em\<rparr>)"
| halt: "tools_step process f ManagerHalt (f\<lparr>tf_manager := manager_Halt (tf_manager f)\<rparr>)"
| exit: "mg_loop (tf_manager f) \<Longrightarrow> mg_exit (tf_manager f) \<Longrightarrow>
    tools_step process f ManagerExit (f\<lparr>tf_manager := (tf_manager f)\<lparr>mg_loop := False\<rparr>\<rparr>)"

inductive_cases tools_step_TimerE: "tools_step process f (Timer i l) f'"

section \<open>What a run shows of one timer and of the receiver\<close>

fun of_timer :: "nat \<Rightarrow> 'e tools_label list \<Rightarrow> 'e timer_label list" where
  "of_timer i [] = []"
| "of_timer i (Timer j l # ls) = (if j = i then l # of_timer i ls else of_timer i ls)"
| "of_timer i (_ # ls) = of_timer i ls"

fun handled :: "'e tools_label list \<Rightarrow> 'e option list" where
  "handled [] = []"
| "handled (Timer i (TDeliver ev) # ls) = ev # handled ls"
| "handled (Queued ev # ls) = ev # handled ls"
| "handled (_ # ls) = handled ls"

lemma of_timer_append [simp]: "of_timer i (xs @ ys) = of_timer i xs @ of_timer i ys"
  by (induction i xs rule: of_timer.induct) auto

lemma handled_append [simp]: "handled (xs @ ys) = handled xs @ handled ys"
  by (induction xs rule: handled.induct) auto

lemma handled_local: "\<forall>ev. l \<noteq> TDeliver ev \<Longrightarrow> handled [Timer i l] = []"
  by (cases l) auto

lemma handle_all_append:
  "handle_all process xs r = Some (Inr r') \<Longrightarrow> handle_all process (xs @ ys) r = handle_all process ys r'"
  by (induction xs arbitrary: r) (auto split: option.splits sum.splits)

lemma Queue_handles:
  assumes "Queue process ev em = Some (Inr em')" "mg_receiver em = Some r"
  shows "\<exists>r'. mg_receiver em' = Some r' \<and> handle_all process [ev] r = Some (Inr r') \<and> mg_loop em"
  using assms
  by (auto simp: Queue_def Inject_def tools_SendEvent_eq bindP_Inr_iff split: if_splits option.splits sum.splits)

lemma CreateTimer_new: "CreateTimer = NewTimerImpl"
  by (simp add: CreateTimer_def newTimerImpl_def NewTimerImpl_def)

text \<open>Each timer of a run does what a timer does on its own.\<close>

abbreviation tools_run where "tools_run process \<equiv> labelled_run (tools_step process)"

lemma timer_step_run:
  assumes "timer_run NewTimerImpl (of_timer i ls) (ts ! i)" "timer_step (ts ! j) l et" "j < length ts"
  shows "timer_run NewTimerImpl (of_timer i (ls @ [Timer j l])) (ts[j := et] ! i)"
  using assms by (cases "i = j") (auto intro: labelled_run.snoc)

lemma run_of_timer:
  assumes "tools_run process f0 ls f" "tf_timers f0 = []"
  shows "(\<forall>i < length (tf_timers f). timer_run NewTimerImpl (of_timer i ls) (tf_timers f ! i)) \<and>
    (\<forall>i \<ge> length (tf_timers f). of_timer i ls = [])"
  using assms(1)
proof (induction rule: labelled_run.induct)
  case (snoc ls f l f')
  from snoc(2) snoc.IH show ?case
  proof cases
    case create
    with snoc.IH show ?thesis by (auto simp: nth_append less_Suc_eq CreateTimer_new intro: labelled_run.nil)
  next
    case (local i l et)
    with snoc.IH show ?thesis using timer_step_run [of _ ls "tf_timers f" i l et] by simp
  next
    case (deliver i ev et em)
    with snoc.IH show ?thesis using timer_step_run [of _ ls "tf_timers f" i "TDeliver ev" et] by simp
  qed auto
qed (use assms(2) in auto)

lemma run_receiver:
  assumes "tools_run process f0 ls f" "mg_receiver (tf_manager f0) = Some r"
  shows "\<exists>r'. mg_receiver (tf_manager f) = Some r' \<and> handle_all process (handled ls) r = Some (Inr r')"
  using assms(1)
proof (induction rule: labelled_run.induct)
  case (snoc ls f l f')
  then obtain r1 where r1: "mg_receiver (tf_manager f) = Some r1" "handle_all process (handled ls) r = Some (Inr r1)"
    by blast
  from snoc(2) r1 show ?case
  proof cases
    case (local i l et)
    with r1 handled_local [of l i] show ?thesis by simp
  next
    case (deliver i ev et em)
    with Queue_handles [of process ev "tf_manager f" em r1] r1 show ?thesis by (auto simp: handle_all_append)
  next
    case (submit ev em)
    with Queue_handles [of process ev "tf_manager f" em r1] r1 show ?thesis by (auto simp: handle_all_append)
  qed (auto simp: manager_Halt_def)
qed (use assms(2) in auto)

lemma run_stopped:
  assumes "tools_run process f0 ls f" "\<not> mg_loop (tf_manager f0)"
  shows "handled ls = [] \<and> \<not> mg_loop (tf_manager f)"
  using assms(1)
proof (induction rule: labelled_run.induct)
  case (snoc ls f l f')
  from snoc(2) snoc.IH show ?case
    by cases (auto simp: handled_local Queue_def manager_Halt_def)
qed (use assms(2) in auto)

lemma labelled_run_split:
  "labelled_run step s (xs @ ys) s' \<Longrightarrow> \<exists>m. labelled_run step s xs m \<and> labelled_run step m ys s'"
proof (induction ys arbitrary: s' rule: rev_induct)
  case (snoc y ys)
  then obtain s1 where "labelled_run step s (xs @ ys) s1" "step s1 y s'"
    by (metis append_assoc labelled_run_snocE)
  with snoc.IH show ?case by (blast intro: labelled_run.snoc)
qed (auto intro: labelled_run.nil)

lemma labelled_run_single: "labelled_run step s [l] s' \<Longrightarrow> step s l s'"
proof -
  assume "labelled_run step s [l] s'"
  then have "labelled_run step s ([] @ [l]) s'" by simp
  then show ?thesis by (elim labelled_run_snocE) (auto elim: labelled_run.cases)
qed

lemma labelled_run_at:
  assumes "labelled_run step s (xs @ l # ys) s'"
  shows "\<exists>m m'. labelled_run step s xs m \<and> step m l m' \<and> labelled_run step m' ys s'"
  using labelled_run_split [of step s xs "l # ys" s'] labelled_run_split [of step _ "[l]" ys s'] assms
  by (fastforce dest: labelled_run_single)

lemma delivered_in_run:
  assumes "tools_run process f0 (xs @ Timer i (TDeliver ev) # ys) f" "tf_timers f0 = []"
  shows "waits (of_timer i xs) ev"
proof -
  obtain f1 f2 where run: "tools_run process f0 xs f1" and step: "tools_step process f1 (Timer i (TDeliver ev)) f2"
    using labelled_run_at [OF assms(1)] by blast
  from step obtain et where "i < length (tf_timers f1)" "timer_step (tf_timers f1 ! i) (TDeliver ev) et"
    by (auto elim: tools_step_TimerE)
  with run_of_timer [OF run assms(2)] have "timer_run NewTimerImpl (of_timer i xs @ [TDeliver ev]) et"
    by (auto intro: labelled_run.snoc)
  then show ?thesis by (rule timer.delivered_was_armed)
qed

section \<open>The composition\<close>

text \<open>
  C17: the manager with the timers of its factory, under every interleaving. The receiver is in the state
  that handling, one after the other and each to its end, the events that were queued by callers or
  delivered by timers leaves, in the order in which the loop took them. A timer's event reaches the
  receiver only if it was given to a \<open>Reset\<close> or \<open>SoftReset\<close> of that timer, its countdown ended, and
  nothing cancelled it since; and once the manager has left its loop, nothing reaches the receiver any
  more, whatever the timers do.
\<close>

theorem timed_events_handled:
  assumes "tools_run process (NewTimerFactoryImpl (manager_Start (SetReceiver r NewManagerImpl))) ls f"
  shows "(\<exists>r'. mg_receiver (tf_manager f) = Some r' \<and> handle_all process (handled ls) r = Some (Inr r')) \<and>
    (\<forall>xs i ev ys. ls = xs @ Timer i (TDeliver ev) # ys \<longrightarrow>
       (\<exists>before st between after. of_timer i xs = before @ TStart st # between @ TFire # after \<and> ts_event st = ev \<and>
          (\<forall>l \<in> set between. l = THalt \<or> (\<exists>s. l = TStart s \<and> \<not> ts_hard s)) \<and> set after \<subseteq> {THalt})) \<and>
    (\<forall>xs ys. ls = xs @ ManagerExit # ys \<longrightarrow> handled ys = [])"
proof (intro conjI allI impI)
  show "\<exists>r'. mg_receiver (tf_manager f) = Some r' \<and> handle_all process (handled ls) r = Some (Inr r')"
    by (rule run_receiver [OF assms]) (simp add: NewTimerFactoryImpl_def manager_Start_def SetReceiver_def)
next
  fix xs i ev ys
  assume "ls = xs @ Timer i (TDeliver ev) # ys"
  with assms have "waits (of_timer i xs) ev" by (auto intro!: delivered_in_run simp: NewTimerFactoryImpl_def)
  then show "\<exists>before st between after. of_timer i xs = before @ TStart st # between @ TFire # after \<and> ts_event st = ev \<and>
      (\<forall>l \<in> set between. l = THalt \<or> (\<exists>s. l = TStart s \<and> \<not> ts_hard s)) \<and> set after \<subseteq> {THalt}"
    unfolding waits_def counts_def by fastforce
next
  fix xs ys
  assume "ls = xs @ ManagerExit # ys"
  with labelled_run_at [of "tools_step process" _ xs ManagerExit ys f] assms obtain f1 f2
    where leave: "tools_step process f1 ManagerExit f2" and later: "tools_run process f2 ys f" by blast
  from leave have "\<not> mg_loop (tf_manager f2)" by cases simp_all
  with later show "handled ys = []" by (auto dest: run_stopped)
qed

definition log_event :: "nat option list \<Rightarrow> nat option \<Rightarrow> (nat option list \<times> nat option option) outcome" where
  "log_event r ev = Inr (r @ [ev], None)"

definition sample_factory :: "(nat, nat option list) timerFactoryImpl" where
  "sample_factory = NewTimerFactoryImpl (manager_Start (SetReceiver [] NewManagerImpl))"

lemma sample_tools_run:
  "\<exists>f. tools_run log_event sample_factory
     [Created, Timer 0 (TStart (Reset 5 (Some 7))), Timer 0 TFire, Timer 0 (TDeliver (Some 7)), Queued (Some 8)] f \<and>
     mg_receiver (tf_manager f) = Some [Some 7, Some 8]"
proof -
  let ?em = "\<lambda>r. \<lparr>mg_exit = False, mg_receiver = Some r, mg_loop = True\<rparr>"
  let ?f = "\<lambda>r ts. \<lparr>tf_manager = ?em r, tf_timers = ts\<rparr>"
  let ?t1 = "loop_start (Reset 5 (Some (7 :: nat))) NewTimerImpl"
  have q: "Queue log_event ev (?em r) = Some (Inr (?em (r @ [ev])))" for ev r
    by (simp add: Queue_def Inject_def tools_SendEvent.simps log_event_def)
  have "tools_run log_event sample_factory [] (?f [] [])"
    by (simp add: sample_factory_def NewTimerFactoryImpl_def manager_Start_def SetReceiver_def NewManagerImpl_def
        labelled_run.nil)
  from labelled_run.snoc [OF this tools_step.create]
  have "tools_run log_event sample_factory [Created] (?f [] [NewTimerImpl])" by (simp add: CreateTimer_new)
  from labelled_run.snoc [OF this, of "Timer 0 (TStart (Reset 5 (Some 7)))" "?f [] [?t1]"]
  have "tools_run log_event sample_factory [Created, Timer 0 (TStart (Reset 5 (Some 7)))] (?f [] [?t1])"
    using tools_step.local [of 0 "?f [] [NewTimerImpl]" "TStart (Reset 5 (Some 7))" ?t1 log_event]
    by (simp add: timer_step_simps NewTimerImpl_def)
  from labelled_run.snoc [OF this, of "Timer 0 TFire" "?f [] [loop_fire ?t1]"]
  have "tools_run log_event sample_factory [Created, Timer 0 (TStart (Reset 5 (Some 7))), Timer 0 TFire]
      (?f [] [loop_fire ?t1])"
    using tools_step.local [of 0 "?f [] [?t1]" TFire "loop_fire ?t1" log_event]
    by (simp add: timer_step_simps timer_defs Reset_def)
  from labelled_run.snoc [OF this, of "Timer 0 (TDeliver (Some 7))" "?f [Some 7] [loop_deliver (loop_fire ?t1)]"]
  have "tools_run log_event sample_factory [Created, Timer 0 (TStart (Reset 5 (Some 7))), Timer 0 TFire,
      Timer 0 (TDeliver (Some 7))] (?f [Some 7] [loop_deliver (loop_fire ?t1)])"
    using tools_step.deliver [of 0 "?f [] [loop_fire ?t1]" "Some 7" "loop_deliver (loop_fire ?t1)" log_event "?em [Some 7]"]
      q [of "Some 7" "[]"] timer_fired_delivers [of 5 "7 :: nat"] by simp
  from labelled_run.snoc [OF this, of "Queued (Some 8)" "?f [Some 7, Some 8] [loop_deliver (loop_fire ?t1)]"]
  show ?thesis
    using tools_step.submit [of log_event "Some 8" "?f [Some 7] [loop_deliver (loop_fire ?t1)]" "?em [Some 7, Some 8]"]
      q [of "Some 8" "[Some 7]"] by auto
qed

theorem timed_events_handled_witness:
  "handle_all log_event [Some 7, Some 8] [] = Some (Inr [Some 7, Some 8])"
proof -
  obtain f where f: "tools_run log_event sample_factory
     [Created, Timer 0 (TStart (Reset 5 (Some 7))), Timer 0 TFire, Timer 0 (TDeliver (Some 7)), Queued (Some 8)] f"
     "mg_receiver (tf_manager f) = Some [Some 7, Some 8]"
    using sample_tools_run by blast
  from timed_events_handled [OF f(1) [unfolded sample_factory_def]] f(2) show ?thesis by simp
qed

end
