(* ===== verification/Transport.thy ===== *)
theory Transport
  imports Bft_Core Dbft_Core
begin

text \<open>
  The TCP side of sending: \<^verbatim>\<open>sendMsgByUrl\<close> of \<^verbatim>\<open>messages/message.go\<close>, of \<^verbatim>\<open>bft-core.go\<close> and of
  \<^verbatim>\<open>dbft-core.go\<close> with every error of the net package, and the loops and calls over them. The
  handlers use the coarser view of \<open>Messages\<close>, a list of effects \<open>SendTo url raw\<close>; the interface
  \<open>transport\<close> says what such an effect stands for, and its laws are proved of all three copies.
\<close>

section \<open>The net package\<close>

text \<open>
  The answers of the network are the parameter \<open>net\<close>. What a call does to sockets is a list of
  \<open>socket_call\<close>, in order; a deadline is kept in seconds after the call.
\<close>

record TCPAddr =
  addr_IP :: u32
  addr_Port :: nat

record net =
  ResolveTCPAddr :: "string \<Rightarrow> error + TCPAddr"
  DialTCP :: "TCPAddr \<Rightarrow> error option"
  conn_Write :: "TCPAddr \<Rightarrow> bytes \<Rightarrow> error option"
  ListenTCP :: "TCPAddr option \<Rightarrow> error option"
  Listen :: "string \<Rightarrow> error option"

datatype socket_call =
    Dialled TCPAddr
  | SetWriteDeadline TCPAddr nat
  | WriteTo TCPAddr bytes
  | CloseConn TCPAddr

type_synonym sender = "string \<Rightarrow> bytes \<Rightarrow> error option \<times> socket_call list"

section \<open>The three copies of sendMsgByUrl\<close>

definition connWriteTimeOut :: nat where "connWriteTimeOut = 60"

definition tcp_sendMsgByUrl :: "net \<Rightarrow> sender" where
  "tcp_sendMsgByUrl nt url msgPayload =
     (case ResolveTCPAddr nt url of
        Inl err \<Rightarrow> (Some err, [])
      | Inr tcpAddr \<Rightarrow>
          (case DialTCP nt tcpAddr of
             Some err \<Rightarrow> (Some err, [])
           | None \<Rightarrow>
               (conn_Write nt tcpAddr msgPayload,
                [Dialled tcpAddr, SetWriteDeadline tcpAddr connWriteTimeOut, WriteTo tcpAddr msgPayload,
                 CloseConn tcpAddr])))"

definition bft_sendMsgByUrl :: "net \<Rightarrow> sender" where
  "bft_sendMsgByUrl nt url msgPayload =
     (case ResolveTCPAddr nt url of
        Inl err \<Rightarrow> (Some err, [])
      | Inr tcpAddr \<Rightarrow>
          (case DialTCP nt tcpAddr of
             Some err \<Rightarrow> (Some err, [])
           | None \<Rightarrow> (None, [Dialled tcpAddr, WriteTo tcpAddr msgPayload])))"

definition dbft_sendMsgByUrl :: "net \<Rightarrow> sender" where
  "dbft_sendMsgByUrl nt url msgPayload =
     (case ResolveTCPAddr nt url of
        Inl err \<Rightarrow> (Some err, [])
      | Inr tcpAddr \<Rightarrow>
          (case DialTCP nt tcpAddr of
             Some err \<Rightarrow> (Some err, [])
           | None \<Rightarrow> (None, [Dialled tcpAddr, WriteTo tcpAddr msgPayload])))"

section \<open>Calls and loops over them\<close>

definition tcp_Unicast :: "net \<Rightarrow> Account \<Rightarrow> bytes \<Rightarrow> error option \<times> socket_call list" where
  "tcp_Unicast nt account msgPayload = tcp_sendMsgByUrl nt (acc_Url account) msgPayload"

fun tcp_BroadcastPeers :: "net \<Rightarrow> bytes \<Rightarrow> Account list \<Rightarrow> socket_call list" where
  "tcp_BroadcastPeers nt msgPayload [] = []"
| "tcp_BroadcastPeers nt msgPayload (peer # peers) =
     (case tcp_sendMsgByUrl nt (acc_Url peer) msgPayload of
        (err, calls) \<Rightarrow> calls @ tcp_BroadcastPeers nt msgPayload peers)"

fun tcp_BroadcastPeersFilter :: "net \<Rightarrow> bytes \<Rightarrow> Account list \<Rightarrow> Account \<Rightarrow> socket_call list" where
  "tcp_BroadcastPeersFilter nt msgPayload [] black = []"
| "tcp_BroadcastPeersFilter nt msgPayload (peer # peers) black =
     (if peer \<noteq> black
      then (case tcp_sendMsgByUrl nt (acc_Url peer) msgPayload of
              (err, calls) \<Rightarrow> calls @ tcp_BroadcastPeersFilter nt msgPayload peers black)
      else tcp_BroadcastPeersFilter nt msgPayload peers black)"

fun tcp_bft_broadcastByOrder :: "net \<Rightarrow> bytes \<Rightarrow> Account list \<Rightarrow> socket_call list" where
  "tcp_bft_broadcastByOrder nt msgPayload [] = []"
| "tcp_bft_broadcastByOrder nt msgPayload (peer # peers) =
     (case bft_sendMsgByUrl nt (acc_Url peer) msgPayload of
        (err, calls) \<Rightarrow> calls @ tcp_bft_broadcastByOrder nt msgPayload peers)"

fun tcp_dbft_broadcastByOrder :: "net \<Rightarrow> bytes \<Rightarrow> Account list \<Rightarrow> socket_call list" where
  "tcp_dbft_broadcastByOrder nt msgPayload [] = []"
| "tcp_dbft_broadcastByOrder nt msgPayload (peer # peers) =
     (case dbft_sendMsgByUrl nt (acc_Url peer) msgPayload of
        (err, calls) \<Rightarrow> calls @ tcp_dbft_broadcastByOrder nt msgPayload peers)"

definition tcp_bft_unicast :: "net \<Rightarrow> Account \<Rightarrow> bytes \<Rightarrow> error option \<times> socket_call list" where
  "tcp_bft_unicast nt account msgPayload = bft_sendMsgByUrl nt (acc_Url account) msgPayload"

definition tcp_dbft_unicast :: "net \<Rightarrow> Account \<Rightarrow> bytes \<Rightarrow> error option \<times> socket_call list" where
  "tcp_dbft_unicast nt account msgPayload = dbft_sendMsgByUrl nt (acc_Url account) msgPayload"

section \<open>What a send stands for\<close>

text \<open>The address a url reaches, the payloads that are written, and the connections still open.\<close>

definition reaches :: "net \<Rightarrow> string \<Rightarrow> TCPAddr option" where
  "reaches nt url =
     (case ResolveTCPAddr nt url of
        Inl err \<Rightarrow> None
      | Inr tcpAddr \<Rightarrow> (if DialTCP nt tcpAddr = None then Some tcpAddr else None))"

fun written :: "socket_call list \<Rightarrow> (TCPAddr \<times> bytes) list" where
  "written [] = []"
| "written (WriteTo a raw # calls) = (a, raw) # written calls"
| "written (_ # calls) = written calls"

fun still_open :: "socket_call list \<Rightarrow> TCPAddr list \<Rightarrow> TCPAddr list" where
  "still_open [] conns = conns"
| "still_open (Dialled a # calls) conns = still_open calls (a # conns)"
| "still_open (CloseConn a # calls) conns = still_open calls (remove1 a conns)"
| "still_open (_ # calls) conns = still_open calls conns"

definition reached :: "net \<Rightarrow> string list \<Rightarrow> TCPAddr list" where
  "reached nt urls = concat (map (\<lambda>url. case reaches nt url of None \<Rightarrow> [] | Some a \<Rightarrow> [a]) urls)"

definition realised :: "net \<Rightarrow> effect list \<Rightarrow> (TCPAddr \<times> bytes) list" where
  "realised nt eff = concat (map (\<lambda>ef. case ef of
       SendTo url raw \<Rightarrow> (case reaches nt url of None \<Rightarrow> [] | Some a \<Rightarrow> [(a, raw)])
     | _ \<Rightarrow> []) eff)"

lemma reached_single: "rev (reached nt [url]) = reached nt [url]"
  by (simp add: reached_def split: option.split)

lemma written_append [simp]: "written (xs @ ys) = written xs @ written ys"
  by (induction xs rule: written.induct) auto

lemma still_open_append [simp]: "still_open (xs @ ys) conns = still_open ys (still_open xs conns)"
  by (induction xs conns rule: still_open.induct) auto

lemma realised_append [simp]: "realised nt (xs @ ys) = realised nt xs @ realised nt ys"
  by (simp add: realised_def)

lemma realised_sends: "realised nt (sends raw peers) = map (\<lambda>a. (a, raw)) (reached nt (map acc_Url peers))"
  by (induction peers) (auto simp: realised_def reached_def split: option.split)

definition send_each :: "sender \<Rightarrow> bytes \<Rightarrow> Account list \<Rightarrow> socket_call list" where
  "send_each send raw peers = concat (map (\<lambda>peer. snd (send (acc_Url peer) raw)) peers)"

text \<open>
  The contract of a sender: it writes the payload once, to the address the url reaches, or reports an
  error; \<open>keeps\<close> tells whether the connection stays open afterwards.
\<close>

locale transport =
  fixes nt :: net and send :: sender and keeps :: bool
  assumes send_writes: "written (snd (send url raw)) = (case reaches nt url of None \<Rightarrow> [] | Some a \<Rightarrow> [(a, raw)])"
    and send_leaves: "still_open (snd (send url raw)) conns =
      (case reaches nt url of None \<Rightarrow> conns | Some a \<Rightarrow> if keeps then a # conns else conns)"
    and send_reports: "reaches nt url = None \<Longrightarrow> fst (send url raw) \<noteq> None"
begin

lemma send_each_writes: "written (send_each send raw peers) = realised nt (sends raw peers)"
  by (induction peers) (auto simp: send_each_def send_writes realised_def split: option.split)

lemma send_each_leaves:
  "still_open (send_each send raw peers) conns = (if keeps then rev (reached nt (map acc_Url peers)) @ conns else conns)"
  by (induction peers arbitrary: conns) (auto simp: send_each_def send_leaves reached_def split: option.split)

end

interpretation message_transport: transport nt "tcp_sendMsgByUrl nt" False for nt
  by unfold_locales (auto simp: tcp_sendMsgByUrl_def reaches_def split: sum.splits option.splits if_splits)

interpretation bft_transport: transport nt "bft_sendMsgByUrl nt" True for nt
  by unfold_locales (auto simp: bft_sendMsgByUrl_def reaches_def split: sum.splits option.splits if_splits)

interpretation dbft_transport: transport nt "dbft_sendMsgByUrl nt" True for nt
  by unfold_locales (auto simp: dbft_sendMsgByUrl_def reaches_def split: sum.splits option.splits if_splits)

lemma tcp_BroadcastPeers_each: "tcp_BroadcastPeers nt raw peers = send_each (tcp_sendMsgByUrl nt) raw peers"
  by (induction peers) (auto simp: send_each_def split: prod.split)

lemma tcp_BroadcastPeersFilter_each:
  "tcp_BroadcastPeersFilter nt raw peers black = send_each (tcp_sendMsgByUrl nt) raw (filter (\<lambda>p. p \<noteq> black) peers)"
  by (induction peers) (auto simp: send_each_def split: prod.split)

lemma tcp_Unicast_each: "snd (tcp_Unicast nt a raw) = send_each (tcp_sendMsgByUrl nt) raw [a]"
  by (simp add: tcp_Unicast_def send_each_def)

lemma tcp_bft_broadcastByOrder_each: "tcp_bft_broadcastByOrder nt raw peers = send_each (bft_sendMsgByUrl nt) raw peers"
  by (induction peers) (auto simp: send_each_def split: prod.split)

lemma tcp_dbft_broadcastByOrder_each: "tcp_dbft_broadcastByOrder nt raw peers = send_each (dbft_sendMsgByUrl nt) raw peers"
  by (induction peers) (auto simp: send_each_def split: prod.split)

lemma tcp_unicast_each:
  "snd (tcp_bft_unicast nt a raw) = send_each (bft_sendMsgByUrl nt) raw [a]"
  "snd (tcp_dbft_unicast nt a raw) = send_each (dbft_sendMsgByUrl nt) raw [a]"
  by (simp_all add: tcp_bft_unicast_def tcp_dbft_unicast_def send_each_def)

lemma unicast_realised:
  "realised nt (bc_effects (bft_unicast a raw s)) = realised nt (bc_effects s) @ realised nt (sends raw [a])"
  "realised nt (bc_effects (dbft_unicast a raw t)) = realised nt (bc_effects t) @ realised nt (sends raw [a])"
  by (simp_all add: bft_unicast_def dbft_unicast_def bc_emit_def sendMsgByUrl_def realised_def)

lemma broadcastByOrder_sends:
  "bft_broadcastByOrder raw peers eff = eff @ sends raw peers" "dbft_broadcastByOrder raw peers eff = eff @ sends raw peers"
  by (induction peers arbitrary: eff) (auto simp: sendMsgByUrl_def)

text \<open>
  C21: the effects of the handlers are what the sockets do. Every broadcast and unicast writes, in the
  order of the peers, exactly the payloads its effects stand for (those a unicast of the BFT and DBFT
  cores appends to the effects of the core): one for each peer whose url resolves
  and can be dialled, and an unreachable peer does not keep the later ones from being served. The
  messages package closes every connection it opens; the copies of \<open>sendMsgByUrl\<close> in the BFT and DBFT
  cores close none, so that a broadcast or unicast leaves one open connection for each peer it reached.
\<close>

theorem sends_realised:
  "written (tcp_BroadcastPeers nt raw peers) = realised nt (BroadcastPeers raw peers []) \<and>
   written (tcp_BroadcastPeersFilter nt raw peers black) = realised nt (BroadcastPeersFilter raw peers black []) \<and>
   written (snd (tcp_Unicast nt a raw)) = realised nt (Unicast a raw []) \<and>
   written (tcp_bft_broadcastByOrder nt raw peers) = realised nt (bft_broadcastByOrder raw peers []) \<and>
   written (tcp_dbft_broadcastByOrder nt raw peers) = realised nt (dbft_broadcastByOrder raw peers []) \<and>
   realised nt (bc_effects (bft_unicast a raw s)) =
     realised nt (bc_effects s) @ written (snd (tcp_bft_unicast nt a raw)) \<and>
   realised nt (bc_effects (dbft_unicast a raw t)) =
     realised nt (bc_effects t) @ written (snd (tcp_dbft_unicast nt a raw)) \<and>
   still_open (snd (tcp_Unicast nt a raw)) [] = [] \<and>
   still_open (snd (tcp_bft_unicast nt a raw)) [] = reached nt [acc_Url a] \<and>
   still_open (snd (tcp_dbft_unicast nt a raw)) [] = reached nt [acc_Url a] \<and>
   still_open (tcp_BroadcastPeers nt raw peers) [] = [] \<and>
   still_open (tcp_BroadcastPeersFilter nt raw peers black) [] = [] \<and>
   still_open (tcp_bft_broadcastByOrder nt raw peers) [] = rev (reached nt (map acc_Url peers)) \<and>
   still_open (tcp_dbft_broadcastByOrder nt raw peers) [] = rev (reached nt (map acc_Url peers))"
  by (simp add: tcp_BroadcastPeers_each tcp_BroadcastPeersFilter_each tcp_Unicast_each
      tcp_bft_broadcastByOrder_each tcp_dbft_broadcastByOrder_each tcp_unicast_each unicast_realised
      sending broadcastByOrder_sends reached_single
      message_transport.send_each_writes bft_transport.send_each_writes dbft_transport.send_each_writes
      message_transport.send_each_leaves bft_transport.send_each_leaves dbft_transport.send_each_leaves)

end
