(* ===== verification/Factories.thy ===== *)
theory Factories
  imports Setup_Properties Fbft_Policy Bft_Policy Dbft_Policy
begin

text \<open>
  \<^verbatim>\<open>galaxy.go\<close>, \<^verbatim>\<open>common/common.go\<close> and the constructors \<^verbatim>\<open>NewParticipates\<close>,
  \<^verbatim>\<open>NewRole\<close> and \<^verbatim>\<open>NewConsensus\<close>: the plugin made from a configuration. An interface value
  is a datatype with one constructor for each implementation; a method call on it is a case analysis.
  \<open>Start\<close> and \<open>Halt\<close> are dispatched in \<open>Servers\<close>; \<open>ToConsensus\<close> is not dispatched, the policies'
  theories have its phases as steps. The channel \<open>BlockSwitch\<close> appears as the effect \<open>BlockSwitch\<close> of the policies.
\<close>

section \<open>Configuration and interfaces\<close>

record ParticipateConfig =
  pcf_PolicyName :: string

record RoleConfig =
  rcf_PolicyName :: string

datatype Participates = SoloParticipant SoloParticipates | DposParticipant DposParticipates

datatype Role = SoloRole RolePolicy | DposRole RolePolicy

datatype 'w Consensus =
    SoloConsensus SoloPolicy
  | BFTConsensus "'w BFTPolicy"
  | FBFTConsensus "'w FBFTPolicy"
  | DBFTConsensus "'w DBFTPolicy"

record 'w GalaxyPlugin =
  gp_Participates :: Participates
  gp_Role :: Role
  gp_Consensus :: "'w Consensus"

record GalaxyPluginConf =
  gc_ParticipateConf :: ParticipateConfig
  gc_RoleConf :: RoleConfig
  gc_ConsensusConf :: ConsensusConfig

section \<open>Constructors\<close>

definition NewParticipates :: "ParticipateConfig \<Rightarrow> error + Participates" where
  "NewParticipates conf =
     (let participatesPolicy = pcf_PolicyName conf
      in if participatesPolicy = ParticipatesSoloPolicyName then Inr (SoloParticipant NewSoloParticipates)
         else if participatesPolicy = ParticipatesDposPolicyName then Inr (DposParticipant NewDposParticipates)
         else Inl (ErrMessage ''not supported type''))"

definition NewRole :: "RoleConfig \<Rightarrow> error + Role" where
  "NewRole conf =
     (let rolePolicy = rcf_PolicyName conf
      in if rolePolicy = RoleSoloPolicyName then Inr (SoloRole NewSoloRole)
         else if rolePolicy = RoleDposPolicyName then Inr (DposRole NewDposRole)
         else Inl (ErrMessage ''unkonwn policy type''))"

definition NewConsensus :: "ConsensusConfig \<Rightarrow> 'w \<Rightarrow> error + 'w Consensus" where
  "NewConsensus conf chain =
     (if PolicyName conf = SoloPolicyName
      then Inr (SoloConsensus (NewSoloPolicy (EnableEmptyBlock conf) (SignVerifySwitch conf)))
      else if PolicyName conf = BftPolicyName then Inr (BFTConsensus (NewBFTPolicy (Timeout conf) chain))
      else if PolicyName conf = FbftPolicyName
      then Inr (FBFTConsensus (NewFBFTPolicy (Timeout conf) (EnableEmptyBlock conf) (SignVerifySwitch conf) chain))
      else if PolicyName conf = DbftPolicyName then Inr (DBFTConsensus (NewDBFTPolicy (Timeout conf) chain))
      else Inl (ErrUnsupportedPolicy (PolicyName conf)))"

definition NewGalaxyPlugin :: "GalaxyPluginConf \<Rightarrow> 'w \<Rightarrow> error + 'w GalaxyPlugin" where
  "NewGalaxyPlugin conf chain =
     (case NewParticipates (gc_ParticipateConf conf) of
        Inl err \<Rightarrow> Inl (ErrMessage ''participates init failed'')
      | Inr participates \<Rightarrow>
          (case NewRole (gc_RoleConf conf) of
             Inl err \<Rightarrow> Inl (ErrMessage ''role init failed'')
           | Inr role \<Rightarrow>
               (case NewConsensus (gc_ConsensusConf conf) chain of
                  Inl err \<Rightarrow> Inl (ErrMessage ''consensus init failed'')
                | Inr consensus \<Rightarrow>
                    Inr \<lparr>gp_Participates = participates, gp_Role = role, gp_Consensus = consensus\<rparr>)))"

section \<open>Method calls\<close>

definition solo_participates_PolicyName :: "SoloParticipates \<Rightarrow> string" where "solo_participates_PolicyName p = sop_name p"
definition dpos_participates_PolicyName :: "DposParticipates \<Rightarrow> string" where "dpos_participates_PolicyName p = dp_name p"

fun participates_PolicyName :: "Participates \<Rightarrow> string" where
  "participates_PolicyName (SoloParticipant p) = solo_participates_PolicyName p"
| "participates_PolicyName (DposParticipant p) = dpos_participates_PolicyName p"

fun GetParticipates :: "'c Voting \<Rightarrow> 'c \<Rightarrow> Participates \<Rightarrow> (error + Account list) \<times> Participates" where
  "GetParticipates contract c (SoloParticipant p) = map_prod id SoloParticipant (SoloGetParticipates p)"
| "GetParticipates contract c (DposParticipant p) = map_prod id DposParticipant (DposGetParticipates contract c p)"

definition solo_role_PolicyName :: "RolePolicy \<Rightarrow> string" where "solo_role_PolicyName p = rp_name p"
definition dpos_role_PolicyName :: "RolePolicy \<Rightarrow> string" where "dpos_role_PolicyName p = rp_name p"

fun role_PolicyName :: "Role \<Rightarrow> string" where
  "role_PolicyName (SoloRole p) = solo_role_PolicyName p"
| "role_PolicyName (DposRole p) = dpos_role_PolicyName p"

fun RoleAssignments ::
  "'w env \<Rightarrow> 'w \<Rightarrow> Account list \<Rightarrow> Role \<Rightarrow> ((error + (assignments \<times> Account)) \<times> Role) outcome" where
  "RoleAssignments e chain ps (SoloRole p) = bindP (SoloRoleAssignments ps p) (\<lambda>(r, p'). Inr (r, SoloRole p'))"
| "RoleAssignments e chain ps (DposRole p) = bindP (DposRoleAssignments e chain ps p) (\<lambda>(r, p'). Inr (r, DposRole p'))"

definition solo_PolicyName :: "SoloPolicy \<Rightarrow> string" where "solo_PolicyName p = sp_name p"
definition bft_PolicyName :: "'w BFTPolicy \<Rightarrow> string" where "bft_PolicyName p = bp_name p"
definition fbft_PolicyName :: "'w FBFTPolicy \<Rightarrow> string" where "fbft_PolicyName p = p_name p"
definition dbft_PolicyName :: "'w DBFTPolicy \<Rightarrow> string" where "dbft_PolicyName p = dbp_name p"

lemmas name_getters = solo_participates_PolicyName_def dpos_participates_PolicyName_def solo_role_PolicyName_def
  dpos_role_PolicyName_def solo_PolicyName_def bft_PolicyName_def fbft_PolicyName_def dbft_PolicyName_def

fun consensus_PolicyName :: "'w Consensus \<Rightarrow> string" where
  "consensus_PolicyName (SoloConsensus p) = solo_PolicyName p"
| "consensus_PolicyName (BFTConsensus p) = bft_PolicyName p"
| "consensus_PolicyName (FBFTConsensus p) = fbft_PolicyName p"
| "consensus_PolicyName (DBFTConsensus p) = dbft_PolicyName p"

fun consensus_Initialization ::
  "Account \<Rightarrow> Account \<Rightarrow> Account list \<Rightarrow> bool \<Rightarrow> 'w Consensus \<Rightarrow> 'w Consensus outcome" where
  "consensus_Initialization local master peers onLine (SoloConsensus p) =
     bindP (SoloInitialization local master peers p) (\<lambda>p'. Inr (SoloConsensus p'))"
| "consensus_Initialization local master peers onLine (BFTConsensus p) =
     Inr (BFTConsensus (bft_Initialization local master peers onLine p))"
| "consensus_Initialization local master peers onLine (FBFTConsensus p) =
     bindP (Initialization local master peers onLine p) (\<lambda>p'. Inr (FBFTConsensus p'))"
| "consensus_Initialization local master peers onLine (DBFTConsensus p) =
     Inr (DBFTConsensus (dbft_Initialization local master peers onLine p))"

fun consensus_GetConsensusResult :: "'w Consensus \<Rightarrow> ConsensusInfo outcome" where
  "consensus_GetConsensusResult (SoloConsensus p) = Inr (SoloGetConsensusResult p)"
| "consensus_GetConsensusResult (BFTConsensus p) = Inr (bft_GetConsensusResult p)"
| "consensus_GetConsensusResult (FBFTConsensus p) = GetConsensusResult p"
| "consensus_GetConsensusResult (DBFTConsensus p) = Inr (dbft_GetConsensusResult p)"

definition bft_Online :: "'w BFTPolicy \<Rightarrow> 'w BFTPolicy" where "bft_Online p = p"
definition dbft_Online :: "'w DBFTPolicy \<Rightarrow> 'w DBFTPolicy" where "dbft_Online p = p"

fun consensus_Online :: "'w env \<Rightarrow> 'w Consensus \<Rightarrow> 'w Consensus outcome" where
  "consensus_Online e (SoloConsensus p) = bindP (SoloOnline p) (\<lambda>p'. Inr (SoloConsensus p'))"
| "consensus_Online e (BFTConsensus p) = Inr (BFTConsensus (bft_Online p))"
| "consensus_Online e (FBFTConsensus p) = bindP (GoOnlineNow e p) (\<lambda>p'. Inr (FBFTConsensus p'))"
| "consensus_Online e (DBFTConsensus p) = Inr (DBFTConsensus (dbft_Online p))"

section \<open>The contract of a consensus policy\<close>

text \<open>
  What the owner of a plugin relies on: \<open>Initialization\<close> keeps the name of the policy, and afterwards
  \<open>GetConsensusResult\<close> reports the participants and the master it was given. \<open>accepts\<close> tells for
  which participants \<open>Initialization\<close> returns.
\<close>

locale consensus_policy =
  fixes name :: "'p \<Rightarrow> string"
    and init :: "Account \<Rightarrow> Account \<Rightarrow> Account list \<Rightarrow> bool \<Rightarrow> 'p \<Rightarrow> 'p outcome"
    and result :: "'p \<Rightarrow> ConsensusInfo outcome"
    and accepts :: "'p \<Rightarrow> Account list \<Rightarrow> bool"
  assumes init_returns: "(\<exists>p'. init local master peers onLine p = Inr p') \<longleftrightarrow> accepts p peers"
    and init_name: "init local master peers onLine p = Inr p' \<Longrightarrow> name p' = name p"
    and init_accepts: "init local master peers onLine p = Inr p' \<Longrightarrow> accepts p' = accepts p"
    and init_reports: "init local master peers onLine p = Inr p' \<Longrightarrow>
      \<exists>view. result p' = Inr \<lparr>ci_View = view, ci_Participate = peers, ci_Master = master\<rparr>"
begin

lemma init_works:
  assumes "accepts p peers"
  shows "\<exists>p' view. init local master peers onLine p = Inr p' \<and> name p' = name p \<and> accepts p' = accepts p \<and>
    result p' = Inr \<lparr>ci_View = view, ci_Participate = peers, ci_Master = master\<rparr>"
proof -
  obtain p' where p': "init local master peers onLine p = Inr p'" using init_returns assms by blast
  from init_reports [OF p'] init_name [OF p'] init_accepts [OF p'] p' show ?thesis by auto
qed

end

fun consensus_accepts :: "'w Consensus \<Rightarrow> Account list \<Rightarrow> bool" where
  "consensus_accepts (SoloConsensus p) peers = (SoloConsensusNum = of_nat (length peers))"
| "consensus_accepts _ peers = True"

interpretation solo_consensus: consensus_policy solo_PolicyName "\<lambda>local master peers onLine. SoloInitialization local master peers"
    "\<lambda>p. Inr (SoloGetConsensusResult p)" "\<lambda>p peers. SoloConsensusNum = of_nat (length peers)"
  by unfold_locales (auto simp: name_getters SoloInitialization_def SoloGetConsensusResult_def split: if_splits)

interpretation bft_consensus: consensus_policy bft_PolicyName "\<lambda>local master peers onLine p. Inr (bft_Initialization local master peers onLine p)"
    "\<lambda>p. Inr (bft_GetConsensusResult p)" "\<lambda>p peers. True"
  by unfold_locales (auto simp: name_getters bft_Initialization_def bft_GetConsensusResult_def)

interpretation dbft_consensus: consensus_policy dbft_PolicyName "\<lambda>local master peers onLine p. Inr (dbft_Initialization local master peers onLine p)"
    "\<lambda>p. Inr (dbft_GetConsensusResult p)" "\<lambda>p peers. True"
  by unfold_locales (auto simp: name_getters dbft_Initialization_def dbft_GetConsensusResult_def Let_def)

interpretation fbft_consensus: consensus_policy fbft_PolicyName Initialization GetConsensusResult "\<lambda>p peers. True"
  by unfold_locales
    (auto simp: name_getters Initialization_def GetConsensusResult_def waitMasterTimeout_def with_nodes_def Let_def split: if_splits)

interpretation plugin_consensus: consensus_policy consensus_PolicyName consensus_Initialization consensus_GetConsensusResult
    consensus_accepts
proof unfold_locales
  fix local master peers onLine and p p' :: "'w Consensus"
  show "(\<exists>p'. consensus_Initialization local master peers onLine p = Inr p') \<longleftrightarrow> consensus_accepts p peers"
    using solo_consensus.init_returns [of local master peers] fbft_consensus.init_returns [of local master peers onLine]
    by (cases p) (auto simp: bindP_Inr_iff)
  assume run: "consensus_Initialization local master peers onLine p = Inr p'"
  show "consensus_PolicyName p' = consensus_PolicyName p"
    using run solo_consensus.init_name [of local master peers] fbft_consensus.init_name [of local master peers onLine]
      bft_consensus.init_name dbft_consensus.init_name
    by (cases p) (auto simp: bindP_Inr_iff)
  show "consensus_accepts p' = consensus_accepts p"
    using run by (cases p) (auto simp: bindP_Inr_iff fun_eq_iff)
  show "\<exists>view. consensus_GetConsensusResult p' = Inr \<lparr>ci_View = view, ci_Participate = peers, ci_Master = master\<rparr>"
    using run solo_consensus.init_reports [of local master peers] fbft_consensus.init_reports [of local master peers onLine]
      bft_consensus.init_reports [of local master peers onLine] dbft_consensus.init_reports [of local master peers onLine]
    by (cases p) (auto simp: bindP_Inr_iff)
qed

section \<open>Properties\<close>

lemma NewParticipates_iff:
  "NewParticipates conf = Inr p \<longleftrightarrow>
     (pcf_PolicyName conf = ''solo'' \<and> p = SoloParticipant NewSoloParticipates) \<or>
     (pcf_PolicyName conf = ''dpos'' \<and> p = DposParticipant NewDposParticipates)"
  by (auto simp: NewParticipates_def ParticipatesSoloPolicyName_def ParticipatesDposPolicyName_def Let_def split: if_splits)

lemma NewRole_iff:
  "NewRole conf = Inr r \<longleftrightarrow>
     (rcf_PolicyName conf = ''solo'' \<and> r = SoloRole NewSoloRole) \<or> (rcf_PolicyName conf = ''dpos'' \<and> r = DposRole NewDposRole)"
  by (auto simp: NewRole_def RoleSoloPolicyName_def RoleDposPolicyName_def Let_def split: if_splits)

lemmas policy_names = SoloPolicyName_def BftPolicyName_def FbftPolicyName_def DbftPolicyName_def

lemma NewConsensus_name:
  "NewConsensus conf chain = Inr c \<Longrightarrow> consensus_PolicyName c = PolicyName conf"
  by (auto simp: name_getters NewConsensus_def NewSoloPolicy_def NewBFTPolicy_def NewFBFTPolicy_def NewDBFTPolicy_def split: if_splits)

lemma NewConsensus_accepts:
  "NewConsensus conf chain = Inr c \<Longrightarrow> consensus_accepts c peers \<longleftrightarrow> PolicyName conf = ''solo'' \<longrightarrow> length peers mod 256 = 1"
  by (auto simp: NewConsensus_def policy_names SoloConsensusNum_def word_unat_eq_iff unat_u8_of_nat split: if_splits)

definition sample_conf :: GalaxyPluginConf where
  "sample_conf = \<lparr>gc_ParticipateConf = \<lparr>pcf_PolicyName = ''dpos''\<rparr>, gc_RoleConf = \<lparr>rcf_PolicyName = ''dpos''\<rparr>,
     gc_ConsensusConf = \<lparr>PolicyName = ''dbft'',
       Timeout = \<lparr>TimeoutToCollectResponseMsg = 1, TimeoutToWaitCommitMsg = 1, TimeoutToChangeView = 1\<rparr>,
       EnableEmptyBlock = True, SignVerifySwitch = \<lparr>SyncVerifySignature = True, LocalVerifySignature = True\<rparr>\<rparr>\<rparr>"

lemma sample_plugin: "\<exists>plugin. NewGalaxyPlugin sample_conf chain = Inr plugin"
  by (simp add: NewGalaxyPlugin_def sample_conf_def NewParticipates_def NewRole_def NewConsensus_def policy_names
      ParticipatesSoloPolicyName_def ParticipatesDposPolicyName_def RoleSoloPolicyName_def RoleDposPolicyName_def)

text \<open>
  a plugin is made exactly for the supported policy names: \<open>solo\<close> or \<open>dpos\<close> for participants and
  for roles, \<open>solo\<close>, \<open>bft\<close>, \<open>fbft\<close> or \<open>dbft\<close> for the consensus. Each part then reports the name it
  was configured with; otherwise the error is that of the first part that is not supported.
\<close>

theorem plugin_made_iff:
  "case NewGalaxyPlugin conf chain of
     Inr plugin \<Rightarrow>
       pcf_PolicyName (gc_ParticipateConf conf) \<in> {''solo'', ''dpos''} \<and> rcf_PolicyName (gc_RoleConf conf) \<in> {''solo'', ''dpos''} \<and>
       PolicyName (gc_ConsensusConf conf) \<in> {''solo'', ''bft'', ''fbft'', ''dbft''} \<and>
       participates_PolicyName (gp_Participates plugin) = pcf_PolicyName (gc_ParticipateConf conf) \<and>
       role_PolicyName (gp_Role plugin) = rcf_PolicyName (gc_RoleConf conf) \<and>
       consensus_PolicyName (gp_Consensus plugin) = PolicyName (gc_ConsensusConf conf)
   | Inl err \<Rightarrow>
       err = ErrMessage
         (if pcf_PolicyName (gc_ParticipateConf conf) \<notin> {''solo'', ''dpos''} then ''participates init failed''
          else if rcf_PolicyName (gc_RoleConf conf) \<notin> {''solo'', ''dpos''} then ''role init failed''
          else ''consensus init failed'') \<and>
       (pcf_PolicyName (gc_ParticipateConf conf) \<notin> {''solo'', ''dpos''} \<or> rcf_PolicyName (gc_RoleConf conf) \<notin> {''solo'', ''dpos''} \<or>
        PolicyName (gc_ConsensusConf conf) \<notin> {''solo'', ''bft'', ''fbft'', ''dbft''})"
proof -
  have p: "case NewParticipates (gc_ParticipateConf conf) of
      Inl err \<Rightarrow> pcf_PolicyName (gc_ParticipateConf conf) \<notin> {''solo'', ''dpos''}
    | Inr p \<Rightarrow> pcf_PolicyName (gc_ParticipateConf conf) \<in> {''solo'', ''dpos''} \<and>
        participates_PolicyName p = pcf_PolicyName (gc_ParticipateConf conf)"
    by (auto simp: name_getters NewParticipates_def ParticipatesSoloPolicyName_def ParticipatesDposPolicyName_def
        NewSoloParticipates_def NewDposParticipates_def Let_def)
  have r: "case NewRole (gc_RoleConf conf) of
      Inl err \<Rightarrow> rcf_PolicyName (gc_RoleConf conf) \<notin> {''solo'', ''dpos''}
    | Inr r \<Rightarrow> rcf_PolicyName (gc_RoleConf conf) \<in> {''solo'', ''dpos''} \<and> role_PolicyName r = rcf_PolicyName (gc_RoleConf conf)"
    by (auto simp: name_getters NewRole_def RoleSoloPolicyName_def RoleDposPolicyName_def NewSoloRole_def NewDposRole_def Let_def)
  have c: "case NewConsensus (gc_ConsensusConf conf) chain of
      Inl err \<Rightarrow> PolicyName (gc_ConsensusConf conf) \<notin> {''solo'', ''bft'', ''fbft'', ''dbft''}
    | Inr c \<Rightarrow> PolicyName (gc_ConsensusConf conf) \<in> {''solo'', ''bft'', ''fbft'', ''dbft''} \<and>
        consensus_PolicyName c = PolicyName (gc_ConsensusConf conf)"
    using NewConsensus_name [of "gc_ConsensusConf conf" chain] by (auto simp: NewConsensus_def policy_names)
  from p r c show ?thesis
    by (simp add: NewGalaxyPlugin_def split: sum.splits) blast+
qed

theorem plugin_made_iff_witness:
  "\<exists>plugin. NewGalaxyPlugin sample_conf (0 :: u64) = Inr plugin \<and> role_PolicyName (gp_Role plugin) = ''dpos'' \<and>
     consensus_PolicyName (gp_Consensus plugin) = ''dbft''"
proof -
  obtain plugin where p: "NewGalaxyPlugin sample_conf (0 :: u64) = Inr plugin" using sample_plugin [of "0 :: u64"] by (elim exE)
  with plugin_made_iff [of sample_conf "0 :: u64"] show ?thesis by (simp add: sample_conf_def)
qed

section \<open>Participants, roles and consensus together\<close>

text \<open>
  C31: a plugin with the dpos policies and a consensus among several nodes. When the voting contract
  lists nodes that are numbered from 0, the participants are these nodes, exactly one of them is made
  master, the one whose id is the next height modulo their number, and the consensus initialised with
  them reports these participants and this master.
\<close>

theorem dpos_plugin_round:
  assumes "NewGalaxyPlugin conf chain = Inr plugin"
    and "pcf_PolicyName (gc_ParticipateConf conf) = ''dpos''" and "rcf_PolicyName (gc_RoleConf conf) = ''dpos''"
    and "PolicyName (gc_ConsensusConf conf) \<noteq> ''solo''"
    and "GetNodeList contract c (NodeNumber contract c) = Inr nodes"
    and "accounts = map (\<lambda>n. \<lparr>acc_Address = nd_Address n, acc_Extension = \<lparr>ext_Id = nd_Id n, ext_Url = nd_Url n\<rparr>\<rparr>) nodes"
    and "numbered accounts" and "NewLatestStateRepository e chain = None" and "GetCurrentBlock e chain = Some block"
  shows "\<exists>ps' m master r' cs' view.
    GetParticipates contract c (gp_Participates plugin) = (Inr accounts, ps') \<and>
    RoleAssignments e chain accounts (gp_Role plugin) = Inr (Inr (m, master), r') \<and>
    master \<in> set accounts \<and> unat (acc_Id master) = unat (b_Height block + 1) mod length accounts \<and>
    masters m = {master} \<and> dom m = set accounts \<and>
    consensus_Initialization local master accounts onLine (gp_Consensus plugin) = Inr cs' \<and>
    consensus_GetConsensusResult cs' = Inr \<lparr>ci_View = view, ci_Participate = accounts, ci_Master = master\<rparr>"
proof -
  have plugin: "gp_Participates plugin = DposParticipant NewDposParticipates" "gp_Role plugin = DposRole NewDposRole"
      "NewConsensus (gc_ConsensusConf conf) chain = Inr (gp_Consensus plugin)"
    using assms(1-3) by (auto simp: NewGalaxyPlugin_def NewParticipates_iff NewRole_iff split: sum.splits)
  have ne: "accounts \<noteq> []" "length accounts < 2 ^ 64" using assms(7) by (simp_all add: numbered_def)
  obtain master m r' where roles: "DposRoleAssignments e chain accounts NewDposRole = Inr (Inr (m, master), r')"
      "master \<in> set accounts" "acc_Id master = (b_Height block + 1) mod of_nat (length accounts)" "dom m = set accounts"
      "masters m = {master}"
    using dpos_numbered [OF assms(8,9,7) refl, of NewDposRole] by blast
  have "consensus_accepts (gp_Consensus plugin) accounts" using NewConsensus_accepts [OF plugin(3)] assms(4) by simp
  from plugin_consensus.init_works [OF this, of local master onLine] obtain cs' view
    where "consensus_Initialization local master accounts onLine (gp_Consensus plugin) = Inr cs'"
      "consensus_GetConsensusResult cs' = Inr \<lparr>ci_View = view, ci_Participate = accounts, ci_Master = master\<rparr>" by blast
  moreover have "\<exists>ps'. GetParticipates contract c (gp_Participates plugin) = (Inr accounts, ps')"
    using assms(5,6) by (simp add: plugin DposGetParticipates_def getDelegates_def getDelegatesByCount_def accounts_of_map Let_def)
  ultimately show ?thesis using roles unat_mod_length(1) [OF ne] by (auto simp: plugin)
qed

definition sample_voting :: "unit Voting" where
  "sample_voting = \<lparr>NodeNumber = \<lambda>c. 3,
     GetNodeList = \<lambda>c n. Inr (map (\<lambda>k. \<lparr>nd_Address = ucast k, nd_Id = ucast k, nd_Url = ''node''\<rparr>) [2, 0, 1 :: u8])\<rparr>"

theorem dpos_plugin_round_witness:
  "\<exists>plugin m master r'. NewGalaxyPlugin sample_conf (4 :: u64) = Inr plugin \<and>
     RoleAssignments sample_env 4 sample_peers (gp_Role plugin) = Inr (Inr (m, master), r') \<and> unat (acc_Id master) = 2"
proof -
  obtain plugin where p: "NewGalaxyPlugin sample_conf (4 :: u64) = Inr plugin" using sample_plugin [of "4 :: u64"] by (elim exE)
  let ?nodes = "map (\<lambda>k. \<lparr>nd_Address = ucast k, nd_Id = ucast k, nd_Url = ''node''\<rparr>) [2, 0, 1 :: u8]"
  have accounts: "sample_peers = map (\<lambda>n. \<lparr>acc_Address = nd_Address n, acc_Extension = \<lparr>ext_Id = nd_Id n, ext_Url = nd_Url n\<rparr>\<rparr>) ?nodes"
    by (simp add: sample_peers_def sample_node_def)
  have "GetNodeList sample_voting () (NodeNumber sample_voting ()) = Inr ?nodes" by (simp add: sample_voting_def)
  from dpos_plugin_round [OF p _ _ _ this accounts sample_numbered, where e = sample_env and block = "sample_block 0 4"
      and local = "sample_node 1" and onLine = False]
  obtain m master r' where "RoleAssignments sample_env 4 sample_peers (gp_Role plugin) = Inr (Inr (m, master), r')"
      "unat (acc_Id master) = unat (b_Height (sample_block 0 4) + 1) mod length sample_peers"
    by (auto simp: sample_conf_def)
  with p show ?thesis by (auto simp: sample_block_def sample_peers_def)
qed

end
