(* ===== verification/Servers.thy ===== *)
theory Servers
  imports Transport Factories Bft_Trace
begin

text \<open>
  The servers of the policies: \<^verbatim>\<open>Start\<close> of the FBFT, BFT and DBFT cores on the results of the net
  package and of \<open>Accept\<close>, and \<^verbatim>\<open>Start\<close> and \<^verbatim>\<open>Halt\<close> of the policies and of the interface
  \<^verbatim>\<open>Consensus\<close>. A server is a function of the list of results its calls of \<open>Accept\<close> have had so far. The
  BFT server handles a connection before it accepts the next one; the other two start a goroutine for
  each, whose run is the delivery of a message to the core.
\<close>

section \<open>Start of the FBFT core\<close>

function Itoa :: "nat \<Rightarrow> string" where
  "Itoa n = (if n < 10 then [char_of (48 + n)] else Itoa (n div 10) @ [char_of (48 + n mod 10)])"
  by auto
termination by (relation "measure id") auto

declare Itoa.simps [simp del]

text \<open>The log line of the loop calls a method of the connection before the error is looked at.\<close>

fun fbft_accept_loop :: "accepted list \<Rightarrow> goroutine list \<Rightarrow> 's \<Rightarrow> 's service outcome" where
  "fbft_accept_loop [] started s = Inr (Serving s started)"
| "fbft_accept_loop (AcceptError # conns) started s = Inl NilDereference"
| "fbft_accept_loop (Accepted conn # conns) started s = fbft_accept_loop conns (started @ [HandleClient conn]) s"

definition fbft_Start :: "net \<Rightarrow> accepted list \<Rightarrow> 'w fbftCore \<Rightarrow> 'w fbftCore service outcome" where
  "fbft_Start nt conns s =
     (case f_nodes s of
        None \<Rightarrow> Inl InterfaceConversion
      | Some nodeInfos \<Rightarrow>
          (case ResolveTCPAddr nt (acc_Url (ni_local nodeInfos)) of
             Inl err \<Rightarrow> Inl NilDereference
           | Inr localAddress \<Rightarrow>
               (case Listen nt (''0.0.0.0'' @ '':'' @ Itoa (addr_Port localAddress)) of
                  Some err \<Rightarrow> Inl (Panicf ''failed to start listener'')
                | None \<Rightarrow> fbft_accept_loop conns [BlockSyncHandler] s)))"

section \<open>Start of the DBFT and the BFT core\<close>

text \<open>
  The error of \<open>ResolveTCPAddr\<close> is discarded: a url that does not resolve leaves a nil address, on which
  \<open>ListenTCP\<close> listens on a port of its own choice.
\<close>

definition local_address :: "net \<Rightarrow> string \<Rightarrow> TCPAddr option" where
  "local_address nt url = (case ResolveTCPAddr nt url of Inl err \<Rightarrow> None | Inr a \<Rightarrow> Some a)"

fun dbft_accept_loop :: "accepted list \<Rightarrow> goroutine list \<Rightarrow> 's \<Rightarrow> 's service outcome" where
  "dbft_accept_loop [] started s = Inr (Serving s started)"
| "dbft_accept_loop (AcceptError # conns) started s = dbft_accept_loop conns started s"
| "dbft_accept_loop (Accepted conn # conns) started s = dbft_accept_loop conns (started @ [HandleClient conn]) s"

definition dbft_Start :: "net \<Rightarrow> Account \<Rightarrow> accepted list \<Rightarrow> 'w dbftCore \<Rightarrow> 'w dbftCore service outcome" where
  "dbft_Start nt account conns s =
     (case ListenTCP nt (local_address nt (acc_Url account)) of
        Some err \<Rightarrow> Inr (Returned s conns)
      | None \<Rightarrow> dbft_accept_loop conns [] s)"

definition bft_Start ::
  "'w env \<Rightarrow> net \<Rightarrow> Account \<Rightarrow> accepted list \<Rightarrow> 'w bftCore \<Rightarrow> 'w bftCore service outcome option" where
  "bft_Start e nt account conns s =
     (case ListenTCP nt (local_address nt (acc_Url account)) of
        Some err \<Rightarrow> Some (Inr (Returned s conns))
      | None \<Rightarrow> bft_handleConnection e conns s)"

section \<open>Start and Halt of the policies\<close>

definition fbft_policy_Start :: "net \<Rightarrow> accepted list \<Rightarrow> 'w FBFTPolicy \<Rightarrow> 'w FBFTPolicy service outcome" where
  "fbft_policy_Start nt conns p = map_sum id (map_service (\<lambda>c. p\<lparr>p_core := c\<rparr>)) (fbft_Start nt conns (p_core p))"

definition dbft_policy_Start :: "net \<Rightarrow> accepted list \<Rightarrow> 'w DBFTPolicy \<Rightarrow> 'w DBFTPolicy service outcome" where
  "dbft_policy_Start nt conns p =
     map_sum id (map_service (\<lambda>c. p\<lparr>dbp_core := c\<rparr>)) (dbft_Start nt (dbp_account p) conns (dbp_core p))"

definition bft_policy_Start ::
  "'w env \<Rightarrow> net \<Rightarrow> accepted list \<Rightarrow> 'w BFTPolicy \<Rightarrow> 'w BFTPolicy service outcome option" where
  "bft_policy_Start e nt conns p =
     map_option (map_sum id (map_service (\<lambda>c. p\<lparr>bp_core := c\<rparr>))) (bft_Start e nt (bp_account p) conns (bp_core p))"

text \<open>\<open>Start\<close> of the solo policy and every \<open>Halt\<close> return at once; no \<open>Halt\<close> ends a server.\<close>

definition solo_Start :: "SoloPolicy \<Rightarrow> SoloPolicy" where "solo_Start p = p"
definition solo_Halt :: "SoloPolicy \<Rightarrow> SoloPolicy" where "solo_Halt p = p"
definition bft_Halt :: "'w BFTPolicy \<Rightarrow> 'w BFTPolicy" where "bft_Halt p = p"
definition fbft_Halt :: "'w FBFTPolicy \<Rightarrow> 'w FBFTPolicy" where "fbft_Halt p = p"
definition dbft_Halt :: "'w DBFTPolicy \<Rightarrow> 'w DBFTPolicy" where "dbft_Halt p = p"

fun consensus_Start ::
  "'w env \<Rightarrow> net \<Rightarrow> accepted list \<Rightarrow> 'w Consensus \<Rightarrow> 'w Consensus service outcome option" where
  "consensus_Start e nt conns (SoloConsensus p) = Some (Inr (Returned (SoloConsensus (solo_Start p)) conns))"
| "consensus_Start e nt conns (BFTConsensus p) =
     map_option (map_sum id (map_service BFTConsensus)) (bft_policy_Start e nt conns p)"
| "consensus_Start e nt conns (FBFTConsensus p) =
     Some (map_sum id (map_service FBFTConsensus) (fbft_policy_Start nt conns p))"
| "consensus_Start e nt conns (DBFTConsensus p) =
     Some (map_sum id (map_service DBFTConsensus) (dbft_policy_Start nt conns p))"

fun consensus_Halt :: "'w Consensus \<Rightarrow> 'w Consensus" where
  "consensus_Halt (SoloConsensus p) = SoloConsensus (solo_Halt p)"
| "consensus_Halt (BFTConsensus p) = BFTConsensus (bft_Halt p)"
| "consensus_Halt (FBFTConsensus p) = FBFTConsensus (fbft_Halt p)"
| "consensus_Halt (DBFTConsensus p) = DBFTConsensus (dbft_Halt p)"

section \<open>The loops that start goroutines\<close>

fun connections :: "accepted list \<Rightarrow> bytes list" where
  "connections [] = []"
| "connections (AcceptError # conns) = connections conns"
| "connections (Accepted conn # conns) = conn # connections conns"

text \<open>The contract of such a loop; \<open>tolerant\<close> tells whether it goes on after a failed \<open>Accept\<close>.\<close>

locale accept_loop =
  fixes loop :: "accepted list \<Rightarrow> goroutine list \<Rightarrow> 's \<Rightarrow> 's service outcome" and tolerant :: bool
  assumes waits: "loop [] started s = Inr (Serving s started)"
    and accepts: "loop (Accepted conn # conns) started s = loop conns (started @ [HandleClient conn]) s"
    and fails: "loop (AcceptError # conns) started s = (if tolerant then loop conns started s else Inl NilDereference)"
begin

lemma loop_serves:
  "loop conns started s =
     (if tolerant \<or> AcceptError \<notin> set conns then Inr (Serving s (started @ map HandleClient (connections conns)))
      else Inl NilDereference)"
  by (induction conns arbitrary: started rule: connections.induct) (simp_all add: waits accepts fails)

end

interpretation fbft_loop: accept_loop fbft_accept_loop False by unfold_locales simp_all

interpretation dbft_loop: accept_loop dbft_accept_loop True by unfold_locales simp_all

lemma bft_handleConnection_append:
  "bft_handleConnection e (map Accepted conns) s = Some (Inr (Serving s' gs)) \<Longrightarrow>
   bft_handleConnection e (map Accepted conns @ later) s = bft_handleConnection e later s'"
  by (induction conns arbitrary: s) (auto split: option.splits sum.splits prod.splits if_splits)

section \<open>Properties\<close>

text \<open>
  C34: \<open>Start\<close> of the three cores on every answer of the network. Without a listener the FBFT server
  panics, whether the nodes are missing, the url does not resolve or the port cannot be opened, and the
  BFT and the DBFT server return with the core unchanged. With a listener, a failed \<open>Accept\<close> panics the
  FBFT server, whose log line uses the missing connection, and the BFT server, which reads from it; the
  DBFT server starts one goroutine for every accepted connection whatever fails in between, and so does
  the FBFT server, after its synchronisation goroutine, as long as nothing fails.
\<close>

theorem server_start_branches:
  shows "fbft_Start nt conns s =
      (case f_nodes s of
         None \<Rightarrow> Inl InterfaceConversion
       | Some ns \<Rightarrow>
           (case local_address nt (acc_Url (ni_local ns)) of
              None \<Rightarrow> Inl NilDereference
            | Some a \<Rightarrow>
                if Listen nt (''0.0.0.0:'' @ Itoa (addr_Port a)) \<noteq> None then Inl (Panicf ''failed to start listener'')
                else if AcceptError \<in> set conns then Inl NilDereference
                else Inr (Serving s (BlockSyncHandler # map HandleClient (connections conns))))) \<and>
    dbft_Start nt account conns d =
      (if ListenTCP nt (local_address nt (acc_Url account)) = None
       then Inr (Serving d (map HandleClient (connections conns))) else Inr (Returned d conns)) \<and>
    (ListenTCP nt (local_address nt (acc_Url account)) \<noteq> None \<longrightarrow>
       bft_Start e nt account conns b = Some (Inr (Returned b conns))) \<and>
    (ListenTCP nt (local_address nt (acc_Url account)) = None \<longrightarrow>
       bft_handleConnection e (map Accepted served) b = Some (Inr (Serving b' gs)) \<longrightarrow>
       bft_Start e nt account (map Accepted served @ AcceptError # conns) b = Some (Inl NilDereference))"
  by (auto simp: fbft_Start_def dbft_Start_def bft_Start_def local_address_def fbft_loop.loop_serves
      dbft_loop.loop_serves bft_handleConnection_append split: option.split sum.split)

text \<open>A network on which everything succeeds.\<close>

definition sample_net :: net where
  "sample_net = \<lparr>ResolveTCPAddr = \<lambda>url. Inr \<lparr>addr_IP = 0, addr_Port = 8080\<rparr>, DialTCP = \<lambda>a. None,
     conn_Write = \<lambda>a raw. None, ListenTCP = \<lambda>a. None, Listen = \<lambda>address. None\<rparr>"

theorem server_start_branches_witness:
  "bft_Start bt_env sample_net (sample_node 1) [Accepted bt_conn, AcceptError, Accepted bt_conn] (bp_core bt2) =
     Some (Inl NilDereference) \<and>
   bft_handleConnection bt_env [Accepted bt_conn] (bp_core bt2) = Some (Inr (Serving (bp_core bt3) []))"
proof -
  have "bft_handleConnection bt_env (map Accepted [bt_conn]) (bp_core bt2) = Some (Inr (Serving (bp_core bt3) []))"
    using bt_step3 by simp
  moreover have "ListenTCP sample_net a = None" for a by (simp add: sample_net_def)
  ultimately show ?thesis
    using server_start_branches [where e = bt_env and nt = sample_net and
        s = "p_core (sample_policy (sample_node 1) (sample_node 1) [sample_node 1])" and d = "NewDBFTCore (0 :: u64)" and account = "sample_node 1" and
        b = "bp_core bt2" and served = "[bt_conn]" and b' = "bp_core bt3" and gs = "[]" and conns = "[Accepted bt_conn]"]
    by simp
qed

end
