(* ===== verification/Hashing.thy ===== *)
theory Hashing
  imports Environment
begin

text \<open>
  \<open>HashAlg\<close> and \<open>rlpHash\<close> of \<^verbatim>\<open>consensus/common/common.go\<close>, on top of the configuration, hash and
  RLP packages, which are parameters. The rest of the development sees only the function \<open>rlpHash\<close> of
  the environment; \<open>HeaderHash_computed\<close> says which one the code has.
\<close>

section \<open>The packages\<close>

text \<open>A value of the global configuration is an interface value, of which the code expects a string.\<close>

datatype config_value = ConfigString string | ConfigOther nat

record 'h hashing =
  HashAlgName :: string
  GlobalConfig :: "string \<rightharpoonup> config_value"
  NewHashByAlgName :: "string \<Rightarrow> 'h"
  rlp_Encode :: "'h \<Rightarrow> Header \<Rightarrow> 'h"
  hash_Sum :: "'h \<Rightarrow> bytes"

definition HashAlg :: "'h hashing \<Rightarrow> 'h outcome" where
  "HashAlg hs =
     (case GlobalConfig hs (HashAlgName hs) of
        Some value \<Rightarrow>
          (case value of
             ConfigString alg \<Rightarrow> Inr (NewHashByAlgName hs alg)
           | ConfigOther v \<Rightarrow> Inl InterfaceConversion)
      | None \<Rightarrow> Inr (NewHashByAlgName hs ''SHA256''))"

text \<open>
  \<open>hw.Sum(h[:0])\<close> appends the digest to an empty slice of the array \<open>h\<close>. A digest of at most 32 bytes
  fills the array from its start; for a longer one \<open>append\<close> allocates a new array, and \<open>h\<close> stays zero.
\<close>

fun bytes_value :: "bytes \<Rightarrow> nat" where
  "bytes_value [] = 0"
| "bytes_value (b # bs) = unat b * 256 ^ length bs + bytes_value bs"

definition Sum_into :: "bytes \<Rightarrow> hash" where
  "Sum_into digest = (if length digest \<le> 32 then of_nat (bytes_value (digest @ replicate (32 - length digest) 0)) else 0)"

definition rlp_hash :: "'h hashing \<Rightarrow> Header \<Rightarrow> hash outcome" where
  "rlp_hash hs x = bindP (HashAlg hs) (\<lambda>hw. Inr (Sum_into (hash_Sum hs (rlp_Encode hs hw x))))"

section \<open>Facts\<close>

lemma bytes_value_bound: "bytes_value bs < 256 ^ length bs"
proof (induction bs)
  case (Cons b bs)
  have "unat b < 2 ^ 8" using unsigned_less [of b, where ?'a = nat] by simp
  then have "Suc (unat b) \<le> 256" by simp
  then have top: "Suc (unat b) * 256 ^ length bs \<le> 256 * 256 ^ length bs" by (rule mult_right_mono) simp
  have "unat b * 256 ^ length bs + bytes_value bs < Suc (unat b) * 256 ^ length bs" using Cons by simp
  from less_le_trans [OF this top] show ?case by simp
qed simp

lemma bytes_value_inj: "length xs = length ys \<Longrightarrow> bytes_value xs = bytes_value ys \<longleftrightarrow> xs = ys"
proof (induction xs ys rule: list_induct2)
  case (Cons x xs y ys)
  let ?n = "256 ^ length ys :: nat"
  have bounds: "bytes_value xs < ?n" "bytes_value ys < ?n"
    using bytes_value_bound [of xs] bytes_value_bound [of ys] Cons(1) by simp_all
  have "unat x = unat y \<and> bytes_value xs = bytes_value ys"
    if "unat x * ?n + bytes_value xs = unat y * ?n + bytes_value ys"
  proof -
    from that have "(unat x * ?n + bytes_value xs) div ?n = (unat y * ?n + bytes_value ys) div ?n" by simp
    with bounds have "unat x = unat y" by simp
    with that show ?thesis by simp
  qed
  with Cons show ?case by (auto simp: word_unat_eq_iff)
qed simp

lemma Sum_into_inj:
  assumes "length d = 32" "length d' = 32"
  shows "Sum_into d = Sum_into d' \<longleftrightarrow> d = d'"
proof -
  have "bytes_value d < 2 ^ 256" "bytes_value d' < 2 ^ 256"
    using bytes_value_bound [of d] bytes_value_bound [of d'] assms by simp_all
  then have "(of_nat (bytes_value d) :: hash) = of_nat (bytes_value d') \<longleftrightarrow> bytes_value d = bytes_value d'"
    by (simp add: word_unat_eq_iff unat_of_nat)
  then show ?thesis using assms by (simp add: Sum_into_def bytes_value_inj)
qed

lemma Sum_into_long: "32 < length d \<Longrightarrow> Sum_into d = 0"
  by (simp add: Sum_into_def)

text \<open>
  With a digest of 32 bytes two headers have the same hash exactly when the digests agree. With a longer
  one every header has the zero hash, which \<open>HeaderHash\<close> takes for a hash that is not set.
\<close>

lemma rlp_hash_collides_iff:
  assumes "HashAlg hs = Inr hw" "\<And>h. length (hash_Sum hs h) = 32"
  shows "rlp_hash hs x = rlp_hash hs y \<longleftrightarrow> hash_Sum hs (rlp_Encode hs hw x) = hash_Sum hs (rlp_Encode hs hw y)"
  using assms by (simp add: rlp_hash_def Sum_into_inj)

lemma rlp_hash_long_digest:
  assumes "HashAlg hs = Inr hw" "\<And>h. 32 < length (hash_Sum hs h)"
  shows "rlp_hash hs x = Inr 0"
  using assms by (simp add: rlp_hash_def Sum_into_long)

lemma HeaderHash_computed:
  assumes "\<And>x. rlp_hash hs x = Inr (rlpHash e x)" "b_HeaderHash b = 0"
  shows "rlp_hash hs (b_Header b) = Inr (HeaderHash e b)"
  using assms by (simp add: HeaderHash_def)

end
