(* ===== verification/Spec2Isabelle.thy ===== *)
theory Spec2Isabelle
  imports Component_Contracts Fbft_Round Fbft_Agreement Setup_Properties Bft_Properties Dbft_Properties Pbft_Composition Servers Hashing
begin

text \<open>
  \<^bold>\<open>Galaxy: a consensus plugin for a block chain.\<close>

  The program takes proposed blocks, brings a set of known accounts to agreement on them and hands
  agreed blocks to the block switch. A node is configured with a consensus policy
  (\<^verbatim>\<open>consensus/policy\<close>: \<open>solo\<close>, \<open>bft\<close>, \<open>dbft\<close>, \<open>fbft\<close>),
  a participates policy and a role policy (\<^verbatim>\<open>participates\<close>, \<^verbatim>\<open>role\<close>), which are put
  together by \<^verbatim>\<open>galaxy.go\<close>. The current protocol is \<open>fbft\<close>: the master adds its
  signature to a requested block and broadcasts it as a proposal, every node that accepts the
  proposal answers with its signature, and when enough signatures are there the master broadcasts a
  commit. Timeouts lead to view changes, nodes that were away come back with an online handshake and
  fetch missing blocks.

  \<^bold>\<open>What is modelled.\<close> One theory per component, in the order the code builds on them:

  \<^item> \<^verbatim>\<open>Galaxy_Prelude\<close>: machine integers, outcomes (a Go panic or a value), loops that
    delete from a map, and the two contracts several components share: \<open>vote_counter\<close> (a
    component that counts votes counts distinct senders) and \<open>quorum_threshold\<close>.
  \<^item> \<^verbatim>\<open>Galaxy_Types\<close>: accounts, blocks, constants, configuration, errors
    (\<^verbatim>\<open>consensus/common/common.go\<close>, \<^verbatim>\<open>consensus/config\<close>) and the effects of a step.
  \<^item> \<^verbatim>\<open>Utils\<close>: \<^verbatim>\<open>consensus/utils/utils.go\<close>.
  \<^item> \<^verbatim>\<open>Messages\<close>: \<^verbatim>\<open>consensus/messages/message.go\<close>, with the wire format.
  \<^item> \<^verbatim>\<open>Environment\<close>: everything outside the repository as one record of parameters, and
    \<^verbatim>\<open>consensus/utils/payloads.go\<close>.
  \<^item> \<^verbatim>\<open>Plugin\<close>, \<^verbatim>\<open>Views\<close>, \<^verbatim>\<open>Online_Wizard\<close>: the state
    components of \<^verbatim>\<open>consensus/common\<close> with their invariants; each interprets
    \<open>vote_counter\<close>, and the proposal cache interprets \<open>content_store\<close>.
  \<^item> \<^verbatim>\<open>Event_Loop\<close>: \<^verbatim>\<open>consensus/utils/events.go\<close> with the contract
    \<open>event_receiver\<close>.
  \<^item> \<^verbatim>\<open>Fbft_Core\<close>, \<^verbatim>\<open>Fbft_Dispatch\<close>, \<^verbatim>\<open>Fbft_Policy\<close>:
    \<^verbatim>\<open>consensus/policy/fbft\<close>. The record \<open>fbftCore\<close> has the fields of the struct and
    the goroutines that are running; every handler is one definition; \<open>fbft_step\<close> is one thing
    that happens to a running node, a message that arrives or a \<open>local_step\<close> of the node itself
    (among them a new \<open>Initialization\<close> with the same account and participants, and \<open>Prepare\<close>), and
    \<open>fbft_run\<close> and \<open>fbft_reachable\<close> its histories. The block of a round is shared with the content
    the request stores in the cache (\<open>p_shared\<close>, \<open>pending_block\<close>).
  \<^item> \<^verbatim>\<open>Participants\<close>, \<^verbatim>\<open>Roles\<close>, \<^verbatim>\<open>Solo_Consensus\<close>: the policies
    under \<^verbatim>\<open>participates\<close> and \<^verbatim>\<open>role\<close>, each kind with its contract as a locale
    (\<open>participates_policy\<close>, \<open>role_policy\<close>) that both policies interpret, and
    \<^verbatim>\<open>consensus/policy/solo\<close>.
  \<^item> \<^verbatim>\<open>Bft_Core\<close>, \<^verbatim>\<open>Bft_Policy\<close>: \<^verbatim>\<open>consensus/policy/bft\<close>. The
    record \<open>bftCore\<close> has the fields of the struct, a heap of blocks (the validator map, a running
    round and a commit share them by pointer) and the \<open>waitResponse\<close> goroutines; \<open>bft_step\<close> is
    one thing that happens to a running node, a pair of the policy and whether its server still runs.
  \<^item> \<^verbatim>\<open>Dbft_Core\<close>, \<^verbatim>\<open>Dbft_Policy\<close>: \<^verbatim>\<open>consensus/policy/dbft\<close>. The
    record extends that of the BFT core with view changes and the timers of the master; functions the
    two files have in common are written out again from this file. A connection is handled in two
    steps of \<open>dbft_step\<close>, the checks of \<open>handleClient\<close> and the handler of the core, and anything may
    happen between them.
  \<^item> \<^verbatim>\<open>Pbft_Tools\<close>: \<^verbatim>\<open>consensus/policy/pbft/tools\<close>, the timer goroutine as a
    labelled step relation with the contract \<open>cancelling_timer\<close>, and the event manager;
    \<^verbatim>\<open>Pbft_Composition\<close> runs any number of timers of a factory with the manager they deliver to.
  \<^item> \<^verbatim>\<open>Factories\<close>: \<^verbatim>\<open>galaxy.go\<close>, the three constructors that choose a policy by
    name, the dispatch of the interfaces, and the contract \<open>consensus_policy\<close>, which all four
    policies and the interface value interpret.
  \<^item> \<^verbatim>\<open>Hashing\<close>: \<open>HashAlg\<close> and \<open>rlpHash\<close> of \<^verbatim>\<open>consensus/common/common.go\<close>.
  \<^item> \<^verbatim>\<open>Transport\<close>: the three copies of \<^verbatim>\<open>sendMsgByUrl\<close> and the broadcasts over them, down to the
    calls on sockets, with the contract \<open>transport\<close>.
  \<^item> \<^verbatim>\<open>Servers\<close>: \<^verbatim>\<open>Start\<close> of the FBFT, BFT and DBFT cores as functions of what their calls of
    \<open>Accept\<close> return, with the contract \<open>accept_loop\<close>, and \<^verbatim>\<open>Start\<close> and \<^verbatim>\<open>Halt\<close> of the policies.

  \<^bold>\<open>What is proved.\<close>

  \<^item> \<^verbatim>\<open>Fbft_Invariants\<close>: the invariant \<open>core_inv\<close>, kept by every handler and every
    step. Its part about results says that a successful result is backed by a \<open>certificate\<close>.
  \<^item> \<^verbatim>\<open>Fbft_Safety\<close>: results are certified, and two certificates of peers share a correct signer.
  \<^item> \<^verbatim>\<open>Fbft_Handlers\<close>: proposals, responses and commits, branch by branch, and when the count of
    signatures goes wrong.
  \<^item> \<^verbatim>\<open>Fbft_View_Change\<close>: view changes and the reachable view numbers.
  \<^item> \<^verbatim>\<open>Fbft_Sync_Online\<close>: synchronisation, coming online, delivery of messages.
  \<^item> \<^verbatim>\<open>Fbft_Provenance\<close>: no step of a node makes up a signature: what it counts or sends it has
    produced itself or received.
  \<^item> \<^verbatim>\<open>Fbft_Commit\<close>: what a round commits, when its block is shared with the cache, and how a commit
    message or the result of an earlier round spoils it.
  \<^item> \<^verbatim>\<open>Fbft_Network\<close>: several nodes and the messages between them. \<open>net_step\<close> lets one node take a
    local step or receive a message, under two conditions of their own name: \<open>unforged\<close>, that a correct
    node's signature in it is one this node has made, and \<open>responses_from A\<close>, that a response names an
    account of \<open>A\<close>. The code checks the first and not the second.
  \<^item> \<^verbatim>\<open>Fbft_Agreement\<close>: for any \<open>A\<close>, in every reachable network a successful result is vouched for by the
    correct nodes among its signers; with \<open>A\<close> the peers, two results share a correct node that signed
    for both.
  \<^item> \<^verbatim>\<open>Fbft_Round\<close>: what a network of correct nodes achieves, a round from the request to the commit on
    every node, and what a faulty master can do to it.
  \<^item> \<^verbatim>\<open>Component_Contracts\<close>: the cache as a map and the helpers.
  \<^item> \<^verbatim>\<open>Setup_Properties\<close>: a round of the solo policy, who is master under the dpos role
    policy, and the three solo policies put together.
  \<^item> \<^verbatim>\<open>Bft_Invariants\<close>, \<^verbatim>\<open>Bft_Properties\<close>: the invariant \<open>bft_core_inv\<close>, on
    every extension of the core's record, kept by every operation; certified results for verified
    blocks; commits with made up signatures; the deadlock between a response and the timer, rounds
    that cannot succeed, messages that end the server.
  \<^item> \<^verbatim>\<open>Dbft_Invariants\<close>, \<^verbatim>\<open>Dbft_Properties\<close>: where the DBFT core is the BFT core, so
    that its operations keep \<open>bft_core_inv\<close>; the invariant of views and timers; the view change,
    requests that are late, synchronisation and the timers of the master.
  \<^item> This theory: what holds of both cores.
  \<^item> \<^verbatim>\<open>Sample_Network\<close>, \<^verbatim>\<open>Bft_Trace\<close>, \<^verbatim>\<open>Sample_Trace\<close> and \<^verbatim>\<open>Sample_Duo\<close>: a concrete environment and
    runs of nodes on which the theorems are exercised.

  Several theorems state behaviour the code surely does not intend (a stale result committed with the
  next block, a commit message that leaves its hash on the block of a running round, a view that goes
  back to a smaller number, thresholds that wrap around in eight bits, a cache that is emptied below height ten,
  masters replaced by unauthenticated messages, messages that stop the process, goroutines that wait for
  each other, timers that cannot be stopped, a master that gets two blocks of one height certified, a
  failed \<open>Accept\<close> that stops the process); they are marked in the text before them.

  \<^bold>\<open>Modelling decisions.\<close> Pointers are values, except in the proposal cache, where contents
  are shared and live in a heap, and in the BFT and DBFT cores, where blocks are. The block a caller of
  the FBFT policy passes to \<open>ToConsensus\<close> and the payload of the content that is cached for it are one
  object, which \<open>p_shared\<close> refers to: a commit message for its digest changes the block of the running
  round. A message field that decoding can leave nil is an \<open>option\<close>; a nil block
  inside a message is not represented. A handler of a core runs as one step, and so does one turn of a
  goroutine; Go may interleave two handlers inside their bodies, which is not modelled. In the FBFT and
  BFT policies the filter a server applies to a message (responses with the id of the master, proposals
  of others) and the handler are one step too. A send is an effect whose
  success the handlers do not observe; \<^verbatim>\<open>Transport\<close> says what it stands for on the network. Loops that may not end are \<open>partial_function (option)\<close>: a call that
  does not come back is the outcome \<open>NeverReturns\<close>. No fuel is used anywhere.

  A lock is modelled where the code can wait for it for ever: the read-write lock of the BFT and DBFT
  cores, held across a send on the tunnel, and the lock of a view set of the DBFT core. A Go map is
  visited in an order that is a parameter.

  \<^bold>\<open>What is not modelled.\<close> Logging is absent. The network, the hash, signature, JSON and RLP packages, the
  repository and the validator are parameters: what they answer is an argument of the definitions.
  Time is not measured: a timer may fire at any step, and the deadline of a write is recorded and not
  enforced. Buffers, their sizes and the bytes a failed write has sent are not represented. The struct
  \<^verbatim>\<open>Request\<close> of \<^verbatim>\<open>consensus/common\<close> and the \<^verbatim>\<open>SyncRoleAssignment\<close> messages are used nowhere. The
  version file holds build constants, and the vendored packages are parameters of the environment.
\<close>

section \<open>Both cores with a heap\<close>

text \<open>The references to blocks a policy holds, and its record of verified payloads.\<close>

definition references_ok :: "('w, 'z) bftCore_scheme \<Rightarrow> block_ref list \<Rightarrow> task list \<Rightarrow> bool" where
  "references_ok core pending tasks \<longleftrightarrow>
     (\<forall>d ps. bc_validator core d = Some ps \<longrightarrow>
        ps_block ps < length (bc_heap core) \<and> b_MixDigest (load_block (ps_block ps) core) = d) \<and>
     (\<forall>r \<in> set pending. r < length (bc_heap core)) \<and>
     (\<forall>t \<in> set tasks. task_ref t < length (bc_heap core))"

fun event_refs :: "core_event \<Rightarrow> block_ref list" where
  "event_refs (CoreRequest (Some request)) = [rq_Payload request]"
| "event_refs (CoreProposal (Some proposal)) = [pr_Payload proposal]"
| "event_refs _ = []"

lemma client_refs: "client_ok s ev \<Longrightarrow> r \<in> set (event_refs ev) \<Longrightarrow> r < length (bc_heap s)"
  by (cases ev rule: event_refs.cases) (auto simp: client_ok_def)

text \<open>
  C22: in every reachable state of a BFT node and of a DBFT node, every reference to a block is to an
  allocated one: those of the running rounds, of the goroutines that are yet to run, of the messages a
  DBFT node has accepted and not yet handled, and those of the record of verified payloads, where
  moreover a digest refers to a block with that digest, however often blocks were changed in place.
\<close>

theorem block_references_typed:
  assumes "bft_reachable e me peers (serving, p)" and "dbft_reachable e' me' peers' q"
  shows "references_ok (bp_core p) (bp_pending p) (bp_tasks p) \<and> references_ok (dbp_core q) (dbp_pending q) (dbp_tasks q) \<and>
    (\<forall>ev \<in> set (dbp_clients q). \<forall>r \<in> set (event_refs ev). r < length (bc_heap (dbp_core q)))"
  using bft_reachable_inv [OF assms(1)] dbft_reachable_inv [OF assms(2)]
  by (auto simp: references_ok_def bft_policy_inv_def dbft_policy_inv_def dbft_core_inv_def bft_core_inv_def
      validator_ok_def load_block_def intro: client_refs)

theorem block_references_typed_witness:
  "references_ok (bp_core bt5) (bp_pending bt5) (bp_tasks bt5) \<and> references_ok (dbp_core dt5) (dbp_pending dt5) (dbp_tasks dt5)"
  using block_references_typed [OF bt_reachable5 dt_reachable5] by blast

end
